(* ===== verification/Gofin_Prelude.thy ===== *)
theory Gofin_Prelude
  imports Complex_Main "HOL-Library.Char_ord" "HOL-Library.List_Lexorder"
begin

text \<open>
  Shared vocabulary of the development: the state-and-error computations the service
  operations are written in, the outcome a call of a database or of another service can have,
  association-list maps, and the generic list lemmas several components use.

  A Go method that may fail and that changes stored state is a function from the state to a pair
  of its result and the new state (type \<open>op\<close>).  The result is a sum: \<open>Inl\<close> is the returned
  error, \<open>Inr\<close> the returned value.  \<open>bindR m k\<close> is the Go idiom
  \<^verbatim>\<open>x, err := m(); if err != nil { return nil, err }; k(x)\<close>: the state
  changes of \<open>m\<close> persist even if it fails, as they do in the code.
\<close>

named_theorems run_simps "unfolding of state-and-error computations"
named_theorems go_simps "unfolding of the Go library functions used by the code"
named_theorems frame "what an operation leaves unchanged"

section \<open>Computations with state and errors\<close>

type_synonym ('s, 'e, 'a) op = "'s \<Rightarrow> ('e + 'a) \<times> 's"

definition retR :: "'a \<Rightarrow> ('s, 'e, 'a) op" where
  "retR x = (\<lambda>s. (Inr x, s))"

definition failR :: "'e \<Rightarrow> ('s, 'e, 'a) op" where
  "failR e = (\<lambda>s. (Inl e, s))"

definition bindR :: "('s, 'e, 'a) op \<Rightarrow> ('a \<Rightarrow> ('s, 'e, 'b) op) \<Rightarrow> ('s, 'e, 'b) op" where
  "bindR m k = (\<lambda>s. case m s of (Inl e, s') \<Rightarrow> (Inl e, s') | (Inr x, s') \<Rightarrow> k x s')"

definition wrapR :: "('e \<Rightarrow> 'e) \<Rightarrow> ('s, 'e, 'a) op \<Rightarrow> ('s, 'e, 'a) op" where
  "wrapR f m = (\<lambda>s. case m s of (Inl e, s') \<Rightarrow> (Inl (f e), s') | (Inr x, s') \<Rightarrow> (Inr x, s'))"

definition liftR :: "('e + 'a) \<Rightarrow> ('s, 'e, 'a) op" where
  "liftR r = (\<lambda>s. (r, s))"

definition getsR :: "('s \<Rightarrow> 'a) \<Rightarrow> ('s, 'e, 'a) op" where
  "getsR f = (\<lambda>s. (Inr (f s), s))"

definition checkR :: "'e option \<Rightarrow> ('s, 'e, unit) op" where
  "checkR v = (\<lambda>s. case v of None \<Rightarrow> (Inr (), s) | Some e \<Rightarrow> (Inl e, s))"

lemmas op_defs = retR_def failR_def bindR_def wrapR_def liftR_def getsR_def checkR_def

text \<open>Evaluation inlines the combinators, so that a branch is evaluated only when it is taken.\<close>

declare op_defs [code_unfold]

lemma run_retR [simp]: "retR x s = (Inr x, s)"
  by (simp add: retR_def)

lemma run_failR [simp]: "failR e s = (Inl e, s)"
  by (simp add: failR_def)

lemma run_liftR [simp]: "liftR r s = (r, s)"
  by (simp add: liftR_def)

lemma run_getsR [simp]: "getsR f s = (Inr (f s), s)"
  by (simp add: getsR_def)

lemma run_checkR [simp]:
  "checkR None s = (Inr (), s)" "checkR (Some e) s = (Inl e, s)"
  by (simp_all add: checkR_def)

lemma bindR_Inr_iff:
  "bindR m k s = (Inr y, s') \<longleftrightarrow> (\<exists>x s1. m s = (Inr x, s1) \<and> k x s1 = (Inr y, s'))"
  by (auto simp: bindR_def split: prod.splits sum.splits)

lemma bindR_Inl_iff:
  "bindR m k s = (Inl e, s') \<longleftrightarrow>
     m s = (Inl e, s') \<or> (\<exists>x s1. m s = (Inr x, s1) \<and> k x s1 = (Inl e, s'))"
  by (auto simp: bindR_def split: prod.splits sum.splits)

lemma wrapR_Inr_iff: "wrapR f m s = (Inr y, s') \<longleftrightarrow> m s = (Inr y, s')"
  by (auto simp: wrapR_def split: prod.splits sum.splits)

lemma wrapR_Inl_iff: "wrapR f m s = (Inl e, s') \<longleftrightarrow> (\<exists>e0. e = f e0 \<and> m s = (Inl e0, s'))"
  by (auto simp: wrapR_def split: prod.splits sum.splits)

lemma liftR_iff: "liftR r s = (x, s') \<longleftrightarrow> x = r \<and> s' = s"
  by auto

lemma checkR_Inr_iff: "checkR v s = (Inr u, s') \<longleftrightarrow> v = None \<and> s' = s"
  by (cases v) auto

lemma checkR_Inl_iff: "checkR v s = (Inl e, s') \<longleftrightarrow> v = Some e \<and> s' = s"
  by (cases v) auto

lemmas op_iffs = bindR_Inr_iff bindR_Inl_iff wrapR_Inr_iff wrapR_Inl_iff liftR_iff
  checkR_Inr_iff checkR_Inl_iff

lemma bindR_run: "m s = (Inr x, s1) \<Longrightarrow> bindR m k s = k x s1"
  by (simp add: bindR_def)

lemma bindR_run_err: "m s = (Inl e, s1) \<Longrightarrow> bindR m k s = (Inl e, s1)"
  by (simp add: bindR_def)

lemma bindR_retR [simp]: "bindR (retR x) k = k x"
  by (simp add: op_defs)

lemma bindR_failR [simp]: "bindR (failR e) k s = (Inl e, s)"
  by (simp add: op_defs)

lemma bindR_liftR [simp]:
  "bindR (liftR (Inr x)) k = k x"
  "bindR (liftR (Inl e)) k s = (Inl e, s)"
  by (simp_all add: op_defs)

lemma bindR_getsR [simp]: "bindR (getsR f) k s = k (f s) s"
  by (simp add: op_defs)

lemma bindR_checkR [simp]:
  "bindR (checkR None) k = k ()"
  "bindR (checkR (Some e)) k s = (Inl e, s)"
  by (simp_all add: op_defs)

text \<open>
  A state predicate every sub-computation keeps is kept by the whole: the frame and invariant
  lemmas of the operations are proved with these introduction rules.
\<close>

definition keeps :: "('s \<Rightarrow> 's \<Rightarrow> bool) \<Rightarrow> ('s, 'e, 'a) op \<Rightarrow> bool" where
  "keeps R m \<longleftrightarrow> (\<forall>s. R s (snd (m s)))"

lemma keepsI: "(\<And>s r s'. m s = (r, s') \<Longrightarrow> R s s') \<Longrightarrow> keeps R m"
  by (simp add: keeps_def) (metis surjective_pairing)

lemma keepsD: "keeps R m \<Longrightarrow> m s = (r, s') \<Longrightarrow> R s s'"
  by (metis keeps_def snd_conv)

lemma keeps_basic [intro]:
  assumes "reflp R"
  shows "keeps R (retR x)" "keeps R (failR e)" "keeps R (liftR v)" "keeps R (getsR f)" "keeps R (checkR c)"
  using assms
  by (auto simp: keeps_def retR_def failR_def liftR_def getsR_def checkR_def
      dest: reflpD split: option.splits)

lemma keeps_bindR [intro]:
  assumes "transp R" "keeps R m" "\<And>x. keeps R (k x)"
  shows "keeps R (bindR m k)"
proof (rule keepsI)
  fix s r s'
  assume run: "bindR m k s = (r, s')"
  obtain r1 s1 where m: "m s = (r1, s1)" by (metis surj_pair)
  then have R1: "R s s1" using assms(2) by (rule keepsD [rotated])
  show "R s s'"
  proof (cases r1)
    case (Inl e)
    with run m R1 show ?thesis by (simp add: bindR_def)
  next
    case (Inr x)
    with run m have "k x s1 = (r, s')" by (simp add: bindR_def)
    then have "R s1 s'" using assms(3) by (rule keepsD [rotated])
    with assms(1) R1 show ?thesis by (rule transpD)
  qed
qed

lemma keeps_wrapR [intro]: "keeps R m \<Longrightarrow> keeps R (wrapR f m)"
  by (auto simp: keeps_def wrapR_def split: prod.splits sum.splits) (metis snd_conv)+

lemma keeps_if [intro]: "keeps R m1 \<Longrightarrow> keeps R m2 \<Longrightarrow> keeps R (if b then m1 else m2)"
  by simp

lemma keeps_option [intro]:
  "keeps R a \<Longrightarrow> (\<And>y. keeps R (b y)) \<Longrightarrow> keeps R (case x of None \<Rightarrow> a | Some y \<Rightarrow> b y)"
  by (cases x) auto

lemma keeps_prod [intro]: "(\<And>a b. keeps R (f a b)) \<Longrightarrow> keeps R (case p of (a, b) \<Rightarrow> f a b)"
  by (cases p) auto

text \<open>
  Pre- and postconditions of a computation: \<open>triple P m Q E\<close> says that from a state satisfying \<open>P\<close>
  a result \<open>x\<close> comes with \<open>Q x\<close> and an error leaves a state satisfying \<open>E\<close>.
\<close>

definition triple :: "('s \<Rightarrow> bool) \<Rightarrow> ('s, 'e, 'a) op \<Rightarrow> ('a \<Rightarrow> 's \<Rightarrow> bool) \<Rightarrow> ('s \<Rightarrow> bool) \<Rightarrow> bool" where
  "triple P m Q E \<longleftrightarrow> (\<forall>s. P s \<longrightarrow> (case m s of (Inl e, s') \<Rightarrow> E s' | (Inr x, s') \<Rightarrow> Q x s'))"

lemma tripleI:
  assumes "\<And>s e s'. P s \<Longrightarrow> m s = (Inl e, s') \<Longrightarrow> E s'" "\<And>s x s'. P s \<Longrightarrow> m s = (Inr x, s') \<Longrightarrow> Q x s'"
  shows "triple P m Q E"
  using assms by (auto simp: triple_def split: prod.split sum.split)

lemma tripleD:
  assumes "triple P m Q E" "P s"
  shows "m s = (Inl e, s') \<Longrightarrow> E s'" "m s = (Inr x, s') \<Longrightarrow> Q x s'"
  using assms by (auto simp: triple_def)

lemma triple_bindR:
  assumes "triple P m Q1 E" "\<And>x. triple (Q1 x) (k x) Q E"
  shows "triple P (bindR m k) Q E"
  using assms by (fastforce intro!: tripleI simp: op_iffs dest: tripleD)

lemma triple_wrapR: "triple P m Q E \<Longrightarrow> triple P (wrapR f m) Q E"
  by (fastforce intro!: tripleI simp: op_iffs dest: tripleD)

lemma triple_basic:
  "(\<And>s. P s \<Longrightarrow> Q x s) \<Longrightarrow> triple P (retR x) Q E"
  "(\<And>s. P s \<Longrightarrow> E s) \<Longrightarrow> triple P (failR e) Q E"
  by (auto simp: triple_def)

lemma triple_checkR: "(\<And>s. P s \<Longrightarrow> E s) \<Longrightarrow> triple P (checkR v) (\<lambda>_ s. P s \<and> v = None) E"
  by (cases v) (auto simp: triple_def)

lemma triple_liftR: "(\<And>s. P s \<Longrightarrow> E s) \<Longrightarrow> triple P (liftR v) (\<lambda>x s. P s \<and> v = Inr x) E"
  by (cases v) (auto simp: triple_def)

lemma triple_keeps:
  assumes "keeps R m" "\<And>s s'. P s \<Longrightarrow> R s s' \<Longrightarrow> P s'" "\<And>s. P s \<Longrightarrow> E s"
  shows "triple P m (\<lambda>_. P) E"
  using assms by (auto intro!: tripleI dest: keepsD)

lemma triple_post: "triple P m Q E \<Longrightarrow> (\<And>x s. Q x s \<Longrightarrow> Q' x s) \<Longrightarrow> triple P m Q' E"
  by (fastforce intro!: tripleI dest: tripleD)

lemma triple_pre: "triple P' m Q E \<Longrightarrow> (\<And>s. P s \<Longrightarrow> P' s) \<Longrightarrow> triple P m Q E"
  by (fastforce intro!: tripleI dest: tripleD)

lemma triple_all:
  assumes "\<And>s r s'. P s \<Longrightarrow> m s = (r, s') \<Longrightarrow> Q s'" "\<And>s. Q s \<Longrightarrow> E s"
  shows "triple P m (\<lambda>_. Q) E"
  using assms by (blast intro: tripleI)

lemma triple_prod: "(\<And>a b. triple P (f a b) Q E) \<Longrightarrow> triple P (case x of (a, b) \<Rightarrow> f a b) Q E"
  by (cases x) simp

section \<open>What a remote call can do\<close>

text \<open>
  A statement sent to a database either is executed and acknowledged, or fails without taking
  effect, or takes effect although the caller sees an error (the reply is lost: a timeout or a
  broken connection after the commit).  The scripts of outcomes the theorems quantify over are
  arbitrary, so a theorem holds for every pattern of failures.
\<close>

datatype outcome = Acked | Refused | Lost

section \<open>Association lists as Go maps\<close>

text \<open>
  A Go map whose iteration order the code never observes is an association list; \<open>alist_set\<close>
  is \<^verbatim>\<open>m[k] = v\<close>.
\<close>

fun alist_set :: "'k \<Rightarrow> 'v \<Rightarrow> ('k \<times> 'v) list \<Rightarrow> ('k \<times> 'v) list" where
  "alist_set k v [] = [(k, v)]"
| "alist_set k v ((k', v') # m) = (if k = k' then (k, v) # m else (k', v') # alist_set k v m)"

lemma map_of_alist_set [simp]: "map_of (alist_set k v m) = (map_of m)(k \<mapsto> v)"
  by (induction m) auto

lemma keys_alist_set: "fst ` set (alist_set k v m) = insert k (fst ` set m)"
proof (induction m)
  case (Cons p m)
  then show ?case by (cases p) auto
qed simp

lemma distinct_alist_set: "distinct (map fst m) \<Longrightarrow> distinct (map fst (alist_set k v m))"
proof (induction m)
  case (Cons p m)
  then show ?case using keys_alist_set [of k v m] by (cases p) auto
qed simp

section \<open>Lists\<close>

text \<open>\<open>find_first p xs\<close> is the result of a \<^verbatim>\<open>SELECT\<close> whose caller looks at the first row only.\<close>

definition find_first :: "('a \<Rightarrow> bool) \<Rightarrow> 'a list \<Rightarrow> 'a option" where
  "find_first p xs = List.find p xs"

lemma find_first_Some: "find_first p xs = Some x \<Longrightarrow> x \<in> set xs \<and> p x"
  by (auto simp: find_first_def find_Some_iff)

lemma find_first_None: "find_first p xs = None \<longleftrightarrow> (\<forall>x\<in>set xs. \<not> p x)"
  by (auto simp: find_first_def find_None_iff)

lemma find_first_append:
  "find_first p (xs @ ys) = (case find_first p xs of None \<Rightarrow> find_first p ys | Some x \<Rightarrow> Some x)"
  by (induction xs) (auto simp: find_first_def)

lemma find_first_unique:
  assumes "x \<in> set xs" "p x" "\<And>y. y \<in> set xs \<Longrightarrow> p y \<Longrightarrow> y = x"
  shows "find_first p xs = Some x"
proof (cases "find_first p xs")
  case None
  with assms(1,2) show ?thesis by (auto simp: find_first_None)
next
  case (Some y)
  with assms(3) show ?thesis by (auto dest: find_first_Some)
qed

end
