(* ===== verification/Go_Integers.thy ===== *)
theory Go_Integers
  imports Gofin_Prelude "HOL-Library.Word"
begin

text \<open>
  Go's fixed-width integers.  An \<^verbatim>\<open>int32\<close> or \<^verbatim>\<open>int64\<close> value is
  an \<open>int\<close> in the range of the type; every arithmetic operation of the code whose result may leave
  that range is written with \<open>i32\<close> or \<open>i64\<close> around it, which wraps as two's complement does
  (\<open>i64_sint\<close> relates it to 64-bit words).  Division and remainder truncate towards zero.
\<close>

definition i32 :: "int \<Rightarrow> int" where
  "i32 x = (x + 2147483648) mod 4294967296 - 2147483648"

definition i64 :: "int \<Rightarrow> int" where
  "i64 x = (x + 9223372036854775808) mod 18446744073709551616 - 9223372036854775808"

definition is_i32 :: "int \<Rightarrow> bool" where
  "is_i32 x \<longleftrightarrow> - 2147483648 \<le> x \<and> x \<le> 2147483647"

definition is_i64 :: "int \<Rightarrow> bool" where
  "is_i64 x \<longleftrightarrow> - 9223372036854775808 \<le> x \<and> x \<le> 9223372036854775807"

definition go_quo :: "int \<Rightarrow> int \<Rightarrow> int" where
  "go_quo a b = sgn a * sgn b * (\<bar>a\<bar> div \<bar>b\<bar>)"

definition go_rem :: "int \<Rightarrow> int \<Rightarrow> int" where
  "go_rem a b = a - b * go_quo a b"

lemma i64_sint: "i64 x = sint (word_of_int x :: 64 word)"
  by (simp add: i64_def sint_uint unsigned_of_int signed_take_bit_eq_take_bit_shift
      take_bit_eq_mod mod_simps)

lemma i32_sint: "i32 x = sint (word_of_int x :: 32 word)"
  by (simp add: i32_def sint_uint unsigned_of_int signed_take_bit_eq_take_bit_shift
      take_bit_eq_mod mod_simps)

lemma i64_id [simp]: "is_i64 x \<Longrightarrow> i64 x = x"
  by (simp add: i64_def is_i64_def)

lemma i32_id [simp]: "is_i32 x \<Longrightarrow> i32 x = x"
  by (simp add: i32_def is_i32_def)

lemma is_i64_i64 [simp]: "is_i64 (i64 x)"
  using pos_mod_bound [of 18446744073709551616 "x + 9223372036854775808"]
    pos_mod_sign [of 18446744073709551616 "x + 9223372036854775808"]
  unfolding i64_def is_i64_def by linarith

lemma is_i32_i32 [simp]: "is_i32 (i32 x)"
  using pos_mod_bound [of 4294967296 "x + 2147483648"] pos_mod_sign [of 4294967296 "x + 2147483648"]
  unfolding i32_def is_i32_def by linarith

lemma i64_cong: "x mod 18446744073709551616 = y mod 18446744073709551616 \<Longrightarrow> i64 x = i64 y"
  unfolding i64_def by (drule mod_add_cong [OF _ refl, of _ _ _ 9223372036854775808]) (simp only:)

lemma i64_mod: "i64 x mod 18446744073709551616 = x mod 18446744073709551616"
  unfolding i64_def by (simp add: mod_simps)

lemma i64_add_left: "i64 (i64 a + b) = i64 (a + b)"
  by (rule i64_cong) (rule mod_add_cong [OF i64_mod refl])

lemma i64_add_right: "i64 (a + i64 b) = i64 (a + b)"
  by (rule i64_cong) (rule mod_add_cong [OF refl i64_mod])

lemma i64_diff_right: "i64 (a - i64 b) = i64 (a - b)"
  by (rule i64_cong) (rule mod_diff_cong [OF refl i64_mod])

lemma i64_diff_left: "i64 (i64 a - b) = i64 (a - b)"
  by (rule i64_cong) (rule mod_diff_cong [OF i64_mod refl])

lemmas i64_absorb = i64_add_left i64_add_right i64_diff_left i64_diff_right

lemma go_quo_nonneg: "0 \<le> a \<Longrightarrow> 0 < b \<Longrightarrow> go_quo a b = a div b"
  by (cases "a = 0") (auto simp: go_quo_def sgn_if)

lemma go_rem_nonneg: "0 \<le> a \<Longrightarrow> 0 < b \<Longrightarrow> go_rem a b = a mod b"
  by (simp add: go_rem_def go_quo_nonneg minus_mult_div_eq_mod)

lemma go_quo_rem: "b * go_quo a b + go_rem a b = a"
  by (simp add: go_rem_def)

lemma go_quo_abs: "0 < b \<Longrightarrow> \<bar>go_quo a b\<bar> = \<bar>a\<bar> div b"
  by (cases "a = 0") (auto simp: go_quo_def abs_mult sgn_if pos_imp_zdiv_nonneg_iff)

lemma go_rem_sgn: "0 < b \<Longrightarrow> go_rem a b = sgn a * (\<bar>a\<bar> mod b)"
  unfolding go_rem_def go_quo_def
  by (cases a "0::int" rule: linorder_cases)
     (auto simp: algebra_simps minus_mult_div_eq_mod [symmetric])

lemma go_rem_bounds: "0 < b \<Longrightarrow> \<bar>go_rem a b\<bar> < b"
  by (cases a "0::int" rule: linorder_cases) (auto simp: go_rem_sgn abs_mult)

end
