(* ===== verification/Go_Strings.thy ===== *)
theory Go_Strings
  imports Go_Integers
begin

text \<open>
  The part of Go's string library the code calls.  A Go string is a list of bytes (\<open>char\<close> is a
  byte), compared by \<open><\<close> bytewise as Go compares strings.  Functions of the standard library that
  consult the Unicode tables are computed here on ASCII input, which is what the code expects, and
  are delegated to a field of \<open>golib\<close> on any other input; a theorem that quantifies over \<open>golib\<close>
  holds whatever the library does there.  The last field, \<open>uuid_parses\<close>, is the third-party
  \<^verbatim>\<open>uuid.Parse\<close>: whether a string is a well-formed UUID.
\<close>

text \<open>
  A \<^verbatim>\<open>time.Time\<close>: seconds since the epoch, nanoseconds within the second, and the
  offset of its location from UTC in seconds.
\<close>

record gtime =
  t_unix :: int
  t_nsec :: int
  t_off :: int

record golib =
  upper_slow :: "string \<Rightarrow> string"
  lower_slow :: "string \<Rightarrow> string"
  quote_slow :: "string \<Rightarrow> string"
  rat_slow :: "string \<Rightarrow> rat option"
  rfc3339_slow :: "string \<Rightarrow> gtime option"
  uuid_parses :: "string \<Rightarrow> bool"

section \<open>Bytes\<close>

definition byte :: "char \<Rightarrow> int" where
  "byte c = of_char c"

definition is_ascii :: "string \<Rightarrow> bool" where
  "is_ascii s \<longleftrightarrow> list_all (\<lambda>c. byte c < 128) s"

definition is_digit :: "char \<Rightarrow> bool" where
  "is_digit c \<longleftrightarrow> 48 \<le> byte c \<and> byte c \<le> 57"

definition digit_val :: "char \<Rightarrow> int" where
  "digit_val c = byte c - 48"

definition digit_char :: "int \<Rightarrow> char" where
  "digit_char d = char_of (48 + d)"

lemma byte_lt [simp]: "byte c < 256" and byte_nonneg [simp]: "0 \<le> byte c"
proof -
  have "byte c = int (of_char c)" by (simp only: byte_def of_nat_of_char)
  then show "byte c < 256" "0 \<le> byte c" by simp_all
qed

lemma byte_char_of: "byte (char_of n) = n mod 256"
  by (simp add: byte_def)

lemma digit_char_props [simp]:
  "0 \<le> d \<Longrightarrow> d < 10 \<Longrightarrow> is_digit (digit_char d)" "0 \<le> d \<Longrightarrow> d < 10 \<Longrightarrow> digit_val (digit_char d) = d"
  by (simp_all add: is_digit_def digit_val_def digit_char_def byte_char_of)

section \<open>Case mapping\<close>

definition upper_byte :: "char \<Rightarrow> char" where
  "upper_byte c = (if 97 \<le> byte c \<and> byte c \<le> 122 then char_of (byte c - 32) else c)"

definition lower_byte :: "char \<Rightarrow> char" where
  "lower_byte c = (if 65 \<le> byte c \<and> byte c \<le> 90 then char_of (byte c + 32) else c)"

definition to_upper :: "golib \<Rightarrow> string \<Rightarrow> string" where
  "to_upper lib s = (if is_ascii s then map upper_byte s else upper_slow lib s)"

definition to_lower :: "golib \<Rightarrow> string \<Rightarrow> string" where
  "to_lower lib s = (if is_ascii s then map lower_byte s else lower_slow lib s)"

lemma byte_upper: "byte (upper_byte c) = (if 97 \<le> byte c \<and> byte c \<le> 122 then byte c - 32 else byte c)"
  using byte_lt [of c] byte_nonneg [of c] by (simp add: upper_byte_def byte_char_of)

lemma byte_lower: "byte (lower_byte c) = (if 65 \<le> byte c \<and> byte c \<le> 90 then byte c + 32 else byte c)"
  using byte_lt [of c] byte_nonneg [of c] by (simp add: lower_byte_def byte_char_of)

lemma upper_byte_idem [simp]: "upper_byte (upper_byte c) = upper_byte c"
  using byte_upper [of c] by (subst upper_byte_def) (auto split: if_splits)

lemma lower_byte_idem [simp]: "lower_byte (lower_byte c) = lower_byte c"
  using byte_lower [of c] by (subst lower_byte_def) (auto split: if_splits)

section \<open>White space\<close>

text \<open>
  The UTF-8 encodings of the code points for which \<^verbatim>\<open>unicode.IsSpace\<close> holds: tab,
  newline, vertical tab, form feed, carriage return, space, U+0085, U+00A0, U+1680,
  U+2000 to U+200A, U+2028, U+2029, U+202F, U+205F and U+3000.
\<close>

definition space_seqs :: "string list" where
  "space_seqs =
    [[CHR 0x09], [CHR 0x0A], [CHR 0x0B], [CHR 0x0C], [CHR 0x0D], [CHR 0x20], [CHR 0xC2, CHR 0x85],
      [CHR 0xC2, CHR 0xA0], [CHR 0xE1, CHR 0x9A, CHR 0x80], [CHR 0xE2, CHR 0x80, CHR 0x80],
      [CHR 0xE2, CHR 0x80, CHR 0x81], [CHR 0xE2, CHR 0x80, CHR 0x82],
      [CHR 0xE2, CHR 0x80, CHR 0x83], [CHR 0xE2, CHR 0x80, CHR 0x84],
      [CHR 0xE2, CHR 0x80, CHR 0x85], [CHR 0xE2, CHR 0x80, CHR 0x86],
      [CHR 0xE2, CHR 0x80, CHR 0x87], [CHR 0xE2, CHR 0x80, CHR 0x88],
      [CHR 0xE2, CHR 0x80, CHR 0x89], [CHR 0xE2, CHR 0x80, CHR 0x8A],
      [CHR 0xE2, CHR 0x80, CHR 0xA8], [CHR 0xE2, CHR 0x80, CHR 0xA9],
      [CHR 0xE2, CHR 0x80, CHR 0xAF], [CHR 0xE2, CHR 0x81, CHR 0x9F],
      [CHR 0xE3, CHR 0x80, CHR 0x80]]"

definition has_prefix :: "string \<Rightarrow> string \<Rightarrow> bool" where
  "has_prefix p s \<longleftrightarrow> take (length p) s = p"

function strip_seqs :: "string list \<Rightarrow> string \<Rightarrow> string" where
  "strip_seqs ws s =
     (case List.find (\<lambda>w. w \<noteq> [] \<and> has_prefix w s) ws of
        None \<Rightarrow> s
      | Some w \<Rightarrow> strip_seqs ws (drop (length w) s))"
  by pat_completeness auto
termination
proof (relation "measure (\<lambda>(ws, s). length s)")
  fix ws :: "string list" and s w
  assume "List.find (\<lambda>w. w \<noteq> [] \<and> has_prefix w s) ws = Some w"
  then have "w \<noteq> [] \<and> has_prefix w s" by (auto simp: find_Some_iff)
  then have "length w \<le> length s" and pos: "0 < length w"
    by (auto simp: has_prefix_def dest: arg_cong [where f = length])
  then have "length s - length w < length s" by (intro diff_less) (use pos in \<open>auto simp del: length_greater_0_conv intro: less_le_trans\<close>)
  then show "((ws, drop (length w) s), (ws, s)) \<in> measure (\<lambda>(ws, s). length s)" by simp
qed auto

declare strip_seqs.simps [simp del]

text \<open>\<^verbatim>\<open>strings.TrimSpace\<close>.\<close>

definition trim_space :: "string \<Rightarrow> string" where
  "trim_space s =
     (let t = strip_seqs space_seqs s
      in rev (strip_seqs (map rev space_seqs) (rev t)))"

lemma strip_seqs_suffix: "\<exists>p. s = p @ strip_seqs ws s"
proof (induction ws s rule: strip_seqs.induct)
  case (1 ws s)
  show ?case
  proof (cases "List.find (\<lambda>w. w \<noteq> [] \<and> has_prefix w s) ws")
    case None
    then show ?thesis by (simp add: strip_seqs.simps [of ws s])
  next
    case (Some w)
    then have w: "has_prefix w s" by (auto simp: find_Some_iff)
    from 1 [OF Some] obtain p where "drop (length w) s = p @ strip_seqs ws (drop (length w) s)" ..
    then have "s = (w @ p) @ strip_seqs ws (drop (length w) s)"
      using w by (metis append.assoc append_take_drop_id has_prefix_def)
    moreover have "strip_seqs ws s = strip_seqs ws (drop (length w) s)"
      using Some by (simp add: strip_seqs.simps [of ws s])
    ultimately show ?thesis by metis
  qed
qed

lemma strip_seqs_stable: "strip_seqs ws (strip_seqs ws s) = strip_seqs ws s"
proof (induction ws s rule: strip_seqs.induct)
  case (1 ws s)
  then show ?case
    by (cases "List.find (\<lambda>w. w \<noteq> [] \<and> has_prefix w s) ws") (simp_all add: strip_seqs.simps [of ws s])
qed

section \<open>Numbers in decimal\<close>

function dec_digits :: "int \<Rightarrow> string" where
  "dec_digits n = (if n < 10 then [digit_char n] else dec_digits (n div 10) @ [digit_char (n mod 10)])"
  by pat_completeness auto
termination
  by (relation "measure nat") auto

declare dec_digits.simps [simp del]

text \<open>\<^verbatim>\<open>%d\<close>, and \<^verbatim>\<open>%02d\<close> or \<^verbatim>\<open>%04d\<close> (zero padding goes after the sign).\<close>

definition show_int :: "int \<Rightarrow> string" where
  "show_int x = (if x < 0 then ''-'' else []) @ dec_digits \<bar>x\<bar>"

definition pad_zeros :: "nat \<Rightarrow> string \<Rightarrow> string" where
  "pad_zeros w s = replicate (w - length s) (digit_char 0) @ s"

definition show_padded :: "nat \<Rightarrow> int \<Rightarrow> string" where
  "show_padded w x =
     (if x < 0 then ''-'' @ pad_zeros (w - 1) (dec_digits \<bar>x\<bar>) else pad_zeros w (dec_digits x))"

definition digits_val :: "string \<Rightarrow> int" where
  "digits_val s = foldl (\<lambda>n c. 10 * n + digit_val c) 0 s"

lemma digits_val_append: "digits_val (s @ [c]) = 10 * digits_val s + digit_val c"
  by (simp add: digits_val_def)

lemma digits_val_dec_digits [simp]: "0 \<le> n \<Longrightarrow> digits_val (dec_digits n) = n"
proof (induction n rule: dec_digits.induct)
  case (1 n)
  then show ?case
    by (cases "n < 10") (simp_all add: dec_digits.simps [of n] digits_val_append,
        simp add: digits_val_def)
qed

lemma dec_digits_all_digit: "0 \<le> n \<Longrightarrow> list_all is_digit (dec_digits n)"
proof (induction n rule: dec_digits.induct)
  case (1 n)
  then show ?case by (cases "n < 10") (simp_all add: dec_digits.simps [of n])
qed

lemma dec_digits_not_Nil [simp]: "dec_digits n \<noteq> []"
  by (subst dec_digits.simps) simp

lemma digits_val_zeros [simp]: "digits_val (replicate k (digit_char 0) @ s) = digits_val s"
proof (induction k)
  case (Suc k)
  have "foldl (\<lambda>n c. 10 * n + digit_val c) 0 (replicate k (digit_char 0) @ s) = digits_val s"
    using Suc by (simp add: digits_val_def)
  then show ?case by (simp add: digits_val_def)
qed (simp add: digits_val_def)

section \<open>Quoting\<close>

text \<open>\<^verbatim>\<open>%q\<close>: printable ASCII other than the quote and the backslash is copied.\<close>

definition plain_byte :: "char \<Rightarrow> bool" where
  "plain_byte c \<longleftrightarrow> 32 \<le> byte c \<and> byte c < 127 \<and> byte c \<noteq> 34 \<and> byte c \<noteq> 92"

definition go_quote :: "golib \<Rightarrow> string \<Rightarrow> string" where
  "go_quote lib s =
     (if list_all plain_byte s then [CHR 0x22] @ s @ [CHR 0x22] else quote_slow lib s)"

section \<open>Runes\<close>

text \<open>
  \<^verbatim>\<open>utf8.RuneCountInString\<close>: a well-formed UTF-8 sequence counts once, any other byte counts
  once by itself.  \<open>utf8_shape\<close> is the length of the sequence a first byte announces and the range
  of its second byte.
\<close>

definition utf8_shape :: "int \<Rightarrow> nat \<times> int \<times> int" where
  "utf8_shape b =
     (if 0xC2 \<le> b \<and> b \<le> 0xDF then (2, 0x80, 0xBF)
      else if b = 0xE0 then (3, 0xA0, 0xBF)
      else if b = 0xED then (3, 0x80, 0x9F)
      else if 0xE1 \<le> b \<and> b \<le> 0xEF then (3, 0x80, 0xBF)
      else if b = 0xF0 then (4, 0x90, 0xBF)
      else if 0xF1 \<le> b \<and> b \<le> 0xF3 then (4, 0x80, 0xBF)
      else if b = 0xF4 then (4, 0x80, 0x8F)
      else (1, 0, 0))"

definition is_cont :: "char \<Rightarrow> bool" where
  "is_cont c \<longleftrightarrow> 0x80 \<le> byte c \<and> byte c \<le> 0xBF"

definition rune_size :: "string \<Rightarrow> nat" where
  "rune_size s =
     (case s of
        [] \<Rightarrow> 0
      | c # cs \<Rightarrow>
          (case utf8_shape (byte c) of (n, lo, hi) \<Rightarrow>
             if n \<le> 1 \<or> length cs + 1 < n then 1
             else if lo \<le> byte (hd cs) \<and> byte (hd cs) \<le> hi \<and> list_all is_cont (take (n - 2) (tl cs)) then n
             else 1))"

lemma rune_size_pos: "s \<noteq> [] \<Longrightarrow> 0 < rune_size s"
  by (auto simp: rune_size_def split: list.split prod.split)

function rune_count :: "string \<Rightarrow> nat" where
  "rune_count s = (if s = [] then 0 else 1 + rune_count (drop (rune_size s) s))"
  by auto
termination by (relation "measure length") (auto simp: rune_size_pos)

declare rune_count.simps [simp del]

lemma rune_size_ascii: "byte c < 128 \<Longrightarrow> rune_size (c # cs) = 1"
  by (auto simp: rune_size_def utf8_shape_def)

lemma rune_count_Nil [simp]: "rune_count [] = 0"
  by (simp add: rune_count.simps)

lemma rune_count_ascii: "is_ascii s \<Longrightarrow> rune_count s = length s"
proof (induction s)
  case (Cons c cs)
  then have "byte c < 128" "is_ascii cs" by (auto simp: is_ascii_def)
  with Cons.IH show ?case by (subst rune_count.simps) (simp add: rune_size_ascii)
qed simp

lemma rune_count_le: "rune_count s \<le> length s"
proof (induction s rule: rune_count.induct)
  case (1 s)
  show ?case
  proof (cases "s = []")
    case False
    then have "0 < length s" "rune_count s = 1 + rune_count (drop (rune_size s) s)"
      by (simp_all add: rune_count.simps [of s])
    moreover have "rune_count (drop (rune_size s) s) \<le> length s - rune_size s" using 1 False by simp
    ultimately show ?thesis using rune_size_pos [OF False] by linarith
  qed simp
qed

end
