(* ===== verification/Go_Time.thy ===== *)
theory Go_Time
  imports Go_Strings
begin

text \<open>
  The part of Go's \<^verbatim>\<open>time\<close> package the code uses: calendar fields of an instant,
  durations, and the RFC 3339 and \<^verbatim>\<open>2006-01-02\<close> layouts.
\<close>

section \<open>Calendar\<close>

definition is_leap :: "int \<Rightarrow> bool" where
  "is_leap y \<longleftrightarrow> y mod 4 = 0 \<and> (y mod 100 \<noteq> 0 \<or> y mod 400 = 0)"

definition days_in :: "int \<Rightarrow> int \<Rightarrow> int" where
  "days_in y m =
     (if m = 2 then (if is_leap y then 29 else 28)
      else if m = 4 \<or> m = 6 \<or> m = 9 \<or> m = 11 then 30 else 31)"

text \<open>The civil date of a day number (days since 1970-01-01), in the proleptic Gregorian calendar.\<close>

definition civil_of_days :: "int \<Rightarrow> int \<times> int \<times> int" where
  "civil_of_days z =
     (let z' = z + 719468;
          era = z' div 146097;
          doe = z' mod 146097;
          yoe = (doe - doe div 1460 + doe div 36524 - doe div 146096) div 365;
          doy = doe - (365 * yoe + yoe div 4 - yoe div 100);
          mp = (5 * doy + 2) div 153;
          d = doy - (153 * mp + 2) div 5 + 1;
          m = (if mp < 10 then mp + 3 else mp - 9);
          y = yoe + era * 400 + (if m \<le> 2 then 1 else 0)
      in (y, m, d))"

definition days_of_civil :: "int \<Rightarrow> int \<Rightarrow> int \<Rightarrow> int" where
  "days_of_civil y m d =
     (let y' = (if m \<le> 2 then y - 1 else y);
          era = y' div 400;
          yoe = y' mod 400;
          doy = (153 * (if m > 2 then m - 3 else m + 9) + 2) div 5 + d - 1;
          doe = yoe * 365 + yoe div 4 - yoe div 100 + doy
      in era * 146097 + doe - 719468)"

definition local_days :: "gtime \<Rightarrow> int" where
  "local_days t = (t_unix t + t_off t) div 86400"

definition local_secs :: "gtime \<Rightarrow> int" where
  "local_secs t = (t_unix t + t_off t) mod 86400"

definition t_year :: "gtime \<Rightarrow> int" where
  "t_year t = fst (civil_of_days (local_days t))"

definition t_month :: "gtime \<Rightarrow> int" where
  "t_month t = fst (snd (civil_of_days (local_days t)))"

definition t_day :: "gtime \<Rightarrow> int" where
  "t_day t = snd (snd (civil_of_days (local_days t)))"

definition t_utc :: "gtime \<Rightarrow> gtime" where
  "t_utc t = t\<lparr>t_off := 0\<rparr>"

section \<open>Durations\<close>

text \<open>\<^verbatim>\<open>Sub\<close> is a duration in nanoseconds that saturates at the range of \<^verbatim>\<open>int64\<close>.\<close>

definition saturate64 :: "int \<Rightarrow> int" where
  "saturate64 x = max (- 9223372036854775808) (min 9223372036854775807 x)"

definition t_sub :: "gtime \<Rightarrow> gtime \<Rightarrow> int" where
  "t_sub a b = saturate64 ((t_unix a - t_unix b) * 1000000000 + (t_nsec a - t_nsec b))"

definition t_before :: "gtime \<Rightarrow> gtime \<Rightarrow> bool" where
  "t_before a b \<longleftrightarrow> t_unix a < t_unix b \<or> t_unix a = t_unix b \<and> t_nsec a < t_nsec b"

definition t_add_ns :: "gtime \<Rightarrow> int \<Rightarrow> gtime" where
  "t_add_ns t d =
     (let n = t_nsec t + d in t\<lparr>t_unix := t_unix t + n div 1000000000, t_nsec := n mod 1000000000\<rparr>)"

text \<open>\<^verbatim>\<open>Truncate(time.Second)\<close> (the zero time is a whole second, so this drops the nanoseconds).\<close>

definition t_trunc_sec :: "gtime \<Rightarrow> gtime" where
  "t_trunc_sec t = t\<lparr>t_nsec := 0\<rparr>"

section \<open>Layouts\<close>

definition fmt_date :: "gtime \<Rightarrow> string" where
  "fmt_date t = show_padded 4 (t_year t) @ ''-'' @ show_padded 2 (t_month t) @ ''-'' @ show_padded 2 (t_day t)"

text \<open>\<^verbatim>\<open>Format(time.RFC3339)\<close>; the zone is \<^verbatim>\<open>Z\<close> for UTC.\<close>

definition fmt_rfc3339 :: "gtime \<Rightarrow> string" where
  "fmt_rfc3339 t =
     fmt_date t @ ''T'' @ show_padded 2 (local_secs t div 3600) @ '':''
     @ show_padded 2 (local_secs t div 60 mod 60) @ '':'' @ show_padded 2 (local_secs t mod 60)
     @ (if t_off t = 0 then ''Z''
        else (if t_off t < 0 then ''-'' else ''+'') @ show_padded 2 (\<bar>t_off t\<bar> div 3600) @ '':''
             @ show_padded 2 (\<bar>t_off t\<bar> div 60 mod 60))"

definition num_at :: "string \<Rightarrow> nat \<Rightarrow> nat \<Rightarrow> int option" where
  "num_at s i w =
     (let p = take w (drop i s)
      in if length p = w \<and> list_all is_digit p then Some (digits_val p) else None)"

definition valid_date :: "int \<Rightarrow> int \<Rightarrow> int \<Rightarrow> bool" where
  "valid_date y m d \<longleftrightarrow> 1 \<le> m \<and> m \<le> 12 \<and> 1 \<le> d \<and> d \<le> days_in y m"

definition date_at :: "string \<Rightarrow> (int \<times> int \<times> int) option" where
  "date_at s =
     (case (num_at s 0 4, num_at s 5 2, num_at s 8 2) of
        (Some y, Some m, Some d) \<Rightarrow>
          if s ! 4 = CHR ''-'' \<and> s ! 7 = CHR ''-'' \<and> valid_date y m d then Some (y, m, d) else None
      | _ \<Rightarrow> None)"

text \<open>\<^verbatim>\<open>time.Parse("2006-01-02", s)\<close>: year, month and day, or an error.\<close>

definition parse_date :: "string \<Rightarrow> (int \<times> int \<times> int) option" where
  "parse_date s = (if length s = 10 then date_at s else None)"

text \<open>
  \<^verbatim>\<open>time.Parse(time.RFC3339, s)\<close>.  The form the services themselves write, in UTC and
  without a fraction, is parsed here; everything else is left to the library.
\<close>

definition parse_rfc3339 :: "golib \<Rightarrow> string \<Rightarrow> gtime option" where
  "parse_rfc3339 lib s =
     (if length s = 20 \<and> s ! 10 = CHR ''T'' \<and> s ! 13 = CHR '':'' \<and> s ! 16 = CHR '':'' \<and> s ! 19 = CHR ''Z''
      then (case (date_at s, num_at s 11 2, num_at s 14 2, num_at s 17 2) of
              (Some (y, mo, d), Some h, Some mi, Some se) \<Rightarrow>
                if h < 24 \<and> mi < 60 \<and> se < 60
                then Some \<lparr>t_unix = days_of_civil y mo d * 86400 + h * 3600 + mi * 60 + se, t_nsec = 0, t_off = 0\<rparr>
                else rfc3339_slow lib s
            | _ \<Rightarrow> rfc3339_slow lib s)
      else rfc3339_slow lib s)"

text \<open>\<^verbatim>\<open>^\d{4}-\d{2}-\d{2}$\<close> as a regular expression match (not a date check).\<close>

definition iso_date_shape :: "string \<Rightarrow> bool" where
  "iso_date_shape s \<longleftrightarrow>
     length s = 10 \<and> num_at s 0 4 \<noteq> None \<and> s ! 4 = CHR ''-'' \<and> num_at s 5 2 \<noteq> None
     \<and> s ! 7 = CHR ''-'' \<and> num_at s 8 2 \<noteq> None"

lemma days_in_bounds: "28 \<le> days_in y m \<and> days_in y m \<le> 31"
  by (simp add: days_in_def)

lemma parse_date_valid: "parse_date s = Some (y, m, d) \<Longrightarrow> valid_date y m d"
  by (auto simp: parse_date_def date_at_def split: if_splits option.splits)

lemma parse_date_range: "parse_date s = Some (y, m, d) \<Longrightarrow> 1 \<le> d \<and> d \<le> days_in y m"
  using parse_date_valid by (fastforce simp: valid_date_def)

end
