(* ===== verification/Shared_Errors.thy ===== *)
theory Shared_Errors
  imports Go_Time
begin

text \<open>
  The packages every service shares: the typed API error (\<^verbatim>\<open>services/apierr\<close>), the request
  validator, the currency catalog and the exchange-rate sources (\<^verbatim>\<open>services/shared\<close>),
  and the error values that cross the services' boundaries.
\<close>

section \<open>API errors\<close>

record apierr =
  ae_code :: string
  ae_msg :: string
  ae_status :: int
  ae_fields :: "(string \<times> string) list"

abbreviation code_unauthorized :: string where "code_unauthorized \<equiv> ''UNAUTHORIZED''"
abbreviation code_not_found :: string where "code_not_found \<equiv> ''NOT_FOUND''"
abbreviation code_validation :: string where "code_validation \<equiv> ''VALIDATION_ERROR''"
abbreviation code_internal :: string where "code_internal \<equiv> ''INTERNAL_SERVER_ERROR''"
abbreviation code_forbidden :: string where "code_forbidden \<equiv> ''FORBIDDEN''"

definition Unauthorized :: "string \<Rightarrow> apierr" where
  "Unauthorized msg = \<lparr>ae_code = code_unauthorized, ae_msg = msg, ae_status = 401, ae_fields = []\<rparr>"

definition NotFound :: "string \<Rightarrow> apierr" where
  "NotFound msg = \<lparr>ae_code = code_not_found, ae_msg = msg, ae_status = 404, ae_fields = []\<rparr>"

definition Forbidden :: "string \<Rightarrow> apierr" where
  "Forbidden msg = \<lparr>ae_code = code_forbidden, ae_msg = msg, ae_status = 403, ae_fields = []\<rparr>"

definition Validation :: "string \<Rightarrow> (string \<times> string) list \<Rightarrow> apierr" where
  "Validation msg flds = \<lparr>ae_code = code_validation, ae_msg = msg, ae_status = 400, ae_fields = flds\<rparr>"

definition Conflict :: "string \<Rightarrow> string \<Rightarrow> apierr" where
  "Conflict code msg = \<lparr>ae_code = code, ae_msg = msg, ae_status = 409, ae_fields = []\<rparr>"

definition Internal :: "string \<Rightarrow> apierr" where
  "Internal msg = \<lparr>ae_code = code_internal, ae_msg = msg, ae_status = 500, ae_fields = []\<rparr>"

lemmas apierr_defs = Unauthorized_def NotFound_def Forbidden_def Validation_def Conflict_def Internal_def

section \<open>Error values\<close>

datatype grpc_code =
  GCanceled | GUnknown | GInvalidArgument | GDeadlineExceeded | GNotFound | GAlreadyExists
  | GPermissionDenied | GFailedPrecondition | GAborted | GInternal | GUnavailable | GUnauthenticated

text \<open>
  \<open>Wrapped\<close> is \<^verbatim>\<open>fmt.Errorf("...: %w", err)\<close>; \<open>GrpcStatus\<close> an error with a gRPC
  status; \<open>Opaque\<close> an error the code never looks into.  The other constructors are the concrete
  error types of the services.
\<close>

datatype goerr =
  Api apierr
| Wrapped string goerr
| FxConversion goerr string string
| SnapshotIntegrity string "string list"
| UniqueViolation string
| NoRows
| GrpcStatus grpc_code string
| DeadlineExceeded
| Canceled
| Opaque string

text \<open>
  \<open>UniqueViolation\<close> is the database's error for a violated unique constraint, \<open>NoRows\<close> the
  driver's for a query without a row; the three functions are \<^verbatim>\<open>errors.As\<close> and
  \<^verbatim>\<open>errors.Is\<close> for the types and values the code looks for.
\<close>

fun as_api :: "goerr \<Rightarrow> apierr option" where
  "as_api (Api e) = Some e"
| "as_api (Wrapped m e) = as_api e"
| "as_api (FxConversion e t r) = as_api e"
| "as_api _ = None"

fun as_grpc :: "goerr \<Rightarrow> (grpc_code \<times> string) option" where
  "as_grpc (GrpcStatus c m) = Some (c, m)"
| "as_grpc (Wrapped m e) = as_grpc e"
| "as_grpc (FxConversion e t r) = as_grpc e"
| "as_grpc _ = None"

fun IsUniqueViolation :: "goerr \<Rightarrow> bool" where
  "IsUniqueViolation (UniqueViolation c) = True"
| "IsUniqueViolation (Wrapped m e) = IsUniqueViolation e"
| "IsUniqueViolation (FxConversion e t r) = IsUniqueViolation e"
| "IsUniqueViolation _ = False"

fun IsNoRows :: "goerr \<Rightarrow> bool" where
  "IsNoRows NoRows = True"
| "IsNoRows (Wrapped m e) = IsNoRows e"
| "IsNoRows (FxConversion e t r) = IsNoRows e"
| "IsNoRows _ = False"

definition renderedStatus :: "apierr \<Rightarrow> int" where
  "renderedStatus e = (if ae_status e \<le> 0 then 500 else ae_status e)"

definition IsServerError :: "goerr \<Rightarrow> bool" where
  "IsServerError err = (case as_api err of None \<Rightarrow> True | Some e \<Rightarrow> renderedStatus e \<ge> 500)"

text \<open>The wire response: HTTP status, code, message and fields.\<close>

definition Respond :: "goerr \<Rightarrow> int \<times> string \<times> string \<times> (string \<times> string) list" where
  "Respond err =
     (case as_api err of
        Some e \<Rightarrow>
          if ae_status e > 0 then (ae_status e, ae_code e, ae_msg e, ae_fields e)
          else (500, code_internal, ''An unexpected error occurred'', [])
      | None \<Rightarrow> (500, code_internal, ''An unexpected error occurred'', []))"

section \<open>The request validator\<close>

type_synonym validator = "(string \<times> string) list"

definition v_new :: validator where
  "v_new = []"

definition v_check :: "bool \<Rightarrow> string \<Rightarrow> string \<Rightarrow> validator \<Rightarrow> validator" where
  "v_check cond field msg v =
     (if cond then v
      else case map_of v field of None \<Rightarrow> alist_set field msg v | Some _ \<Rightarrow> v)"

definition v_has_errors :: "validator \<Rightarrow> bool" where
  "v_has_errors v \<longleftrightarrow> length v > 0"

text \<open>A run of checks in the code's order.\<close>

definition v_checks :: "(bool \<times> string \<times> string) list \<Rightarrow> validator" where
  "v_checks cs = foldl (\<lambda>v (cond, field, msg). v_check cond field msg v) v_new cs"

text \<open>\<^verbatim>\<open>if v.HasErrors() { return apierr.Validation("validation failed", v.Errors()) }\<close>\<close>

definition v_result :: "validator \<Rightarrow> apierr option" where
  "v_result v = (if v_has_errors v then Some (Validation ''validation failed'' v) else None)"

lemma alist_set_neq_Nil [simp]: "alist_set k v m \<noteq> []"
  by (cases "(k, v, m)" rule: alist_set.cases) auto

lemma foldl_v_check_map:
  "map_of (foldl (\<lambda>v (cond, field, msg). v_check cond field msg v) v0 cs) f =
     (case map_of v0 f of
        Some m \<Rightarrow> Some m
      | None \<Rightarrow> map_option (\<lambda>c. snd (snd c)) (List.find (\<lambda>c. \<not> fst c \<and> fst (snd c) = f) cs))"
proof (induction cs arbitrary: v0)
  case Nil
  then show ?case by (simp split: option.split)
next
  case (Cons c cs)
  obtain cond field msg where c: "c = (cond, field, msg)" by (cases c)
  show ?case
    unfolding foldl_Cons c prod.case Cons.IH
    by (auto simp: v_check_def split: option.splits)
qed

lemma foldl_v_check_Nil:
  "foldl (\<lambda>v (cond, field, msg). v_check cond field msg v) v0 cs = [] \<longleftrightarrow>
     v0 = [] \<and> (\<forall>(cond, field, msg) \<in> set cs. cond)"
proof (induction cs arbitrary: v0)
  case (Cons c cs)
  obtain cond field msg where c: "c = (cond, field, msg)" by (cases c)
  show ?case
    unfolding foldl_Cons c prod.case Cons.IH
    by (auto simp: v_check_def split: option.splits)
qed simp

lemma v_checks_Nil: "v_checks cs = [] \<longleftrightarrow> (\<forall>(cond, field, msg) \<in> set cs. cond)"
  by (simp add: v_checks_def v_new_def foldl_v_check_Nil)

lemma v_result_None: "v_result v = None \<longleftrightarrow> v = []"
  by (simp add: v_result_def v_has_errors_def)

lemma v_result_Some: "v_result v = Some e \<Longrightarrow> e = Validation ''validation failed'' v"
  by (auto simp: v_result_def split: if_splits)

lemma v_checks_None:
  "v_result (v_checks cs) = None \<longleftrightarrow> (\<forall>(cond, field, msg) \<in> set cs. cond)"
  by (simp add: v_result_None v_checks_Nil)

section \<open>The currency catalog\<close>

record currency_def =
  cur_code :: string
  cur_symbol :: string
  cur_name :: string
  cur_digits :: nat

definition cur :: "string \<Rightarrow> string \<Rightarrow> string \<Rightarrow> nat \<Rightarrow> currency_def" where
  "cur c s n d = \<lparr>cur_code = c, cur_symbol = s, cur_name = n, cur_digits = d\<rparr>"

abbreviation euro_sign :: string where "euro_sign \<equiv> [CHR 0xE2, CHR 0x82, CHR 0xAC]"
abbreviation pound_sign :: string where "pound_sign \<equiv> [CHR 0xC2, CHR 0xA3]"
abbreviation yen_sign :: string where "yen_sign \<equiv> [CHR 0xC2, CHR 0xA5]"

definition supportedCurrencies :: "currency_def list" where
  "supportedCurrencies =
     [cur ''USD'' ''$'' ''US Dollar'' 2,
      cur ''EUR'' euro_sign ''Euro'' 2,
      cur ''GBP'' pound_sign ''British Pound'' 2,
      cur ''JPY'' yen_sign ''Japanese Yen'' 0,
      cur ''CAD'' ''C$'' ''Canadian Dollar'' 2,
      cur ''AUD'' ''A$'' ''Australian Dollar'' 2,
      cur ''CHF'' ''CHF'' ''Swiss Franc'' 2,
      cur ''CNY'' yen_sign ''Chinese Yuan'' 2,
      cur ''SGD'' ''S$'' ''Singapore Dollar'' 2,
      cur ''HKD'' ''HK$'' ''Hong Kong Dollar'' 2]"

definition currency_get :: "string \<Rightarrow> currency_def option" where
  "currency_get code = find_first (\<lambda>d. cur_code d = code) supportedCurrencies"

definition currency_supported :: "string \<Rightarrow> bool" where
  "currency_supported code \<longleftrightarrow> currency_get code \<noteq> None"

text \<open>\<^verbatim>\<open>normalizeCurrencyCode\<close>, which the expense and finance services both define.\<close>

definition normalizeCurrencyCode :: "golib \<Rightarrow> string \<Rightarrow> string" where
  "normalizeCurrencyCode lib code = to_upper lib (trim_space code)"

lemma currency_get_code: "currency_get c = Some d \<Longrightarrow> cur_code d = c"
  by (auto simp: currency_get_def dest: find_first_Some)

lemma currency_get_digits: "currency_get c = Some d \<Longrightarrow> cur_digits d \<le> 2"
  unfolding currency_get_def by (drule find_first_Some) (auto simp: supportedCurrencies_def cur_def)

lemma currency_supported_codes:
  "currency_supported c \<longleftrightarrow> c \<in> set (map cur_code supportedCurrencies)"
  by (auto simp: currency_supported_def currency_get_def find_first_None)

section \<open>Exchange-rate sources\<close>

abbreviation src_identity :: string where "src_identity \<equiv> ''identity''"
abbreviation src_open_rates :: string where "src_open_rates \<equiv> ''open_exchange_rates''"
abbreviation src_migration :: string where "src_migration \<equiv> ''migration''"

definition exchangesource_IsValid :: "string \<Rightarrow> bool" where
  "exchangesource_IsValid s \<longleftrightarrow> s = src_identity \<or> s = src_open_rates \<or> s = src_migration"

end
