(* ===== verification/Sql_Tables.thy ===== *)
theory Sql_Tables
  imports Shared_Errors "HOL-Library.Multiset"
begin

text \<open>
  What the repositories of the expense and finance services use of a database: the order of a
  result, and the tables as lists of rows.
\<close>

section \<open>ORDER BY\<close>

text \<open>
  \<^verbatim>\<open>ORDER BY\<close>: rows equal under the order keep the order of the scan.  \<open>lex_le\<close> compares by
  two keys, ascending.
\<close>

definition lex_le :: "('a \<Rightarrow> string) \<Rightarrow> ('a \<Rightarrow> string) \<Rightarrow> 'a \<Rightarrow> 'a \<Rightarrow> bool" where
  "lex_le f g a b \<longleftrightarrow> f a < f b \<or> f a = f b \<and> g a \<le> g b"

fun insert_by :: "('a \<Rightarrow> 'a \<Rightarrow> bool) \<Rightarrow> 'a \<Rightarrow> 'a list \<Rightarrow> 'a list" where
  "insert_by le x [] = [x]"
| "insert_by le x (y # ys) = (if le x y then x # y # ys else y # insert_by le x ys)"

definition order_by :: "('a \<Rightarrow> 'a \<Rightarrow> bool) \<Rightarrow> 'a list \<Rightarrow> 'a list" where
  "order_by le xs = foldr (insert_by le) xs []"

lemma mset_insert_by [simp]: "mset (insert_by le x xs) = add_mset x (mset xs)"
  by (induction xs) auto

lemma mset_order_by [simp]: "mset (order_by le xs) = mset xs"
  unfolding order_by_def by (induction xs) auto

lemma set_order_by [simp]: "set (order_by le xs) = set xs"
  by (metis mset_order_by set_mset_mset)

lemma length_order_by [simp]: "length (order_by le xs) = length xs"
  by (metis mset_order_by size_mset)

lemma sorted_insert_by:
  assumes "\<And>a b. le a b \<or> le b a" "\<And>a b c. le a b \<Longrightarrow> le b c \<Longrightarrow> le a c" "sorted_wrt le xs"
  shows "sorted_wrt le (insert_by le x xs)"
  using assms(3)
proof (induction xs)
  case (Cons y ys)
  have set: "set (insert_by le x ys) = insert x (set ys)"
    by (metis mset_insert_by set_mset_add_mset_insert set_mset_mset)
  show ?case
    using Cons assms(1) [of x y] by (auto simp: set intro: assms(2))
qed simp

lemma sorted_order_by:
  assumes "\<And>a b. le a b \<or> le b a" "\<And>a b c. le a b \<Longrightarrow> le b c \<Longrightarrow> le a c"
  shows "sorted_wrt le (order_by le xs)"
proof (induction xs)
  case (Cons x xs)
  then show ?case
    using sorted_insert_by [of le "order_by le xs" x, OF assms] by (simp add: order_by_def)
qed (simp add: order_by_def)

lemma lex_le_total: "lex_le f g a b \<or> lex_le f g b a"
  by (auto simp: lex_le_def)

lemma lex_le_trans: "lex_le f g a b \<Longrightarrow> lex_le f g b c \<Longrightarrow> lex_le f g a c"
  unfolding lex_le_def by (elim disjE) auto

section \<open>Rows\<close>

text \<open>An \<^verbatim>\<open>UPDATE\<close> of the rows a condition selects, and the row it returns.\<close>

definition update_rows :: "('r \<Rightarrow> bool) \<Rightarrow> ('r \<Rightarrow> 'r) \<Rightarrow> 'r list \<Rightarrow> 'r list" where
  "update_rows p f rows = map (\<lambda>r. if p r then f r else r) rows"

lemma length_update_rows [simp]: "length (update_rows p f rows) = length rows"
  by (simp add: update_rows_def)

lemma set_update_rows: "set (update_rows p f rows) = {r \<in> set rows. \<not> p r} \<union> f ` {r \<in> set rows. p r}"
  by (auto simp: update_rows_def)

lemma map_update_rows: "(\<And>r. p r \<Longrightarrow> g (f r) = g r) \<Longrightarrow> map g (update_rows p f rows) = map g rows"
  by (auto simp: update_rows_def)

lemma filter_update_rows_other:
  "(\<And>r. p r \<Longrightarrow> \<not> q r \<and> \<not> q (f r)) \<Longrightarrow> filter q (update_rows p f rows) = filter q rows"
  by (induction rows) (auto simp: update_rows_def)

text \<open>An update that selects the one row with a key.\<close>

lemma update_unique:
  assumes "distinct (map key rows)" "find_first sel rows = Some p" "\<And>r. r \<in> set rows \<Longrightarrow> sel r \<Longrightarrow> key r = key p"
  shows "update_rows sel (\<lambda>_. row) rows = map (\<lambda>r. if r = p then row else r) rows"
proof -
  from assms(2) have p: "p \<in> set rows" "sel p" by (auto dest: find_first_Some)
  have "sel r \<longleftrightarrow> r = p" if "r \<in> set rows" for r
    using that p assms(1,3) by (auto simp: distinct_map dest: inj_onD)
  then show ?thesis by (simp add: update_rows_def)
qed

lemma map_update_unique:
  assumes "distinct (map key rows)" "find_first sel rows = Some p" "\<And>r. r \<in> set rows \<Longrightarrow> sel r \<Longrightarrow> key r = key p"
    and "g row = g p"
  shows "map g (update_rows sel (\<lambda>_. row) rows) = map g rows"
proof -
  have "update_rows sel (\<lambda>_. row) rows = map (\<lambda>r. if r = p then row else r) rows"
    by (rule update_unique [OF assms(1,2)]) (rule assms(3))
  with assms(4) show ?thesis by simp
qed

lemma set_update_unique:
  assumes "distinct (map key rows)" "find_first sel rows = Some p" "\<And>r. r \<in> set rows \<Longrightarrow> sel r \<Longrightarrow> key r = key p"
  shows "set (update_rows sel (\<lambda>_. row) rows) = insert row (set rows - {p})"
proof -
  have "p \<in> set rows" using assms(2) by (auto dest: find_first_Some)
  moreover have "update_rows sel (\<lambda>_. row) rows = map (\<lambda>r. if r = p then row else r) rows"
    by (rule update_unique [OF assms(1,2)]) (rule assms(3))
  ultimately show ?thesis by auto
qed

lemma distinct_map_filter_rows: "distinct (map f rows) \<Longrightarrow> distinct (map f (filter p rows))"
  by (rule distinct_map_filter)

end
