(* ===== verification/Expense_Ledger.thy ===== *)
theory Expense_Ledger
  imports Sql_Tables
begin

text \<open>
  The expense service's data model and its repository over the immudb ledger
  (\<^verbatim>\<open>services/expense/internal/model\<close>, \<^verbatim>\<open>services/expense/internal/repository\<close>).
  The table \<^verbatim>\<open>expenses\<close> is the list of its rows in insertion order.  A \<^verbatim>\<open>SELECT\<close> without
  \<^verbatim>\<open>ORDER BY\<close> visits the rows in an order the database chooses: the field \<open>db_scan\<close> of the
  state, any permutation (\<open>scan_ok\<close>).  The \<open>n\<close>-th statement has the outcome \<open>db_script n\<close>.
\<close>

section \<open>Data model\<close>

record expense =
  x_id :: string
  x_user :: string
  x_name :: string
  x_tcur :: string
  x_type :: string
  x_tag :: string
  x_date :: string
  x_year :: int
  x_month :: int
  x_status :: string
  x_corrects :: string
  x_prorata :: bool
  x_group :: string
  x_index :: int
  x_total :: int
  x_created :: string
  x_tamount :: int
  x_ramount :: int
  x_rcur :: string
  x_rate :: string
  x_rsource :: string
  x_rts :: string
  x_rexp :: string
  x_key :: string

abbreviation st_active :: string where "st_active \<equiv> ''active''"
abbreviation st_corrected :: string where "st_corrected \<equiv> ''corrected''"
abbreviation st_redacted :: string where "st_redacted \<equiv> ''redacted''"

definition ValidExpenseTypes :: "string \<Rightarrow> bool" where
  "ValidExpenseTypes t \<longleftrightarrow> t = ''essentials'' \<or> t = ''desires'' \<or> t = ''savings''"

record expense_cursor =
  ec_created :: string
  ec_id :: string

definition DefaultStreamPageSize :: int where
  "DefaultStreamPageSize = 100"

record suggestion_input =
  si_id :: string
  si_name :: string
  si_amount :: int
  si_currency :: string
  si_type :: string
  si_tag :: string
  si_created :: string
  si_date :: string
  si_prorata :: bool
  si_group :: string

record exp_state =
  ledger :: "expense list"
  db_scan :: "expense list \<Rightarrow> expense list"
  db_script :: "nat \<Rightarrow> outcome"
  db_calls :: nat
  ex_clock :: "nat \<Rightarrow> gtime"
  ex_ticks :: nat
  ex_uuids :: "nat \<Rightarrow> string"
  ex_uuid_next :: nat

type_synonym 'a exp_op = "(exp_state, goerr, 'a) op"

definition scan_ok :: "exp_state \<Rightarrow> bool" where
  "scan_ok st \<longleftrightarrow> (\<forall>rows. mset (db_scan st rows) = mset rows)"

section \<open>Statements\<close>

definition db_error :: goerr where
  "db_error = Opaque ''immudb''"

definition sql_query :: "(exp_state \<Rightarrow> 'a) \<Rightarrow> 'a exp_op" where
  "sql_query f st =
     (let st' = st\<lparr>db_calls := db_calls st + 1\<rparr>
      in case db_script st (db_calls st) of
           Acked \<Rightarrow> (Inr (f st), st')
         | _ \<Rightarrow> (Inl db_error, st'))"

text \<open>A page of a result; the database rejects a negative limit or offset.\<close>

definition sql_page :: "int \<Rightarrow> int \<Rightarrow> 'a list \<Rightarrow> 'a list option" where
  "sql_page limit offset rows =
     (if limit < 0 \<or> offset < 0 then None else Some (take (nat limit) (drop (nat offset) rows)))"

definition sql_query_page :: "(exp_state \<Rightarrow> 'a option) \<Rightarrow> 'a exp_op" where
  "sql_query_page f =
     bindR (sql_query f) (\<lambda>r. case r of None \<Rightarrow> failR db_error | Some x \<Rightarrow> retR x)"

text \<open>A statement that changes the table; \<open>None\<close> is a statement the table's schema rejects.\<close>

definition sql_exec :: "(expense list \<Rightarrow> expense list option) \<Rightarrow> unit exp_op" where
  "sql_exec f st =
     (let st' = st\<lparr>db_calls := db_calls st + 1\<rparr>
      in case (db_script st (db_calls st), f (ledger st)) of
           (Acked, Some L) \<Rightarrow> (Inr (), st'\<lparr>ledger := L\<rparr>)
         | (Lost, Some L) \<Rightarrow> (Inl db_error, st'\<lparr>ledger := L\<rparr>)
         | _ \<Rightarrow> (Inl db_error, st'))"

text \<open>The schema of \<^verbatim>\<open>InitSchema\<close>: column widths and the primary key.\<close>

definition row_fits :: "expense \<Rightarrow> bool" where
  "row_fits e \<longleftrightarrow>
     length (x_id e) \<le> 36 \<and> length (x_user e) \<le> 36 \<and> length (x_name e) \<le> 255 \<and> length (x_type e) \<le> 20
     \<and> length (x_tag e) \<le> 36 \<and> length (x_date e) \<le> 10 \<and> length (x_status e) \<le> 20
     \<and> length (x_corrects e) \<le> 36 \<and> length (x_group e) \<le> 36 \<and> length (x_created e) \<le> 30
     \<and> length (x_tcur e) \<le> 3 \<and> length (x_rcur e) \<le> 3 \<and> length (x_rate e) \<le> 40
     \<and> length (x_rsource e) \<le> 40 \<and> length (x_rts e) \<le> 30 \<and> length (x_rexp e) \<le> 30
     \<and> length (x_key e) \<le> 36"

definition insert_row :: "expense \<Rightarrow> expense list \<Rightarrow> expense list option" where
  "insert_row e L = (if row_fits e \<and> x_id e \<notin> x_id ` set L then Some (L @ [e]) else None)"

definition update_where :: "(expense \<Rightarrow> bool) \<Rightarrow> (expense \<Rightarrow> expense) \<Rightarrow> expense list \<Rightarrow> expense list option" where
  "update_where p f L = Some (map (\<lambda>r. if p r then f r else r) L)"

definition select_where :: "(expense \<Rightarrow> bool) \<Rightarrow> exp_state \<Rightarrow> expense list" where
  "select_where p st = filter p (db_scan st (ledger st))"

section \<open>Row mapping\<close>

definition missing_fields :: "expense \<Rightarrow> string list" where
  "missing_fields e =
     (if x_tamount e = 0 then [''transaction_amount''] else [])
     @ (if x_tcur e = [] then [''transaction_currency''] else [])
     @ (if x_ramount e = 0 then [''reporting_amount''] else [])
     @ (if x_rcur e = [] then [''reporting_currency''] else [])
     @ (if x_rate e = [] then [''exchange_rate''] else [])
     @ (if x_rsource e = [] then [''exchange_rate_source''] else [])
     @ (if x_rts e = [] then [''exchange_rate_timestamp''] else [])"

text \<open>
  \<^verbatim>\<open>rowToExpense\<close>.  The rows of the model are typed, so the check of the number of columns and
  the conversions of their values are not needed.
\<close>

definition rowToExpense :: "expense \<Rightarrow> goerr + expense" where
  "rowToExpense e =
     (if length (missing_fields e) > 0 then Inl (SnapshotIntegrity (x_id e) (missing_fields e)) else Inr e)"

fun map_rows :: "expense list \<Rightarrow> goerr + expense list" where
  "map_rows [] = Inr []"
| "map_rows (e # es) =
     (case rowToExpense e of
        Inl err \<Rightarrow> Inl (Wrapped ''mapping expense row'' err)
      | Inr x \<Rightarrow> (case map_rows es of Inl err \<Rightarrow> Inl err | Inr xs \<Rightarrow> Inr (x # xs)))"

definition first_row :: "expense list \<Rightarrow> goerr + expense option" where
  "first_row rows =
     (case rows of
        [] \<Rightarrow> Inr None
      | r # _ \<Rightarrow> (case rowToExpense r of Inl err \<Rightarrow> Inl (Wrapped ''mapping expense row'' err) | Inr x \<Rightarrow> Inr (Some x)))"

definition rowToExpenseSuggestionInput :: "expense \<Rightarrow> suggestion_input" where
  "rowToExpenseSuggestionInput e =
     \<lparr>si_id = x_id e, si_name = x_name e, si_amount = x_tamount e, si_currency = x_tcur e, si_type = x_type e,
      si_tag = x_tag e, si_created = x_created e, si_date = x_date e, si_prorata = x_prorata e,
      si_group = x_group e\<rparr>"

section \<open>The repository\<close>

definition repo_CreateExpense :: "expense \<Rightarrow> expense exp_op" where
  "repo_CreateExpense e =
     bindR (wrapR (Wrapped ''inserting expense'') (sql_exec (insert_row e))) (\<lambda>_. retR e)"

definition repo_GetActiveExpensesForPeriod ::
    "string \<Rightarrow> int \<Rightarrow> int \<Rightarrow> int \<Rightarrow> int \<Rightarrow> (expense list \<times> int) exp_op" where
  "repo_GetActiveExpensesForPeriod userID year month page pageSize =
     (let p = (\<lambda>e. x_user e = userID \<and> x_year e = year \<and> x_month e = month \<and> x_status e = st_active);
          offset = i32 (i32 (page - 1) * pageSize)
      in bindR (wrapR (Wrapped ''counting expenses'') (sql_query (\<lambda>st. int (length (select_where p st))))) (\<lambda>total.
         bindR (wrapR (Wrapped ''querying expenses'') (sql_query_page (\<lambda>st.
           sql_page pageSize offset (order_by (\<lambda>a b. lex_le x_date x_created b a) (select_where p st))))) (\<lambda>rows.
         bindR (liftR (map_rows rows)) (\<lambda>expenses.
         retR (expenses, total)))))"

definition repo_GetExpenseByID :: "string \<Rightarrow> string \<Rightarrow> expense option exp_op" where
  "repo_GetExpenseByID expenseID userID =
     bindR (wrapR (Wrapped ''querying expense by ID'')
       (sql_query (select_where (\<lambda>e. x_id e = expenseID \<and> x_user e = userID)))) (\<lambda>rows.
     liftR (first_row rows))"

definition repo_GetExpenseByIdempotencyKey :: "string \<Rightarrow> string \<Rightarrow> expense option exp_op" where
  "repo_GetExpenseByIdempotencyKey userID idempotencyKey =
     bindR (wrapR (Wrapped ''querying expense by idempotency key'')
       (sql_query (select_where (\<lambda>e. x_user e = userID \<and> x_key e = idempotencyKey)))) (\<lambda>rows.
     liftR (first_row rows))"

definition repo_DeactivateExpense :: "string \<Rightarrow> string \<Rightarrow> unit exp_op" where
  "repo_DeactivateExpense expenseID userID =
     wrapR (Wrapped ''deactivating expense'')
       (sql_exec (update_where (\<lambda>e. x_id e = expenseID \<and> x_user e = userID) (\<lambda>e. e\<lparr>x_status := st_corrected\<rparr>)))"

definition repo_CountExpensesByTag :: "string \<Rightarrow> string \<Rightarrow> int exp_op" where
  "repo_CountExpensesByTag userID tagID =
     wrapR (Wrapped ''counting expenses by tag'')
       (sql_query (\<lambda>st. int (length (select_where
          (\<lambda>e. x_user e = userID \<and> x_tag e = tagID \<and> x_status e = st_active) st))))"

definition repo_GetExpensesInProRataGroup :: "string \<Rightarrow> string \<Rightarrow> expense list exp_op" where
  "repo_GetExpensesInProRataGroup groupID userID =
     bindR (wrapR (Wrapped ''querying pro-rata group'')
       (sql_query (\<lambda>st. order_by (\<lambda>a b. x_index a \<le> x_index b)
          (select_where (\<lambda>e. x_group e = groupID \<and> x_user e = userID) st)))) (\<lambda>rows.
     liftR (map_rows rows))"

definition redact :: "expense \<Rightarrow> expense" where
  "redact e = e\<lparr>x_user := ''DELETED'', x_name := ''REDACTED'', x_type := [], x_tag := [], x_date := [],
     x_status := st_redacted, x_tamount := 0, x_tcur := [], x_ramount := 0, x_rcur := [], x_rate := [],
     x_rsource := [], x_rts := [], x_rexp := []\<rparr>"

definition repo_AnonymizeAllUserExpenses :: "string \<Rightarrow> unit exp_op" where
  "repo_AnonymizeAllUserExpenses userID =
     wrapR (Wrapped ''anonymizing user expenses'') (sql_exec (update_where (\<lambda>e. x_user e = userID) redact))"

definition repo_CorrectExpense :: "expense \<Rightarrow> expense \<Rightarrow> expense exp_op" where
  "repo_CorrectExpense original correction =
     bindR (wrapR (Wrapped ''marking original expense as corrected'')
       (sql_exec (update_where (\<lambda>e. x_id e = x_id original) (\<lambda>e. e\<lparr>x_status := st_corrected\<rparr>)))) (\<lambda>_.
     wrapR (Wrapped ''inserting correction entry'') (repo_CreateExpense correction))"

definition repo_GetActiveExpenseSuggestionInputs :: "string \<Rightarrow> suggestion_input list exp_op" where
  "repo_GetActiveExpenseSuggestionInputs userID =
     bindR (wrapR (Wrapped ''querying active expense suggestion inputs'')
       (sql_query (\<lambda>st. take 1000 (order_by (\<lambda>a b. lex_le x_created x_id b a)
          (select_where (\<lambda>e. x_user e = userID \<and> x_status e = st_active) st))))) (\<lambda>rows.
     retR (map rowToExpenseSuggestionInput rows))"

text \<open>One keyset page after a cursor; an empty \<^verbatim>\<open>CreatedAt\<close> starts from the beginning.\<close>

definition after_cursor :: "expense_cursor \<Rightarrow> expense \<Rightarrow> bool" where
  "after_cursor c e \<longleftrightarrow>
     ec_created c = [] \<or> x_created e > ec_created c \<or> (x_created e = ec_created c \<and> x_id e > ec_id c)"

definition repo_GetExpensesByUserAfter ::
    "string \<Rightarrow> expense_cursor \<Rightarrow> int \<Rightarrow> (expense list \<times> expense_cursor \<times> bool) exp_op" where
  "repo_GetExpensesByUserAfter userID cursor pageSize0 =
     (let pageSize = (if pageSize0 < 1 then DefaultStreamPageSize else pageSize0)
      in bindR (wrapR (Wrapped ''querying user expenses after cursor'')
           (sql_query_page (\<lambda>st. sql_page (i32 (pageSize + 1)) 0
              (order_by (lex_le x_created x_id)
                (select_where (\<lambda>e. x_user e = userID \<and> after_cursor cursor e) st))))) (\<lambda>rows.
         bindR (liftR (map_rows rows)) (\<lambda>rows.
         let hasMore = int (length rows) > pageSize;
             rows' = (if hasMore then take (nat pageSize) rows else rows);
             next_c = (if rows' \<noteq> [] then \<lparr>ec_created = x_created (last rows'), ec_id = x_id (last rows')\<rparr> else cursor)
         in retR (rows', next_c, hasMore))))"

section \<open>Statements and scans\<close>

lemma scan_set: "scan_ok st \<Longrightarrow> set (db_scan st rows) = set rows"
  by (metis scan_ok_def set_mset_mset)

lemma set_select_where [simp]: "scan_ok st \<Longrightarrow> set (select_where p st) = {r \<in> set (ledger st). p r}"
  by (auto simp: select_where_def scan_set)

lemma length_select_where: "scan_ok st \<Longrightarrow> length (select_where p st) = length (filter p (ledger st))"
  by (metis mset_filter scan_ok_def select_where_def size_mset)

lemma mset_select_where: "scan_ok st \<Longrightarrow> mset (select_where p st) = filter_mset p (mset (ledger st))"
  by (simp add: select_where_def scan_ok_def)

section \<open>What the statements leave unchanged\<close>

definition same_env :: "exp_state \<Rightarrow> exp_state \<Rightarrow> bool" where
  "same_env st st' \<longleftrightarrow>
     db_scan st' = db_scan st \<and> db_script st' = db_script st \<and> ex_clock st' = ex_clock st
     \<and> ex_uuids st' = ex_uuids st \<and> ex_uuid_next st \<le> ex_uuid_next st'"

definition quiet :: "exp_state \<Rightarrow> exp_state \<Rightarrow> bool" where
  "quiet st st' \<longleftrightarrow> same_env st st' \<and> ledger st' = ledger st"

lemma same_env_refl [simp, intro]: "same_env st st"
  by (simp add: same_env_def)

lemma quiet_refl [simp, intro]: "quiet st st"
  by (simp add: quiet_def)

lemma reflp_quiet [simp, intro]: "reflp quiet"
  by (simp add: reflp_def)

lemma transp_quiet [simp, intro]: "transp quiet"
  by (auto simp: transp_def quiet_def same_env_def)

lemma quiet_trans: "quiet a b \<Longrightarrow> quiet b c \<Longrightarrow> quiet a c"
  by (auto simp: quiet_def same_env_def)

lemma same_env_trans: "same_env a b \<Longrightarrow> same_env b c \<Longrightarrow> same_env a c"
  by (auto simp: same_env_def)

lemma quiet_scan_ok: "quiet st st' \<Longrightarrow> scan_ok st' = scan_ok st"
  by (simp add: quiet_def same_env_def scan_ok_def)

lemma keeps_quiet_sql_query [frame, intro]: "keeps quiet (sql_query f)"
  by (auto simp: keeps_def sql_query_def quiet_def same_env_def Let_def split: outcome.split)

lemma sql_query_Inr: "sql_query f st = (Inr x, st') \<Longrightarrow> x = f st"
  by (auto simp: sql_query_def Let_def split: outcome.splits)

lemma sql_query_Acked: "db_script st (db_calls st) = Acked \<Longrightarrow> sql_query f st = (Inr (f st), st\<lparr>db_calls := db_calls st + 1\<rparr>)"
  by (simp add: sql_query_def)

lemma keeps_quiet_sql_query_page [frame, intro]: "keeps quiet (sql_query_page f)"
  unfolding sql_query_page_def by (intro keeps_bindR transp_quiet) (auto split: option.split)

lemma sql_exec_cases:
  assumes "sql_exec f st = (r, st')"
  obtains (applied) L where "f (ledger st) = Some L" "ledger st' = L" "same_env st st'" "r = Inr () \<or> r = Inl db_error"
  | (not_applied) "quiet st st'" "r = Inl db_error"
  using assms by (auto simp: sql_exec_def Let_def same_env_def quiet_def split: outcome.splits option.splits)

lemma sql_exec_Inr:
  "sql_exec f st = (Inr u, st') \<Longrightarrow> f (ledger st) = Some (ledger st') \<and> same_env st st'"
  by (auto simp: sql_exec_def Let_def same_env_def split: outcome.splits option.splits)

lemma rowToExpense_Inr: "rowToExpense e = Inr x \<longleftrightarrow> x = e \<and> missing_fields e = []"
  by (auto simp: rowToExpense_def)

lemma map_rows_Inr: "map_rows es = Inr xs \<longleftrightarrow> xs = es \<and> (\<forall>e\<in>set es. missing_fields e = [])"
  by (induction es arbitrary: xs) (auto simp: rowToExpense_def split: sum.splits)

lemma first_row_Inr:
  "first_row rows = Inr r \<longleftrightarrow>
     (case rows of [] \<Rightarrow> r = None | e # _ \<Rightarrow> r = Some e \<and> missing_fields e = [])"
  by (auto simp: first_row_def rowToExpense_def split: list.split)

lemma repo_reads_quiet [frame, intro]:
  "keeps quiet (repo_GetActiveExpensesForPeriod u y m pg ps)"
  "keeps quiet (repo_GetExpenseByID i u)"
  "keeps quiet (repo_GetExpenseByIdempotencyKey u k)"
  "keeps quiet (repo_CountExpensesByTag u t)"
  "keeps quiet (repo_GetExpensesInProRataGroup g u)"
  "keeps quiet (repo_GetActiveExpenseSuggestionInputs u)"
  "keeps quiet (repo_GetExpensesByUserAfter u c ps)"
  unfolding repo_GetActiveExpensesForPeriod_def repo_GetExpenseByID_def repo_GetExpenseByIdempotencyKey_def
    repo_CountExpensesByTag_def repo_GetExpensesInProRataGroup_def repo_GetActiveExpenseSuggestionInputs_def
    repo_GetExpensesByUserAfter_def Let_def
  by (intro keeps_bindR keeps_wrapR keeps_quiet_sql_query keeps_quiet_sql_query_page keeps_basic
      transp_quiet reflp_quiet)+

lemma repo_GetExpenseByID_Inr:
  assumes "repo_GetExpenseByID i u st = (Inr r, st')" "scan_ok st"
  shows "case r of
      None \<Rightarrow> \<forall>e\<in>set (ledger st). \<not> (x_id e = i \<and> x_user e = u)
    | Some e \<Rightarrow> e \<in> set (ledger st) \<and> x_id e = i \<and> x_user e = u \<and> missing_fields e = []"
proof -
  from assms(1) obtain rows where rows: "rows = select_where (\<lambda>e. x_id e = i \<and> x_user e = u) st"
    and r: "first_row rows = Inr r"
    by (auto simp: repo_GetExpenseByID_def op_iffs dest: sql_query_Inr)
  from rows assms(2) have "set rows = {e \<in> set (ledger st). x_id e = i \<and> x_user e = u}" by simp
  with r show ?thesis by (auto simp: first_row_Inr split: list.splits)
qed

lemma repo_GetExpenseByIdempotencyKey_Inr:
  assumes "repo_GetExpenseByIdempotencyKey u k st = (Inr r, st')" "scan_ok st"
  shows "case r of
      None \<Rightarrow> \<forall>e\<in>set (ledger st). \<not> (x_user e = u \<and> x_key e = k)
    | Some e \<Rightarrow> e \<in> set (ledger st) \<and> x_user e = u \<and> x_key e = k \<and> missing_fields e = []"
proof -
  from assms(1) obtain rows where rows: "rows = select_where (\<lambda>e. x_user e = u \<and> x_key e = k) st"
    and r: "first_row rows = Inr r"
    by (auto simp: repo_GetExpenseByIdempotencyKey_def op_iffs dest: sql_query_Inr)
  from rows assms(2) have "set rows = {e \<in> set (ledger st). x_user e = u \<and> x_key e = k}" by simp
  with r show ?thesis by (auto simp: first_row_Inr split: list.splits)
qed

lemma repo_CreateExpense_cases:
  assumes "repo_CreateExpense e st = (r, st')"
  obtains (applied) "insert_row e (ledger st) = Some (ledger st')" "same_env st st'" "r = Inr e \<or> (\<exists>x. r = Inl x)"
  | (not_applied) x where "quiet st st'" "r = Inl x"
proof -
  obtain r1 st1 where ex: "sql_exec (insert_row e) st = (r1, st1)" by (metis surj_pair)
  with assms have st1: "st1 = st'" and r: "r = (case r1 of Inl x \<Rightarrow> Inl (Wrapped ''inserting expense'' x) | Inr _ \<Rightarrow> Inr e)"
    by (auto simp: repo_CreateExpense_def bindR_def wrapR_def split: sum.splits)
  from ex show thesis
    by (cases rule: sql_exec_cases) (use st1 r in \<open>auto intro: applied not_applied\<close>)
qed

end
