(* ===== verification/Fx_Decimal.thy ===== *)
theory Fx_Decimal
  imports Shared_Errors
begin

text \<open>
  Exact decimal arithmetic of the FX service (\<^verbatim>\<open>services/fx/internal/service/decimal.go\<close>).
  A \<^verbatim>\<open>big.Rat\<close> is a \<open>rat\<close>; its numerator and denominator are \<open>quotient_of\<close>, which is
  in lowest terms with a positive denominator as Go keeps it.
\<close>

section \<open>Parsing\<close>

definition split_sign :: "string \<Rightarrow> int \<times> string" where
  "split_sign s =
     (case s of
        [] \<Rightarrow> (1, [])
      | c # r \<Rightarrow> if c = CHR ''-'' then (- 1, r) else if c = CHR ''+'' then (1, r) else (1, c # r))"

definition parse_exp :: "string \<Rightarrow> int option" where
  "parse_exp s =
     (case s of
        [] \<Rightarrow> Some 0
      | c # r \<Rightarrow>
          if c = CHR ''e'' \<or> c = CHR ''E''
          then (let (sg, ds) = split_sign r
                in if ds \<noteq> [] \<and> list_all is_digit ds then Some (sg * digits_val ds) else None)
          else None)"

definition pow10 :: "int \<Rightarrow> rat" where
  "pow10 e = (if e \<ge> 0 then 10 ^ nat e else 1 / 10 ^ nat (- e))"

text \<open>
  A decimal literal with an optional sign, fraction and exponent; Go's \<^verbatim>\<open>SetString\<close>
  limits the exponent.
\<close>

definition parse_decimal :: "string \<Rightarrow> rat option" where
  "parse_decimal s =
     (let (sg, r) = split_sign s;
          ip = takeWhile is_digit r;
          r1 = dropWhile is_digit r;
          (fp, r2) = (case r1 of
                        [] \<Rightarrow> ([], [])
                      | c # r' \<Rightarrow> if c = CHR ''.'' then (takeWhile is_digit r', dropWhile is_digit r') else ([], r1))
      in if ip = [] \<and> fp = [] then None
         else case parse_exp r2 of
                None \<Rightarrow> None
              | Some e \<Rightarrow>
                  if \<bar>e\<bar> > 1000000 then None
                  else Some (of_int (sg * digits_val (ip @ fp)) * pow10 (e - int (length fp))))"

text \<open>
  \<^verbatim>\<open>Rat.SetString\<close>: the other forms it accepts (fractions, prefixed bases,
  underscores) are left to the library.
\<close>

definition rat_set_string :: "golib \<Rightarrow> string \<Rightarrow> rat option" where
  "rat_set_string lib s =
     (if s = [] then None
      else case parse_decimal s of Some r \<Rightarrow> Some r | None \<Rightarrow> rat_slow lib s)"

definition parsePositiveRat :: "golib \<Rightarrow> string \<Rightarrow> string + rat" where
  "parsePositiveRat lib value =
     (case rat_set_string lib value of
        None \<Rightarrow> Inl (''invalid decimal '' @ go_quote lib value)
      | Some r \<Rightarrow> if r \<le> 0 then Inl ''decimal must be positive'' else Inr r)"

lemma parsePositiveRat_pos: "parsePositiveRat lib v = Inr r \<Longrightarrow> 0 < r"
  by (auto simp: parsePositiveRat_def split: option.splits if_splits)

section \<open>Printing\<close>

text \<open>\<^verbatim>\<open>FloatString(prec)\<close>, for a positive precision.\<close>

definition float_string :: "nat \<Rightarrow> rat \<Rightarrow> string" where
  "float_string prec x =
     (let (n, d) = quotient_of x in
      if d = 1 then show_int n @ ''.'' @ replicate prec (digit_char 0)
      else let p = 10 ^ prec;
               q = \<bar>n\<bar> div d;
               r = (\<bar>n\<bar> mod d * p) div d;
               r2 = (\<bar>n\<bar> mod d * p) mod d;
               up = d \<le> r2 + r2;
               carry = up \<and> r + 1 \<ge> p;
               q' = (if carry then q + 1 else q);
               r' = (if carry then r + 1 - p else if up then r + 1 else r)
           in (if n < 0 then ''-'' else []) @ dec_digits q' @ ''.'' @ pad_zeros prec (dec_digits r'))"

definition trim_right :: "char \<Rightarrow> string \<Rightarrow> string" where
  "trim_right c s = rev (dropWhile (\<lambda>x. x = c) (rev s))"

definition decimalString :: "rat \<Rightarrow> string" where
  "decimalString value =
     (let out = trim_right (CHR ''.'') (trim_right (CHR ''0'') (float_string 18 value))
      in if out = [] \<or> out = ''-'' then ''0'' else out)"

section \<open>Minor and major units\<close>

definition scaleFactor :: "nat \<Rightarrow> int" where
  "scaleFactor digits = ((\<lambda>f. f * 10) ^^ digits) 1"

definition minorToMajor :: "int \<Rightarrow> nat \<Rightarrow> rat" where
  "minorToMajor amount digits = of_int amount / of_int (scaleFactor digits)"

definition roundHalfAwayFromZero :: "rat \<Rightarrow> int" where
  "roundHalfAwayFromZero value =
     (let (n, d) = quotient_of value;
          q = go_quo n d;
          r = go_rem n d;
          r' = (if r < 0 then \<bar>r\<bar> else r);
          q' = (if r' * 2 \<ge> d then (if value \<ge> 0 then q + 1 else q - 1) else q)
      in if \<not> is_i64 q'
         then (if q' \<ge> 0 then 9223372036854775807 else - 9223372036854775808)
         else q')"

definition majorToRoundedMinor :: "rat \<Rightarrow> nat \<Rightarrow> int" where
  "majorToRoundedMinor amount digits = roundHalfAwayFromZero (amount * of_int (scaleFactor digits))"

lemma scaleFactor_eq [simp]: "scaleFactor digits = 10 ^ digits"
  by (induction digits) (simp_all add: scaleFactor_def)

text \<open>
  The specification of the rounding: the nearest integer, a tie going away from zero, then
  clamped to the range of \<^verbatim>\<open>int64\<close>.
\<close>

definition round_away :: "rat \<Rightarrow> int" where
  "round_away v = (if v \<ge> 0 then \<lfloor>v + 1 / 2\<rfloor> else \<lceil>v - 1 / 2\<rceil>)"

lemma floor_half_quotient:
  fixes n d :: int
  assumes "0 < d"
  shows "\<lfloor>(of_int n / of_int d :: rat) + 1 / 2\<rfloor> = (if 2 * (n mod d) \<ge> d then n div d + 1 else n div d)"
proof -
  have split: "(of_int n :: rat) = of_int d * of_int (n div d) + of_int (n mod d)"
    by (metis mult_div_mod_eq of_int_add of_int_mult)
  have frac: "(of_int n / of_int d :: rat) = of_int (n div d) + of_int (n mod d) / of_int d"
    using assms by (subst split) (simp add: add_divide_distrib)
  have bounds: "0 \<le> n mod d" "n mod d < d" using assms by simp_all
  obtain f :: rat where f: "f = of_int (n mod d) / of_int d" by simp
  have f0: "0 \<le> f" "f < 1"
    using assms bounds by (simp_all add: f)
  have "(of_int d :: rat) \<le> of_int (2 * (n mod d)) \<longleftrightarrow> d \<le> 2 * (n mod d)"
    by (rule of_int_le_iff)
  then have half: "d \<le> 2 * (n mod d) \<longleftrightarrow> 1 \<le> 2 * f"
    using assms by (simp add: f pos_le_divide_eq)
  show ?thesis
    unfolding frac f [symmetric] using f0 half by (auto simp: floor_eq_iff)
qed

lemma round_away_quotient:
  assumes "quotient_of v = (n, d)"
  shows "round_away v =
    (if 2 * \<bar>go_rem n d\<bar> \<ge> d then (if v \<ge> 0 then go_quo n d + 1 else go_quo n d - 1) else go_quo n d)"
proof -
  have d: "0 < d" using assms by (rule quotient_of_denom_pos)
  have v: "v = of_int n / of_int d" using assms by (rule quotient_of_div)
  show ?thesis
  proof (cases "v \<ge> 0")
    case True
    then have n: "0 \<le> n" using d v by (simp add: zero_le_divide_iff)
    then show ?thesis
      using True d unfolding round_away_def v
      by (simp only: floor_half_quotient [OF d] go_quo_nonneg go_rem_nonneg if_True) simp
  next
    case False
    then have n: "n < 0" using d v by (simp add: zero_le_divide_iff not_le)
    have "round_away v = - \<lfloor>(of_int (- n) / of_int d :: rat) + 1 / 2\<rfloor>"
      using False unfolding round_away_def v by (simp add: ceiling_def)
    moreover have "go_quo n d = - ((- n) div d)" "\<bar>go_rem n d\<bar> = (- n) mod d"
      using n d by (simp_all add: go_quo_def go_rem_sgn abs_mult)
    ultimately show ?thesis
      using False by (simp add: floor_half_quotient [OF d] del: of_int_minus)
  qed
qed

lemma roundHalfAwayFromZero_eq: "roundHalfAwayFromZero v = saturate64 (round_away v)"
proof -
  obtain n d where q: "quotient_of v = (n, d)" by (metis surj_pair)
  have abs: "(if r < 0 then \<bar>r\<bar> else r) = \<bar>r\<bar>" for r :: int by simp
  show ?thesis
    unfolding roundHalfAwayFromZero_def Let_def q prod.case abs
    by (simp add: round_away_quotient [OF q] mult.commute saturate64_def is_i64_def)
qed

end
