(* ===== verification/Fx_Provider.thy ===== *)
theory Fx_Provider
  imports Fx_Decimal
begin

text \<open>
  The FX service's data model, its rate cache and its two rate providers
  (\<^verbatim>\<open>services/fx/internal/\<close>\<^verbatim>\<open>model\<close>, \<^verbatim>\<open>cache\<close>,
  \<^verbatim>\<open>provider\<close>).  A Go map of rates is an association list with distinct keys.
  The state holds the cache, the clock (the \<open>n\<close>-th reading of the time is \<open>fx_clock n\<close>) and the
  wire (the \<open>n\<close>-th request to the rate service is answered by \<open>fx_wire n\<close>).
\<close>

section \<open>Data model\<close>

datatype fx_code =
  ErrorUnsupportedCurrency | ErrorInvalidAmount | ErrorConversionUnavailable
  | ErrorProviderAuthFailed | ErrorProviderResponseInvalid | ErrorRateMissing
  | ErrorSnapshotIntegrityFailure

fun fx_code_string :: "fx_code \<Rightarrow> string" where
  "fx_code_string ErrorUnsupportedCurrency = ''UNSUPPORTED_CURRENCY''"
| "fx_code_string ErrorInvalidAmount = ''INVALID_AMOUNT''"
| "fx_code_string ErrorConversionUnavailable = ''CONVERSION_UNAVAILABLE''"
| "fx_code_string ErrorProviderAuthFailed = ''PROVIDER_AUTH_FAILED''"
| "fx_code_string ErrorProviderResponseInvalid = ''PROVIDER_RESPONSE_INVALID''"
| "fx_code_string ErrorRateMissing = ''RATE_MISSING''"
| "fx_code_string ErrorSnapshotIntegrityFailure = ''SNAPSHOT_INTEGRITY_FAILURE''"

text \<open>\<^verbatim>\<open>*model.Error\<close> with the text of its cause; a provider may also fail with another error.\<close>

record fxerr =
  fe_code :: fx_code
  fe_field :: string
  fe_cause :: string

datatype prov_err = ModelErr fxerr | OtherErr string

definition NewError :: "fx_code \<Rightarrow> string \<Rightarrow> string \<Rightarrow> fxerr" where
  "NewError c fld e = \<lparr>fe_code = c, fe_field = fld, fe_cause = e\<rparr>"

type_synonym rates = "(string \<times> string) list"

record provider_snapshot =
  ps_source :: string
  ps_base :: string
  ps_rate_ts :: string
  ps_captured :: string
  ps_expires :: string
  ps_rates :: rates

abbreviation base_usd :: string where "base_usd \<equiv> ''USD''"

datatype json_raw = JNumber string | JString string | JNull | JOther

text \<open>
  What a request to the rate service yields: a transport error, or a status with a body.  The
  body cannot be read to its end, or is not JSON of the expected shape, or is a payload.
\<close>

datatype json_doc = Malformed string | Payload int string "(string \<times> json_raw) list"

datatype http_body = BodyUnreadable string | BodyRead json_doc

datatype http_reply = NetError string | HttpResp int http_body

record fx_state =
  fx_cache :: "provider_snapshot option"
  fx_clock :: "nat \<Rightarrow> gtime"
  fx_ticks :: nat
  fx_wire :: "nat \<Rightarrow> http_reply"
  fx_sent :: nat

definition fx_now :: "(fx_state, 'e, gtime) op" where
  "fx_now st = (Inr (fx_clock st (fx_ticks st)), st\<lparr>fx_ticks := fx_ticks st + 1\<rparr>)"

section \<open>The cache\<close>

text \<open>\<^verbatim>\<open>GetFresh\<close> and \<^verbatim>\<open>Store\<close>; copies are equal values.\<close>

definition GetFresh :: "golib \<Rightarrow> int \<Rightarrow> gtime \<Rightarrow> provider_snapshot option \<Rightarrow> provider_snapshot option" where
  "GetFresh lib maxAge now c =
     (case c of
        None \<Rightarrow> None
      | Some snap \<Rightarrow>
          (case parse_rfc3339 lib (ps_captured snap) of
             None \<Rightarrow> None
           | Some capturedAt \<Rightarrow> if t_sub now capturedAt \<ge> maxAge then None else Some snap))"

definition cache_Store :: "provider_snapshot \<Rightarrow> (fx_state, 'e, provider_snapshot) op" where
  "cache_Store snap st = (Inr snap, st\<lparr>fx_cache := Some snap\<rparr>)"

section \<open>The Open Exchange Rates provider\<close>

text \<open>\<^verbatim>\<open>json.Number\<close>: the grammar of a JSON number.\<close>

definition drop_digits :: "string \<Rightarrow> string" where
  "drop_digits s = dropWhile is_digit s"

definition is_json_number :: "string \<Rightarrow> bool" where
  "is_json_number s =
     (let s1 = (case s of c # r \<Rightarrow> if c = CHR ''-'' then r else s | [] \<Rightarrow> [])
      in case s1 of
           [] \<Rightarrow> False
         | c # r \<Rightarrow>
             is_digit c \<and>
             (let s2 = (if c = CHR ''0'' then r else drop_digits r);
                  s3 = (case s2 of
                          d # x # r' \<Rightarrow> if d = CHR ''.'' \<and> is_digit x then drop_digits r' else s2
                        | _ \<Rightarrow> s2);
                  s4 = (case s3 of
                          e # x # r' \<Rightarrow>
                            if e = CHR ''e'' \<or> e = CHR ''E''
                            then (if x = CHR ''+'' \<or> x = CHR ''-''
                                  then (case r' of y # r'' \<Rightarrow> if is_digit y then drop_digits r'' else s3 | [] \<Rightarrow> s3)
                                  else if is_digit x then drop_digits r' else s3)
                            else s3
                        | _ \<Rightarrow> s3)
              in s4 = []))"

definition raw_number :: "json_raw \<Rightarrow> string + string" where
  "raw_number raw =
     (case raw of
        JNumber n \<Rightarrow> if is_json_number n then Inr n else Inl ''json: invalid number literal''
      | JString n \<Rightarrow> if is_json_number n then Inr n else Inl ''json: invalid number literal''
      | JNull \<Rightarrow> Inr []
      | JOther \<Rightarrow> Inl ''json: cannot unmarshal into json.Number'')"

definition rateToString :: "golib \<Rightarrow> json_raw \<Rightarrow> string + string" where
  "rateToString lib raw =
     (case raw_number raw of
        Inl e \<Rightarrow> Inl e
      | Inr n \<Rightarrow>
          (case rat_set_string lib n of
             None \<Rightarrow> Inl ''rate must be positive''
           | Some r \<Rightarrow> if r \<le> 0 then Inl ''rate must be positive'' else Inr n))"

fun decode_rates :: "golib \<Rightarrow> (string \<times> json_raw) list \<Rightarrow> rates \<Rightarrow> fxerr + rates" where
  "decode_rates lib [] rates = Inr rates"
| "decode_rates lib ((code, raw) # rest) rates =
     (case rateToString lib raw of
        Inl e \<Rightarrow> Inl (NewError ErrorProviderResponseInvalid [] (''invalid rate for '' @ code @ '': '' @ e))
      | Inr rate \<Rightarrow> decode_rates lib rest (alist_set code rate rates))"

definition unix_time :: "int \<Rightarrow> gtime" where
  "unix_time s = \<lparr>t_unix = s, t_nsec = 0, t_off = 0\<rparr>"

definition decodeProviderResponse ::
    "golib \<Rightarrow> json_doc \<Rightarrow> gtime \<Rightarrow> gtime \<Rightarrow> fxerr + provider_snapshot" where
  "decodeProviderResponse lib body capturedAt expiresAt =
     (case body of
        Malformed e \<Rightarrow> Inl (NewError ErrorProviderResponseInvalid [] e)
      | Payload ts base rs \<Rightarrow>
          if ts \<le> 0 \<or> base \<noteq> base_usd \<or> length rs = 0
          then Inl (NewError ErrorProviderResponseInvalid [] ''provider response missing required fields'')
          else case decode_rates lib rs [(base_usd, ''1'')] of
                 Inl e \<Rightarrow> Inl e
               | Inr rates \<Rightarrow>
                   Inr \<lparr>ps_source = src_open_rates, ps_base = base,
                        ps_rate_ts = fmt_rfc3339 (unix_time ts),
                        ps_captured = fmt_rfc3339 (t_utc capturedAt),
                        ps_expires = fmt_rfc3339 (t_utc expiresAt),
                        ps_rates = rates\<rparr>)"

text \<open>
  One request.  The base URL of the configuration is taken to be well formed, so the first two
  error branches of the code (which concern the URL alone) do not arise.
\<close>

definition fx_send :: "fx_state \<Rightarrow> http_reply \<times> fx_state" where
  "fx_send st = (fx_wire st (fx_sent st), st\<lparr>fx_sent := fx_sent st + 1\<rparr>)"

definition fetchOnce :: "golib \<Rightarrow> gtime \<Rightarrow> (fx_state, prov_err, provider_snapshot) op" where
  "fetchOnce lib expiresAt st =
     (let (reply, st1) = fx_send st in
      case reply of
        NetError e \<Rightarrow> (Inl (ModelErr (NewError ErrorConversionUnavailable [] e)), st1)
      | HttpResp status body \<Rightarrow>
          if status = 401 \<or> status = 403
          then (Inl (ModelErr (NewError ErrorProviderAuthFailed [] (''provider returned '' @ show_int status))), st1)
          else if status \<ge> 500
          then (Inl (ModelErr (NewError ErrorConversionUnavailable [] (''provider returned '' @ show_int status))), st1)
          else if status \<noteq> 200
          then (Inl (ModelErr (NewError ErrorProviderResponseInvalid [] (''provider returned '' @ show_int status))), st1)
          else (case body of
                  BodyUnreadable e \<Rightarrow> (Inl (ModelErr (NewError ErrorProviderResponseInvalid [] e)), st1)
                | BodyRead doc \<Rightarrow>
                    bindR fx_now (\<lambda>now st2.
                      case decodeProviderResponse lib doc now expiresAt of
                        Inl e \<Rightarrow> (Inl (ModelErr e), st2)
                      | Inr snap \<Rightarrow> (Inr snap, st2)) st1))"

text \<open>
  The retry loop, with \<open>left\<close> attempts to go and the error of the last one.  The delay between
  attempts and the report of a final failure do not touch the state.
\<close>

definition retryable :: "prov_err \<Rightarrow> bool" where
  "retryable e =
     (case e of ModelErr fe \<Rightarrow> fe_code fe = ErrorConversionUnavailable | OtherErr _ \<Rightarrow> True)"

fun fetch_loop ::
    "golib \<Rightarrow> gtime \<Rightarrow> nat \<Rightarrow> prov_err \<Rightarrow> (fx_state, prov_err, provider_snapshot) op" where
  "fetch_loop lib expiresAt 0 lastErr st = (Inl lastErr, st)"
| "fetch_loop lib expiresAt (Suc left) lastErr st =
     (case fetchOnce lib expiresAt st of
        (Inr snap, st1) \<Rightarrow> (Inr snap, st1)
      | (Inl e, st1) \<Rightarrow> if \<not> retryable e then (Inl e, st1) else fetch_loop lib expiresAt left e st1)"

text \<open>The configuration guarantees a retry count of at least zero, so there is a first attempt.\<close>

definition FetchLatest :: "golib \<Rightarrow> nat \<Rightarrow> gtime \<Rightarrow> (fx_state, prov_err, provider_snapshot) op" where
  "FetchLatest lib retryCount expiresAt = fetch_loop lib expiresAt (retryCount + 1) (OtherErr [])"

section \<open>The static provider\<close>

definition static_rates :: rates where
  "static_rates = foldl (\<lambda>m d. alist_set (cur_code d) ''1'' m) [(base_usd, ''1'')] supportedCurrencies"

definition StaticProvider_FetchLatest :: "gtime \<Rightarrow> (fx_state, prov_err, provider_snapshot) op" where
  "StaticProvider_FetchLatest expiresAt =
     bindR fx_now (\<lambda>t. let now = t_utc t in
       retR \<lparr>ps_source = src_open_rates, ps_base = base_usd,
             ps_rate_ts = fmt_rfc3339 now, ps_captured = fmt_rfc3339 now,
             ps_expires = fmt_rfc3339 (t_utc expiresAt), ps_rates = static_rates\<rparr>)"

section \<open>What a provider promises\<close>

definition rate_ok :: "golib \<Rightarrow> string \<Rightarrow> bool" where
  "rate_ok lib r \<longleftrightarrow> r \<noteq> [] \<and> (case rat_set_string lib r of None \<Rightarrow> False | Some q \<Rightarrow> q > 0)"

definition snapshot_ok :: "golib \<Rightarrow> provider_snapshot \<Rightarrow> bool" where
  "snapshot_ok lib s \<longleftrightarrow>
     ps_source s = src_open_rates \<and> ps_base s = base_usd
     \<and> ps_rate_ts s \<noteq> [] \<and> ps_captured s \<noteq> [] \<and> ps_expires s \<noteq> []
     \<and> map_of (ps_rates s) base_usd \<noteq> None \<and> distinct (map fst (ps_rates s))
     \<and> list_all (\<lambda>(c, r). rate_ok lib r) (ps_rates s)"

text \<open>
  The converter's interface to a provider (\<^verbatim>\<open>RateProvider\<close>): fetching leaves the cache to
  the converter, and a snapshot it returns is complete and has only positive rates.
\<close>

locale rate_provider =
  fixes lib :: golib
    and fetch :: "gtime \<Rightarrow> (fx_state, prov_err, provider_snapshot) op"
  assumes fetch_cache: "fetch e st = (r, st') \<Longrightarrow> fx_cache st' = fx_cache st"
    and fetch_ok: "fetch e st = (Inr snap, st') \<Longrightarrow> snapshot_ok lib snap"

lemma fmt_rfc3339_not_Nil [simp]: "fmt_rfc3339 t \<noteq> []"
  by (simp add: fmt_rfc3339_def)

lemma fx_now_run [simp]: "fx_now st = (Inr (fx_clock st (fx_ticks st)), st\<lparr>fx_ticks := fx_ticks st + 1\<rparr>)"
  by (simp add: fx_now_def)

lemma bindR_fx_now [simp]:
  "bindR fx_now k st = k (fx_clock st (fx_ticks st)) (st\<lparr>fx_ticks := fx_ticks st + 1\<rparr>)"
  by (simp add: bindR_def)

lemma is_json_number_not_Nil: "is_json_number n \<Longrightarrow> n \<noteq> []"
  by (auto simp: is_json_number_def)

lemma rateToString_ok: "rateToString lib raw = Inr r \<Longrightarrow> rate_ok lib r"
  by (auto simp: rateToString_def raw_number_def rate_ok_def rat_set_string_def
      split: json_raw.splits if_splits option.splits sum.splits dest: is_json_number_not_Nil)

lemma rate_ok_one: "rate_ok lib ''1''"
proof -
  have "rat_set_string lib ''1'' = Some 1" by code_simp
  then show ?thesis by (simp add: rate_ok_def)
qed

lemma alist_set_all: "list_all (\<lambda>(c, r). P r) m \<Longrightarrow> P v \<Longrightarrow> list_all (\<lambda>(c, r). P r) (alist_set k v m)"
  by (induction k v m rule: alist_set.induct) auto

lemma decode_rates_ok:
  assumes "decode_rates lib rs rates = Inr out" "list_all (\<lambda>(c, r). rate_ok lib r) rates"
    "distinct (map fst rates)"
  shows "list_all (\<lambda>(c, r). rate_ok lib r) out \<and> distinct (map fst out)
    \<and> dom (map_of rates) \<subseteq> dom (map_of out)"
  using assms
proof (induction lib rs rates rule: decode_rates.induct)
  case (2 lib code raw rest rates)
  from 2(2) obtain rate where rate: "rateToString lib raw = Inr rate"
    and out: "decode_rates lib rest (alist_set code rate rates) = Inr out"
    by (auto split: sum.splits)
  from 2(1) [OF rate out alist_set_all [OF 2(3) rateToString_ok [OF rate]] distinct_alist_set [OF 2(4)]]
  show ?case by (metis map_of_alist_set dom_fun_upd insert_subset option.distinct(1))
qed simp

lemma decodeProviderResponse_ok:
  assumes "decodeProviderResponse lib doc t e = Inr snap"
  shows "snapshot_ok lib snap"
proof -
  from assms obtain ts base rs rates where rs: "base = base_usd"
    "decode_rates lib rs [(base_usd, ''1'')] = Inr rates"
    and snap: "snap = \<lparr>ps_source = src_open_rates, ps_base = base, ps_rate_ts = fmt_rfc3339 (unix_time ts),
      ps_captured = fmt_rfc3339 (t_utc t), ps_expires = fmt_rfc3339 (t_utc e), ps_rates = rates\<rparr>"
    by (auto simp: decodeProviderResponse_def split: json_doc.splits if_splits sum.splits)
  from decode_rates_ok [OF rs(2)] show ?thesis
    by (auto simp: snapshot_ok_def snap rs(1) rate_ok_one domIff)
qed

lemma fetchOnce_ok: "fetchOnce lib e st = (Inr snap, st') \<Longrightarrow> snapshot_ok lib snap"
  by (auto simp: fetchOnce_def fx_send_def Let_def split: http_reply.splits http_body.splits if_splits sum.splits
      dest: decodeProviderResponse_ok)

lemma fetchOnce_frame:
  "fetchOnce lib e st = (r, st') \<Longrightarrow>
     fx_cache st' = fx_cache st \<and> fx_wire st' = fx_wire st \<and> fx_clock st' = fx_clock st
     \<and> fx_sent st' = fx_sent st + 1"
  by (auto simp: fetchOnce_def fx_send_def Let_def split: http_reply.splits http_body.splits if_splits sum.splits)

lemma fetch_loop_ok: "fetch_loop lib e n err st = (Inr snap, st') \<Longrightarrow> snapshot_ok lib snap"
  by (induction lib e n err st rule: fetch_loop.induct)
     (auto split: prod.splits sum.splits if_splits dest: fetchOnce_ok)

lemma fetch_loop_frame: "fetch_loop lib e n err st = (r, st') \<Longrightarrow> fx_cache st' = fx_cache st"
  by (induction lib e n err st rule: fetch_loop.induct)
     (auto split: prod.splits sum.splits if_splits dest: fetchOnce_frame)

interpretation open_rates: rate_provider lib "FetchLatest lib n" for lib n
  by unfold_locales (auto simp: FetchLatest_def simp del: fetch_loop.simps dest: fetch_loop_frame fetch_loop_ok)

lemma static_rates_value: "static_rates = map (\<lambda>d. (cur_code d, ''1'')) supportedCurrencies"
  by code_simp

lemma static_provider_ok:
  "StaticProvider_FetchLatest e st = (Inr snap, st') \<Longrightarrow> snapshot_ok lib snap"
  by (auto simp: StaticProvider_FetchLatest_def Let_def snapshot_ok_def static_rates_value rate_ok_one
      supportedCurrencies_def cur_def)

lemma static_provider_frame:
  "StaticProvider_FetchLatest e st = (r, st') \<Longrightarrow> fx_cache st' = fx_cache st"
  by (auto simp: StaticProvider_FetchLatest_def Let_def)

interpretation static_provider: rate_provider lib StaticProvider_FetchLatest for lib
  by unfold_locales (rule static_provider_frame, assumption, rule static_provider_ok)

end
