(* ===== verification/Fx_Converter.thy ===== *)
theory Fx_Converter
  imports Fx_Provider
begin

text \<open>
  The FX service's converter and its gRPC surface (\<^verbatim>\<open>services/fx/internal/service/converter.go\<close>,
  \<^verbatim>\<open>services/fx/internal/handler/grpc.go\<close>).  The converter is written over an arbitrary provider
  \<open>fetch\<close>, as the code is written over the interface \<^verbatim>\<open>RateProvider\<close>; its lemmas are
  proved in the locale \<open>rate_provider\<close> and so hold for the network provider and for the static one.
\<close>

section \<open>Requests and results\<close>

record captured_snapshot =
  cs_version :: int
  cs_source :: string
  cs_base :: string
  cs_rate_ts :: string
  cs_captured :: string
  cs_expires :: string
  cs_rates :: rates

record snapshot_result =
  sr_snapshot :: captured_snapshot
  sr_cache :: string

record convert_request =
  cq_amount :: int
  cq_source :: string
  cq_target :: string
  cq_requested_at :: string

record convert_snap_request =
  sq_amount :: int
  sq_source :: string
  sq_target :: string
  sq_requested_at :: string
  sq_snapshot :: captured_snapshot

record convert_response =
  cr_amount :: int
  cr_source :: string
  cr_target :: string
  cr_rate :: string
  cr_rate_ts :: string
  cr_origin :: string
  cr_cache :: string
  cr_expires :: string

abbreviation cache_hit :: string where "cache_hit \<equiv> ''hit''"
abbreviation cache_miss :: string where "cache_miss \<equiv> ''miss''"
abbreviation cache_provided :: string where "cache_provided \<equiv> ''provided_snapshot''"

section \<open>Validation and rates\<close>

definition currencyDefinition :: "golib \<Rightarrow> string \<Rightarrow> string \<Rightarrow> fxerr + currency_def" where
  "currencyDefinition lib code fld =
     (case currency_get code of
        None \<Rightarrow> Inl (NewError ErrorUnsupportedCurrency fld (''unsupported currency '' @ go_quote lib code))
      | Some d \<Rightarrow> Inr d)"

definition validateConversion ::
    "golib \<Rightarrow> int \<Rightarrow> string \<Rightarrow> string \<Rightarrow> fxerr + (currency_def \<times> currency_def)" where
  "validateConversion lib amount sourceCurrency targetCurrency =
     (if amount \<le> 0 then Inl (NewError ErrorInvalidAmount ''amount'' ''amount must be positive'')
      else case currencyDefinition lib sourceCurrency ''sourceCurrency'' of
             Inl e \<Rightarrow> Inl e
           | Inr source \<Rightarrow>
               (case currencyDefinition lib targetCurrency ''targetCurrency'' of
                  Inl e \<Rightarrow> Inl e
                | Inr target \<Rightarrow> Inr (source, target)))"

definition rateForCurrency :: "golib \<Rightarrow> rates \<Rightarrow> string \<Rightarrow> fxerr + rat" where
  "rateForCurrency lib rates code =
     (case map_of rates code of
        None \<Rightarrow> Inl (NewError ErrorRateMissing code (''missing rate for '' @ code))
      | Some rateValue \<Rightarrow>
          if rateValue = [] then Inl (NewError ErrorRateMissing code (''missing rate for '' @ code))
          else case parsePositiveRat lib rateValue of
                 Inl e \<Rightarrow> Inl (NewError ErrorRateMissing code e)
               | Inr rate \<Rightarrow> Inr rate)"

definition convertFromRates ::
    "golib \<Rightarrow> int \<Rightarrow> currency_def \<Rightarrow> currency_def \<Rightarrow> rates \<Rightarrow> string \<Rightarrow> string \<Rightarrow> string \<Rightarrow> string
     \<Rightarrow> fxerr + convert_response" where
  "convertFromRates lib amount source target rates rateTimestamp expiresAt cacheStatus snapshotSource =
     (case rateForCurrency lib rates (cur_code source) of
        Inl e \<Rightarrow> Inl e
      | Inr sourceRate \<Rightarrow>
          (case rateForCurrency lib rates (cur_code target) of
             Inl e \<Rightarrow> Inl e
           | Inr targetRate \<Rightarrow>
               (let exchangeRate = targetRate / sourceRate;
                    sourceMajor = minorToMajor amount (cur_digits source);
                    targetMajor = sourceMajor * exchangeRate
                in Inr \<lparr>cr_amount = majorToRoundedMinor targetMajor (cur_digits target),
                        cr_source = cur_code source, cr_target = cur_code target,
                        cr_rate = decimalString exchangeRate, cr_rate_ts = rateTimestamp,
                        cr_origin = snapshotSource, cr_cache = cacheStatus, cr_expires = expiresAt\<rparr>)))"

fun requireRates :: "golib \<Rightarrow> rates \<Rightarrow> currency_def list \<Rightarrow> fxerr option" where
  "requireRates lib rates [] = None"
| "requireRates lib rates (d # ds) =
     (case rateForCurrency lib rates (cur_code d) of Inl e \<Rightarrow> Some e | Inr _ \<Rightarrow> requireRates lib rates ds)"

definition requireFullSupportedRates :: "golib \<Rightarrow> rates \<Rightarrow> fxerr option" where
  "requireFullSupportedRates lib rates = requireRates lib rates supportedCurrencies"

definition validateSnapshot :: "captured_snapshot \<Rightarrow> fxerr option" where
  "validateSnapshot s =
     (if cs_version s \<noteq> 1 \<or> cs_source s \<noteq> src_open_rates \<or> cs_base s \<noteq> base_usd
      then Some (NewError ErrorSnapshotIntegrityFailure ''snapshot'' ''invalid snapshot metadata'')
      else if cs_rate_ts s = [] \<or> cs_captured s = [] \<or> cs_expires s = [] \<or> length (cs_rates s) = 0
      then Some (NewError ErrorSnapshotIntegrityFailure ''snapshot'' ''snapshot missing required fields'')
      else None)"

definition toCapturedSnapshot :: "provider_snapshot \<Rightarrow> captured_snapshot" where
  "toCapturedSnapshot s =
     \<lparr>cs_version = 1, cs_source = ps_source s, cs_base = ps_base s, cs_rate_ts = ps_rate_ts s,
      cs_captured = ps_captured s, cs_expires = ps_expires s,
      cs_rates = filter (\<lambda>(code, rate). currency_supported code) (ps_rates s)\<rparr>"

definition fallbackTimestamp :: "string \<Rightarrow> gtime \<Rightarrow> string" where
  "fallbackTimestamp requestedAt now =
     (if requestedAt \<noteq> [] then requestedAt else fmt_rfc3339 (t_utc now))"

section \<open>Operations\<close>

type_synonym fetcher = "gtime \<Rightarrow> (fx_state, prov_err, provider_snapshot) op"

definition providerSnapshot ::
    "golib \<Rightarrow> fetcher \<Rightarrow> int \<Rightarrow> (fx_state, fxerr, provider_snapshot \<times> string) op" where
  "providerSnapshot lib fetch maxAge =
     bindR fx_now (\<lambda>t st.
       let now = t_utc t in
       case GetFresh lib maxAge now (fx_cache st) of
         Some snap \<Rightarrow> (Inr (snap, cache_hit), st)
       | None \<Rightarrow>
           (case fetch (t_add_ns now maxAge) st of
              (Inr snap, st1) \<Rightarrow>
                bindR (cache_Store snap) (\<lambda>stored. retR (stored, cache_miss)) st1
            | (Inl err, st1) \<Rightarrow>
                bindR fx_now (\<lambda>t2 st2.
                  case GetFresh lib maxAge (t_utc t2) (fx_cache st2) of
                    Some fresh \<Rightarrow> (Inr (fresh, cache_hit), st2)
                  | None \<Rightarrow>
                      (case err of
                         ModelErr e \<Rightarrow> (Inl e, st2)
                       | OtherErr m \<Rightarrow> (Inl (NewError ErrorConversionUnavailable [] m), st2))) st1))"

fun checkCurrencies :: "golib \<Rightarrow> string list \<Rightarrow> fxerr option" where
  "checkCurrencies lib [] = None"
| "checkCurrencies lib (c # cs) =
     (case currencyDefinition lib c ''requiredCurrencies'' of Inl e \<Rightarrow> Some e | Inr _ \<Rightarrow> checkCurrencies lib cs)"

definition CaptureSnapshot ::
    "golib \<Rightarrow> fetcher \<Rightarrow> int \<Rightarrow> string list \<Rightarrow> (fx_state, fxerr, snapshot_result) op" where
  "CaptureSnapshot lib fetch maxAge requiredCurrencies =
     bindR (checkR (checkCurrencies lib requiredCurrencies)) (\<lambda>_.
     bindR (providerSnapshot lib fetch maxAge) (\<lambda>(snapshot, cacheStatus).
     let captured = toCapturedSnapshot snapshot in
     bindR (checkR (requireFullSupportedRates lib (cs_rates captured))) (\<lambda>_.
     retR \<lparr>sr_snapshot = captured, sr_cache = cacheStatus\<rparr>)))"

definition Convert ::
    "golib \<Rightarrow> fetcher \<Rightarrow> int \<Rightarrow> convert_request \<Rightarrow> (fx_state, fxerr, convert_response) op" where
  "Convert lib fetch maxAge req =
     bindR (liftR (validateConversion lib (cq_amount req) (cq_source req) (cq_target req))) (\<lambda>(source, target).
     if cq_source req = cq_target req
     then bindR fx_now (\<lambda>now.
            retR \<lparr>cr_amount = cq_amount req, cr_source = cq_source req, cr_target = cq_target req,
                  cr_rate = ''1'', cr_rate_ts = fallbackTimestamp (cq_requested_at req) now,
                  cr_origin = src_identity, cr_cache = cache_hit, cr_expires = []\<rparr>)
     else bindR (providerSnapshot lib fetch maxAge) (\<lambda>(snapshot, cacheStatus).
            liftR (convertFromRates lib (cq_amount req) source target (ps_rates snapshot)
                     (ps_rate_ts snapshot) (ps_expires snapshot) cacheStatus src_open_rates)))"

definition ConvertWithSnapshot :: "golib \<Rightarrow> convert_snap_request \<Rightarrow> fxerr + convert_response" where
  "ConvertWithSnapshot lib req =
     (case validateConversion lib (sq_amount req) (sq_source req) (sq_target req) of
        Inl e \<Rightarrow> Inl e
      | Inr (source, target) \<Rightarrow>
          (case validateSnapshot (sq_snapshot req) of
             Some e \<Rightarrow> Inl e
           | None \<Rightarrow>
               convertFromRates lib (sq_amount req) source target (cs_rates (sq_snapshot req))
                 (cs_rate_ts (sq_snapshot req)) (cs_expires (sq_snapshot req)) cache_provided
                 (cs_source (sq_snapshot req))))"

text \<open>The gRPC status the handler answers an error with.\<close>

definition grpcError :: "fxerr \<Rightarrow> grpc_code \<times> string" where
  "grpcError e =
     ((case fe_code e of
         ErrorUnsupportedCurrency \<Rightarrow> GInvalidArgument
       | ErrorInvalidAmount \<Rightarrow> GInvalidArgument
       | ErrorConversionUnavailable \<Rightarrow> GUnavailable
       | ErrorProviderAuthFailed \<Rightarrow> GUnavailable
       | ErrorProviderResponseInvalid \<Rightarrow> GUnavailable
       | ErrorRateMissing \<Rightarrow> GFailedPrecondition
       | ErrorSnapshotIntegrityFailure \<Rightarrow> GFailedPrecondition),
      fx_code_string (fe_code e))"

definition as_status :: "fxerr + 'a \<Rightarrow> (grpc_code \<times> string) + 'a" where
  "as_status r = (case r of Inl e \<Rightarrow> Inl (grpcError e) | Inr x \<Rightarrow> Inr x)"

definition grpc_CaptureRateSnapshot ::
    "golib \<Rightarrow> fetcher \<Rightarrow> int \<Rightarrow> string list \<Rightarrow> (fx_state, grpc_code \<times> string, snapshot_result) op" where
  "grpc_CaptureRateSnapshot lib fetch maxAge req st =
     (let (r, st') = CaptureSnapshot lib fetch maxAge req st in (as_status r, st'))"

definition grpc_ConvertAmount ::
    "golib \<Rightarrow> fetcher \<Rightarrow> int \<Rightarrow> convert_request \<Rightarrow> (fx_state, grpc_code \<times> string, convert_response) op" where
  "grpc_ConvertAmount lib fetch maxAge req st =
     (let (r, st') = Convert lib fetch maxAge req st in (as_status r, st'))"

text \<open>A request without a snapshot arrives as a nil message and becomes the zero snapshot.\<close>

definition fromProtoSnapshot :: "captured_snapshot option \<Rightarrow> captured_snapshot" where
  "fromProtoSnapshot m =
     (case m of
        None \<Rightarrow> \<lparr>cs_version = 0, cs_source = [], cs_base = [], cs_rate_ts = [], cs_captured = [],
                 cs_expires = [], cs_rates = []\<rparr>
      | Some s \<Rightarrow> s)"

definition grpc_ConvertWithSnapshot ::
    "golib \<Rightarrow> int \<Rightarrow> string \<Rightarrow> string \<Rightarrow> string \<Rightarrow> captured_snapshot option
     \<Rightarrow> (grpc_code \<times> string) + convert_response" where
  "grpc_ConvertWithSnapshot lib amount src tgt requested_at snap =
     as_status (ConvertWithSnapshot lib
       \<lparr>sq_amount = amount, sq_source = src, sq_target = tgt, sq_requested_at = requested_at, sq_snapshot = fromProtoSnapshot snap\<rparr>)"

section \<open>Conversion\<close>

lemma currencyDefinition_Inr: "currencyDefinition lib c f = Inr d \<longleftrightarrow> currency_get c = Some d"
  by (simp add: currencyDefinition_def split: option.splits)

lemma currencyDefinition_Inl: "(\<exists>e. currencyDefinition lib c f = Inl e) \<longleftrightarrow> \<not> currency_supported c"
  by (simp add: currencyDefinition_def currency_supported_def split: option.splits)

lemma validateConversion_Inr:
  "validateConversion lib a s t = Inr (ds, dt) \<longleftrightarrow>
     a > 0 \<and> currency_get s = Some ds \<and> currency_get t = Some dt"
  by (auto simp: validateConversion_def currencyDefinition_def split: option.splits)

lemma rateForCurrency_Inr:
  "rateForCurrency lib rates c = Inr q \<longleftrightarrow>
     (\<exists>r. map_of rates c = Some r \<and> rate_ok lib r \<and> rat_set_string lib r = Some q)"
  by (auto simp: rateForCurrency_def parsePositiveRat_def rate_ok_def split: option.splits sum.splits if_splits)

lemma rateForCurrency_pos: "rateForCurrency lib rates c = Inr q \<Longrightarrow> 0 < q"
  by (auto simp: rateForCurrency_Inr rate_ok_def)

lemma convertFromRates_Inr:
  assumes "convertFromRates lib a ds dt rates ts ex st src = Inr resp"
  obtains sr tr where "rateForCurrency lib rates (cur_code ds) = Inr sr"
    "rateForCurrency lib rates (cur_code dt) = Inr tr" "0 < sr" "0 < tr"
    "resp = \<lparr>cr_amount = saturate64 (round_away (of_int a * (tr / sr) * 10 ^ cur_digits dt / 10 ^ cur_digits ds)),
       cr_source = cur_code ds, cr_target = cur_code dt, cr_rate = decimalString (tr / sr),
       cr_rate_ts = ts, cr_origin = src, cr_cache = st, cr_expires = ex\<rparr>"
proof -
  from assms obtain sr tr where r: "rateForCurrency lib rates (cur_code ds) = Inr sr"
    "rateForCurrency lib rates (cur_code dt) = Inr tr"
    by (auto simp: convertFromRates_def split: sum.splits)
  show thesis
    by (rule that [OF r rateForCurrency_pos [OF r(1)] rateForCurrency_pos [OF r(2)]])
       (use assms r in \<open>simp add: convertFromRates_def Let_def majorToRoundedMinor_def minorToMajor_def
          roundHalfAwayFromZero_eq mult.commute\<close>)
qed

lemma convertFromRates_total:
  assumes "rateForCurrency lib rates (cur_code ds) = Inr sr" "rateForCurrency lib rates (cur_code dt) = Inr tr"
  shows "\<exists>resp. convertFromRates lib a ds dt rates ts ex st src = Inr resp"
  using assms by (simp add: convertFromRates_def Let_def)

lemma requireRates_None:
  "requireRates lib rates ds = None \<longleftrightarrow> (\<forall>d\<in>set ds. \<exists>q. rateForCurrency lib rates (cur_code d) = Inr q)"
  by (induction ds) (auto split: sum.splits)

lemma requireFullSupportedRates_None:
  assumes "requireFullSupportedRates lib rates = None" "currency_get c = Some d"
  shows "\<exists>q. rateForCurrency lib rates (cur_code d) = Inr q"
  using assms by (auto simp: requireFullSupportedRates_def requireRates_None currency_get_def dest: find_first_Some)

lemma round_away_of_int [simp]: "round_away (of_int a) = a"
  by (auto simp: round_away_def floor_eq_iff ceiling_eq_iff)

lemma saturate64_id [simp]: "is_i64 a \<Longrightarrow> saturate64 a = a"
  by (simp add: saturate64_def is_i64_def)

lemma decimalString_one: "decimalString 1 = ''1''"
  by code_simp

section \<open>The converter over any provider\<close>

definition cache_ok :: "golib \<Rightarrow> fx_state \<Rightarrow> bool" where
  "cache_ok lib st \<longleftrightarrow> (case fx_cache st of None \<Rightarrow> True | Some s \<Rightarrow> snapshot_ok lib s)"

definition fresh_at :: "golib \<Rightarrow> int \<Rightarrow> gtime \<Rightarrow> provider_snapshot \<Rightarrow> bool" where
  "fresh_at lib maxAge now s \<longleftrightarrow>
     (\<exists>t. parse_rfc3339 lib (ps_captured s) = Some t \<and> t_sub now t < maxAge)"

lemma GetFresh_Some: "GetFresh lib maxAge now c = Some s \<longleftrightarrow> c = Some s \<and> fresh_at lib maxAge now s"
  by (auto simp: GetFresh_def fresh_at_def split: option.splits)

context rate_provider
begin

lemma providerSnapshot_cases:
  assumes "providerSnapshot lib fetch maxAge st = (r, st')"
  obtains (hit) s now where "r = Inr (s, cache_hit)" "fx_cache st = Some s" "fx_cache st' = Some s"
      "fresh_at lib maxAge now s"
  | (miss) s where "r = Inr (s, cache_miss)" "fx_cache st' = Some s" "snapshot_ok lib s"
  | (err) e where "r = Inl e" "fx_cache st' = fx_cache st"
proof -
  define t where "t = t_utc (fx_clock st (fx_ticks st))"
  define st0 where "st0 = st\<lparr>fx_ticks := fx_ticks st + 1\<rparr>"
  have c0: "fx_cache st0 = fx_cache st" by (simp add: st0_def)
  show thesis
  proof (cases "GetFresh lib maxAge t (fx_cache st)")
    case (Some s)
    then show thesis
      using assms by (intro hit [of s t]) (auto simp: providerSnapshot_def Let_def t_def GetFresh_Some [symmetric],
          simp_all add: GetFresh_Some)
  next
    case None
    obtain r1 st1 where f: "fetch (t_add_ns t maxAge) st0 = (r1, st1)" by (metis surj_pair)
    note c1 = fetch_cache [OF f]
    show thesis
    proof (cases r1)
      case (Inr s)
      with f fetch_ok have "snapshot_ok lib s" by blast
      then show thesis
        using assms None f Inr
        by (intro miss [of s]) (auto simp: providerSnapshot_def Let_def t_def st0_def cache_Store_def bindR_def)
    next
      case (Inl e)
      show thesis
      proof (cases "GetFresh lib maxAge (t_utc (fx_clock st1 (fx_ticks st1))) (fx_cache st1)")
        case (Some s)
        then show thesis
          using assms None f Inl c0 c1
          by (intro hit [of s "t_utc (fx_clock st1 (fx_ticks st1))"])
             (auto simp: providerSnapshot_def Let_def t_def st0_def GetFresh_Some [symmetric],
              simp_all add: GetFresh_Some)
      next
        case None2: None
        from assms None f Inl None2 have "(\<exists>e. r = Inl e) \<and> fx_cache st' = fx_cache st1"
          by (auto simp: providerSnapshot_def Let_def t_def st0_def split: prov_err.splits)
        with c0 c1 err show thesis by auto
      qed
    qed
  qed
qed

lemma providerSnapshot_ok:
  "providerSnapshot lib fetch maxAge st = (r, st') \<Longrightarrow> cache_ok lib st \<Longrightarrow>
     cache_ok lib st' \<and> (\<forall>s c. r = Inr (s, c) \<longrightarrow> snapshot_ok lib s)"
  by (erule providerSnapshot_cases) (auto simp: cache_ok_def)

lemma Convert_keeps_cache_ok:
  assumes "Convert lib fetch maxAge req st = (r, st')" "cache_ok lib st"
  shows "cache_ok lib st'"
proof (cases "validateConversion lib (cq_amount req) (cq_source req) (cq_target req)")
  case (Inl e)
  with assms show ?thesis by (auto simp: Convert_def)
next
  case (Inr p)
  obtain r1 st1 where ps: "providerSnapshot lib fetch maxAge st = (r1, st1)" by (metis surj_pair)
  from providerSnapshot_ok [OF ps assms(2)] Inr ps assms show ?thesis
    by (cases p; cases r1) (auto simp: Convert_def cache_ok_def bindR_def split: if_splits)
qed

lemma CaptureSnapshot_run:
  assumes "CaptureSnapshot lib fetch maxAge req st = (r, st')" "cache_ok lib st"
  shows "cache_ok lib st'"
    and "r = Inr res \<Longrightarrow> \<exists>s. snapshot_ok lib s \<and> sr_snapshot res = toCapturedSnapshot s
           \<and> requireFullSupportedRates lib (cs_rates (sr_snapshot res)) = None"
proof -
  obtain r1 st1 where ps: "providerSnapshot lib fetch maxAge st = (r1, st1)" by (metis surj_pair)
  note ok = providerSnapshot_ok [OF ps assms(2)]
  show "cache_ok lib st'"
    using ok ps assms
    by (cases "checkCurrencies lib req"; cases r1)
       (auto simp: CaptureSnapshot_def bindR_def checkR_def Let_def split: option.splits)
  show "\<exists>s. snapshot_ok lib s \<and> sr_snapshot res = toCapturedSnapshot s
           \<and> requireFullSupportedRates lib (cs_rates (sr_snapshot res)) = None" if "r = Inr res"
    using ok ps assms that
    by (cases "checkCurrencies lib req"; cases r1)
       (auto 4 3 simp: CaptureSnapshot_def bindR_def checkR_def Let_def split: option.splits
          intro!: exI [where x = "fst (projr r1)"])
qed

lemma captured_converts:
  assumes run: "CaptureSnapshot lib fetch maxAge req st = (Inr res, st')" and inv: "cache_ok lib st"
    and "0 < amount" "currency_supported src" "currency_supported tgt"
  shows "\<exists>resp. grpc_ConvertWithSnapshot lib amount src tgt t (Some (sr_snapshot res)) = Inr resp"
proof -
  from CaptureSnapshot_run(2) [OF run inv refl] obtain s where s: "snapshot_ok lib s"
    and cap: "sr_snapshot res = toCapturedSnapshot s"
    and full: "requireFullSupportedRates lib (cs_rates (sr_snapshot res)) = None" by blast
  from assms(4,5) obtain ds dt where d: "currency_get src = Some ds" "currency_get tgt = Some dt"
    by (auto simp: currency_supported_def)
  from requireFullSupportedRates_None [OF full d(1)] requireFullSupportedRates_None [OF full d(2)]
  obtain sr tr where rates: "rateForCurrency lib (cs_rates (sr_snapshot res)) (cur_code ds) = Inr sr"
    "rateForCurrency lib (cs_rates (sr_snapshot res)) (cur_code dt) = Inr tr" by blast
  from rates(1) have "cs_rates (sr_snapshot res) \<noteq> []" by (auto simp: rateForCurrency_Inr)
  with s cap have "validateSnapshot (sr_snapshot res) = None"
    by (simp add: validateSnapshot_def snapshot_ok_def toCapturedSnapshot_def)
  with d assms(3) rates show ?thesis
    by (auto simp: convertFromRates_def Let_def grpc_ConvertWithSnapshot_def ConvertWithSnapshot_def fromProtoSnapshot_def as_status_def
        validateConversion_def currencyDefinition_def)
qed

end

section \<open>Properties\<close>

text \<open>
  C10: a successful conversion with a snapshot returns exactly the amount at the snapshot's rates:
  the source amount in major units times the ratio of two positive rates, in the target's minor
  units, rounded to the nearest with ties away from zero and clamped to 64 bits.
\<close>

theorem snapshot_conversion_exact:
  assumes "ConvertWithSnapshot lib req = Inr resp"
  shows "\<exists>ds dt sr tr. currency_get (sq_source req) = Some ds \<and> currency_get (sq_target req) = Some dt
    \<and> rateForCurrency lib (cs_rates (sq_snapshot req)) (sq_source req) = Inr sr
    \<and> rateForCurrency lib (cs_rates (sq_snapshot req)) (sq_target req) = Inr tr
    \<and> 0 < sr \<and> 0 < tr \<and> 0 < sq_amount req
    \<and> cr_amount resp = saturate64 (round_away
         (of_int (sq_amount req) * (tr / sr) * 10 ^ cur_digits dt / 10 ^ cur_digits ds))
    \<and> cr_rate resp = decimalString (tr / sr)"
proof -
  from assms obtain ds dt where d: "currency_get (sq_source req) = Some ds"
    "currency_get (sq_target req) = Some dt" "0 < sq_amount req"
    and conv: "convertFromRates lib (sq_amount req) ds dt (cs_rates (sq_snapshot req))
      (cs_rate_ts (sq_snapshot req)) (cs_expires (sq_snapshot req)) cache_provided
      (cs_source (sq_snapshot req)) = Inr resp"
    by (auto simp: ConvertWithSnapshot_def validateConversion_Inr split: sum.splits option.splits)
  from conv show ?thesis
    by (rule convertFromRates_Inr) (use d in \<open>simp add: currency_get_code [OF d(1)] currency_get_code [OF d(2)]\<close>)
qed

definition demo_lib :: golib where
  "demo_lib = \<lparr>upper_slow = id, lower_slow = id, quote_slow = id, rat_slow = (\<lambda>_. None), rfc3339_slow = (\<lambda>_. None),
     uuid_parses = (\<lambda>s. length s = 36)\<rparr>"

definition demo_snapshot :: captured_snapshot where
  "demo_snapshot = \<lparr>cs_version = 1, cs_source = src_open_rates, cs_base = base_usd,
     cs_rate_ts = ''2026-08-15T12:00:00Z'', cs_captured = ''2026-08-15T12:00:00Z'',
     cs_expires = ''2026-08-15T13:00:00Z'', cs_rates = [(''USD'', ''1''), (''JPY'', ''147.25'')]\<rparr>"

definition demo_request :: convert_snap_request where
  "demo_request = \<lparr>sq_amount = 1234, sq_source = ''USD'', sq_target = ''JPY'', sq_requested_at = [], sq_snapshot = demo_snapshot\<rparr>"

lemma demo_conversion:
  "ConvertWithSnapshot demo_lib demo_request =
     Inr \<lparr>cr_amount = 1817, cr_source = ''USD'', cr_target = ''JPY'', cr_rate = ''147.25'',
          cr_rate_ts = ''2026-08-15T12:00:00Z'', cr_origin = src_open_rates, cr_cache = cache_provided,
          cr_expires = ''2026-08-15T13:00:00Z''\<rparr>"
  by code_simp

theorem snapshot_conversion_exact_witness:
  "\<exists>ds dt sr tr. currency_get ''USD'' = Some ds \<and> currency_get ''JPY'' = Some dt
     \<and> rateForCurrency demo_lib (cs_rates demo_snapshot) ''USD'' = Inr sr
     \<and> rateForCurrency demo_lib (cs_rates demo_snapshot) ''JPY'' = Inr tr
     \<and> 0 < sr \<and> 0 < tr \<and> 0 < (1234 :: int)
     \<and> 1817 = saturate64 (round_away (of_int 1234 * (tr / sr) * 10 ^ cur_digits dt / 10 ^ cur_digits ds))
     \<and> ''147.25'' = decimalString (tr / sr)"
  using snapshot_conversion_exact [OF demo_conversion]
  unfolding demo_request_def convert_snap_request.simps convert_response.simps .

text \<open>
  C28: whatever the network does, a snapshot the service hands out (from a sound cache, through the
  retrying provider) can be used: sent back, it converts every positive amount between any two
  supported currencies, and the cache stays sound.
\<close>

theorem captured_snapshot_usable:
  assumes "grpc_CaptureRateSnapshot lib (FetchLatest lib n) maxAge req st = (Inr res, st')"
    and "cache_ok lib st" and "0 < amount" "currency_supported src" "currency_supported tgt"
  shows "cache_ok lib st' \<and>
    (\<exists>resp. grpc_ConvertWithSnapshot lib amount src tgt t (Some (sr_snapshot res)) = Inr resp)"
proof -
  from assms(1) have run: "CaptureSnapshot lib (FetchLatest lib n) maxAge req st = (Inr res, st')"
    by (auto simp: grpc_CaptureRateSnapshot_def as_status_def split: prod.splits sum.splits)
  from open_rates.captured_converts [OF run assms(2-5)] open_rates.CaptureSnapshot_run(1) [OF run assms(2)]
  show ?thesis by blast
qed

definition demo_doc :: json_doc where
  "demo_doc = Payload 1786797600 ''USD''
     (map (\<lambda>c. (c, JNumber ''0.8'')) [''EUR'', ''GBP'', ''JPY'', ''CAD'', ''AUD'', ''CHF'', ''CNY'', ''SGD'', ''HKD'', ''XAU''])"

definition demo_state :: fx_state where
  "demo_state = \<lparr>fx_cache = None, fx_clock = (\<lambda>n. unix_time (1786795200 + int n)), fx_ticks = 0,
     fx_wire = (\<lambda>n. if n = 0 then NetError ''timeout'' else HttpResp 200 (BodyRead demo_doc)), fx_sent = 0\<rparr>"

definition demo_result :: snapshot_result where
  "demo_result = projr (fst (grpc_CaptureRateSnapshot demo_lib (FetchLatest demo_lib 2) 3600000000000 [''EUR''] demo_state))"

definition demo_after :: fx_state where
  "demo_after = snd (grpc_CaptureRateSnapshot demo_lib (FetchLatest demo_lib 2) 3600000000000 [''EUR''] demo_state)"

lemma demo_capture:
  "isl (fst (grpc_CaptureRateSnapshot demo_lib (FetchLatest demo_lib 2) 3600000000000 [''EUR''] demo_state)) = False"
  by code_simp

lemma demo_capture_run:
  "grpc_CaptureRateSnapshot demo_lib (FetchLatest demo_lib 2) 3600000000000 [''EUR''] demo_state = (Inr demo_result, demo_after)"
  using demo_capture by (simp add: demo_result_def demo_after_def prod_eq_iff)

theorem captured_snapshot_usable_witness:
  "cache_ok demo_lib demo_after \<and>
    (\<exists>resp. grpc_ConvertWithSnapshot demo_lib 500 ''EUR'' ''JPY'' [] (Some (sr_snapshot demo_result)) = Inr resp)"
  by (rule captured_snapshot_usable [OF demo_capture_run]) (simp add: cache_ok_def demo_state_def, simp, code_simp, code_simp)


lemma demo_fetch_err:
  "fst (providerSnapshot demo_lib (FetchLatest demo_lib 0) 3600000000000 demo_state) =
     Inl (NewError ErrorConversionUnavailable [] ''timeout'')"
  by code_simp


text \<open>
  The provider makes at least one and at most \<open>retryCount + 1\<close> requests, uses up all of them
  only on retryable failures, and stops at the first answer that is not retryable: if it fails
  with a retryable error it has tried \<open>retryCount + 1\<close> times.
\<close>

lemma fetch_loop_count:
  "fetch_loop lib e n err st = (r, st') \<Longrightarrow>
     fx_sent st \<le> fx_sent st' \<and> fx_sent st' \<le> fx_sent st + n \<and> (n > 0 \<longrightarrow> fx_sent st < fx_sent st')
     \<and> (\<forall>x. r = Inl x \<longrightarrow> n > 0 \<longrightarrow> retryable x \<longrightarrow> fx_sent st' = fx_sent st + n)"
proof (induction lib e n err st rule: fetch_loop.induct)
  case (2 lib e left err st)
  obtain r1 st1 where f: "fetchOnce lib e st = (r1, st1)" by (metis surj_pair)
  note frame = fetchOnce_frame [OF f]
  show ?case
  proof (cases r1)
    case (Inl x)
    show ?thesis
    proof (cases "retryable x")
      case True
      with 2(2) f Inl have loop: "fetch_loop lib e left x st1 = (r, st')" by simp
      from 2(1) [OF f [symmetric] Inl _ loop] True frame loop show ?thesis by (cases left) auto
    qed (use 2(2) f Inl frame in auto)
  qed (use 2(2) f frame in auto)
qed simp

lemma fetch_attempts_bounded:
  assumes "FetchLatest lib retryCount expiresAt st = (r, st')"
  shows "fx_sent st + 1 \<le> fx_sent st' \<and> fx_sent st' \<le> fx_sent st + retryCount + 1
    \<and> (\<forall>x. r = Inl x \<longrightarrow> retryable x \<longrightarrow> fx_sent st' = fx_sent st + retryCount + 1)"
  using fetch_loop_count [OF assms [unfolded FetchLatest_def]] by simp

theorem fetch_attempts_bounded_witness:
  "fx_sent (snd (FetchLatest demo_lib 2 (unix_time 0) demo_state)) \<le> 3"
  using fetch_attempts_bounded [of demo_lib 2 "unix_time 0" demo_state, OF prod.collapse [symmetric]]
  by (simp add: demo_state_def)

text \<open>
  Converting between a currency and itself gives back the amount unchanged at rate \<open>1\<close>, both
  live (without asking the rate service or touching the cache) and with a stored snapshot.
\<close>

lemma same_currency_identity:
  assumes "0 < amount" "is_i64 amount" "currency_supported c"
  shows "(\<exists>resp st'. Convert lib fetch maxAge
            \<lparr>cq_amount = amount, cq_source = c, cq_target = c, cq_requested_at = t\<rparr> st = (Inr resp, st')
            \<and> cr_amount resp = amount \<and> cr_rate resp = ''1'' \<and> cr_origin resp = src_identity
            \<and> fx_cache st' = fx_cache st \<and> fx_sent st' = fx_sent st)
    \<and> (\<forall>snap resp. ConvertWithSnapshot lib \<lparr>sq_amount = amount, sq_source = c, sq_target = c, sq_requested_at = t', sq_snapshot = snap\<rparr> = Inr resp
         \<longrightarrow> cr_amount resp = amount \<and> cr_rate resp = ''1'')"
proof
  from assms(3) obtain d where d: "currency_get c = Some d" by (auto simp: currency_supported_def)
  with assms(1) show "\<exists>resp st'. Convert lib fetch maxAge
      \<lparr>cq_amount = amount, cq_source = c, cq_target = c, cq_requested_at = t\<rparr> st = (Inr resp, st')
      \<and> cr_amount resp = amount \<and> cr_rate resp = ''1'' \<and> cr_origin resp = src_identity
      \<and> fx_cache st' = fx_cache st \<and> fx_sent st' = fx_sent st"
    by (simp add: Convert_def validateConversion_def currencyDefinition_def)
  show "\<forall>snap resp. ConvertWithSnapshot lib \<lparr>sq_amount = amount, sq_source = c, sq_target = c, sq_requested_at = t', sq_snapshot = snap\<rparr> = Inr resp
         \<longrightarrow> cr_amount resp = amount \<and> cr_rate resp = ''1''"
    using assms(1,2) d
    by (auto simp: ConvertWithSnapshot_def validateConversion_def currencyDefinition_def decimalString_one
        split: option.splits elim!: convertFromRates_Inr)
qed

lemma same_currency_identity_witness:
  "\<exists>resp st'. Convert demo_lib StaticProvider_FetchLatest 0
      \<lparr>cq_amount = 7, cq_source = ''EUR'', cq_target = ''EUR'', cq_requested_at = []\<rparr> demo_state = (Inr resp, st')
      \<and> cr_amount resp = 7 \<and> cr_rate resp = ''1'' \<and> cr_origin resp = src_identity
      \<and> fx_cache st' = fx_cache demo_state \<and> fx_sent st' = fx_sent demo_state"
  by (rule conjunct1 [OF same_currency_identity]) (simp, simp add: is_i64_def, code_simp)

end
