(* ===== verification/Expense_Clients.thy ===== *)
theory Expense_Clients
  imports Expense_Ledger Fx_Converter
begin

text \<open>
  The expense service's view of the other services: the budget period of finance
  (\<^verbatim>\<open>finance_client.go\<close>) and the currency conversion of FX (\<^verbatim>\<open>fx_client.go\<close>).
  A remote procedure is an arbitrary function of the number of the call and its request, so the
  theorems hold for every answer the remote side can give at any time.  The service is written over
  the two client interfaces; the locale \<open>expense_clients\<close> states what it relies on, and the gRPC
  clients of the code are shown to provide it.
\<close>

section \<open>Interfaces\<close>

record period_context =
  pc_id :: string
  pc_user :: string
  pc_year :: int
  pc_month :: int
  pc_rcur :: string
  pc_locked :: bool

type_synonym period_client = "string \<Rightarrow> int \<Rightarrow> int \<Rightarrow> period_context exp_op"

record fx_convert_request =
  fq_amount :: int
  fq_source :: string
  fq_target :: string
  fq_requested_at :: string

record fx_convert_response =
  fr_amount :: int
  fr_rate :: string
  fr_rate_ts :: string
  fr_source :: string
  fr_expires :: string

record fx_client =
  fc_convert :: "fx_convert_request \<Rightarrow> fx_convert_response exp_op"
  fc_with_snapshot :: "convert_snap_request \<Rightarrow> fx_convert_response exp_op"

abbreviation err_conversion_unavailable :: string where "err_conversion_unavailable \<equiv> ''CONVERSION_UNAVAILABLE''"
abbreviation err_unsupported_currency :: string where "err_unsupported_currency \<equiv> ''UNSUPPORTED_CURRENCY''"
abbreviation err_period_not_found :: string where "err_period_not_found \<equiv> ''PERIOD_NOT_FOUND''"

section \<open>The gRPC clients\<close>

text \<open>The reply to the \<open>n\<close>-th remote call; the counter is the number of readings of the clock and calls so far.\<close>

definition rpc_call :: "(nat \<Rightarrow> 'q \<Rightarrow> goerr + 'a) \<Rightarrow> 'q \<Rightarrow> 'a exp_op" where
  "rpc_call rpc q st = (rpc (ex_ticks st) q, st\<lparr>ex_ticks := ex_ticks st + 1\<rparr>)"

definition periodNotFoundError :: "int \<Rightarrow> int \<Rightarrow> apierr" where
  "periodNotFoundError year month =
     \<lparr>ae_code = err_period_not_found,
      ae_msg = ''No budget period found for '' @ show_int year @ ''-'' @ show_padded 2 month,
      ae_status = 404,
      ae_fields = [(''periodYear'', show_int year), (''periodMonth'', show_int month)]\<rparr>"

definition status_code :: "goerr \<Rightarrow> grpc_code" where
  "status_code err = (case as_grpc err of None \<Rightarrow> GUnknown | Some (c, _) \<Rightarrow> c)"

definition GRPC_GetPeriodContext ::
    "(nat \<Rightarrow> string \<times> int \<times> int \<Rightarrow> goerr + period_context) \<Rightarrow> period_client" where
  "GRPC_GetPeriodContext rpc userID year month =
     wrapR (\<lambda>err. if status_code err = GNotFound then Api (periodNotFoundError year month)
                  else Wrapped ''gRPC GetPeriodContext'' err)
       (rpc_call rpc (userID, year, month))"

definition conversionUnavailableError :: apierr where
  "conversionUnavailableError =
     \<lparr>ae_code = err_conversion_unavailable,
      ae_msg = ''Conversion unavailable. Try again later, or enter the manually converted amount in the period currency.'',
      ae_status = 503, ae_fields = []\<rparr>"

definition mapFxError :: "goerr \<Rightarrow> apierr" where
  "mapFxError err =
     (case as_grpc err of
        None \<Rightarrow> conversionUnavailableError
      | Some (code, msg) \<Rightarrow>
          if code = GUnavailable \<or> code = GFailedPrecondition then conversionUnavailableError
          else if code = GInvalidArgument then
            (if msg = ''UNSUPPORTED_CURRENCY''
             then \<lparr>ae_code = err_unsupported_currency, ae_msg = ''The FX service rejected the currency pair'',
                   ae_status = 400, ae_fields = [(''transactionCurrency'', ''unsupported currency'')]\<rparr>
             else Validation ''validation failed'' [(''amount'', ''The FX service rejected the conversion amount'')])
          else Internal ''currency conversion failed internally'')"

definition to_fx_response :: "convert_response \<Rightarrow> fx_convert_response" where
  "to_fx_response r =
     \<lparr>fr_amount = cr_amount r, fr_rate = cr_rate r, fr_rate_ts = cr_rate_ts r, fr_source = cr_origin r,
      fr_expires = cr_expires r\<rparr>"

definition GRPC_ConvertAmount ::
    "(nat \<Rightarrow> convert_request \<Rightarrow> goerr + convert_response) \<Rightarrow> fx_convert_request \<Rightarrow> fx_convert_response exp_op" where
  "GRPC_ConvertAmount rpc req =
     bindR (wrapR (\<lambda>err. Api (mapFxError err))
       (rpc_call rpc \<lparr>cq_amount = fq_amount req, cq_source = fq_source req, cq_target = fq_target req,
                      cq_requested_at = fq_requested_at req\<rparr>)) (\<lambda>resp.
     retR (to_fx_response resp))"

definition GRPC_ConvertWithSnapshot ::
    "(nat \<Rightarrow> convert_snap_request \<Rightarrow> goerr + convert_response) \<Rightarrow> convert_snap_request \<Rightarrow> fx_convert_response exp_op" where
  "GRPC_ConvertWithSnapshot rpc req =
     bindR (wrapR (\<lambda>err. Api (mapFxError err)) (rpc_call rpc req)) (\<lambda>resp.
     retR (to_fx_response resp))"

definition GRPCFxClient ::
    "(nat \<Rightarrow> convert_request \<Rightarrow> goerr + convert_response)
     \<Rightarrow> (nat \<Rightarrow> convert_snap_request \<Rightarrow> goerr + convert_response) \<Rightarrow> fx_client" where
  "GRPCFxClient rpc1 rpc2 =
     \<lparr>fc_convert = GRPC_ConvertAmount rpc1, fc_with_snapshot = GRPC_ConvertWithSnapshot rpc2\<rparr>"

section \<open>What the service relies on\<close>

text \<open>
  A call of another service does not touch the ledger, and a failed conversion is an API error
  that is an outage (503), a client error (400) or an internal error (500).
\<close>

locale expense_clients =
  fixes getctx :: period_client and fx :: fx_client
  assumes ctx_quiet: "keeps quiet (getctx u y m)"
    and fx_quiet: "keeps quiet (fc_convert fx q)" "keeps quiet (fc_with_snapshot fx q')"
    and fx_errors: "fc_convert fx q st = (Inl e, st') \<Longrightarrow> \<exists>a. e = Api a \<and> ae_status a \<in> {400, 500, 503}"
      "fc_with_snapshot fx q' st = (Inl e, st') \<Longrightarrow> \<exists>a. e = Api a \<and> ae_status a \<in> {400, 500, 503}"

lemma keeps_quiet_rpc_call [frame, intro]: "keeps quiet (rpc_call rpc q)"
  by (simp add: keeps_def rpc_call_def quiet_def same_env_def)

lemma mapFxError_status: "ae_status (mapFxError err) \<in> {400, 500, 503}"
  by (simp add: mapFxError_def conversionUnavailableError_def apierr_defs split: option.split prod.split)

interpretation grpc_clients: expense_clients "GRPC_GetPeriodContext rpc0" "GRPCFxClient rpc1 rpc2"
  for rpc0 rpc1 rpc2
proof unfold_locales
  show "keeps quiet (GRPC_GetPeriodContext rpc0 u y m)" for u y m
    unfolding GRPC_GetPeriodContext_def by (intro keeps_wrapR keeps_quiet_rpc_call)
  show "keeps quiet (fc_convert (GRPCFxClient rpc1 rpc2) q)" for q
    unfolding GRPCFxClient_def fx_client.simps GRPC_ConvertAmount_def
    by (intro keeps_bindR keeps_wrapR keeps_quiet_rpc_call keeps_basic transp_quiet reflp_quiet)
  show "keeps quiet (fc_with_snapshot (GRPCFxClient rpc1 rpc2) q)" for q
    unfolding GRPCFxClient_def fx_client.simps GRPC_ConvertWithSnapshot_def
    by (intro keeps_bindR keeps_wrapR keeps_quiet_rpc_call keeps_basic transp_quiet reflp_quiet)
  show "fc_convert (GRPCFxClient rpc1 rpc2) q st = (Inl e, st') \<Longrightarrow> \<exists>a. e = Api a \<and> ae_status a \<in> {400, 500, 503}" for q st e st'
    using mapFxError_status by (auto simp: GRPCFxClient_def GRPC_ConvertAmount_def op_iffs)
  show "fc_with_snapshot (GRPCFxClient rpc1 rpc2) q st = (Inl e, st') \<Longrightarrow> \<exists>a. e = Api a \<and> ae_status a \<in> {400, 500, 503}" for q st e st'
    using mapFxError_status by (auto simp: GRPCFxClient_def GRPC_ConvertWithSnapshot_def op_iffs)
qed

end
