(* ===== verification/Expense_Service.thy ===== *)
theory Expense_Service
  imports Expense_Clients
begin

text \<open>
  The operations of the expense service that write the ledger, and its simple reads
  (\<^verbatim>\<open>services/expense/internal/service/expense.go\<close>, \<^verbatim>\<open>prorata.go\<close>,
  \<^verbatim>\<open>prorata_request.go\<close>).  Every operation is written over the two client interfaces and a
  ledger whose statements may fail or lose their replies.
\<close>

section \<open>Requests\<close>

record create_request =
  q_name :: string
  q_amount :: int
  q_currency :: string
  q_type :: string
  q_tag :: string
  q_date :: string
  q_year :: int
  q_month :: int
  q_prorata :: bool
  q_group :: string
  q_index :: int
  q_total :: int
  q_key :: string

record correct_request =
  k_name :: string
  k_amount :: int
  k_currency :: string
  k_type :: string
  k_tag :: string
  k_date :: string

record list_request =
  l_user :: string
  l_year :: int
  l_month :: int
  l_page :: int
  l_size :: int

record list_response =
  lr_data :: "expense list"
  lr_total :: int
  lr_page :: int
  lr_size :: int
  lr_more :: bool

record trusted_period =
  tp_id :: string
  tp_user :: string
  tp_year :: int
  tp_month :: int
  tp_rcur :: string
  tp_source :: string

record installment_request =
  i_user :: string
  i_period :: trusted_period
  i_name :: string
  i_amount :: int
  i_currency :: string
  i_type :: string
  i_tag :: string
  i_date :: string
  i_group :: string
  i_index :: int
  i_total :: int
  i_snapshot :: "captured_snapshot option"

abbreviation err_already_corrected :: string where "err_already_corrected \<equiv> ''ALREADY_CORRECTED''"
abbreviation err_period_locked :: string where "err_period_locked \<equiv> ''PERIOD_LOCKED''"
abbreviation err_snapshot_currency :: string where "err_snapshot_currency \<equiv> ''SNAPSHOT_CURRENCY_MISSING''"

section \<open>Validation\<close>

definition type_message :: string where
  "type_message = ''expense_type must be one of: essentials, desires, savings''"

definition expense_checks ::
    "string \<Rightarrow> int \<Rightarrow> string \<Rightarrow> string \<Rightarrow> string \<Rightarrow> (bool \<times> string \<times> string) list" where
  "expense_checks name amount ty tag date =
     [(name \<noteq> [], ''name'', ''name is required''),
      (amount > 0, ''amountInTransactionCurrencyMinorUnits'', ''amount must be positive''),
      (ValidExpenseTypes ty, ''expenseType'', type_message),
      (tag \<noteq> [], ''tagId'', ''tag_id is required''),
      (date \<noteq> [], ''expenseDateIso'', ''expense_date is required''),
      (iso_date_shape date, ''expenseDateIso'', ''expense_date must be in ISO format (YYYY-MM-DD)'')]"

definition validateCorrectExpenseRequest :: "correct_request \<Rightarrow> apierr option" where
  "validateCorrectExpenseRequest req =
     v_result (v_checks (expense_checks (k_name req) (k_amount req) (k_type req) (k_tag req) (k_date req)))"

definition validateCreateExpenseRequest :: "create_request \<Rightarrow> apierr option" where
  "validateCreateExpenseRequest req =
     v_result (v_checks (expense_checks (q_name req) (q_amount req) (q_type req) (q_tag req) (q_date req)
       @ [(q_year req \<ge> 1, ''periodYear'', ''period_year must be positive''),
          (q_month req \<ge> 1 \<and> q_month req \<le> 12, ''periodMonth'', ''period_month must be between 1 and 12'')]))"

definition validateIdempotencyKey :: "golib \<Rightarrow> string \<Rightarrow> apierr option" where
  "validateIdempotencyKey lib key =
     v_result (v_checks
       [(key \<noteq> [], ''clientGeneratedIdempotencyKey'', ''clientGeneratedIdempotencyKey is required''),
        (length key \<le> 36, ''clientGeneratedIdempotencyKey'', ''clientGeneratedIdempotencyKey must be at most 36 characters''),
        (uuid_parses lib key, ''clientGeneratedIdempotencyKey'', ''clientGeneratedIdempotencyKey must be a valid UUID'')])"

definition validateReportingCurrency :: "golib \<Rightarrow> string \<Rightarrow> apierr option" where
  "validateReportingCurrency lib reportingCurrency =
     (if \<not> currency_supported (normalizeCurrencyCode lib reportingCurrency)
      then Some (Internal ''reporting currency is not supported'') else None)"

definition validateTransactionCurrency :: "golib \<Rightarrow> string \<Rightarrow> goerr + string" where
  "validateTransactionCurrency lib code =
     (let v = v_checks [(currency_supported code, ''transactionCurrency'', ''unsupported currency'')]
      in if v_has_errors v
         then Inl (Api \<lparr>ae_code = err_unsupported_currency, ae_msg = ''Unsupported currency '' @ go_quote lib code,
                        ae_status = 400, ae_fields = v\<rparr>)
         else Inr code)"

definition resolveCreateTransactionCurrency :: "golib \<Rightarrow> period_context \<Rightarrow> create_request \<Rightarrow> goerr + string" where
  "resolveCreateTransactionCurrency lib period req =
     (let tc = normalizeCurrencyCode lib (q_currency req)
      in validateTransactionCurrency lib (if tc = [] then normalizeCurrencyCode lib (pc_rcur period) else tc))"

definition resolveCorrectionTransactionCurrency :: "golib \<Rightarrow> expense \<Rightarrow> correct_request \<Rightarrow> goerr + string" where
  "resolveCorrectionTransactionCurrency lib original req =
     (let tc = normalizeCurrencyCode lib (k_currency req)
      in validateTransactionCurrency lib (if tc = [] then normalizeCurrencyCode lib (x_tcur original) else tc))"

section \<open>Money snapshots\<close>

text \<open>The money fields of \<^verbatim>\<open>model.Expense\<close> that the snapshot builders fill in.\<close>

record money =
  m_tamount :: int
  m_tcur :: string
  m_ramount :: int
  m_rcur :: string
  m_rate :: string
  m_source :: string
  m_ts :: string
  m_exp :: string

definition buildIdentitySnapshot :: "int \<Rightarrow> string \<Rightarrow> string \<Rightarrow> string \<Rightarrow> money" where
  "buildIdentitySnapshot amount tcur rcur timestamp =
     \<lparr>m_tamount = amount, m_tcur = tcur, m_ramount = amount, m_rcur = rcur, m_rate = ''1'',
      m_source = src_identity, m_ts = timestamp, m_exp = []\<rparr>"

definition buildProviderSnapshot ::
    "golib \<Rightarrow> int \<Rightarrow> string \<Rightarrow> string \<Rightarrow> fx_convert_response \<Rightarrow> goerr + money" where
  "buildProviderSnapshot lib amount tcur rcur fx =
     (if \<not> exchangesource_IsValid (fr_source fx)
      then Inl (Api (Internal (''invalid exchange rate source: '' @ go_quote lib (fr_source fx))))
      else Inr \<lparr>m_tamount = amount, m_tcur = tcur, m_ramount = fr_amount fx, m_rcur = rcur,
                m_rate = fr_rate fx, m_source = fr_source fx, m_ts = fr_rate_ts fx, m_exp = fr_expires fx\<rparr>)"

definition handleFxConversionFailure :: "string \<Rightarrow> string \<Rightarrow> goerr \<Rightarrow> goerr" where
  "handleFxConversionFailure tcur rcur err =
     (case as_api err of
        Some a \<Rightarrow>
          if ae_code a = err_conversion_unavailable then err
          else if \<not> IsServerError (Api a) then err
          else FxConversion err tcur rcur
      | None \<Rightarrow> FxConversion err tcur rcur)"

text \<open>The part \<^verbatim>\<open>CreateExpense\<close> and \<^verbatim>\<open>CorrectExpense\<close> share: the snapshot of an amount.\<close>

definition resolveSnapshot :: "golib \<Rightarrow> fx_client \<Rightarrow> int \<Rightarrow> string \<Rightarrow> string \<Rightarrow> string \<Rightarrow> money exp_op" where
  "resolveSnapshot lib fx amount tcur rcur now =
     (if tcur = rcur then retR (buildIdentitySnapshot amount tcur rcur now)
      else bindR (wrapR (handleFxConversionFailure tcur rcur)
             (fc_convert fx \<lparr>fq_amount = amount, fq_source = tcur, fq_target = rcur, fq_requested_at = now\<rparr>)) (\<lambda>resp.
           liftR (buildProviderSnapshot lib amount tcur rcur resp)))"

definition with_money :: "money \<Rightarrow> expense \<Rightarrow> expense" where
  "with_money m e = e\<lparr>x_tamount := m_tamount m, x_ramount := m_ramount m, x_rcur := m_rcur m, x_rate := m_rate m,
     x_rsource := m_source m, x_rts := m_ts m, x_rexp := m_exp m\<rparr>"

section \<open>Creating\<close>

definition ex_now :: "gtime exp_op" where
  "ex_now st = (Inr (ex_clock st (ex_ticks st)), st\<lparr>ex_ticks := ex_ticks st + 1\<rparr>)"

definition new_uuid :: "string exp_op" where
  "new_uuid st = (Inr (ex_uuids st (ex_uuid_next st)), st\<lparr>ex_uuid_next := ex_uuid_next st + 1\<rparr>)"

definition lookupIdempotentReplay :: "string \<Rightarrow> string \<Rightarrow> expense option exp_op" where
  "lookupIdempotentReplay userID key =
     wrapR (Wrapped ''checking idempotency key'') (repo_GetExpenseByIdempotencyKey userID key)"

definition new_expense ::
    "string \<Rightarrow> create_request \<Rightarrow> string \<Rightarrow> string \<Rightarrow> string \<Rightarrow> money \<Rightarrow> expense" where
  "new_expense userID req tcur now i m = with_money m
     \<lparr>x_id = i, x_user = userID, x_name = q_name req, x_tcur = tcur, x_type = q_type req, x_tag = q_tag req,
      x_date = q_date req, x_year = q_year req, x_month = q_month req, x_status = st_active, x_corrects = [],
      x_prorata = q_prorata req, x_group = q_group req, x_index = q_index req, x_total = q_total req,
      x_created = now, x_tamount = 0, x_ramount = 0, x_rcur = [], x_rate = [], x_rsource = [], x_rts = [],
      x_rexp = [], x_key = q_key req\<rparr>"

definition CreateExpense ::
    "golib \<Rightarrow> period_client \<Rightarrow> fx_client \<Rightarrow> string \<Rightarrow> create_request \<Rightarrow> expense exp_op" where
  "CreateExpense lib getctx fx userID req =
     bindR (checkR (map_option Api (validateCreateExpenseRequest req))) (\<lambda>_.
     bindR (checkR (map_option Api (validateIdempotencyKey lib (q_key req)))) (\<lambda>_.
     bindR (lookupIdempotentReplay userID (q_key req)) (\<lambda>replayed.
     case replayed of
       Some e \<Rightarrow> retR e
     | None \<Rightarrow>
         bindR (getctx userID (q_year req) (q_month req)) (\<lambda>period.
         let rcur = normalizeCurrencyCode lib (pc_rcur period) in
         bindR (checkR (map_option Api (validateReportingCurrency lib rcur))) (\<lambda>_.
         bindR (liftR (resolveCreateTransactionCurrency lib period req)) (\<lambda>tcur.
         bindR ex_now (\<lambda>t.
         let now = fmt_rfc3339 (t_utc t) in
         bindR (resolveSnapshot lib fx (q_amount req) tcur rcur now) (\<lambda>m.
         bindR new_uuid (\<lambda>i.
         wrapR (Wrapped ''creating expense'') (repo_CreateExpense (new_expense userID req tcur now i m)))))))))))"

section \<open>Correcting and deleting\<close>

definition period_locked :: "string \<Rightarrow> apierr" where
  "period_locked msg = \<lparr>ae_code = err_period_locked, ae_msg = msg, ae_status = 403, ae_fields = []\<rparr>"

definition check_expense_id :: "string \<Rightarrow> unit exp_op" where
  "check_expense_id i =
     checkR (map_option Api (v_result (v_checks [(i \<noteq> [], ''expenseId'', ''expense ID is required'')])))"

definition outside_current_period :: "expense \<Rightarrow> gtime \<Rightarrow> bool" where
  "outside_current_period e now \<longleftrightarrow> x_year e \<noteq> i32 (t_year now) \<or> x_month e \<noteq> i32 (t_month now)"

definition correction_of ::
    "string \<Rightarrow> expense \<Rightarrow> correct_request \<Rightarrow> string \<Rightarrow> string \<Rightarrow> string \<Rightarrow> money \<Rightarrow> expense" where
  "correction_of userID original req tcur now i m = with_money m
     \<lparr>x_id = i, x_user = userID, x_name = k_name req, x_tcur = tcur, x_type = k_type req, x_tag = k_tag req,
      x_date = k_date req, x_year = x_year original, x_month = x_month original, x_status = st_active,
      x_corrects = x_id original, x_prorata = x_prorata original, x_group = x_group original,
      x_index = x_index original, x_total = x_total original, x_created = now, x_tamount = 0, x_ramount = 0,
      x_rcur = [], x_rate = [], x_rsource = [], x_rts = [], x_rexp = [], x_key = []\<rparr>"

definition CorrectExpense ::
    "golib \<Rightarrow> period_client \<Rightarrow> fx_client \<Rightarrow> string \<Rightarrow> string \<Rightarrow> correct_request \<Rightarrow> expense exp_op" where
  "CorrectExpense lib getctx fx userID expenseID req =
     bindR (check_expense_id expenseID) (\<lambda>_.
     bindR (checkR (map_option Api (validateCorrectExpenseRequest req))) (\<lambda>_.
     bindR (wrapR (Wrapped ''fetching expense for correction'') (repo_GetExpenseByID expenseID userID)) (\<lambda>found.
     case found of
       None \<Rightarrow> failR (Api (NotFound (''expense '' @ expenseID @ '' not found'')))
     | Some original \<Rightarrow>
         bindR (checkR (if x_status original \<noteq> st_active
                        then Some (Api (Conflict err_already_corrected ''this expense has already been corrected''))
                        else None)) (\<lambda>_.
         bindR ex_now (\<lambda>now.
         bindR (checkR (if outside_current_period original now
                        then Some (Api (period_locked ''cannot correct expenses from a past period'')) else None)) (\<lambda>_.
         bindR (getctx userID (x_year original) (x_month original)) (\<lambda>period.
         let rcur = normalizeCurrencyCode lib (pc_rcur period) in
         bindR (checkR (map_option Api (validateReportingCurrency lib rcur))) (\<lambda>_.
         bindR (liftR (resolveCorrectionTransactionCurrency lib original req)) (\<lambda>tcur.
         let nowTS = fmt_rfc3339 (t_utc now) in
         bindR (resolveSnapshot lib fx (k_amount req) tcur rcur nowTS) (\<lambda>m.
         bindR new_uuid (\<lambda>i.
         wrapR (Wrapped ''correcting expense'')
           (repo_CorrectExpense original (correction_of userID original req tcur nowTS i m)))))))))))))"

definition DeleteExpense :: "string \<Rightarrow> string \<Rightarrow> unit exp_op" where
  "DeleteExpense userID expenseID =
     bindR (check_expense_id expenseID) (\<lambda>_.
     bindR (wrapR (Wrapped ''fetching expense for deletion'') (repo_GetExpenseByID expenseID userID)) (\<lambda>found.
     case found of
       None \<Rightarrow> failR (Api (NotFound (''expense '' @ expenseID @ '' not found'')))
     | Some e \<Rightarrow>
         bindR (checkR (if x_status e \<noteq> st_active
                        then Some (Api (Conflict err_already_corrected
                               ''this expense has already been corrected or deleted''))
                        else None)) (\<lambda>_.
         bindR ex_now (\<lambda>now.
         bindR (checkR (if outside_current_period e now
                        then Some (Api (period_locked ''cannot delete expenses from a past period'')) else None)) (\<lambda>_.
         wrapR (Wrapped ''deleting expense'') (repo_DeactivateExpense expenseID userID))))))"

section \<open>Reads and erasure\<close>

definition GetActiveExpensesForPeriod :: "list_request \<Rightarrow> list_response exp_op" where
  "GetActiveExpensesForPeriod req =
     bindR (checkR (map_option Api (v_result (v_checks
       [(l_year req \<ge> 1, ''year'', ''year must be positive''),
        (l_month req \<ge> 1 \<and> l_month req \<le> 12, ''month'', ''month must be between 1 and 12'')])))) (\<lambda>_.
     let page = (if l_page req < 1 then 1 else l_page req);
         pageSize = (if l_size req < 1 \<or> l_size req > 100 then 50 else l_size req) in
     bindR (wrapR (Wrapped ''getting expenses for period'')
       (repo_GetActiveExpensesForPeriod (l_user req) (l_year req) (l_month req) page pageSize)) (\<lambda>(expenses, total).
     retR \<lparr>lr_data = expenses, lr_total = total, lr_page = page, lr_size = pageSize,
           lr_more = i64 (page * pageSize) < total\<rparr>))"

definition GetExpense :: "string \<Rightarrow> string \<Rightarrow> expense exp_op" where
  "GetExpense userID i =
     bindR (check_expense_id i) (\<lambda>_.
     bindR (wrapR (Wrapped ''getting expense'') (repo_GetExpenseByID i userID)) (\<lambda>found.
     case found of
       None \<Rightarrow> failR (Api (NotFound (''expense '' @ i @ '' not found'')))
     | Some e \<Rightarrow> retR e))"

definition CountExpensesByTag :: "string \<Rightarrow> string \<Rightarrow> int exp_op" where
  "CountExpensesByTag userID tagID =
     bindR (checkR (map_option Api (v_result (v_checks [(tagID \<noteq> [], ''tagId'', ''tag_id is required'')])))) (\<lambda>_.
     wrapR (Wrapped ''counting expenses by tag'') (repo_CountExpensesByTag userID tagID))"

definition GetExpensesInProRataGroup :: "string \<Rightarrow> string \<Rightarrow> expense list exp_op" where
  "GetExpensesInProRataGroup userID groupID =
     bindR (checkR (map_option Api (v_result (v_checks [(groupID \<noteq> [], ''groupId'', ''group ID is required'')])))) (\<lambda>_.
     wrapR (Wrapped ''getting pro-rata group'') (repo_GetExpensesInProRataGroup groupID userID))"

definition AnonymizeAllUserExpenses :: "string \<Rightarrow> unit exp_op" where
  "AnonymizeAllUserExpenses userID =
     bindR (checkR (map_option Api (v_result (v_checks [(userID \<noteq> [], ''userId'', ''user_id is required'')])))) (\<lambda>_.
     wrapR (Wrapped ''anonymizing user expenses'') (repo_AnonymizeAllUserExpenses userID))"

section \<open>Pro-rata installments\<close>

definition validateProRataInstallmentRequest :: "installment_request \<Rightarrow> apierr option" where
  "validateProRataInstallmentRequest req =
     v_result (v_checks
       [(i_user req \<noteq> [], ''userId'', ''user_id is required''),
        (i_name req \<noteq> [], ''name'', ''name is required''),
        (i_amount req > 0, ''amount'', ''amount must be positive''),
        (ValidExpenseTypes (i_type req), ''expenseType'', type_message),
        (i_tag req \<noteq> [], ''tagId'', ''tag_id is required''),
        (i_date req \<noteq> [], ''expenseDate'', ''expense_date is required''),
        (iso_date_shape (i_date req), ''expenseDate'', ''expense_date must be in ISO format (YYYY-MM-DD)''),
        (i_group req \<noteq> [], ''proRataGroup'', ''pro_rata_group is required''),
        (i_index req \<ge> 1, ''proRataIndex'', ''pro_rata_index must be positive''),
        (i_total req \<ge> i_index req, ''proRataTotal'', ''pro_rata_total must be >= pro_rata_index'')])"

definition validateTrustedPeriodContext :: "string \<Rightarrow> trusted_period \<Rightarrow> apierr option" where
  "validateTrustedPeriodContext userID pc =
     (if tp_user pc \<noteq> userID
      then Some \<lparr>ae_code = code_forbidden, ae_msg = ''trusted period context user does not match the request user'',
                 ae_status = 403, ae_fields = [(''userId'', ''mismatch'')]\<rparr>
      else let v = v_checks
                 [(tp_source pc = ''finance_service'', ''source'', ''must be finance_service''),
                  (tp_id pc \<noteq> [], ''periodId'', ''required''),
                  (tp_year pc \<ge> 1, ''year'', ''must be positive''),
                  (tp_month pc \<ge> 1 \<and> tp_month pc \<le> 12, ''month'', ''must be between 1 and 12'')]
           in if v_has_errors v
              then Some \<lparr>ae_code = code_internal, ae_msg = ''trusted period context is invalid'', ae_status = 500,
                         ae_fields = v\<rparr>
              else None)"

definition validateSnapshotCoverage :: "captured_snapshot option \<Rightarrow> string list \<Rightarrow> apierr option" where
  "validateSnapshotCoverage snap currencies =
     (let v = v_checks
          ((snap \<noteq> None \<and> (case snap of None \<Rightarrow> False | Some s \<Rightarrow> length (cs_rates s) > 0), ''snapshot'', ''snapshot is required'')
           # (case snap of
                None \<Rightarrow> []
              | Some s \<Rightarrow> map (\<lambda>c. (map_of (cs_rates s) c \<noteq> None, c, ''currency is missing from the snapshot'')) currencies))
      in if v_has_errors v
         then Some \<lparr>ae_code = err_snapshot_currency,
                    ae_msg = ''The captured rate snapshot does not contain a required currency'',
                    ae_status = 409, ae_fields = []\<rparr>
         else None)"

definition installment_row ::
    "installment_request \<Rightarrow> string \<Rightarrow> string \<Rightarrow> string \<Rightarrow> money \<Rightarrow> expense" where
  "installment_row req tcur now i m = with_money m
     \<lparr>x_id = i, x_user = i_user req, x_name = i_name req, x_tcur = tcur, x_type = i_type req, x_tag = i_tag req,
      x_date = i_date req, x_year = tp_year (i_period req), x_month = tp_month (i_period req),
      x_status = st_active, x_corrects = [], x_prorata = True, x_group = i_group req, x_index = i_index req,
      x_total = i_total req, x_created = now, x_tamount = 0, x_ramount = 0, x_rcur = [], x_rate = [],
      x_rsource = [], x_rts = [], x_rexp = [], x_key = []\<rparr>"

definition CreateProRataInstallment :: "golib \<Rightarrow> fx_client \<Rightarrow> installment_request \<Rightarrow> expense exp_op" where
  "CreateProRataInstallment lib fx req =
     bindR (checkR (map_option Api (validateProRataInstallmentRequest req))) (\<lambda>_.
     bindR (checkR (map_option Api (validateTrustedPeriodContext (i_user req) (i_period req)))) (\<lambda>_.
     let rcur = normalizeCurrencyCode lib (tp_rcur (i_period req)) in
     bindR (checkR (map_option Api (validateReportingCurrency lib rcur))) (\<lambda>_.
     bindR (liftR (validateTransactionCurrency lib (normalizeCurrencyCode lib (i_currency req)))) (\<lambda>tcur.
     bindR ex_now (\<lambda>t.
     let now = fmt_rfc3339 (t_utc t) in
     bindR (checkR (map_option Api (validateSnapshotCoverage (i_snapshot req) [tcur, rcur]))) (\<lambda>_.
     bindR (wrapR (handleFxConversionFailure tcur rcur)
       (fc_with_snapshot fx \<lparr>sq_amount = i_amount req, sq_source = tcur, sq_target = rcur,
          sq_requested_at = now, sq_snapshot = fromProtoSnapshot (i_snapshot req)\<rparr>)) (\<lambda>resp.
     bindR (liftR (buildProviderSnapshot lib (i_amount req) tcur rcur resp)) (\<lambda>m.
     bindR new_uuid (\<lambda>i.
     wrapR (Wrapped ''creating pro-rata installment'')
       (repo_CreateExpense (installment_row req tcur now i m)))))))))))"

end
