(* ===== verification/Expense_Invariants.thy ===== *)
theory Expense_Invariants
  imports Expense_Service
begin

text \<open>
  What the writing operations of the expense service do to the ledger.  An operation either fails
  without touching it or performs the one change it announces; from this follow the invariants of
  every reachable ledger: unique identifiers, linear correction chains inside one user and one
  period, at most one row per idempotency key, and rows that never change except for the status
  flag (and the erasure of a user).
\<close>

section \<open>Effects\<close>

text \<open>
  \<open>effect A Q m\<close>: started in a state with \<open>A\<close>, the operation \<open>m\<close> fails without touching the
  ledger, or its run is described by \<open>Q\<close>.
\<close>

definition effect :: "(exp_state \<Rightarrow> bool) \<Rightarrow> (exp_state \<Rightarrow> goerr + 'a \<Rightarrow> exp_state \<Rightarrow> bool) \<Rightarrow> 'a exp_op \<Rightarrow> bool" where
  "effect A Q m \<longleftrightarrow> (\<forall>st r st'. A st \<longrightarrow> m st = (r, st') \<longrightarrow> quiet st st' \<and> isl r \<or> Q st r st')"

definition qclosed :: "(exp_state \<Rightarrow> 'r \<Rightarrow> exp_state \<Rightarrow> bool) \<Rightarrow> bool" where
  "qclosed Q \<longleftrightarrow> (\<forall>st s r st'. quiet st s \<longrightarrow> Q s r st' \<longrightarrow> Q st r st')"

lemma effectD: "effect A Q m \<Longrightarrow> A st \<Longrightarrow> m st = (r, st') \<Longrightarrow> quiet st st' \<and> isl r \<or> Q st r st'"
  by (simp add: effect_def)

lemma effect_fail: "effect A Q (failR e)"
  by (simp add: effect_def)

lemma effect_check:
  "(v = None \<Longrightarrow> effect A Q (k ())) \<Longrightarrow> effect A Q (bindR (checkR v) k)"
  by (cases v) (auto simp: effect_def)

lemma effect_lift:
  "(\<And>x. r = Inr x \<Longrightarrow> effect A Q (k x)) \<Longrightarrow> effect A Q (bindR (liftR r) k)"
  by (cases r) (auto simp: effect_def)

lemma effect_read:
  assumes "keeps quiet m" "qclosed Q" "\<And>st x s. A st \<Longrightarrow> quiet st s \<Longrightarrow> m st = (Inr x, s) \<Longrightarrow> B x s"
    "\<And>x. effect (B x) Q (k x)"
  shows "effect A Q (bindR m k)"
  unfolding effect_def
proof (intro allI impI)
  fix st r st'
  assume A: "A st" and run: "bindR m k st = (r, st')"
  obtain r1 s where m: "m st = (r1, s)" by (metis surj_pair)
  with assms(1) have q: "quiet st s" by (rule keepsD)
  show "quiet st st' \<and> isl r \<or> Q st r st'"
  proof (cases r1)
    case (Inl e)
    with m run q show ?thesis by (auto simp: bindR_def)
  next
    case (Inr x)
    with m run have "k x s = (r, st')" by (simp add: bindR_def)
    with assms(3) [OF A q] m Inr assms(4) have "quiet s st' \<and> isl r \<or> Q s r st'" by (metis effectD)
    with q assms(2) show ?thesis by (auto simp: qclosed_def intro: quiet_trans)
  qed
qed

text \<open>The clock and the supply of identifiers.\<close>

lemma keeps_quiet_ex_now [frame, intro]: "keeps quiet ex_now"
  by (simp add: keeps_def ex_now_def quiet_def same_env_def)

lemma keeps_quiet_new_uuid [frame, intro]: "keeps quiet new_uuid"
  by (simp add: keeps_def new_uuid_def quiet_def same_env_def)

lemma keeps_quiet_lookup [frame, intro]: "keeps quiet (lookupIdempotentReplay u k)"
  unfolding lookupIdempotentReplay_def by (intro keeps_wrapR repo_reads_quiet)

definition uuids_ok :: "exp_state \<Rightarrow> bool" where
  "uuids_ok st \<longleftrightarrow> (\<forall>n. ex_uuids st n \<noteq> [])"

definition env_ok :: "exp_state \<Rightarrow> bool" where
  "env_ok st \<longleftrightarrow> scan_ok st \<and> uuids_ok st"

lemma env_ok_quiet: "quiet st s \<Longrightarrow> env_ok st \<Longrightarrow> env_ok s"
  by (auto simp: env_ok_def uuids_ok_def scan_ok_def quiet_def same_env_def)

lemma env_ok_same: "same_env st s \<Longrightarrow> env_ok st \<Longrightarrow> env_ok s"
  by (auto simp: env_ok_def uuids_ok_def scan_ok_def same_env_def)

section \<open>Money snapshots\<close>

text \<open>
  The snapshot the service stores: the user's amount and currency untouched, a valid source, and
  the identity conversion when the two currencies agree.
\<close>

definition money_ok :: "int \<Rightarrow> string \<Rightarrow> string \<Rightarrow> money \<Rightarrow> bool" where
  "money_ok amount tcur rcur m \<longleftrightarrow>
     m_tamount m = amount \<and> m_rcur m = rcur \<and> exchangesource_IsValid (m_source m)
     \<and> (tcur = rcur \<longrightarrow> m_ramount m = amount \<and> m_rate m = ''1'' \<and> m_source m = src_identity)"

lemma buildProviderSnapshot_ok:
  "buildProviderSnapshot lib a tc rc resp = Inr m \<Longrightarrow>
     m_tamount m = a \<and> m_rcur m = rc \<and> exchangesource_IsValid (m_source m) \<and> m_ramount m = fr_amount resp"
  by (auto simp: buildProviderSnapshot_def split: if_splits)

lemma resolveSnapshot_ok: "resolveSnapshot lib fx a tc rc now st = (Inr m, st') \<Longrightarrow> money_ok a tc rc m"
  by (auto simp: resolveSnapshot_def op_iffs money_ok_def buildIdentitySnapshot_def exchangesource_IsValid_def
      split: if_splits dest!: buildProviderSnapshot_ok)

context expense_clients
begin

lemma keeps_quiet_resolveSnapshot: "keeps quiet (resolveSnapshot lib fx a tc rc now)"
  unfolding resolveSnapshot_def
  by (intro keeps_if keeps_bindR keeps_wrapR fx_quiet keeps_basic transp_quiet reflp_quiet)

end

lemma validateTransactionCurrency_Inr:
  "validateTransactionCurrency lib c = Inr d \<longleftrightarrow> d = c \<and> currency_supported c"
  by (auto simp: validateTransactionCurrency_def Let_def v_has_errors_def v_checks_def v_new_def v_check_def)

lemma validateReportingCurrency_None:
  "validateReportingCurrency lib c = None \<longleftrightarrow> currency_supported (normalizeCurrencyCode lib c)"
  by (simp add: validateReportingCurrency_def)

lemma validateCreateExpenseRequest_None:
  "validateCreateExpenseRequest req = None \<longleftrightarrow>
     q_name req \<noteq> [] \<and> 0 < q_amount req \<and> ValidExpenseTypes (q_type req) \<and> q_tag req \<noteq> []
     \<and> q_date req \<noteq> [] \<and> iso_date_shape (q_date req) \<and> 1 \<le> q_year req \<and> 1 \<le> q_month req \<and> q_month req \<le> 12"
  by (auto simp: validateCreateExpenseRequest_def v_checks_None expense_checks_def)

lemma validateCorrectExpenseRequest_None:
  "validateCorrectExpenseRequest req = None \<longleftrightarrow>
     k_name req \<noteq> [] \<and> 0 < k_amount req \<and> ValidExpenseTypes (k_type req) \<and> k_tag req \<noteq> []
     \<and> k_date req \<noteq> [] \<and> iso_date_shape (k_date req)"
  by (auto simp: validateCorrectExpenseRequest_def v_checks_None expense_checks_def)

lemma validateIdempotencyKey_None:
  "validateIdempotencyKey lib key = None \<longleftrightarrow> key \<noteq> [] \<and> length key \<le> 36 \<and> uuid_parses lib key"
  by (auto simp: validateIdempotencyKey_def v_checks_None)

section \<open>Creating an expense\<close>

definition inserts :: "expense \<Rightarrow> exp_state \<Rightarrow> goerr + expense \<Rightarrow> exp_state \<Rightarrow> bool" where
  "inserts e st r st' \<longleftrightarrow>
     insert_row e (ledger st) = Some (ledger st') \<and> same_env st st' \<and> (isl r \<or> r = Inr e)"

lemma effect_insert:
  assumes "\<And>st r st'. A st \<Longrightarrow> inserts e st r st' \<Longrightarrow> Q st r st'"
  shows "effect A Q (wrapR f (repo_CreateExpense e))"
  unfolding effect_def
proof (intro allI impI)
  fix st r st'
  assume A: "A st" and run: "wrapR f (repo_CreateExpense e) st = (r, st')"
  obtain r0 where run0: "repo_CreateExpense e st = (r0, st')" and r: "isl r = isl r0" "\<not> isl r \<Longrightarrow> r = r0"
    using run by (auto simp: wrapR_def split: prod.splits sum.splits)
  show "quiet st st' \<and> isl r \<or> Q st r st'"
    using run0 by (cases rule: repo_CreateExpense_cases)
      (use assms [OF A] r in \<open>auto simp: inserts_def\<close>)
qed

definition created_by :: "golib \<Rightarrow> string \<Rightarrow> create_request \<Rightarrow> exp_state \<Rightarrow> expense \<Rightarrow> bool" where
  "created_by lib u req st e \<longleftrightarrow>
     (\<exists>tcur now n m. e = new_expense u req tcur now (ex_uuids st n) m
        \<and> money_ok (q_amount req) tcur (m_rcur m) m
        \<and> currency_supported tcur \<and> currency_supported (normalizeCurrencyCode lib (m_rcur m)))"

definition create_effect :: "golib \<Rightarrow> string \<Rightarrow> create_request \<Rightarrow> exp_state \<Rightarrow> goerr + expense \<Rightarrow> exp_state \<Rightarrow> bool" where
  "create_effect lib u req st r st' \<longleftrightarrow>
     (\<exists>e. r = Inr e \<and> quiet st st' \<and> e \<in> set (ledger st) \<and> x_user e = u \<and> x_key e = q_key req)
     \<or> (\<exists>e. created_by lib u req st e \<and> (\<forall>x\<in>set (ledger st). \<not> (x_user x = u \<and> x_key x = q_key req))
          \<and> inserts e st r st')"

lemma created_byI:
  "money_ok (q_amount req) tcur rc m \<Longrightarrow> currency_supported (normalizeCurrencyCode lib rc) \<Longrightarrow> currency_supported tcur
     \<Longrightarrow> created_by lib u req st (new_expense u req tcur now (ex_uuids st n) m)"
  unfolding created_by_def by (metis money_ok_def)

lemma create_effectI:
  "created_by lib u req st e \<Longrightarrow> \<forall>x\<in>set (ledger st). \<not> (x_user x = u \<and> x_key x = q_key req)
     \<Longrightarrow> inserts e st r st' \<Longrightarrow> create_effect lib u req st r st'"
  unfolding create_effect_def by blast

lemma same_env_quiet: "quiet st s \<Longrightarrow> same_env s s' \<Longrightarrow> same_env st s'"
  by (auto simp: quiet_def same_env_def)

lemma inserts_quiet: "quiet st s \<Longrightarrow> inserts e s r s' \<Longrightarrow> inserts e st r s'"
  by (auto simp: inserts_def quiet_def same_env_def)

lemma quiet_fields: "quiet st s \<Longrightarrow> ledger s = ledger st \<and> ex_uuids s = ex_uuids st"
  by (simp add: quiet_def same_env_def)

lemma qclosed_create: "qclosed (create_effect lib u req)"
  unfolding qclosed_def
proof (intro allI impI)
  fix st s r st'
  assume q: "quiet st s" and c: "create_effect lib u req s r st'"
  note same = quiet_fields [OF q]
  have by_same: "created_by lib u req s = created_by lib u req st"
    by (simp add: created_by_def same fun_eq_iff)
  show "create_effect lib u req st r st'"
    using c unfolding create_effect_def by_same same [THEN conjunct1]
    by (auto intro: quiet_trans [OF q] inserts_quiet [OF q])
qed

lemma resolveCreate_Inr:
  "resolveCreateTransactionCurrency lib p req = Inr tc \<Longrightarrow> currency_supported tc"
  by (auto simp: resolveCreateTransactionCurrency_def Let_def validateTransactionCurrency_Inr)

context expense_clients
begin

lemma CreateExpense_effect: "effect env_ok (create_effect lib u req) (CreateExpense lib getctx fx u req)"
proof -
  define nokey where "nokey st \<longleftrightarrow> (\<forall>x\<in>set (ledger st). \<not> (x_user x = u \<and> x_key x = q_key req))" for st :: exp_state
  define A where "A st \<longleftrightarrow> env_ok st \<and> nokey st" for st :: exp_state
  have A_quiet: "A s" if "A st" "quiet st s" for st s
    using that env_ok_quiet by (auto simp: A_def nokey_def quiet_def)
  have keep: "effect A (create_effect lib u req) (bindR m k)"
    if "keeps quiet m" "\<And>x. effect A (create_effect lib u req) (k x)"
    for m :: "'x exp_op" and k
    by (rule effect_read [where B = "\<lambda>_. A"]) (use that A_quiet qclosed_create in auto)
  define C where "C r s \<longleftrightarrow> env_ok s \<and> (case r of None \<Rightarrow> nokey s
      | Some e \<Rightarrow> e \<in> set (ledger s) \<and> x_user e = u \<and> x_key e = q_key req)" for r and s :: exp_state
  have lookup: "C r s" if "env_ok st" "quiet st s" "lookupIdempotentReplay u (q_key req) st = (Inr r, s)" for st r s
    using repo_GetExpenseByIdempotencyKey_Inr [of u "q_key req" st r s] that env_ok_quiet
    by (auto simp: C_def lookupIdempotentReplay_def wrapR_Inr_iff nokey_def env_ok_def quiet_def split: option.splits)
  have C_None: "C None = A" by (auto simp: C_def A_def fun_eq_iff)
  show ?thesis
    unfolding CreateExpense_def Let_def
  proof (intro effect_check effect_read [where A = env_ok and B = C, OF keeps_quiet_lookup qclosed_create])
    show "C r s" if "env_ok st" "quiet st s" "lookupIdempotentReplay u (q_key req) st = (Inr r, s)" for st r s
      using lookup that .
    fix r
    show "effect (C r) (create_effect lib u req) (case r of
      Some e \<Rightarrow> retR e
     | None \<Rightarrow>
         bindR (getctx u (q_year req) (q_month req)) (\<lambda>period.
         bindR (checkR (map_option Api (validateReportingCurrency lib (normalizeCurrencyCode lib (pc_rcur period))))) (\<lambda>_.
         bindR (liftR (resolveCreateTransactionCurrency lib period req)) (\<lambda>tcur.
         bindR ex_now (\<lambda>t.
         bindR (resolveSnapshot lib fx (q_amount req) tcur (normalizeCurrencyCode lib (pc_rcur period)) (fmt_rfc3339 (t_utc t))) (\<lambda>m.
         bindR new_uuid (\<lambda>i.
         wrapR (Wrapped ''creating expense'') (repo_CreateExpense (new_expense u req tcur (fmt_rfc3339 (t_utc t)) i m)))))))))"
    proof (cases r)
      case (Some e)
      then show ?thesis
        by (auto simp: effect_def create_effect_def C_def)
    next
      case None
      show ?thesis
        unfolding None option.case C_None
      proof (rule keep [OF ctx_quiet], rule effect_check, rule effect_lift, rule keep [OF keeps_quiet_ex_now])
        fix period :: period_context and tcur t
        let ?rc = "normalizeCurrencyCode lib (pc_rcur period)"
        assume "map_option Api (validateReportingCurrency lib ?rc) = None"
          and "resolveCreateTransactionCurrency lib period req = Inr tcur"
        then have cur: "currency_supported (normalizeCurrencyCode lib ?rc)" "currency_supported tcur"
          by (auto simp: validateReportingCurrency_None dest: resolveCreate_Inr)
        show "effect A (create_effect lib u req)
          (bindR (resolveSnapshot lib fx (q_amount req) tcur ?rc (fmt_rfc3339 (t_utc t))) (\<lambda>m.
           bindR new_uuid (\<lambda>i. wrapR (Wrapped ''creating expense'')
             (repo_CreateExpense (new_expense u req tcur (fmt_rfc3339 (t_utc t)) i m)))))"
        proof (rule effect_read [where B = "\<lambda>m s. A s \<and> money_ok (q_amount req) tcur ?rc m",
              OF keeps_quiet_resolveSnapshot qclosed_create])
          fix m
          show "effect (\<lambda>s. A s \<and> money_ok (q_amount req) tcur ?rc m) (create_effect lib u req)
            (bindR new_uuid (\<lambda>i. wrapR (Wrapped ''creating expense'')
             (repo_CreateExpense (new_expense u req tcur (fmt_rfc3339 (t_utc t)) i m))))"
          proof (rule effect_read [where B = "\<lambda>i s. A s \<and> money_ok (q_amount req) tcur ?rc m \<and> (\<exists>n. i = ex_uuids s n)",
                OF keeps_quiet_new_uuid qclosed_create])
            show "A s \<and> money_ok (q_amount req) tcur ?rc m \<and> (\<exists>n. i = ex_uuids s n)"
              if "A st \<and> money_ok (q_amount req) tcur ?rc m" "quiet st s" "new_uuid st = (Inr i, s)" for st i s
              using that A_quiet by (auto simp: new_uuid_def)
            show "effect (\<lambda>s. A s \<and> money_ok (q_amount req) tcur ?rc m \<and> (\<exists>n. i = ex_uuids s n)) (create_effect lib u req)
              (wrapR (Wrapped ''creating expense'') (repo_CreateExpense (new_expense u req tcur (fmt_rfc3339 (t_utc t)) i m)))" for i
              by (rule effect_insert) (use cur in \<open>auto simp: A_def nokey_def intro: create_effectI created_byI\<close>)
          qed
        qed (auto intro: A_quiet dest: resolveSnapshot_ok)
      qed
    qed
  qed
qed

end

lemma effect_keep:
  assumes "keeps quiet m" "qclosed Q" "\<And>st s. A st \<Longrightarrow> quiet st s \<Longrightarrow> A s" "\<And>x. effect A Q (k x)"
  shows "effect A Q (bindR m k)"
  by (rule effect_read [where B = "\<lambda>_. A"]) (use assms in auto)

section \<open>Correcting and deleting\<close>

definition mark :: "string \<Rightarrow> expense list \<Rightarrow> expense list" where
  "mark i L = map (\<lambda>r. if x_id r = i then r\<lparr>x_status := st_corrected\<rparr> else r) L"

text \<open>The row an operation may change: the user's, active, readable, and of the current month.\<close>

definition changeable :: "string \<Rightarrow> string \<Rightarrow> exp_state \<Rightarrow> expense \<Rightarrow> bool" where
  "changeable u i st e \<longleftrightarrow>
     i \<noteq> [] \<and> e \<in> set (ledger st) \<and> x_id e = i \<and> x_user e = u \<and> x_status e = st_active \<and> missing_fields e = []
     \<and> (\<exists>k. \<not> outside_current_period e (ex_clock st k))"

definition correct_effect ::
    "golib \<Rightarrow> string \<Rightarrow> string \<Rightarrow> correct_request \<Rightarrow> exp_state \<Rightarrow> goerr + expense \<Rightarrow> exp_state \<Rightarrow> bool" where
  "correct_effect lib u i req st r st' \<longleftrightarrow>
     same_env st st' \<and>
     (\<exists>original tcur now n m corr.
        changeable u i st original
        \<and> corr = correction_of u original req tcur now (ex_uuids st n) m
        \<and> money_ok (k_amount req) tcur (m_rcur m) m \<and> currency_supported tcur
        \<and> (ledger st' = mark i (ledger st) \<and> isl r
           \<or> insert_row corr (mark i (ledger st)) = Some (ledger st') \<and> (isl r \<or> r = Inr corr)))"

definition delete_effect :: "string \<Rightarrow> string \<Rightarrow> exp_state \<Rightarrow> goerr + unit \<Rightarrow> exp_state \<Rightarrow> bool" where
  "delete_effect u i st r st' \<longleftrightarrow>
     same_env st st' \<and>
     (\<exists>e. changeable u i st e
        \<and> ledger st' = map (\<lambda>x. if x_id x = i \<and> x_user x = u then x\<lparr>x_status := st_corrected\<rparr> else x) (ledger st))"

lemma changeable_quiet: "quiet st s \<Longrightarrow> changeable u i s = changeable u i st"
  by (simp add: changeable_def quiet_def same_env_def fun_eq_iff)

lemma qclosed_correct: "qclosed (correct_effect lib u i req)"
  unfolding qclosed_def correct_effect_def
proof (intro allI impI, elim conjE, intro conjI)
  fix st s r st'
  assume q: "quiet st s"
  show "same_env s st' \<Longrightarrow> same_env st st'" by (rule same_env_quiet [OF q])
qed (simp add: changeable_quiet quiet_fields)

lemma qclosed_delete: "qclosed (delete_effect u i)"
  unfolding qclosed_def delete_effect_def
proof (intro allI impI, elim conjE, intro conjI)
  fix st s r st'
  assume q: "quiet st s"
  show "same_env s st' \<Longrightarrow> same_env st st'" by (rule same_env_quiet [OF q])
qed (simp add: changeable_quiet quiet_fields)

lemma update_where_effect:
  assumes "sql_exec (update_where p f) st = (r, st')"
  shows "quiet st st' \<and> isl r \<or> same_env st st' \<and> ledger st' = map (\<lambda>x. if p x then f x else x) (ledger st)"
  using assms by (cases rule: sql_exec_cases) (auto simp: update_where_def)

lemma repo_CorrectExpense_effect:
  assumes "repo_CorrectExpense original corr st = (r, st')"
  shows "quiet st st' \<and> isl r \<or> same_env st st' \<and>
    (ledger st' = mark (x_id original) (ledger st) \<and> isl r
     \<or> insert_row corr (mark (x_id original) (ledger st)) = Some (ledger st') \<and> (isl r \<or> r = Inr corr))"
proof -
  obtain r1 s where u: "sql_exec (update_where (\<lambda>e. x_id e = x_id original) (\<lambda>e. e\<lparr>x_status := st_corrected\<rparr>)) st = (r1, s)"
    by (metis surj_pair)
  note upd = update_where_effect [OF u, folded mark_def]
  show ?thesis
  proof (cases r1)
    case (Inl e)
    then show ?thesis
      using assms u upd by (auto simp: repo_CorrectExpense_def bindR_def wrapR_def)
  next
    case (Inr x)
    with upd have upd': "same_env st s" "ledger s = mark (x_id original) (ledger st)" by auto
    obtain r2 where c: "repo_CreateExpense corr s = (r2, st')" and r: "isl r = isl r2" "\<not> isl r \<Longrightarrow> r = r2"
      using assms u Inr by (auto simp: repo_CorrectExpense_def bindR_def wrapR_def split: prod.splits sum.splits)
    from c show ?thesis
      by (cases rule: repo_CreateExpense_cases)
         (use upd' r in \<open>auto simp: quiet_def intro: same_env_trans\<close>)
  qed
qed

lemma effect_wrapR_final:
  assumes "\<And>st r st'. A st \<Longrightarrow> m st = (r, st') \<Longrightarrow> quiet st st' \<and> isl r \<or> Q st r st'"
    and "\<And>st r r' st'. Q st r st' \<Longrightarrow> isl r' = isl r \<Longrightarrow> (\<not> isl r \<Longrightarrow> r' = r) \<Longrightarrow> Q st r' st'"
  shows "effect A Q (wrapR f m)"
  unfolding effect_def
proof (intro allI impI)
  fix st r st'
  assume A: "A st" and run: "wrapR f m st = (r, st')"
  obtain r0 where run0: "m st = (r0, st')" and r: "isl r = isl r0" "\<not> isl r0 \<Longrightarrow> r = r0"
    using run by (auto simp: wrapR_def split: prod.splits sum.splits)
  from assms(1) [OF A run0] show "quiet st st' \<and> isl r \<or> Q st r st'"
    using assms(2) [of st r0 st' r] r by auto
qed

lemma found_row:
  assumes "wrapR f (repo_GetExpenseByID i u) st = (Inr (Some e), s)" "env_ok st"
  shows "e \<in> set (ledger s) \<and> x_id e = i \<and> x_user e = u \<and> missing_fields e = []"
  using repo_GetExpenseByID_Inr [of i u st "Some e" s] assms keepsD [OF repo_reads_quiet(2), of i u st _ s]
  by (auto simp: wrapR_Inr_iff env_ok_def quiet_def)

context expense_clients
begin

lemma CorrectExpense_effect: "effect env_ok (correct_effect lib u i req) (CorrectExpense lib getctx fx u i req)"
proof -
  let ?Q = "correct_effect lib u i req"
  define B where "B e s \<longleftrightarrow> env_ok s \<and> i \<noteq> [] \<and> e \<in> set (ledger s) \<and> x_id e = i \<and> x_user e = u \<and> missing_fields e = []
    \<and> x_status e = st_active" for e and s :: exp_state
  define D where "D e s \<longleftrightarrow> env_ok s \<and> changeable u i s e" for e and s :: exp_state
  have D_quiet: "D e s" if "D e st" "quiet st s" for e st s
    using that by (auto simp: D_def changeable_quiet [OF that(2)] intro: env_ok_quiet)
  have keepD: "effect (D e) ?Q (bindR m k)" if "keeps quiet m" "\<And>x. effect (D e) ?Q (k x)" for m :: "'x exp_op" and k e
    by (rule effect_keep [OF that(1) qclosed_correct D_quiet that(2)])
  have final: "effect (\<lambda>s. D e s \<and> money_ok (k_amount req) tc rc m \<and> (\<exists>n. j = ex_uuids s n)) ?Q
      (wrapR (Wrapped ''correcting expense'') (repo_CorrectExpense e (correction_of u e req tc now j m)))"
    if "currency_supported tc" for e tc rc now j m
  proof (rule effect_wrapR_final)
    fix st r st'
    assume D: "D e st \<and> money_ok (k_amount req) tc rc m \<and> (\<exists>n. j = ex_uuids st n)"
      and run: "repo_CorrectExpense e (correction_of u e req tc now j m) st = (r, st')"
    then have "x_id e = i" "m_rcur m = rc" by (auto simp: D_def changeable_def money_ok_def)
    with repo_CorrectExpense_effect [OF run] D that
    show "quiet st st' \<and> isl r \<or> correct_effect lib u i req st r st'"
      unfolding correct_effect_def D_def by blast
  next
    show "correct_effect lib u i req st r' st'"
      if "correct_effect lib u i req st r st'" "isl r' = isl r" "\<not> isl r \<Longrightarrow> r' = r" for st r r' st'
      using that unfolding correct_effect_def by (metis isl_def)
  qed
  show ?thesis
    unfolding CorrectExpense_def Let_def check_expense_id_def
  proof (rule effect_check, rule effect_check,
      rule effect_read [where B = "\<lambda>r s. env_ok s \<and> (\<forall>e. r = Some e \<longrightarrow> e \<in> set (ledger s) \<and> x_id e = i \<and> x_user e = u \<and> missing_fields e = [])",
          OF keeps_wrapR [OF repo_reads_quiet(2)] qclosed_correct], goal_cases)
    case (1 st x s)
    then show ?case using found_row env_ok_quiet by blast
  next
    case (2 found)
    then have i: "i \<noteq> []" by (simp add: v_checks_None)
    show ?case
    proof (cases found)
      case None
      then show ?thesis by (simp add: effect_fail)
    next
      case (Some e)
      show ?thesis
        unfolding Some option.case
      proof (rule effect_check, rule effect_read [where B = "\<lambda>now s. B e s \<and> (\<exists>k. now = ex_clock s k)",
            OF keeps_quiet_ex_now qclosed_correct], goal_cases)
        case (1 st now s)
        then show ?case using i by (auto simp: B_def ex_now_def quiet_def same_env_def env_ok_def scan_ok_def uuids_ok_def split: if_splits)
      next
        case (2 now)
        show ?case
        proof (rule effect_check, goal_cases)
          case 1
          then have "D e s" if "B e s \<and> (\<exists>k. now = ex_clock s k)" for s
            using that by (auto simp: B_def D_def changeable_def split: if_splits)
          then have weaken: "effect (D e) ?Q m \<Longrightarrow> effect (\<lambda>s. B e s \<and> (\<exists>k. now = ex_clock s k)) ?Q m" for m
            unfolding effect_def by blast
          show ?case
          proof (rule weaken, rule keepD [OF ctx_quiet], rule effect_check, rule effect_lift)
            fix period :: period_context and tc
            let ?rc = "normalizeCurrencyCode lib (pc_rcur period)"
            assume "resolveCorrectionTransactionCurrency lib e req = Inr tc"
            then have tc: "currency_supported tc"
              by (auto simp: resolveCorrectionTransactionCurrency_def Let_def validateTransactionCurrency_Inr)
            show "effect (D e) ?Q (bindR (resolveSnapshot lib fx (k_amount req) tc ?rc (fmt_rfc3339 (t_utc now))) (\<lambda>m.
              bindR new_uuid (\<lambda>j. wrapR (Wrapped ''correcting expense'')
                (repo_CorrectExpense e (correction_of u e req tc (fmt_rfc3339 (t_utc now)) j m)))))"
            proof (rule effect_read [where B = "\<lambda>m s. D e s \<and> money_ok (k_amount req) tc ?rc m",
                  OF keeps_quiet_resolveSnapshot qclosed_correct],
                use D_quiet resolveSnapshot_ok in blast,
                rule effect_read [where B = "\<lambda>j s. D e s \<and> money_ok (k_amount req) tc ?rc m \<and> (\<exists>n. j = ex_uuids s n)" for m,
                  OF keeps_quiet_new_uuid qclosed_correct _ final [OF tc]])
              show "D e s \<and> money_ok (k_amount req) tc ?rc m \<and> (\<exists>n. j = ex_uuids s n)"
                if "D e st \<and> money_ok (k_amount req) tc ?rc m" "quiet st s" "new_uuid st = (Inr j, s)" for m st j s
                using that D_quiet by (auto simp: new_uuid_def)
            qed
          qed
        qed
      qed
    qed
  qed
qed

end

lemma DeleteExpense_effect: "effect env_ok (delete_effect u i) (DeleteExpense u i)"
proof -
  let ?Q = "delete_effect u i"
  define B where "B e s \<longleftrightarrow> env_ok s \<and> i \<noteq> [] \<and> e \<in> set (ledger s) \<and> x_id e = i \<and> x_user e = u \<and> missing_fields e = []
    \<and> x_status e = st_active" for e and s :: exp_state
  show ?thesis
    unfolding DeleteExpense_def check_expense_id_def
  proof (rule effect_check,
      rule effect_read [where B = "\<lambda>r s. env_ok s \<and> (\<forall>e. r = Some e \<longrightarrow> e \<in> set (ledger s) \<and> x_id e = i \<and> x_user e = u \<and> missing_fields e = [])",
          OF keeps_wrapR [OF repo_reads_quiet(2)] qclosed_delete], goal_cases)
    case (1 st x s)
    then show ?case using found_row env_ok_quiet by blast
  next
    case (2 found)
    then have i: "i \<noteq> []" by (simp add: v_checks_None)
    show ?case
    proof (cases found)
      case None
      then show ?thesis by (simp add: effect_fail)
    next
      case (Some e)
      show ?thesis
        unfolding Some option.case
      proof (rule effect_check, rule effect_read [where B = "\<lambda>now s. B e s \<and> (\<exists>k. now = ex_clock s k)",
            OF keeps_quiet_ex_now qclosed_delete], goal_cases)
        case (1 st now s)
        then show ?case using i by (auto simp: B_def ex_now_def quiet_def same_env_def env_ok_def scan_ok_def uuids_ok_def split: if_splits)
      next
        case (2 now)
        show ?case
        proof (rule effect_check, rule effect_wrapR_final, goal_cases)
          case (1 st r st')
          then have "changeable u i st e" by (auto simp: B_def changeable_def split: if_splits)
          moreover obtain r0 where "sql_exec (update_where (\<lambda>e. x_id e = i \<and> x_user e = u) (\<lambda>e. e\<lparr>x_status := st_corrected\<rparr>)) st = (r0, st')"
            "isl r = isl r0"
            using 1(3) by (auto simp: repo_DeactivateExpense_def wrapR_def split: prod.splits sum.splits)
          ultimately show ?case
            unfolding delete_effect_def by (auto dest!: update_where_effect)
        next
          case 2
          then show ?case by (simp add: delete_effect_def)
        qed
      qed
    qed
  qed
qed

section \<open>Installments and erasure\<close>

definition installed_by :: "golib \<Rightarrow> installment_request \<Rightarrow> exp_state \<Rightarrow> expense \<Rightarrow> bool" where
  "installed_by lib req st e \<longleftrightarrow>
     (\<exists>tcur now n m. e = installment_row req tcur now (ex_uuids st n) m
        \<and> m_tamount m = i_amount req \<and> exchangesource_IsValid (m_source m) \<and> currency_supported tcur)"

definition install_effect :: "golib \<Rightarrow> installment_request \<Rightarrow> exp_state \<Rightarrow> goerr + expense \<Rightarrow> exp_state \<Rightarrow> bool" where
  "install_effect lib req st r st' \<longleftrightarrow> (\<exists>e. installed_by lib req st e \<and> inserts e st r st')"

lemma installed_byI:
  "m_tamount m = i_amount req \<Longrightarrow> exchangesource_IsValid (m_source m) \<Longrightarrow> currency_supported tcur
     \<Longrightarrow> installed_by lib req st (installment_row req tcur now (ex_uuids st n) m)"
  unfolding installed_by_def by blast

lemma install_effectI: "inserts e st r st' \<Longrightarrow> installed_by lib req st e \<Longrightarrow> install_effect lib req st r st'"
  unfolding install_effect_def by blast

lemma qclosed_install: "qclosed (install_effect lib req)"
  unfolding qclosed_def
proof (intro allI impI)
  fix st s r st'
  assume q: "quiet st s" and c: "install_effect lib req s r st'"
  have by_same: "installed_by lib req s = installed_by lib req st"
    by (simp add: installed_by_def quiet_fields [OF q] fun_eq_iff)
  show "install_effect lib req st r st'"
    using c unfolding install_effect_def by_same by (auto intro: inserts_quiet [OF q])
qed

context expense_clients
begin

lemma CreateProRataInstallment_effect:
  "effect env_ok (install_effect lib req) (CreateProRataInstallment lib fx req)"
proof -
  have keep: "effect env_ok (install_effect lib req) (bindR m k)"
    if "keeps quiet m" "\<And>x. effect env_ok (install_effect lib req) (k x)" for m :: "'x exp_op" and k
    by (rule effect_keep [OF that(1) qclosed_install env_ok_quiet that(2)])
  show ?thesis
    unfolding CreateProRataInstallment_def Let_def
  proof (rule effect_check, rule effect_check, rule effect_check, rule effect_lift, rule keep [OF keeps_quiet_ex_now],
      rule effect_check, rule keep [OF keeps_wrapR [OF fx_quiet(2)]], rule effect_lift,
      rule effect_read [where B = "\<lambda>i s. env_ok s \<and> (\<exists>n. i = ex_uuids s n)", OF keeps_quiet_new_uuid qclosed_install], goal_cases)
    case (1 tc t resp m st i s)
    then show ?case using env_ok_quiet by (auto simp: new_uuid_def)
  next
    case (2 tc t resp m i)
    show ?case
      by (rule effect_insert)
         (use 2(4) 2(6) in \<open>auto simp: validateTransactionCurrency_Inr dest!: buildProviderSnapshot_ok
          intro!: install_effectI installed_byI\<close>)
  qed
qed

end

lemma AnonymizeAllUserExpenses_run:
  assumes "AnonymizeAllUserExpenses u st = (r, st')"
  shows "quiet st st' \<and> isl r \<or> same_env st st' \<and> ledger st' = map (\<lambda>x. if x_user x = u then redact x else x) (ledger st)"
proof (cases "u = []")
  case True
  with assms show ?thesis
    by (cases "v_result (v_checks [(u \<noteq> [], ''userId'', ''user_id is required'')])")
       (auto simp: AnonymizeAllUserExpenses_def v_checks_None)
next
  case False
  then have "v_result (v_checks [(u \<noteq> [], ''userId'', ''user_id is required'')]) = None"
    by (simp add: v_checks_None)
  with assms obtain r0 where "sql_exec (update_where (\<lambda>e. x_user e = u) redact) st = (r0, st')" "isl r = isl r0"
    by (auto simp: AnonymizeAllUserExpenses_def repo_AnonymizeAllUserExpenses_def wrapR_def split: prod.splits sum.splits)
  then show ?thesis using update_where_effect by metis
qed

section \<open>The ledger invariant\<close>

text \<open>
  Identifiers are unique; a correction points to an earlier row of the same user and period that
  is no longer active, and two corrections never point to the same row; an idempotency key occurs
  at most once among the rows of a user that has not been erased.
\<close>

definition parent_of :: "expense \<Rightarrow> expense \<Rightarrow> bool" where
  "parent_of p c \<longleftrightarrow>
     x_id p = x_corrects c \<and> x_status p \<noteq> st_active \<and> x_user p = x_user c \<and> x_year p = x_year c \<and> x_month p = x_month c"

fun linked :: "expense list \<Rightarrow> expense list \<Rightarrow> bool" where
  "linked seen [] \<longleftrightarrow> True"
| "linked seen (c # cs) \<longleftrightarrow>
     (x_corrects c \<noteq> [] \<longrightarrow> (\<exists>p\<in>set seen. parent_of p c)) \<and> linked (seen @ [c]) cs"

definition user_keys :: "expense list \<Rightarrow> (string \<times> string) list" where
  "user_keys L =
     map (\<lambda>x. (x_user x, x_key x)) (filter (\<lambda>x. x_user x \<noteq> ''DELETED'' \<and> x_key x \<noteq> []) L)"

definition links :: "expense list \<Rightarrow> string list" where
  "links L = filter (\<lambda>c. c \<noteq> []) (map x_corrects L)"

definition ledger_inv :: "expense list \<Rightarrow> bool" where
  "ledger_inv L \<longleftrightarrow>
     distinct (map x_id L) \<and> [] \<notin> x_id ` set L \<and> linked [] L \<and> distinct (links L) \<and> distinct (user_keys L)"

lemma ledger_inv_Nil [simp]: "ledger_inv []"
  by (simp add: ledger_inv_def links_def user_keys_def)

lemma linked_append: "linked seen (xs @ ys) \<longleftrightarrow> linked seen xs \<and> linked (seen @ xs) ys"
  by (induction xs arbitrary: seen) auto

lemma ledger_inv_append:
  assumes "ledger_inv L" "x_id e \<notin> x_id ` set L" "x_id e \<noteq> []"
    and "x_corrects e \<noteq> [] \<Longrightarrow> \<exists>p\<in>set L. parent_of p e"
    and "x_corrects e \<noteq> [] \<Longrightarrow> \<forall>c\<in>set L. x_corrects c \<noteq> x_corrects e"
    and "x_key e \<noteq> [] \<Longrightarrow> \<forall>x\<in>set L. \<not> (x_user x = x_user e \<and> x_key x = x_key e)"
  shows "ledger_inv (L @ [e])"
  using assms by (auto simp: ledger_inv_def linked_append links_def user_keys_def)

lemma linked_map:
  assumes "linked seen cs"
    and "\<And>x y. x \<in> set (seen @ cs) \<Longrightarrow> y \<in> set cs \<Longrightarrow> parent_of x y \<Longrightarrow> parent_of (f x) (f y)"
    and "\<And>y. y \<in> set cs \<Longrightarrow> x_corrects (f y) = x_corrects y"
  shows "linked (map f seen) (map f cs)"
  using assms
proof (induction cs arbitrary: seen)
  case (Cons c cs)
  from Cons.prems(1) have "linked (seen @ [c]) cs" by simp
  from Cons.IH [OF this] Cons.prems(2,3) have rest: "linked (map f seen @ [f c]) (map f cs)" by simp
  have "\<exists>p\<in>set (map f seen). parent_of p (f c)" if "x_corrects (f c) \<noteq> []"
  proof -
    from that Cons.prems(3) [of c] have "x_corrects c \<noteq> []" by simp
    with Cons.prems(1) obtain p where "p \<in> set seen" "parent_of p c" by auto
    with Cons.prems(2) [of p c] show ?thesis by auto
  qed
  with rest show ?case by simp
qed simp

text \<open>An update that keeps identifiers, links, keys and periods and never revives a row keeps the invariant.\<close>

lemma ledger_inv_map:
  assumes inv: "ledger_inv L"
    and keep: "\<And>x. x \<in> set L \<Longrightarrow> x_id (f x) = x_id x \<and> x_corrects (f x) = x_corrects x \<and> x_key (f x) = x_key x
      \<and> x_year (f x) = x_year x \<and> x_month (f x) = x_month x"
    and users: "\<And>x y. x \<in> set L \<Longrightarrow> y \<in> set L \<Longrightarrow> x_user x = x_user y \<Longrightarrow> x_user (f x) = x_user (f y)"
    and erased: "\<And>x. x \<in> set L \<Longrightarrow> x_user (f x) = x_user x \<or> x_user (f x) = ''DELETED''"
    and dead: "\<And>x. x \<in> set L \<Longrightarrow> x_status x \<noteq> st_active \<Longrightarrow> x_status (f x) \<noteq> st_active"
  shows "ledger_inv (map f L)"
proof -
  have ids: "map x_id (map f L) = map x_id L" "map x_corrects (map f L) = map x_corrects L" using keep by simp_all
  then have set_ids: "x_id ` set (map f L) = x_id ` set L" by (metis list.set_map)
  have "parent_of (f x) (f y)" if "parent_of x y" "x \<in> set L" "y \<in> set L" for x y
    using that keep [of x] keep [of y] users [of x y] dead [of x] unfolding parent_of_def by simp
  then have linked: "linked [] (map f L)"
    using linked_map [of "[]" L f] inv keep by (simp add: ledger_inv_def)
  let ?P = "\<lambda>x. x_user x \<noteq> ''DELETED'' \<and> x_key x \<noteq> []"
  have sub: "filter (\<lambda>x. ?P (f x)) L = filter (\<lambda>x. ?P (f x)) (filter ?P L)"
    unfolding filter_filter by (intro filter_cong refl) (metis keep erased)
  have "user_keys (map f L) = map (\<lambda>x. (x_user x, x_key x)) (filter (\<lambda>x. ?P (f x)) (filter ?P L))"
    unfolding user_keys_def filter_map map_map sub [symmetric] comp_def
    using keep erased by (intro map_cong) auto
  then have "distinct (user_keys (map f L))"
    using inv distinct_map_filter [of "\<lambda>x. (x_user x, x_key x)" "filter ?P L" "\<lambda>x. ?P (f x)"]
    by (simp only: ledger_inv_def user_keys_def)
  then show ?thesis
    using inv linked unfolding ledger_inv_def ids set_ids links_def by blast
qed

lemma ledger_inv_mark:
  assumes "ledger_inv L"
  shows "ledger_inv (map (\<lambda>x. if P x then x\<lparr>x_status := st_corrected\<rparr> else x) L)"
  by (rule ledger_inv_map [OF assms]) (auto split: if_splits)

lemma ledger_inv_redact:
  assumes "ledger_inv L"
  shows "ledger_inv (map (\<lambda>x. if x_user x = u then redact x else x) L)"
  by (rule ledger_inv_map [OF assms]) (auto simp: redact_def split: if_splits)

section \<open>Rows never change\<close>

text \<open>
  \<open>kept L L'\<close>: the rows of \<open>L\<close> are still the first rows of \<open>L'\<close>, in order, each unchanged or with
  its status flag moved from active to corrected.
\<close>

definition same_or_superseded :: "expense \<Rightarrow> expense \<Rightarrow> bool" where
  "same_or_superseded x y \<longleftrightarrow> y = x \<or> y = x\<lparr>x_status := st_corrected\<rparr>"

definition kept :: "expense list \<Rightarrow> expense list \<Rightarrow> bool" where
  "kept L L' \<longleftrightarrow> (\<exists>old new. L' = old @ new \<and> list_all2 same_or_superseded L old)"

lemma same_or_superseded_trans: "same_or_superseded x y \<Longrightarrow> same_or_superseded y z \<Longrightarrow> same_or_superseded x z"
  by (auto simp: same_or_superseded_def)

lemma kept_refl [simp]: "kept L L"
  unfolding kept_def by (intro exI [of _ L] exI [of _ "[]"]) (simp add: list_all2_same same_or_superseded_def)

lemma kept_trans: "kept A B \<Longrightarrow> kept B C \<Longrightarrow> kept A C"
proof -
  assume "kept A B" "kept B C"
  then obtain b1 b2 c1 c2 where *: "B = b1 @ b2" "list_all2 same_or_superseded A b1"
    "C = c1 @ c2" "list_all2 same_or_superseded (b1 @ b2) c1"
    by (auto simp: kept_def)
  from *(4) obtain d1 d2 where d: "c1 = d1 @ d2" "list_all2 same_or_superseded b1 d1"
    by (auto simp: list_all2_append1)
  have "list_all2 same_or_superseded A d1"
    by (rule list_all2_trans [OF same_or_superseded_trans *(2) d(2)])
  with * d show "kept A C" unfolding kept_def by (intro exI [of _ d1] exI [of _ "d2 @ c2"]) simp
qed

lemma kept_map:
  "kept L (map (\<lambda>x. if P x then x\<lparr>x_status := st_corrected\<rparr> else x) L)"
  unfolding kept_def
  by (intro exI [of _ "map (\<lambda>x. if P x then x\<lparr>x_status := st_corrected\<rparr> else x) L"] exI [of _ "[]"])
     (auto simp: list_all2_conv_all_nth same_or_superseded_def)

lemma kept_append: "kept L (L @ new)"
  unfolding kept_def by (intro exI [of _ L] exI [of _ new]) (simp add: list_all2_same same_or_superseded_def)

lemma insert_row_Some: "insert_row e L = Some L' \<longleftrightarrow> L' = L @ [e] \<and> row_fits e \<and> x_id e \<notin> x_id ` set L"
  by (auto simp: insert_row_def)

lemma with_money_simps [simp]:
  "x_id (with_money m e) = x_id e" "x_user (with_money m e) = x_user e" "x_corrects (with_money m e) = x_corrects e"
  "x_key (with_money m e) = x_key e" "x_status (with_money m e) = x_status e" "x_year (with_money m e) = x_year e"
  "x_month (with_money m e) = x_month e" "x_tamount (with_money m e) = m_tamount m"
  "x_ramount (with_money m e) = m_ramount m" "x_rcur (with_money m e) = m_rcur m"
  "x_tcur (with_money m e) = x_tcur e" "x_rsource (with_money m e) = m_source m" "x_rate (with_money m e) = m_rate m"
  by (simp_all add: with_money_def)

lemma mark_corrects: "c \<in> set (mark i L) \<Longrightarrow> \<exists>d\<in>set L. x_corrects c = x_corrects d"
  by (auto simp: mark_def)

section \<open>Reachable ledgers\<close>

text \<open>
  A step is one operation of the service, run with any clients that meet the interface, on any
  request, whatever the outcomes of its statements.  Reads are steps that leave the ledger.
\<close>

inductive ledger_write :: "exp_state \<Rightarrow> exp_state \<Rightarrow> bool" where
  create: "expense_clients ctx fx \<Longrightarrow> CreateExpense lib ctx fx u req st = (r, st') \<Longrightarrow> ledger_write st st'"
| correct: "expense_clients ctx fx \<Longrightarrow> CorrectExpense lib ctx fx u i creq st = (r, st') \<Longrightarrow> ledger_write st st'"
| delete: "DeleteExpense u i st = (r', st') \<Longrightarrow> ledger_write st st'"
| install: "expense_clients ctx fx \<Longrightarrow> CreateProRataInstallment lib fx ireq st = (r, st') \<Longrightarrow> ledger_write st st'"
| read: "quiet st st' \<Longrightarrow> ledger_write st st'"

inductive exp_step :: "exp_state \<Rightarrow> exp_state \<Rightarrow> bool" where
  by_write: "ledger_write st st' \<Longrightarrow> exp_step st st'"
| erase: "AnonymizeAllUserExpenses u st = (r', st') \<Longrightarrow> exp_step st st'"

inductive_cases ledger_write_cases: "ledger_write st st'"
inductive_cases exp_step_cases: "exp_step st st'"

lemma create_keeps_inv:
  assumes "create_effect lib u req st r st'" "ledger_inv (ledger st)" "env_ok st"
  shows "ledger_inv (ledger st')" "same_env st st'" "kept (ledger st) (ledger st')"
  using assms
  by (auto simp: create_effect_def quiet_def inserts_def insert_row_Some created_by_def new_expense_def
      env_ok_def uuids_ok_def intro!: ledger_inv_append kept_append)

lemma install_keeps_inv:
  assumes "install_effect lib req st r st'" "ledger_inv (ledger st)" "env_ok st"
  shows "ledger_inv (ledger st')" "same_env st st'" "kept (ledger st) (ledger st')"
  using assms
  by (auto simp: install_effect_def inserts_def insert_row_Some installed_by_def installment_row_def
      env_ok_def uuids_ok_def intro!: ledger_inv_append kept_append)

text \<open>No row corrects an active row.\<close>

lemma no_child_of_active:
  assumes "linked seen L" "distinct (map x_id (seen @ L))" "e \<in> set (seen @ L)" "x_status e = st_active"
    "c \<in> set L" "x_corrects c \<noteq> []"
  shows "x_corrects c \<noteq> x_id e"
  using assms
proof (induction L arbitrary: seen)
  case (Cons d L)
  show ?case
  proof (cases "c = d")
    case True
    with Cons.prems obtain p where p: "p \<in> set seen" "parent_of p c" by auto
    then have "p \<noteq> e" "p \<in> set (seen @ d # L)" using Cons.prems(4) by (auto simp: parent_of_def)
    with Cons.prems(2,3) have "x_id p \<noteq> x_id e" by (metis distinct_map inj_onD)
    with p show ?thesis by (simp add: parent_of_def)
  next
    case False
    with Cons.prems Cons.IH [of "seen @ [d]"] show ?thesis by simp
  qed
qed simp

lemma correct_keeps_inv:
  assumes "correct_effect lib u i req st r st'" "ledger_inv (ledger st)" "env_ok st"
  shows "ledger_inv (ledger st')" "same_env st st'" "kept (ledger st) (ledger st')"
proof -
  let ?M = "mark i (ledger st)"
  have inv: "ledger_inv ?M" unfolding mark_def by (rule ledger_inv_mark [OF assms(2)])
  have keep: "kept (ledger st) ?M" unfolding mark_def by (rule kept_map)
  from assms(1) obtain e tcur now n m where e: "changeable u i st e"
    and r: "ledger st' = ?M \<or> insert_row (correction_of u e req tcur now (ex_uuids st n) m) ?M = Some (ledger st')"
    and env: "same_env st st'"
    unfolding correct_effect_def by blast
  let ?c = "correction_of u e req tcur now (ex_uuids st n) m"
  show "same_env st st'" by (rule env)
  have mem: "e\<lparr>x_status := st_corrected\<rparr> \<in> set ?M"
    using e by (auto simp: changeable_def mark_def image_iff intro!: bexI [of _ e])
  have par: "parent_of (e\<lparr>x_status := st_corrected\<rparr>) ?c"
    using e by (simp add: parent_of_def correction_of_def changeable_def)
  have "x_corrects c \<noteq> x_id e" if "c \<in> set (ledger st)" "x_corrects c \<noteq> []" for c
    using no_child_of_active [of "[]" "ledger st" e c] that e assms(2)
    by (auto simp: ledger_inv_def changeable_def)
  then have one: "x_corrects c \<noteq> x_id e" if "c \<in> set ?M" for c
    using mark_corrects [OF that] e assms(2) \<open>\<And>c. c \<in> set (ledger st) \<Longrightarrow> x_corrects c \<noteq> [] \<Longrightarrow> x_corrects c \<noteq> x_id e\<close>
    by (metis changeable_def)
  have "ledger_inv (?M @ [?c])" if "x_id ?c \<notin> x_id ` set ?M"
    by (rule ledger_inv_append [OF inv that])
       (use mem par one assms(3) in \<open>auto simp: correction_of_def env_ok_def uuids_ok_def\<close>)
  then show "ledger_inv (ledger st')" using r inv by (auto simp: insert_row_Some)
  show "kept (ledger st) (ledger st')"
    using r keep kept_append kept_trans by (auto simp: insert_row_Some)
qed

lemma delete_keeps_inv:
  assumes "delete_effect u i st r st'" "ledger_inv (ledger st)"
  shows "ledger_inv (ledger st')" "same_env st st'" "kept (ledger st) (ledger st')"
  using assms by (auto simp: delete_effect_def intro: ledger_inv_mark kept_map)

lemma quiet_keeps: "quiet st st' \<Longrightarrow> ledger st' = ledger st \<and> same_env st st' \<and> kept (ledger st) (ledger st')"
  by (simp add: quiet_def)

lemma ledger_write_inv:
  assumes "ledger_write st st'" "env_ok st" "ledger_inv (ledger st)"
  shows "env_ok st' \<and> ledger_inv (ledger st') \<and> kept (ledger st) (ledger st')"
  using assms(1)
proof cases
  case (create ctx fx lib u req r)
  from effectD [OF expense_clients.CreateExpense_effect [OF create(1)] assms(2) create(2)]
  show ?thesis using create_keeps_inv assms env_ok_same quiet_keeps by metis
next
  case (correct ctx fx lib u i creq r)
  from effectD [OF expense_clients.CorrectExpense_effect [OF correct(1)] assms(2) correct(2)]
  show ?thesis using correct_keeps_inv assms env_ok_same quiet_keeps by metis
next
  case (delete u i r)
  from effectD [OF DeleteExpense_effect assms(2) delete]
  show ?thesis using delete_keeps_inv assms env_ok_same quiet_keeps by metis
next
  case (install ctx fx lib ireq r)
  from effectD [OF expense_clients.CreateProRataInstallment_effect [OF install(1)] assms(2) install(2)]
  show ?thesis using install_keeps_inv assms env_ok_same quiet_keeps by metis
next
  case read
  then show ?thesis using assms env_ok_same quiet_keeps by metis
qed

lemma ledger_writes_inv:
  assumes "ledger_write\<^sup>*\<^sup>* st st'" "env_ok st" "ledger_inv (ledger st)"
  shows "env_ok st' \<and> ledger_inv (ledger st') \<and> kept (ledger st) (ledger st')"
  using assms(1)
proof (induction rule: rtranclp_induct)
  case (step a b)
  with ledger_write_inv [of a b] show ?case by (auto intro: kept_trans)
qed (use assms in simp)

section \<open>Properties\<close>

text \<open>
  C1: every ledger the service can reach from a sound one, through any sequence of creations,
  corrections, deletions, installments, erasures and reads, with any clients and any pattern of
  database failures and lost replies, is sound: unique identifiers, linear correction chains that
  stay in one user and period and whose superseded rows are not active, and idempotency keys that
  occur once per user.
\<close>

theorem reachable_ledgers_sound:
  assumes "exp_step\<^sup>*\<^sup>* st st'" "env_ok st" "ledger_inv (ledger st)"
  shows "env_ok st' \<and> ledger_inv (ledger st')"
  using assms(1)
proof (induction rule: rtranclp_induct)
  case (step a b)
  from step(2) show ?case
  proof cases
    case by_write
    with ledger_write_inv step(3) show ?thesis by blast
  next
    case (erase u r)
    from AnonymizeAllUserExpenses_run [OF erase] step(3) show ?thesis
      by (auto simp: ledger_inv_redact dest: quiet_keeps env_ok_same)
  qed
qed (use assms in simp)

text \<open>
  C25: rows are immutable: no operation except the erasure of a user ever removes, reorders or
  changes a stored row, apart from moving its status from active to corrected.
\<close>

theorem rows_are_immutable:
  assumes "ledger_write\<^sup>*\<^sup>* st st'" "env_ok st" "ledger_inv (ledger st)"
  shows "kept (ledger st) (ledger st')"
  using ledger_writes_inv [OF assms] by blast

lemma user_keys_unique:
  assumes "ledger_inv L" "x \<in> set L" "y \<in> set L" "x_user x = x_user y" "x_key x = x_key y"
    "x_user x \<noteq> ''DELETED''" "x_key x \<noteq> []"
  shows "x = y"
proof -
  have "distinct (user_keys L)" using assms(1) by (simp add: ledger_inv_def)
  then have "inj_on (\<lambda>x. (x_user x, x_key x)) (set (filter (\<lambda>x. x_user x \<noteq> ''DELETED'' \<and> x_key x \<noteq> []) L))"
    by (simp add: user_keys_def distinct_map)
  then show ?thesis by (rule inj_onD) (use assms in auto)
qed

lemma kept_row:
  assumes "kept L L'" "x \<in> set L"
  shows "\<exists>y\<in>set L'. same_or_superseded x y"
proof -
  from assms(1) obtain old new where o: "L' = old @ new" "list_all2 same_or_superseded L old" by (auto simp: kept_def)
  from assms(2) obtain n where "n < length L" "x = L ! n" by (auto simp: in_set_conv_nth)
  with o(2) have "same_or_superseded x (old ! n)" "n < length old"
    by (auto simp: list_all2_conv_all_nth)
  with o(1) show ?thesis by (metis UnI1 nth_mem set_append)
qed

text \<open>
  C2: creating is idempotent.  Once a row with the user's idempotency key is in the ledger, whether
  the first request was acknowledged or its reply was lost, and whatever was written in between, a
  later create with the same key that succeeds writes nothing and returns that row (its identifier
  and money facts; only its status may have moved).
\<close>

theorem create_is_idempotent:
  assumes clients: "expense_clients ctx fx"
    and ok: "env_ok st" "ledger_inv (ledger st)" and user: "u \<noteq> ''DELETED''"
    and row: "x \<in> set (ledger st)" "x_user x = u" "x_key x = q_key req" "q_key req \<noteq> []"
    and run: "ledger_write\<^sup>*\<^sup>* st st2" "CreateExpense lib ctx fx u req st2 = (Inr e, st3)"
  shows "ledger st3 = ledger st2 \<and> same_or_superseded x e"
proof -
  from ledger_writes_inv [OF run(1) ok] have st2: "env_ok st2" "ledger_inv (ledger st2)" "kept (ledger st) (ledger st2)"
    by auto
  from kept_row [OF st2(3) row(1)] obtain y where y: "y \<in> set (ledger st2)" "same_or_superseded x y" ..
  from y(2) row have key: "x_user y = u" "x_key y = q_key req" by (auto simp: same_or_superseded_def)
  from effectD [OF expense_clients.CreateExpense_effect [OF clients] st2(1) run(2)]
  have "create_effect lib u req st2 (Inr e) st3" by simp
  then have e: "quiet st2 st3" "e \<in> set (ledger st2)" "x_user e = u" "x_key e = q_key req"
    using y(1) key unfolding create_effect_def by auto
  from user_keys_unique [OF st2(2) e(2) y(1)] e key user row(4) have "e = y" by simp
  with e(1) y(2) show ?thesis by (simp add: quiet_def)
qed

text \<open>
  C26: a create that succeeds with a new row appends exactly that row: active, correcting nothing,
  for the requested user, period and amount, with a valid exchange-rate source, and with the
  identity conversion when the currencies agree.  If it fails, the ledger is unchanged or has that
  one row (when the reply was lost), never anything else.
\<close>

theorem create_appends_one_row:
  assumes "expense_clients ctx fx" "env_ok st" "CreateExpense lib ctx fx u req st = (r, st')"
  shows "ledger st' = ledger st \<or>
    (\<exists>e. ledger st' = ledger st @ [e] \<and> (\<not> isl r \<longrightarrow> r = Inr e)
      \<and> x_user e = u \<and> x_key e = q_key req \<and> x_status e = st_active \<and> x_corrects e = []
      \<and> x_year e = q_year req \<and> x_month e = q_month req \<and> x_tamount e = q_amount req
      \<and> currency_supported (x_tcur e) \<and> exchangesource_IsValid (x_rsource e)
      \<and> (x_tcur e = x_rcur e \<longrightarrow> x_ramount e = q_amount req \<and> x_rate e = ''1''))"
proof -
  from effectD [OF expense_clients.CreateExpense_effect [OF assms(1)] assms(2,3)]
  consider "quiet st st'" | e where "created_by lib u req st e" "inserts e st r st'"
    unfolding create_effect_def by blast
  then show ?thesis
  proof cases
    case 1
    then show ?thesis by (simp add: quiet_def)
  next
    case (2 e)
    then have "ledger st' = ledger st @ [e]" "\<not> isl r \<longrightarrow> r = Inr e"
      by (auto simp: inserts_def insert_row_Some)
    moreover from 2(1) obtain tcur now n m where e: "e = new_expense u req tcur now (ex_uuids st n) m"
      and m: "money_ok (q_amount req) tcur (m_rcur m) m" "currency_supported tcur"
      unfolding created_by_def by blast
    moreover from m have "x_tamount e = q_amount req" "exchangesource_IsValid (x_rsource e)"
      "x_tcur e = x_rcur e \<longrightarrow> x_ramount e = q_amount req \<and> x_rate e = ''1''"
      by (auto simp: e new_expense_def money_ok_def)
    ultimately show ?thesis
      by (intro disjI2 exI [of _ e]) (simp add: new_expense_def)
  qed
qed

end
