(* ===== verification/Expense_Examples.thy ===== *)
theory Expense_Examples
  imports Expense_Invariants
begin

text \<open>
  Concrete runs of the expense service: the inputs at which the theorems of \<open>Expense_Invariants\<close>
  apply, and two runs that show where the code does not do what it means to: a stored row no read
  accepts, and a correction that fails half way.
\<close>

section \<open>A connected system\<close>

text \<open>FX answered by the model of the FX service itself, with a fixed table of rates.\<close>

definition demo_fx_state :: fx_state where
  "demo_fx_state = \<lparr>fx_cache = None, fx_clock = (\<lambda>n. unix_time 1786795200), fx_ticks = 0,
     fx_wire = (\<lambda>n. HttpResp 200 (BodyRead (Payload 1786795200 ''USD''
       [(''JPY'', JNumber ''147.25''), (''HKD'', JNumber ''7.8''), (''EUR'', JNumber ''0.8'')]))), fx_sent = 0\<rparr>"

definition status_error :: "(grpc_code \<times> string) + 'a \<Rightarrow> goerr + 'a" where
  "status_error r = (case r of Inl (c, m) \<Rightarrow> Inl (GrpcStatus c m) | Inr x \<Rightarrow> Inr x)"

definition demo_fx_rpc :: "nat \<Rightarrow> convert_request \<Rightarrow> goerr + convert_response" where
  "demo_fx_rpc n q = status_error (fst (grpc_ConvertAmount demo_lib (FetchLatest demo_lib 0) 3600000000000 q demo_fx_state))"

definition demo_snap_rpc :: "nat \<Rightarrow> convert_snap_request \<Rightarrow> goerr + convert_response" where
  "demo_snap_rpc n q = status_error (grpc_ConvertWithSnapshot demo_lib (sq_amount q) (sq_source q) (sq_target q)
     (sq_requested_at q) (Some (sq_snapshot q)))"

definition demo_ctx :: "string \<Rightarrow> period_client" where
  "demo_ctx rc = GRPC_GetPeriodContext (\<lambda>n (u, y, m). Inr \<lparr>pc_id = ''p1'', pc_user = u, pc_year = y, pc_month = m,
     pc_rcur = rc, pc_locked = False\<rparr>)"

definition demo_fx :: fx_client where
  "demo_fx = GRPCFxClient demo_fx_rpc demo_snap_rpc"

lemma demo_clients: "expense_clients (demo_ctx rc) demo_fx"
  unfolding demo_ctx_def demo_fx_def by (rule grpc_clients.expense_clients_axioms)

definition demo_exp :: "(nat \<Rightarrow> outcome) \<Rightarrow> exp_state" where
  "demo_exp script = \<lparr>ledger = [], db_scan = rev, db_script = script, db_calls = 0,
     ex_clock = (\<lambda>n. unix_time 1786795200), ex_ticks = 0,
     ex_uuids = (\<lambda>n. ''id'' @ show_int (int n)), ex_uuid_next = 0\<rparr>"

definition demo_key :: string where
  "demo_key = ''123e4567-e89b-12d3-a456-426614174000''"

definition demo_create :: "int \<Rightarrow> string \<Rightarrow> create_request" where
  "demo_create amount tc = \<lparr>q_name = ''lunch'', q_amount = amount, q_currency = tc, q_type = ''desires'',
     q_tag = ''food'', q_date = ''2026-08-15'', q_year = 2026, q_month = 8, q_prorata = False, q_group = [],
     q_index = 0, q_total = 0, q_key = demo_key\<rparr>"

definition demo_correct :: correct_request where
  "demo_correct = \<lparr>k_name = ''dinner'', k_amount = 2500, k_currency = [], k_type = ''desires'', k_tag = ''food'',
     k_date = ''2026-08-16''\<rparr>"

definition acked :: "nat \<Rightarrow> outcome" where
  "acked n = Acked"

lemma demo_env_ok [simp]: "env_ok (demo_exp script)"
  by (simp add: env_ok_def scan_ok_def uuids_ok_def demo_exp_def)

lemma demo_ledger [simp]: "ledger (demo_exp script) = []"
  by (simp add: demo_exp_def)

section \<open>A create that nothing hinders succeeds\<close>

lemma lookup_acked:
  assumes "db_script st (db_calls st) = Acked" "scan_ok st" "\<forall>x\<in>set (ledger st). \<not> (x_user x = u \<and> x_key x = k)"
  shows "lookupIdempotentReplay u k st = (Inr None, st\<lparr>db_calls := db_calls st + 1\<rparr>)"
proof -
  have "select_where (\<lambda>e. x_user e = u \<and> x_key e = k) st = []"
    using assms(2,3) set_select_where [of st "\<lambda>e. x_user e = u \<and> x_key e = k"] by (simp flip: set_empty)
  then show ?thesis
    using assms(1) by (simp add: lookupIdempotentReplay_def repo_GetExpenseByIdempotencyKey_def wrapR_def bindR_def
        sql_query_Acked first_row_def)
qed

lemma insert_acked:
  assumes "db_script st (db_calls st) = Acked" "row_fits e" "x_id e \<notin> x_id ` set (ledger st)"
  shows "wrapR f (repo_CreateExpense e) st = (Inr e, st\<lparr>db_calls := db_calls st + 1, ledger := ledger st @ [e]\<rparr>)"
  using assms by (simp add: repo_CreateExpense_def wrapR_def bindR_def sql_exec_def insert_row_def)

lemma create_run:
  fixes lib :: golib and st :: exp_state and rpc1 rpc2 req u period
  defines "fx \<equiv> GRPCFxClient rpc1 rpc2" and "rcur \<equiv> normalizeCurrencyCode lib (pc_rcur period)"
    and "now \<equiv> fmt_rfc3339 (t_utc (ex_clock st (ex_ticks st + 1)))"
  assumes db: "\<forall>n. db_script st n = Acked" "scan_ok st"
    and req: "validateCreateExpenseRequest req = None" "validateIdempotencyKey lib (q_key req) = None"
      "\<forall>x\<in>set (ledger st). \<not> (x_user x = u \<and> x_key x = q_key req)"
    and period: "fin (ex_ticks st) (u, q_year req, q_month req) = Inr period"
      "validateReportingCurrency lib rcur = None" "resolveCreateTransactionCurrency lib period req = Inr tcur"
    and snap: "\<And>s. ex_ticks s = ex_ticks st + 2 \<Longrightarrow> fst (resolveSnapshot lib fx (q_amount req) tcur rcur now s) = Inr m"
    and row: "e = new_expense u req tcur now (ex_uuids st (ex_uuid_next st)) m" "row_fits e" "x_id e \<notin> x_id ` set (ledger st)"
  shows "\<exists>st'. CreateExpense lib (GRPC_GetPeriodContext fin) fx u req st = (Inr e, st') \<and> ledger st' = ledger st @ [e]"
proof -
  define s1 where "s1 = st\<lparr>db_calls := db_calls st + 1, ex_ticks := ex_ticks st + 2\<rparr>"
  obtain s2 where s2: "resolveSnapshot lib fx (q_amount req) tcur rcur now s1 = (Inr m, s2)"
    using snap [of s1] by (cases "resolveSnapshot lib fx (q_amount req) tcur rcur now s1") (simp add: s1_def)
  have q: "quiet s1 s2" "ex_uuid_next s2 = ex_uuid_next s1"
  proof -
    show "quiet s1 s2"
      using s2 grpc_clients.keeps_quiet_resolveSnapshot keepsD unfolding fx_def by metis
    show "ex_uuid_next s2 = ex_uuid_next s1"
      using s2 by (auto simp: resolveSnapshot_def fx_def GRPCFxClient_def GRPC_ConvertAmount_def op_iffs rpc_call_def
          split: if_splits)
  qed
  define s3 where "s3 = s2\<lparr>ex_uuid_next := ex_uuid_next s2 + 1\<rparr>"
  have s3: "ledger s3 = ledger st" "db_script s3 (db_calls s3) = Acked"
    using q db by (simp_all add: s3_def s1_def quiet_def same_env_def)
  have uu: "new_uuid s2 = (Inr (ex_uuids st (ex_uuid_next st)), s3)"
    using q by (simp add: new_uuid_def s3_def s1_def quiet_def same_env_def)
  have ctx: "GRPC_GetPeriodContext fin u (q_year req) (q_month req) (st\<lparr>db_calls := Suc (db_calls st)\<rparr>)
      = (Inr period, st\<lparr>db_calls := Suc (db_calls st), ex_ticks := Suc (ex_ticks st)\<rparr>)"
    using period(1) by (simp add: GRPC_GetPeriodContext_def rpc_call_def wrapR_def)
  have tick: "ex_now (st\<lparr>db_calls := Suc (db_calls st), ex_ticks := Suc (ex_ticks st)\<rparr>)
      = (Inr (ex_clock st (Suc (ex_ticks st))), s1)"
    by (simp add: ex_now_def s1_def)
  have conv: "resolveSnapshot lib fx (q_amount req) tcur (normalizeCurrencyCode lib (pc_rcur period))
      (fmt_rfc3339 (t_utc (ex_clock st (Suc (ex_ticks st))))) s1 = (Inr m, s2)"
    using s2 by (simp add: rcur_def now_def)
  have "CreateExpense lib (GRPC_GetPeriodContext fin) fx u req st
      = wrapR (Wrapped ''creating expense'') (repo_CreateExpense e) s3"
    using db req period(2,3)
    by (simp add: CreateExpense_def Let_def bindR_def checkR_def liftR_def lookup_acked ctx tick uu
        conv rcur_def row(1) now_def)
  with insert_acked [of s3 e] s3 row show ?thesis by simp
qed


section \<open>A conversion that rounds to nothing\<close>

definition demo_now :: string where
  "demo_now = ''2026-08-15T12:00:00Z''"

definition tiny_money :: money where
  "tiny_money = \<lparr>m_tamount = 1, m_tcur = ''HKD'', m_ramount = 0, m_rcur = ''JPY'', m_rate = ''18.878205128205128205'',
     m_source = src_open_rates, m_ts = demo_now, m_exp = ''2026-08-15T13:00:00Z''\<rparr>"

definition tiny_row :: expense where
  "tiny_row = new_expense ''alice'' (demo_create 1 ''HKD'') ''HKD'' demo_now ''id0'' tiny_money"

lemma demo_time: "fmt_rfc3339 (t_utc (unix_time 1786795200)) = demo_now"
  by code_simp

lemma tiny_rpc:
  "demo_fx_rpc n \<lparr>cq_amount = 1, cq_source = ''HKD'', cq_target = ''JPY'', cq_requested_at = demo_now\<rparr>
     = Inr \<lparr>cr_amount = 0, cr_source = ''HKD'', cr_target = ''JPY'', cr_rate = ''18.878205128205128205'',
            cr_rate_ts = demo_now, cr_origin = src_open_rates, cr_cache = cache_miss,
            cr_expires = ''2026-08-15T13:00:00Z''\<rparr>"
  by code_simp

lemma tiny_snapshot: "fst (resolveSnapshot demo_lib demo_fx 1 ''HKD'' ''JPY'' demo_now s) = Inr tiny_money"
  by (simp add: resolveSnapshot_def demo_fx_def GRPCFxClient_def GRPC_ConvertAmount_def rpc_call_def wrapR_def bindR_def
      tiny_rpc to_fx_response_def buildProviderSnapshot_def exchangesource_IsValid_def tiny_money_def)

lemma tiny_request:
  "validateCreateExpenseRequest (demo_create 1 ''HKD'') = None"
  "validateIdempotencyKey demo_lib (q_key (demo_create 1 ''HKD'')) = None"
  by code_simp+

lemma tiny_currencies:
  "normalizeCurrencyCode demo_lib ''JPY'' = ''JPY''"
  "validateReportingCurrency demo_lib ''JPY'' = None"
  "normalizeCurrencyCode demo_lib ''HKD'' = ''HKD''"
  "validateTransactionCurrency demo_lib ''HKD'' = Inr ''HKD''"
  by code_simp+

lemma tiny_fits: "row_fits tiny_row" "missing_fields tiny_row = [''reporting_amount'']" "ex_uuids (demo_exp acked) 0 = ''id0''"
  by code_simp+

lemma demo_run_facts:
  "ex_clock (demo_exp acked) n = unix_time 1786795200" "ex_ticks (demo_exp acked) = 0"
  "ex_uuid_next (demo_exp acked) = 0" "db_script (demo_exp acked) n = Acked" "scan_ok (demo_exp acked)"
  "q_amount (demo_create 1 ''HKD'') = 1" "q_currency (demo_create 1 ''HKD'') = ''HKD''"
  "q_year (demo_create 1 ''HKD'') = 2026" "q_month (demo_create 1 ''HKD'') = 8"
  using demo_env_ok [of acked] by (simp_all add: demo_exp_def acked_def env_ok_def demo_create_def)

lemma create_tiny:
  "\<exists>st'. CreateExpense demo_lib (demo_ctx ''JPY'') demo_fx ''alice'' (demo_create 1 ''HKD'') (demo_exp acked) = (Inr tiny_row, st')
     \<and> ledger st' = ledger (demo_exp acked) @ [tiny_row]"
  unfolding demo_ctx_def demo_fx_def
  by (rule create_run [where st = "demo_exp acked" and tcur = "''HKD''" and m = tiny_money and e = tiny_row
        and period = "\<lparr>pc_id = ''p1'', pc_user = ''alice'', pc_year = 2026, pc_month = 8, pc_rcur = ''JPY'', pc_locked = False\<rparr>"])
     (simp_all add: demo_run_facts tiny_request tiny_currencies tiny_fits resolveCreateTransactionCurrency_def
        tiny_snapshot [unfolded demo_fx_def] demo_time tiny_row_def [symmetric])

text \<open>
  C39: a row whose reporting amount is zero can never be read again: fetching, correcting or
  deleting it fails and leaves the ledger as it is.
\<close>

theorem unreadable_row_is_stuck:
  assumes clients: "expense_clients ctx fx" and ok: "env_ok st" "ledger_inv (ledger st)"
    and row: "x \<in> set (ledger st)" "x_ramount x = 0"
  shows "isl (fst (GetExpense u (x_id x) st))
    \<and> isl (fst (DeleteExpense u (x_id x) st)) \<and> ledger (snd (DeleteExpense u (x_id x) st)) = ledger st
    \<and> isl (fst (CorrectExpense lib ctx fx u (x_id x) creq st))
    \<and> ledger (snd (CorrectExpense lib ctx fx u (x_id x) creq st)) = ledger st"
proof -
  have miss: "missing_fields x \<noteq> []" using row(2) by (simp add: missing_fields_def)
  have same: "e = x" if "e \<in> set (ledger st)" "x_id e = x_id x" for e
    using that row(1) ok(2) by (auto simp: ledger_inv_def distinct_map inj_on_def)
  then have no: "\<not> changeable u (x_id x) st e" for e
    using miss by (auto simp: changeable_def)
  have "isl (fst (GetExpense u (x_id x) st))"
  proof (rule ccontr)
    assume "\<not> isl (fst (GetExpense u (x_id x) st))"
    then obtain e st' where "GetExpense u (x_id x) st = (Inr e, st')" 
      by (cases "fst (GetExpense u (x_id x) st)") (auto simp: prod_eq_iff)
    then obtain s s1 where "repo_GetExpenseByID (x_id x) u s = (Inr (Some e), s1)" "s = st"
      by (auto simp: GetExpense_def check_expense_id_def op_iffs split: option.splits)
    with repo_GetExpenseByID_Inr [of "x_id x" u st "Some e" s1] ok(1) same miss show False
      by (auto simp: env_ok_def)
  qed
  moreover have "isl (fst (DeleteExpense u (x_id x) st)) \<and> ledger (snd (DeleteExpense u (x_id x) st)) = ledger st"
    using effectD [OF DeleteExpense_effect ok(1) prod.collapse [symmetric]] no by (auto simp: delete_effect_def quiet_def)
  moreover have "isl (fst (CorrectExpense lib ctx fx u (x_id x) creq st))
      \<and> ledger (snd (CorrectExpense lib ctx fx u (x_id x) creq st)) = ledger st"
    using effectD [OF expense_clients.CorrectExpense_effect [where lib = lib and u = u and i = "x_id x" and req = creq, OF clients]
        ok(1) prod.collapse [symmetric]] no
    by (auto simp: correct_effect_def quiet_def)
  ultimately show ?thesis by blast
qed

text \<open>
  The run that produces such a row: one cent of a Hong Kong dollar booked in a period kept in yen
  converts to 0 yen, is stored, and is stuck from then on.
\<close>

theorem unreadable_row_is_stuck_witness:
  "\<exists>st'. fst (CreateExpense demo_lib (demo_ctx ''JPY'') demo_fx ''alice'' (demo_create 1 ''HKD'') (demo_exp acked)) = Inr tiny_row
     \<and> ledger st' = [tiny_row] \<and> isl (fst (GetExpense ''alice'' ''id0'' st')) \<and> isl (fst (DeleteExpense ''alice'' ''id0'' st'))
     \<and> ledger (snd (DeleteExpense ''alice'' ''id0'' st')) = [tiny_row]"
proof -
  from create_tiny obtain st' where run: "CreateExpense demo_lib (demo_ctx ''JPY'') demo_fx ''alice'' (demo_create 1 ''HKD'')
      (demo_exp acked) = (Inr tiny_row, st')" and L: "ledger st' = [tiny_row]" by auto
  have "ledger_write\<^sup>*\<^sup>* (demo_exp acked) st'"
    by (rule r_into_rtranclp [of ledger_write, OF ledger_write.create [OF demo_clients run]])
  from ledger_writes_inv [OF this] have ok: "env_ok st'" "ledger_inv (ledger st')" by simp_all
  have row: "tiny_row \<in> set (ledger st')" "x_ramount tiny_row = 0" "x_id tiny_row = ''id0''"
    using L by (simp_all add: tiny_row_def new_expense_def tiny_money_def)
  from unreadable_row_is_stuck [OF demo_clients ok row(1,2)] run L row(3) show ?thesis
    by (intro exI [of _ st']) simp
qed

section \<open>A correction that fails half way\<close>

text \<open>
  C9: a correction is one of three things.  It fails and leaves the ledger alone; or the row is
  superseded and its replacement appended, for the same user and period, linked to it, with the
  requested amount; or, when its second statement fails, the row is superseded and nothing replaces
  it, although the caller is told that the correction failed.  Only the first two are atomic.
\<close>

theorem correction_outcomes:
  assumes "expense_clients ctx fx" "env_ok st" "CorrectExpense lib ctx fx u i req st = (r, st')"
  shows "ledger st' = ledger st \<and> isl r
    \<or> (\<exists>e. changeable u i st e \<and>
         (ledger st' = mark i (ledger st) \<and> isl r
          \<or> (\<exists>c. ledger st' = mark i (ledger st) @ [c] \<and> (isl r \<or> r = Inr c)
               \<and> x_corrects c = i \<and> x_user c = u \<and> x_year c = x_year e \<and> x_month c = x_month e
               \<and> x_status c = st_active \<and> x_tamount c = k_amount req)))"
proof -
  from effectD [OF expense_clients.CorrectExpense_effect [OF assms(1)] assms(2,3)]
  consider "quiet st st' \<and> isl r" | "correct_effect lib u i req st r st'" by blast
  then show ?thesis
  proof cases
    case 1
    then show ?thesis by (simp add: quiet_def)
  next
    case 2
    then obtain e tcur now n m c where e: "changeable u i st e"
      and c: "c = correction_of u e req tcur now (ex_uuids st n) m" "m_tamount m = k_amount req"
      and r: "ledger st' = mark i (ledger st) \<and> isl r
        \<or> insert_row c (mark i (ledger st)) = Some (ledger st') \<and> (isl r \<or> r = Inr c)"
      unfolding correct_effect_def money_ok_def by blast
    have "x_corrects c = i" "x_user c = u" "x_year c = x_year e" "x_month c = x_month e" "x_status c = st_active"
      "x_tamount c = k_amount req"
      using e c by (simp_all add: correction_of_def changeable_def)
    with e r show ?thesis by (auto simp: insert_row_Some)
  qed
qed

text \<open>The run with the half correction: the update is acknowledged, the insertion refused.\<close>

lemma correction_not_atomic:
  assumes "db_script st (db_calls st) = Acked" "db_script st (db_calls st + 1) = Refused"
  shows "isl (fst (repo_CorrectExpense original c st))
    \<and> ledger (snd (repo_CorrectExpense original c st)) = mark (x_id original) (ledger st)"
  using assms
  by (simp add: repo_CorrectExpense_def repo_CreateExpense_def sql_exec_def update_where_def mark_def wrapR_def bindR_def
      split: option.split)

definition demo_row :: expense where
  "demo_row = new_expense ''alice'' (demo_create 1250 ''USD'') ''USD'' demo_now ''id9''
     (buildIdentitySnapshot 1250 ''USD'' ''USD'' demo_now)"

definition demo_one :: exp_state where
  "demo_one = (demo_exp acked)\<lparr>ledger := [demo_row]\<rparr>"

lemma demo_one_ok [simp]: "env_ok demo_one" "ledger demo_one = [demo_row]"
  by (simp_all add: demo_one_def env_ok_def scan_ok_def uuids_ok_def demo_exp_def)

lemma demo_row_fields [simp]: "x_id demo_row = ''id9''" "x_user demo_row = ''alice''" "x_corrects demo_row = []"
    "x_key demo_row = demo_key" "x_status demo_row = st_active" "x_tamount demo_row = 1250"
  by (simp_all add: demo_row_def new_expense_def demo_create_def buildIdentitySnapshot_def)

lemma demo_one_inv [simp]: "ledger_inv [demo_row]"
  by (simp add: ledger_inv_def links_def user_keys_def)

theorem correction_outcomes_witness:
  "\<exists>r st'. CorrectExpense demo_lib (demo_ctx ''USD'') demo_fx ''alice'' ''id9'' demo_correct demo_one = (r, st')
     \<and> (ledger st' = [demo_row] \<or> ledger st' = mark ''id9'' [demo_row]
        \<or> (\<exists>c. ledger st' = mark ''id9'' [demo_row] @ [c] \<and> x_tamount c = 2500))"
  using correction_outcomes [where lib = demo_lib and u = "''alice''" and i = "''id9''" and req = demo_correct,
      OF demo_clients [of "''USD''"] demo_one_ok(1) prod.collapse [symmetric]]
  by (intro exI [of _ "fst (CorrectExpense demo_lib (demo_ctx ''USD'') demo_fx ''alice'' ''id9'' demo_correct demo_one)"]
      exI [of _ "snd (CorrectExpense demo_lib (demo_ctx ''USD'') demo_fx ''alice'' ''id9'' demo_correct demo_one)"])
     (auto simp: demo_correct_def)

section \<open>Witnesses\<close>

definition demo_after :: exp_state where
  "demo_after = snd (CreateExpense demo_lib (demo_ctx ''USD'') demo_fx ''alice'' (demo_create 1250 ''usd'') (demo_exp acked))"

lemma demo_step: "ledger_write (demo_exp acked) demo_after"
  unfolding demo_after_def by (rule ledger_write.create [OF demo_clients prod.collapse [symmetric]])

theorem reachable_ledgers_sound_witness: "env_ok demo_after \<and> ledger_inv (ledger demo_after)"
  by (rule reachable_ledgers_sound [OF r_into_rtranclp [of exp_step, OF exp_step.by_write [OF demo_step]]]) simp_all

theorem rows_are_immutable_witness: "kept [] (ledger demo_after)"
  using rows_are_immutable [OF r_into_rtranclp [of ledger_write, OF demo_step]] by simp

theorem create_appends_one_row_witness:
  "ledger demo_after = [] \<or> (\<exists>e. ledger demo_after = [e] \<and> x_tamount e = 1250 \<and> x_status e = st_active)"
  using create_appends_one_row [where lib = demo_lib and u = "''alice''" and req = "demo_create 1250 ''usd''",
      OF demo_clients [of "''USD''"] demo_env_ok [of acked] prod.collapse [symmetric]]
  by (auto simp: demo_after_def demo_create_def)

text \<open>A retry with the key of \<open>demo_row\<close>, for another amount, is answered with the stored row.\<close>

definition demo_retry :: "(goerr + expense) \<times> exp_state" where
  "demo_retry = CreateExpense demo_lib (demo_ctx ''USD'') demo_fx ''alice'' (demo_create 9999 ''USD'') demo_one"

lemma demo_retry_ok: "isl (fst demo_retry) = False"
proof -
  have v: "validateCreateExpenseRequest (demo_create 9999 ''USD'') = None"
    "validateIdempotencyKey demo_lib (q_key (demo_create 9999 ''USD'')) = None"
    by code_simp+
  have "fst (lookupIdempotentReplay ''alice'' demo_key demo_one) = Inr (Some demo_row)"
    by code_simp
  then obtain s where "lookupIdempotentReplay ''alice'' demo_key demo_one = (Inr (Some demo_row), s)"
    by (metis prod.collapse)
  then show ?thesis
    using v by (simp add: demo_retry_def CreateExpense_def bindR_def demo_create_def)
qed

theorem create_is_idempotent_witness:
  "ledger (snd demo_retry) = [demo_row] \<and> same_or_superseded demo_row (projr (fst demo_retry))"
proof -
  have run: "CreateExpense demo_lib (demo_ctx ''USD'') demo_fx ''alice'' (demo_create 9999 ''USD'') demo_one
      = (Inr (projr (fst demo_retry)), snd demo_retry)"
    using demo_retry_ok by (simp add: demo_retry_def prod_eq_iff)
  from create_is_idempotent [where x = demo_row, OF demo_clients demo_one_ok(1) _ _ _ _ _ _ rtranclp.rtrancl_refl run]
  show ?thesis by (simp add: demo_create_def demo_key_def)
qed


end
