(* ===== verification/Expense_History.thy ===== *)
theory Expense_History
  imports Expense_Examples
begin

text \<open>
  The correction history of an expense (\<^verbatim>\<open>correction.go\<close>): the walk back to the
  root of the chain and the walk forward from it.  Both loops stop at a row already visited, so
  they end; the loops of the model carry a fuel of one step per row of the ledger, and running out
  of it is the result \<open>None\<close>, which never occurs (\<open>walk_back_total\<close>,
  \<open>walk_forward_total\<close>).
\<close>

section \<open>The two walks\<close>

fun walk_back :: "nat \<Rightarrow> string \<Rightarrow> expense \<Rightarrow> string list \<Rightarrow> (expense \<times> string list) option exp_op" where
  "walk_back 0 u rt visited = retR None"
| "walk_back (Suc n) u rt visited =
     (if x_corrects rt = [] then retR (Some (rt, visited))
      else bindR (wrapR (Wrapped ''walking correction chain'') (repo_GetExpenseByID (x_corrects rt) u)) (\<lambda>parent.
           case parent of
             None \<Rightarrow> retR (Some (rt, visited))
           | Some p \<Rightarrow>
               if x_id p \<in> set visited then retR (Some (rt, visited))
               else walk_back n u p (x_id p # visited)))"

fun walk_forward :: "nat \<Rightarrow> string \<Rightarrow> string \<Rightarrow> string list \<Rightarrow> expense list \<Rightarrow> expense list option exp_op" where
  "walk_forward 0 u currentID visited chain = retR None"
| "walk_forward (Suc n) u currentID visited chain =
     bindR (wrapR (Wrapped ''following correction chain forward'')
       (sql_query (select_where (\<lambda>e. x_corrects e = currentID \<and> x_user e = u)))) (\<lambda>rows.
     bindR (liftR (first_row rows)) (\<lambda>r.
     case r of
       None \<Rightarrow> retR (Some chain)
     | Some next_e \<Rightarrow>
         if x_id next_e \<in> set visited then retR (Some chain)
         else walk_forward n u (x_id next_e) (x_id next_e # visited) (chain @ [next_e])))"

text \<open>The outer option is the fuel, the inner one the nil chain of an expense that does not exist.\<close>

definition repo_GetCorrectionHistory :: "string \<Rightarrow> string \<Rightarrow> expense list option option exp_op" where
  "repo_GetCorrectionHistory expenseID userID =
     bindR (getsR (\<lambda>st. length (ledger st))) (\<lambda>fuel.
     bindR (wrapR (Wrapped ''fetching starting expense'') (repo_GetExpenseByID expenseID userID)) (\<lambda>starting.
     case starting of
       None \<Rightarrow> retR (Some None)
     | Some s \<Rightarrow>
         bindR (walk_back fuel userID s [x_id s]) (\<lambda>back.
         case back of
           None \<Rightarrow> retR None
         | Some (rt, visited) \<Rightarrow>
             bindR (walk_forward fuel userID (x_id rt) visited [rt]) (\<lambda>chain.
             retR (map_option Some chain)))))"

definition GetCorrectionHistory :: "string \<Rightarrow> string \<Rightarrow> expense list option exp_op" where
  "GetCorrectionHistory userID expenseID =
     bindR (check_expense_id expenseID) (\<lambda>_.
     bindR (wrapR (Wrapped ''getting correction history'') (repo_GetCorrectionHistory expenseID userID)) (\<lambda>chain.
     case chain of
       None \<Rightarrow> retR None
     | Some None \<Rightarrow> failR (Api (NotFound (''expense '' @ expenseID @ '' not found'')))
     | Some (Some entries) \<Rightarrow> retR (Some entries)))"

section \<open>Termination\<close>

lemma visited_bound:
  assumes "distinct vs" "set vs \<subseteq> x_id ` set (L :: expense list)"
  shows "length vs \<le> length L"
proof -
  have "card (set vs) \<le> card (x_id ` set L)" by (rule card_mono) (use assms in auto)
  also have "\<dots> \<le> length L" by (metis card_length length_map list.set_map)
  finally show ?thesis by (simp add: distinct_card [OF assms(1)])
qed

lemma GetByID_Some:
  assumes "repo_GetExpenseByID i u st = (Inr (Some p), s)" "scan_ok st"
  shows "p \<in> set (ledger st) \<and> x_id p = i \<and> x_user p = u" "ledger s = ledger st" "scan_ok s"
  using repo_GetExpenseByID_Inr [OF assms] keepsD [OF repo_reads_quiet(2) assms(1)] assms(2)
  by (auto simp: quiet_def quiet_scan_ok)

lemma walk_back_total:
  assumes "scan_ok st" "distinct vs" "set vs \<subseteq> x_id ` set (ledger st)" "length (ledger st) < length vs + n"
    and "walk_back n u rt vs st = (Inr r, st')"
  shows "\<exists>e ws. r = Some (e, ws) \<and> ledger st' = ledger st \<and> scan_ok st' \<and> distinct ws
    \<and> set ws \<subseteq> x_id ` set (ledger st) \<and> length vs \<le> length ws"
  using assms
proof (induction n arbitrary: rt vs st)
  case 0
  with visited_bound [of vs "ledger st"] show ?case by simp
next
  case (Suc n)
  show ?case
  proof (cases "x_corrects rt = []")
    case False
    with Suc.prems(5) obtain parent s where g: "repo_GetExpenseByID (x_corrects rt) u st = (Inr parent, s)"
      and rest: "(case parent of None \<Rightarrow> retR (Some (rt, vs)) | Some p \<Rightarrow>
        if x_id p \<in> set vs then retR (Some (rt, vs)) else walk_back n u p (x_id p # vs)) s = (Inr r, st')"
      by (auto simp: op_iffs)
    have q: "quiet st s" by (rule keepsD [OF repo_reads_quiet(2) g])
    show ?thesis
    proof (cases parent)
      case None
      with rest q Suc.prems show ?thesis by (auto simp: quiet_def quiet_scan_ok)
    next
      case (Some p)
      note p = GetByID_Some [OF g [unfolded Some] Suc.prems(1)]
      show ?thesis
      proof (cases "x_id p \<in> set vs")
        case True
        with rest Some q Suc.prems show ?thesis by (auto simp: quiet_def quiet_scan_ok)
      next
        case new: False
        with rest Some have "walk_back n u p (x_id p # vs) s = (Inr r, st')" by simp
        moreover have "x_id p \<in> x_id ` set (ledger st)" using p(1) by blast
        ultimately have "\<exists>e ws. r = Some (e, ws) \<and> ledger st' = ledger st
          \<and> scan_ok st' \<and> distinct ws \<and> set ws \<subseteq> x_id ` set (ledger st) \<and> length (x_id p # vs) \<le> length ws"
          using Suc.IH [OF p(3), of "x_id p # vs" p] new p(2) Suc.prems(2-4) by simp
        then show ?thesis by (metis Suc_leD length_Cons)
      qed
    qed
  qed (use Suc.prems in auto)
qed

lemma walk_forward_total:
  assumes "scan_ok st" "distinct vs" "set vs \<subseteq> x_id ` set (ledger st)" "length (ledger st) < length vs + n"
    and "walk_forward n u i vs chain st = (Inr r, st')"
  shows "r \<noteq> None"
  using assms
proof (induction n arbitrary: i vs chain st)
  case 0
  with visited_bound [of vs "ledger st"] show ?case by simp
next
  case (Suc n)
  from Suc.prems(5) obtain rows e s where q: "sql_query (select_where (\<lambda>e. x_corrects e = i \<and> x_user e = u)) st = (Inr rows, s)"
    and e: "first_row rows = Inr e"
    and rest: "(case e of None \<Rightarrow> retR (Some chain) | Some x \<Rightarrow> if x_id x \<in> set vs then retR (Some chain)
      else walk_forward n u (x_id x) (x_id x # vs) (chain @ [x])) s = (Inr r, st')"
    by (auto simp: op_iffs)
  have s: "ledger s = ledger st" "scan_ok s"
    using keepsD [OF keeps_quiet_sql_query q] Suc.prems(1) by (auto simp: quiet_def quiet_scan_ok)
  show ?case
  proof (cases e)
    case (Some x)
    with e have "x \<in> set rows" by (auto simp: first_row_Inr split: list.splits)
    with sql_query_Inr [OF q] Suc.prems(1) have x: "x \<in> set (ledger st)" by simp
    show ?thesis
    proof (cases "x_id x \<in> set vs")
      case False
      with rest Some have "walk_forward n u (x_id x) (x_id x # vs) (chain @ [x]) s = (Inr r, st')" by simp
      from Suc.IH [OF s(2) _ _ _ this] x False Suc.prems s show ?thesis by auto
    qed (use rest Some in auto)
  qed (use rest in auto)
qed

lemma history_steps:
  assumes "GetCorrectionHistory u i st = (Inr res, st')" "scan_ok st"
  obtains x rt ws s1 s2 chain where "x \<in> set (ledger st)" "x_id x = i" "x_user x = u" "missing_fields x = []"
    "ledger s1 = ledger st" "scan_ok s1" "walk_back (length (ledger st)) u x [i] s1 = (Inr (Some (rt, ws)), s2)"
    "ledger s2 = ledger st" "scan_ok s2" "distinct ws" "set ws \<subseteq> x_id ` set (ledger st)" "ws \<noteq> []"
    "walk_forward (length (ledger st)) u (x_id rt) ws [rt] s2 = (Inr (Some chain), st')" "res = Some chain"
proof -
  let ?n = "length (ledger st)"
  from assms(1) obtain out where repo: "repo_GetCorrectionHistory i u st = (Inr out, st')"
    and out: "out = None \<and> res = None \<or> (\<exists>c. out = Some (Some c) \<and> res = Some c)"
    unfolding GetCorrectionHistory_def check_expense_id_def
    by (simp only: op_iffs) (fastforce split: option.splits)
  from repo out obtain x s1 where g: "repo_GetExpenseByID i u st = (Inr (Some x), s1)"
    and rest: "bindR (walk_back ?n u x [x_id x]) (\<lambda>back. case back of None \<Rightarrow> retR None
      | Some (rt, visited) \<Rightarrow> bindR (walk_forward ?n u (x_id rt) visited [rt]) (\<lambda>chain. retR (map_option Some chain))) s1
      = (Inr out, st')"
    by (auto simp: repo_GetCorrectionHistory_def op_iffs split: option.splits)
  note x = GetByID_Some [OF g assms(2)]
  have miss: "missing_fields x = []" using repo_GetExpenseByID_Inr [OF g assms(2)] by simp
  from rest obtain bk s2 where b: "walk_back ?n u x [i] s1 = (Inr bk, s2)"
    and rest2: "(case bk of None \<Rightarrow> retR None
      | Some (rt, visited) \<Rightarrow> bindR (walk_forward ?n u (x_id rt) visited [rt]) (\<lambda>chain. retR (map_option Some chain))) s2
      = (Inr out, st')"
    using x by (auto simp: bindR_Inr_iff)
  from walk_back_total [OF x(3) _ _ _ b] x obtain rt ws where bk: "bk = Some (rt, ws)"
    and w: "ledger s2 = ledger st" "scan_ok s2" "distinct ws" "set ws \<subseteq> x_id ` set (ledger st)" "1 \<le> length ws"
    by auto
  from rest2 bk obtain chain0 where f: "walk_forward ?n u (x_id rt) ws [rt] s2 = (Inr chain0, st')"
    and o: "out = map_option Some chain0"
    by (auto simp: bindR_Inr_iff)
  from w(5) have ws: "ws \<noteq> []" by auto
  from walk_forward_total [OF w(2) w(3) _ _ f] w(1,4) ws have "chain0 \<noteq> None" by simp
  then obtain chain where c: "chain0 = Some chain" by blast
  show thesis
    by (rule that [OF _ _ _ miss x(2,3) b [unfolded bk] w(1,2,3,4) _ f [unfolded c]]) (use x ws out o c in auto)
qed

section \<open>What the walks find\<close>

text \<open>The rows before a row; in a sound ledger the parent of a row is one of them.\<close>

definition before :: "expense \<Rightarrow> expense list \<Rightarrow> expense list" where
  "before e L = takeWhile (\<lambda>x. x_id x \<noteq> x_id e) L"

lemma before_split: "e \<in> set L \<Longrightarrow> distinct (map x_id L) \<Longrightarrow> \<exists>post. L = before e L @ e # post"
proof (induction L)
  case (Cons a L)
  show ?case
  proof (cases "a = e")
    case False
    with Cons.prems have "e \<in> set L" "x_id a \<noteq> x_id e" by (auto simp: image_iff)
    with Cons show ?thesis by (auto simp: before_def)
  qed (simp add: before_def)
qed simp

lemma parent_before:
  assumes "ledger_inv L" "e \<in> set L" "x_corrects e \<noteq> []"
  shows "\<exists>p\<in>set (before e L). parent_of p e"
proof -
  from before_split [OF assms(2)] assms(1) obtain post where "L = before e L @ e # post"
    by (auto simp: ledger_inv_def)
  with assms(1) have "linked [] (before e L @ e # post)" by (metis ledger_inv_def)
  then have "linked (before e L) (e # post)" by (simp add: linked_append)
  with assms(3) show ?thesis by simp
qed

lemma before_subset: "set (before e L) \<subseteq> set L"
  by (auto simp: before_def dest: set_takeWhileD)

lemma not_before_self: "x_id e \<notin> x_id ` set (before e L)"
  by (auto simp: before_def dest: set_takeWhileD)

lemma before_mono:
  assumes "p \<in> set (before e L)"
  shows "set (before p L) \<subseteq> set (before e L)"
  using assms unfolding before_def
proof (induction L)
  case (Cons a L)
  then show ?case by (auto split: if_splits)
qed simp

lemma same_row: "ledger_inv L \<Longrightarrow> x \<in> set L \<Longrightarrow> y \<in> set L \<Longrightarrow> x_id x = x_id y \<Longrightarrow> x = y"
  by (auto simp: ledger_inv_def distinct_map inj_on_def)

lemma same_child:
  assumes "ledger_inv L" "x \<in> set L" "y \<in> set L" "x_corrects x = x_corrects y" "x_corrects x \<noteq> []"
  shows "x = y"
proof -
  have "distinct (map x_corrects (filter (\<lambda>x. x_corrects x \<noteq> []) L))"
    using assms(1) by (simp add: ledger_inv_def links_def filter_map comp_def)
  then have "inj_on x_corrects (set (filter (\<lambda>x. x_corrects x \<noteq> []) L))" by (simp add: distinct_map)
  then show ?thesis by (rule inj_onD) (use assms in auto)
qed

text \<open>The walk back ends at the root; if it moved, the child of the root has been visited.\<close>

lemma walk_back_root:
  assumes "ledger_inv (ledger st)" "scan_ok st" "e \<in> set (ledger st)" "x_user e = u"
    and "set vs \<inter> x_id ` set (before e (ledger st)) = {}" "x_id e \<in> set vs"
    and "walk_back n u e vs st = (Inr (Some (rt, ws)), st')"
  shows "rt \<in> set (ledger st) \<and> x_user rt = u \<and> x_corrects rt = [] \<and> (x_corrects e = [] \<longrightarrow> rt = e \<and> ws = vs)
    \<and> (x_corrects e \<noteq> [] \<longrightarrow> rt \<noteq> e \<and> (\<exists>c\<in>set (ledger st). x_corrects c = x_id rt \<and> x_user c = u \<and> x_id c \<in> set ws))
    \<and> set vs \<subseteq> set ws"
  using assms
proof (induction n arbitrary: e vs st)
  case (Suc n)
  note inv = Suc.prems(1)
  show ?case
  proof (cases "x_corrects e = []")
    case False
    from parent_before [OF inv Suc.prems(3) False] obtain p where p: "p \<in> set (before e (ledger st))" "parent_of p e" ..
    then have pL: "p \<in> set (ledger st)" "x_id p = x_corrects e" "x_user p = u"
      using before_subset Suc.prems(4) by (auto simp: parent_of_def)
    from Suc.prems(7) False obtain parent s where g: "repo_GetExpenseByID (x_corrects e) u st = (Inr parent, s)"
      and rest: "(case parent of None \<Rightarrow> retR (Some (e, vs)) | Some p \<Rightarrow>
        if x_id p \<in> set vs then retR (Some (e, vs)) else walk_back n u p (x_id p # vs)) s = (Inr (Some (rt, ws)), st')"
      by (auto simp: op_iffs)
    from repo_GetExpenseByID_Inr [OF g Suc.prems(2)] pL obtain p' where p': "parent = Some p'" "p' \<in> set (ledger st)" "x_id p' = x_id p"
      by (auto split: option.splits)
    with same_row [OF inv p'(2) pL(1)] have par: "parent = Some p" by simp
    note s = GetByID_Some(2,3) [OF g [unfolded par] Suc.prems(2)]
    have fresh: "x_id p \<notin> set vs" using p(1) Suc.prems(5) by auto
    with rest par have wb: "walk_back n u p (x_id p # vs) s = (Inr (Some (rt, ws)), st')" by simp
    have disj: "set (x_id p # vs) \<inter> x_id ` set (before p (ledger s)) = {}"
      using Suc.prems(5) before_mono [OF p(1)] not_before_self [of p "ledger st"] s(1) by auto
    from Suc.IH [of s p "x_id p # vs", OF _ s(2) _ pL(3) disj _ wb] inv pL(1) s(1)
    have IH: "rt \<in> set (ledger st)" "x_user rt = u" "x_corrects rt = []" "x_corrects p = [] \<longrightarrow> rt = p \<and> ws = x_id p # vs"
      "x_corrects p \<noteq> [] \<longrightarrow> (\<exists>c\<in>set (ledger st). x_corrects c = x_id rt \<and> x_user c = u \<and> x_id c \<in> set ws)"
      "set (x_id p # vs) \<subseteq> set ws"
      by auto
    have "\<exists>c\<in>set (ledger st). x_corrects c = x_id rt \<and> x_user c = u \<and> x_id c \<in> set ws"
    proof (cases "x_corrects p = []")
      case True
      with IH(4) pL Suc.prems(3,4,6) show ?thesis by auto
    qed (use IH(5) in blast)
    with IH False show ?thesis by auto
  qed (use Suc.prems in auto)
qed simp

lemma walk_forward_chain:
  assumes "ledger_inv (ledger st)" "scan_ok st" "e \<in> set (ledger st)" "x_user e = u"
    and "set vs \<subseteq> x_id ` (insert e (set (before e (ledger st))))"
    and "walk_forward n u (x_id e) vs chain st = (Inr (Some res), st')"
  shows "\<exists>ext. res = chain @ ext \<and> set ext \<subseteq> {x \<in> set (ledger st). x_user x = u}
    \<and> successively (\<lambda>a b. x_corrects b = x_id a) (e # ext)
    \<and> (\<forall>c\<in>set (ledger st). x_user c = u \<longrightarrow> x_corrects c \<noteq> x_id (last (e # ext)))"
  using assms
proof (induction n arbitrary: e vs chain st)
  case (Suc n)
  note inv = Suc.prems(1)
  let ?p = "\<lambda>c. x_corrects c = x_id e \<and> x_user c = u"
  from Suc.prems(6) obtain rows r s where q: "sql_query (select_where ?p) st = (Inr rows, s)"
    and r: "first_row rows = Inr r"
    and rest: "(case r of None \<Rightarrow> retR (Some chain) | Some x \<Rightarrow> if x_id x \<in> set vs then retR (Some chain)
      else walk_forward n u (x_id x) (x_id x # vs) (chain @ [x])) s = (Inr (Some res), st')"
    by (auto simp: op_iffs)
  have s: "ledger s = ledger st" "scan_ok s"
    using keepsD [OF keeps_quiet_sql_query q] Suc.prems(2) by (auto simp: quiet_def quiet_scan_ok)
  have rows: "set rows = {c \<in> set (ledger st). ?p c}"
    using sql_query_Inr [OF q] Suc.prems(2) by simp
  show ?case
  proof (cases r)
    case None
    with r rows have "\<forall>c\<in>set (ledger st). x_user c = u \<longrightarrow> x_corrects c \<noteq> x_id e"
      by (auto simp: first_row_Inr split: list.splits)
    with rest None show ?thesis by (intro exI [of _ "[]"]) simp
  next
    case (Some c)
    with r have "c \<in> set rows" by (auto simp: first_row_Inr split: list.splits)
    with rows have c: "c \<in> set (ledger st)" "x_corrects c = x_id e" "x_user c = u" by auto
    have "x_id e \<noteq> []" using inv Suc.prems(3) by (metis image_eqI ledger_inv_def)
    with parent_before [OF inv c(1)] c(2) obtain p where p: "p \<in> set (before c (ledger st))" "x_id p = x_id e"
      by (auto simp: parent_of_def)
    with same_row [OF inv, of p e] before_subset [of c "ledger st"] Suc.prems(3)
    have e_before: "e \<in> set (before c (ledger st))" by auto
    have old: "set vs \<subseteq> x_id ` set (before c (ledger st))"
      using Suc.prems(5) e_before before_mono [OF e_before] by blast
    then have "x_id c \<notin> set vs" using not_before_self [of c "ledger st"] by auto
    with rest Some have wf: "walk_forward n u (x_id c) (x_id c # vs) (chain @ [c]) s = (Inr (Some res), st')" by simp
    have sub: "set (x_id c # vs) \<subseteq> x_id ` insert c (set (before c (ledger s)))" using old s(1) by auto
    from Suc.IH [of s c "x_id c # vs", OF _ s(2) _ c(3) sub wf] inv c s(1) obtain ext where
      ext: "res = (chain @ [c]) @ ext" "set ext \<subseteq> {x \<in> set (ledger st). x_user x = u}"
        "successively (\<lambda>a b. x_corrects b = x_id a) (c # ext)"
        "\<forall>d\<in>set (ledger st). x_user d = u \<longrightarrow> x_corrects d \<noteq> x_id (last (c # ext))"
      by auto
    then show ?thesis using c by (intro exI [of _ "c # ext"]) auto
  qed
qed simp

section \<open>Properties\<close>

text \<open>
  C12: the history of an expense always ends (whatever the ledger holds: the guard on visited rows
  suffices), and asked for the original entry of a chain it is the whole chain, from that entry to
  the last correction, each entry correcting the one before it.
\<close>

theorem history_of_original_is_complete:
  assumes "env_ok st" "ledger_inv (ledger st)" "x \<in> set (ledger st)" "x_user x = u" "x_corrects x = []"
    and "GetCorrectionHistory u (x_id x) st = (Inr res, st')"
  shows "\<exists>chain. res = Some (x # chain) \<and> set chain \<subseteq> {y \<in> set (ledger st). x_user y = u}
    \<and> successively (\<lambda>a b. x_corrects b = x_id a) (x # chain)
    \<and> (\<forall>c\<in>set (ledger st). x_user c = u \<longrightarrow> x_corrects c \<noteq> x_id (last (x # chain)))"
proof -
  from assms(1) have scan: "scan_ok st" by (simp add: env_ok_def)
  from history_steps [OF assms(6) scan] obtain y rt ws s1 s2 chain where y: "y \<in> set (ledger st)" "x_id y = x_id x"
    and st: "ledger s1 = ledger st" "scan_ok s1" "ledger s2 = ledger st" "scan_ok s2"
    and b: "walk_back (length (ledger st)) u y [x_id x] s1 = (Inr (Some (rt, ws)), s2)"
    and f: "walk_forward (length (ledger st)) u (x_id rt) ws [rt] s2 = (Inr (Some chain), st')" "res = Some chain"
    by metis
  have yx: "y = x" using same_row [OF assms(2) y(1) assms(3) y(2)] .
  have "rt = x \<and> ws = [x_id x]"
    using walk_back_root [of s1 x u "[x_id x]" "length (ledger st)" rt ws s2] b yx st assms(2-5) not_before_self [of x "ledger st"]
    by simp
  then have rw: "rt = x" "ws = [x_id x]" by simp_all
  from walk_forward_chain [of s2 x u ws "length (ledger st)" "[x]" chain st'] f st assms(2-4) rw
  show ?thesis by auto
qed

text \<open>
  C40: asked for a correction instead, the history has a single entry, the original: the rows
  visited on the way back to it stop the walk forward at once.  The code means to return the full
  chain for any of its entries.
\<close>

theorem history_of_correction_is_only_original:
  assumes "env_ok st" "ledger_inv (ledger st)" "x \<in> set (ledger st)" "x_user x = u" "x_corrects x \<noteq> []"
    and "GetCorrectionHistory u (x_id x) st = (Inr res, st')"
  shows "\<exists>rt. res = Some [rt] \<and> rt \<noteq> x \<and> x_corrects rt = [] \<and> rt \<in> set (ledger st)"
proof -
  from assms(1) have scan: "scan_ok st" by (simp add: env_ok_def)
  from history_steps [OF assms(6) scan] obtain y rt ws s1 s2 chain where y: "y \<in> set (ledger st)" "x_id y = x_id x"
    and st: "ledger s1 = ledger st" "scan_ok s1" "ledger s2 = ledger st" "scan_ok s2"
    and b: "walk_back (length (ledger st)) u y [x_id x] s1 = (Inr (Some (rt, ws)), s2)"
    and f: "walk_forward (length (ledger st)) u (x_id rt) ws [rt] s2 = (Inr (Some chain), st')" "res = Some chain"
    by metis
  have yx: "y = x" using same_row [OF assms(2) y(1) assms(3) y(2)] .
  from walk_back_root [of s1 x u "[x_id x]" "length (ledger st)" rt ws s2] b yx st assms(2-5) not_before_self [of x "ledger st"]
  obtain c where rt: "rt \<in> set (ledger st)" "x_corrects rt = []" "rt \<noteq> x"
    and c: "c \<in> set (ledger st)" "x_corrects c = x_id rt" "x_user c = u" "x_id c \<in> set ws"
    by auto
  have id: "x_id rt \<noteq> []" using assms(2) rt(1) by (metis image_eqI ledger_inv_def)
  obtain n where n: "length (ledger st) = Suc n" using rt(1) by (cases "ledger st") auto
  from f(1) n obtain rows r s where q: "sql_query (select_where (\<lambda>d. x_corrects d = x_id rt \<and> x_user d = u)) s2 = (Inr rows, s)"
    and r: "first_row rows = Inr r"
    and rest: "(case r of None \<Rightarrow> retR (Some [rt]) | Some d \<Rightarrow> if x_id d \<in> set ws then retR (Some [rt])
      else walk_forward n u (x_id d) (x_id d # ws) ([rt] @ [d])) s = (Inr (Some chain), st')"
    by (auto simp: op_iffs)
  have rows: "set rows = {d \<in> set (ledger st). x_corrects d = x_id rt \<and> x_user d = u}"
    using sql_query_Inr [OF q] st by simp
  have only: "d = c" if "d \<in> set rows" for d
    using that rows same_child [OF assms(2) _ c(1)] c(2) id by auto
  from rows c have "c \<in> set rows" by simp
  then obtain d ds where "rows = d # ds" by (cases rows) auto
  with r only [of d] have "r = Some c" by (simp add: first_row_Inr)
  with rest c(4) f(2) rt show ?thesis by auto
qed

text \<open>A chain of two entries, asked for by its original and by its correction.\<close>

definition demo_chain :: exp_state where
  "demo_chain = (demo_exp acked)\<lparr>ledger := [demo_row\<lparr>x_status := st_corrected\<rparr>,
     demo_row\<lparr>x_id := ''id10'', x_corrects := ''id9'', x_key := [], x_name := ''dinner''\<rparr>]\<rparr>"

lemma demo_chain_ok: "env_ok demo_chain" "ledger_inv (ledger demo_chain)"
proof -
  show "env_ok demo_chain" by (simp add: demo_chain_def env_ok_def scan_ok_def uuids_ok_def demo_exp_def)
  have "x_year (demo_row) = 2026" "x_month demo_row = 8" by code_simp+
  then show "ledger_inv (ledger demo_chain)"
    by (simp add: demo_chain_def ledger_inv_def links_def user_keys_def parent_of_def)
qed

lemma demo_history_runs:
  "map_option (map x_id) (projr (fst (GetCorrectionHistory ''alice'' ''id9'' demo_chain))) = Some [''id9'', ''id10'']"
  "isl (fst (GetCorrectionHistory ''alice'' ''id9'' demo_chain)) = False"
  "isl (fst (GetCorrectionHistory ''alice'' ''id10'' demo_chain)) = False"
  by code_simp+

theorem history_of_original_is_complete_witness:
  "\<exists>res chain st'. GetCorrectionHistory ''alice'' ''id9'' demo_chain = (Inr res, st')
     \<and> res = Some (hd (ledger demo_chain) # chain)
     \<and> successively (\<lambda>a b. x_corrects b = x_id a) (hd (ledger demo_chain) # chain)"
proof -
  obtain res st' where run: "GetCorrectionHistory ''alice'' ''id9'' demo_chain = (Inr res, st')"
    using demo_history_runs(2) by (cases "GetCorrectionHistory ''alice'' ''id9'' demo_chain"; cases "fst (GetCorrectionHistory ''alice'' ''id9'' demo_chain)") auto
  with history_of_original_is_complete [OF demo_chain_ok, of "hd (ledger demo_chain)" "''alice''" res st']
  show ?thesis by (auto simp: demo_chain_def)
qed

theorem history_of_correction_is_only_original_witness:
  "\<exists>rt st'. GetCorrectionHistory ''alice'' ''id10'' demo_chain = (Inr (Some [rt]), st') \<and> x_corrects rt = []"
proof -
  obtain res st' where run: "GetCorrectionHistory ''alice'' ''id10'' demo_chain = (Inr res, st')"
    using demo_history_runs(3) by (cases "GetCorrectionHistory ''alice'' ''id10'' demo_chain"; cases "fst (GetCorrectionHistory ''alice'' ''id10'' demo_chain)") auto
  with history_of_correction_is_only_original [OF demo_chain_ok, of "ledger demo_chain ! 1" "''alice''" res st']
  show ?thesis by (auto simp: demo_chain_def)
qed

end
