(* ===== verification/Expense_Stream.thy ===== *)
theory Expense_Stream
  imports Expense_Examples
begin

text \<open>
  The export of a user's whole history: keyset pages (\<^verbatim>\<open>keyset.go\<close>) fed through a bounded
  channel by a producer goroutine to the sender (\<^verbatim>\<open>StreamAllUserExpenses\<close>,
  \<^verbatim>\<open>produceExpensePages\<close> in \<^verbatim>\<open>expense.go\<close>).  The two goroutines, the channel and the
  cancellable context are a step relation: every interleaving, every database failure, every error
  of the sender and a cancellation at any moment is a run of it.
\<close>

section \<open>Keyset pages\<close>

definition row_le :: "expense \<Rightarrow> expense \<Rightarrow> bool" where
  "row_le = lex_le x_created x_id"

text \<open>The user's rows in the order of the export, and what is left of them after a cursor.\<close>

definition history :: "string \<Rightarrow> exp_state \<Rightarrow> expense list" where
  "history u st = order_by row_le (filter (\<lambda>e. x_user e = u) (ledger st))"

definition remaining :: "string \<Rightarrow> expense_cursor \<Rightarrow> exp_state \<Rightarrow> expense list" where
  "remaining u c st = filter (after_cursor c) (history u st)"

definition dated :: "expense list \<Rightarrow> bool" where
  "dated L \<longleftrightarrow> (\<forall>e\<in>set L. x_created e \<noteq> [])"

lemma sorted_wrt_unique:
  assumes "sorted_wrt le xs" "sorted_wrt le ys" "mset xs = mset ys"
    and "\<And>a b. a \<in> set xs \<Longrightarrow> b \<in> set xs \<Longrightarrow> le a b \<Longrightarrow> le b a \<Longrightarrow> a = b"
  shows "xs = ys"
  using assms
proof (induction xs arbitrary: ys)
  case (Cons x xs)
  then obtain y ys' where ys: "ys = y # ys'" by (cases ys) auto
  have sets: "set (x # xs) = set ys" using Cons.prems(3) by (metis set_mset_mset)
  have xy: "x = y"
  proof (rule ccontr)
    assume "x \<noteq> y"
    with sets ys have "y \<in> set xs" "x \<in> set ys'" by auto
    with Cons.prems(1,2) ys have "le x y" "le y x" by auto
    with Cons.prems(4) \<open>y \<in> set xs\<close> \<open>x \<noteq> y\<close> show False by auto
  qed
  with Cons.IH [of ys'] Cons.prems ys show ?case by simp
qed simp

lemma row_le_antisym: "row_le a b \<Longrightarrow> row_le b a \<Longrightarrow> x_id a = x_id b"
  by (auto simp: row_le_def lex_le_def)

lemma sorted_history: "sorted_wrt row_le (history u st)"
  unfolding history_def row_le_def by (rule sorted_order_by) (rule lex_le_total, erule (1) lex_le_trans)

lemma set_history: "set (history u st) = {e \<in> set (ledger st). x_user e = u}"
  by (auto simp: history_def)

text \<open>The page query is a query of what remains, whatever order the table is scanned in.\<close>

lemma page_query:
  assumes "scan_ok st" "ledger_inv (ledger st)"
  shows "order_by (lex_le x_created x_id) (select_where (\<lambda>e. x_user e = u \<and> after_cursor c e) st) = remaining u c st"
proof (rule sorted_wrt_unique [where le = row_le])
  show "sorted_wrt row_le (order_by (lex_le x_created x_id) (select_where (\<lambda>e. x_user e = u \<and> after_cursor c e) st))"
    unfolding row_le_def by (rule sorted_order_by) (rule lex_le_total, erule (1) lex_le_trans)
  show "sorted_wrt row_le (remaining u c st)"
    unfolding remaining_def by (rule sorted_wrt_filter) (rule sorted_history)
  show "mset (order_by (lex_le x_created x_id) (select_where (\<lambda>e. x_user e = u \<and> after_cursor c e) st))
      = mset (remaining u c st)"
    using mset_select_where [OF assms(1), of "\<lambda>e. x_user e = u \<and> after_cursor c e"]
    by (simp add: remaining_def history_def filter_filter_mset conj_commute)
  fix a b
  assume "a \<in> set (order_by (lex_le x_created x_id) (select_where (\<lambda>e. x_user e = u \<and> after_cursor c e) st))"
    "b \<in> set (order_by (lex_le x_created x_id) (select_where (\<lambda>e. x_user e = u \<and> after_cursor c e) st))"
    "row_le a b" "row_le b a"
  then have "a \<in> set (ledger st)" "b \<in> set (ledger st)" "x_id a = x_id b"
    using assms(1) row_le_antisym [of a b] by simp_all
  then show "a = b" using assms(2) by (auto simp: ledger_inv_def distinct_map dest: inj_onD)
qed

lemma after_last:
  assumes "sorted_wrt row_le (xs @ [x] @ ys)" "distinct (map x_id (xs @ [x] @ ys))" "x_created x \<noteq> []"
  shows "filter (after_cursor \<lparr>ec_created = x_created x, ec_id = x_id x\<rparr>) (xs @ [x] @ ys) = ys"
proof -
  let ?P = "after_cursor \<lparr>ec_created = x_created x, ec_id = x_id x\<rparr>"
  have "\<not> ?P e" if "e \<in> set (xs @ [x])" for e
  proof -
    have "row_le e x" using that assms(1) by (auto simp: sorted_wrt_append row_le_def lex_le_def)
    then show ?thesis using assms(3) by (auto simp: after_cursor_def row_le_def lex_le_def)
  qed
  moreover have "?P e" if "e \<in> set ys" for e
  proof -
    have "x_id x \<notin> x_id ` set ys" using assms(2) by simp
    with that have "x_id e \<noteq> x_id x" by (metis image_eqI)
    moreover have "row_le x e" using that assms(1) by (auto simp: sorted_wrt_append)
    ultimately show ?thesis by (auto simp: after_cursor_def row_le_def lex_le_def)
  qed
  ultimately show ?thesis by (simp add: filter_empty_conv)
qed

lemma distinct_history: "ledger_inv (ledger st) \<Longrightarrow> distinct (map x_id (history u st))"
proof -
  assume "ledger_inv (ledger st)"
  then have "distinct (map x_id (filter (\<lambda>e. x_user e = u) (ledger st)))"
    by (simp add: ledger_inv_def distinct_map_filter)
  moreover have "mset (map x_id (history u st)) = mset (map x_id (filter (\<lambda>e. x_user e = u) (ledger st)))"
    by (simp add: history_def)
  ultimately show ?thesis by (metis mset_eq_imp_distinct_iff)
qed

text \<open>What remains after the last row of a part of what remained is the rest.\<close>

lemma remaining_after:
  assumes "ledger_inv (ledger st)" "dated (ledger st)" "remaining u c st = xs @ [x] @ ys"
  shows "remaining u \<lparr>ec_created = x_created x, ec_id = x_id x\<rparr> st = ys"
proof -
  have "x \<in> set (remaining u c st)" using assms(3) by simp
  then have x: "x \<in> set (history u st)" "after_cursor c x" by (auto simp: remaining_def)
  then have date: "x_created x \<noteq> []" using assms(2) by (auto simp: set_history dated_def)
  obtain as bs where h: "history u st = as @ [x] @ bs" using x(1) by (auto dest: split_list)
  have "filter (after_cursor c) bs = bs"
  proof (rule filter_True, rule ballI)
    fix e assume "e \<in> set bs"
    with sorted_history [of u st] h have "row_le x e" by (auto simp: sorted_wrt_append)
    with x(2) show "after_cursor c e"
      by (auto simp: after_cursor_def row_le_def lex_le_def intro: less_trans less_le_trans)
  qed
  with assms(3) h x(2) have "filter (after_cursor c) as @ [x] @ bs = xs @ [x] @ ys" by (simp add: remaining_def)
  moreover have "distinct (filter (after_cursor c) as @ [x] @ bs)"
    using distinct_history [OF assms(1), of u] h by (auto simp: distinct_map)
  ultimately have "bs = ys" by (metis append_Cons append_Nil append_Cons_eq_iff distinct.simps(2) distinct_append not_distinct_conv_prefix)
  moreover have "remaining u \<lparr>ec_created = x_created x, ec_id = x_id x\<rparr> st = bs"
    using after_last [of as x bs] sorted_history [of u st] distinct_history [OF assms(1), of u] h date
    by (simp add: remaining_def)
  ultimately show ?thesis by simp
qed

lemma sql_query_page_Inr:
  assumes "sql_query_page f st = (Inr x, st')"
  shows "f st = Some x"
proof -
  from assms obtain r s1 where "sql_query f st = (Inr r, s1)"
    and case_r: "(case r of None \<Rightarrow> failR db_error | Some x \<Rightarrow> retR x) s1 = (Inr x, st')"
    unfolding sql_query_page_def bindR_Inr_iff by blast
  then have "f st = r" using sql_query_Inr by metis
  with case_r show ?thesis by (cases r) simp_all
qed

lemma page_Inr:
  assumes ok: "scan_ok st" "ledger_inv (ledger st)" "dated (ledger st)" and ps: "1 \<le> ps" "ps < 2147483647"
    and run: "repo_GetExpensesByUserAfter u c ps st = (Inr (rows, next_c, hm), st')"
  shows "rows = take (nat ps) (remaining u c st) \<and> hm = (int (length (remaining u c st)) > ps)
    \<and> remaining u next_c st = drop (nat ps) (remaining u c st) \<and> quiet st st'"
proof -
  let ?R = "remaining u c st"
  have lim: "i32 (ps + 1) = ps + 1" using ps by (simp add: is_i32_def)
  have ps': "(if ps < 1 then DefaultStreamPageSize else ps) = ps" using ps by simp
  obtain r1 s1 where q: "sql_query_page (\<lambda>st. sql_page (ps + 1) 0
      (order_by (lex_le x_created x_id) (select_where (\<lambda>e. x_user e = u \<and> after_cursor c e) st))) st = (r1, s1)"
    by (metis surj_pair)
  from run have "\<exists>page. r1 = Inr page \<and> hm = (int (length page) > ps)
      \<and> rows = (if hm then take (nat ps) page else page)
      \<and> next_c = (if rows \<noteq> [] then \<lparr>ec_created = x_created (last rows), ec_id = x_id (last rows)\<rparr> else c)"
    unfolding repo_GetExpensesByUserAfter_def ps' Let_def lim
    by (cases r1) (auto simp: bindR_def wrapR_def q map_rows_Inr liftR_def split: sum.splits)
  then obtain page where pg: "r1 = Inr page"
    and r: "hm = (int (length page) > ps)" "rows = (if hm then take (nat ps) page else page)"
      "next_c = (if rows \<noteq> [] then \<lparr>ec_created = x_created (last rows), ec_id = x_id (last rows)\<rparr> else c)"
    by blast
  from sql_query_page_Inr [OF q [unfolded pg]] have "sql_page (ps + 1) 0 ?R = Some page"
    by (simp only: page_query [OF ok(1,2)])
  with ps have page: "page = take (nat (ps + 1)) ?R" by (auto simp: sql_page_def split: if_splits)
  have hm: "hm = (int (length ?R) > ps)"
    using r(1) ps unfolding page by auto
  have rows: "rows = take (nat ps) ?R"
    using r(2) hm ps unfolding page by (auto simp: min_def)
  have "remaining u next_c st = drop (nat ps) ?R"
  proof (cases "rows = []")
    case True
    with rows ps have "?R = []" by auto
    with r(3) True show ?thesis by simp
  next
    case False
    then have "?R = butlast rows @ [last rows] @ drop (nat ps) ?R"
      using rows by (metis append_assoc append_butlast_last_id append_take_drop_id)
    from remaining_after [OF ok(2,3) this] r(3) False show ?thesis by simp
  qed
  moreover have "quiet st st'" by (rule keepsD [OF repo_reads_quiet(7) run])
  ultimately show ?thesis using rows hm by simp
qed

section \<open>The producer and the sender\<close>

text \<open>
  The producer holds the rest of its page (\<open>ss_pend\<close>), the cursor, and whether more rows remain;
  it closes the channel when it stops and leaves its terminal status in \<open>ss_err\<close>.  The sender has
  sent \<open>ss_sent\<close> and returns \<open>ss_ret\<close>.  A status is \<open>None\<close> for the nil error.
\<close>

record stream_state =
  ss_db :: exp_state
  ss_cursor :: expense_cursor
  ss_more :: bool
  ss_pend :: "expense list"
  ss_closed :: bool
  ss_err :: "goerr option"
  ss_chan :: "expense list"
  ss_sent :: "expense list"
  ss_ret :: "goerr option option"
  ss_cancel :: bool

definition stream_start :: "exp_state \<Rightarrow> stream_state" where
  "stream_start st = \<lparr>ss_db = st, ss_cursor = \<lparr>ec_created = [], ec_id = []\<rparr>, ss_more = True, ss_pend = [],
     ss_closed = False, ss_err = None, ss_chan = [], ss_sent = [], ss_ret = None, ss_cancel = False\<rparr>"

inductive stream_step :: "string \<Rightarrow> int \<Rightarrow> stream_state \<Rightarrow> stream_state \<Rightarrow> bool" for u ps where
  fetch: "\<not> ss_closed s \<Longrightarrow> ss_pend s = [] \<Longrightarrow> ss_more s
    \<Longrightarrow> repo_GetExpensesByUserAfter u (ss_cursor s) ps (ss_db s) = (Inr (page, next_c, hm), db)
    \<Longrightarrow> stream_step u ps s (s\<lparr>ss_db := db, ss_pend := page, ss_cursor := next_c, ss_more := hm\<rparr>)"
| fetch_error: "\<not> ss_closed s \<Longrightarrow> ss_pend s = [] \<Longrightarrow> ss_more s
    \<Longrightarrow> repo_GetExpensesByUserAfter u (ss_cursor s) ps (ss_db s) = (Inl e, db)
    \<Longrightarrow> stream_step u ps s (s\<lparr>ss_db := db, ss_closed := True, ss_err := Some (Wrapped ''streaming user expenses'' e)\<rparr>)"
| push: "\<not> ss_closed s \<Longrightarrow> ss_pend s = e # es \<Longrightarrow> int (length (ss_chan s)) < ps
    \<Longrightarrow> stream_step u ps s (s\<lparr>ss_pend := es, ss_chan := ss_chan s @ [e]\<rparr>)"
| stop: "\<not> ss_closed s \<Longrightarrow> ss_pend s = e # es \<Longrightarrow> ss_cancel s
    \<Longrightarrow> stream_step u ps s (s\<lparr>ss_closed := True, ss_err := Some Canceled\<rparr>)"
| finish: "\<not> ss_closed s \<Longrightarrow> ss_pend s = [] \<Longrightarrow> \<not> ss_more s
    \<Longrightarrow> stream_step u ps s (s\<lparr>ss_closed := True, ss_err := None\<rparr>)"
| send_ok: "ss_ret s = None \<Longrightarrow> ss_chan s = e # es \<Longrightarrow> \<not> ss_cancel s
    \<Longrightarrow> stream_step u ps s (s\<lparr>ss_chan := es, ss_sent := ss_sent s @ [e]\<rparr>)"
| send_error: "ss_ret s = None \<Longrightarrow> ss_chan s = e # es \<Longrightarrow> \<not> ss_cancel s
    \<Longrightarrow> stream_step u ps s (s\<lparr>ss_chan := es, ss_ret := Some (Some (Opaque ''send'')), ss_cancel := True\<rparr>)"
| recv_cancelled: "ss_ret s = None \<Longrightarrow> ss_chan s = e # es \<Longrightarrow> ss_cancel s
    \<Longrightarrow> stream_step u ps s (s\<lparr>ss_chan := es, ss_ret := Some (Some Canceled)\<rparr>)"
| return: "ss_ret s = None \<Longrightarrow> ss_chan s = [] \<Longrightarrow> ss_closed s
    \<Longrightarrow> stream_step u ps s (s\<lparr>ss_ret := Some (ss_err s), ss_cancel := True\<rparr>)"
| cancel: "stream_step u ps s (s\<lparr>ss_cancel := True\<rparr>)"

inductive_cases stream_stepE: "stream_step u ps s s'"

text \<open>
  The invariant: what was sent, what is in the channel, what the producer holds and what remains
  after the cursor are together the history, as long as the producer runs; a producer that ended
  well has handed everything over.
\<close>

definition initial :: "'a list \<Rightarrow> 'a list \<Rightarrow> bool" where
  "initial xs ys \<longleftrightarrow> take (length xs) ys = xs"

lemma initial_Nil [simp]: "initial [] ys"
  by (simp add: initial_def)

lemma initial_append [simp]: "initial xs (xs @ zs)"
  by (simp add: initial_def)

lemma initial_self [simp]: "initial xs xs"
  by (simp add: initial_def)

lemma initial_appendD: "initial (xs @ ys) zs \<Longrightarrow> initial xs zs"
  by (metis append_eq_conv_conj append_take_drop_id initial_def append.assoc)

definition in_flight :: "string \<Rightarrow> exp_state \<Rightarrow> stream_state \<Rightarrow> expense list" where
  "in_flight u st s = ss_sent s @ ss_chan s @
     (if ss_closed s then [] else ss_pend s @ (if ss_more s then remaining u (ss_cursor s) st else []))"

definition stream_inv :: "string \<Rightarrow> int \<Rightarrow> exp_state \<Rightarrow> stream_state \<Rightarrow> bool" where
  "stream_inv u ps st s \<longleftrightarrow>
     ledger (ss_db s) = ledger st \<and> scan_ok (ss_db s)
     \<and> int (length (ss_chan s)) \<le> ps \<and> int (length (ss_pend s)) \<le> ps
     \<and> initial (ss_sent s) (history u st)
     \<and> (case ss_ret s of
          None \<Rightarrow> initial (in_flight u st s) (history u st)
            \<and> (ss_closed s \<and> ss_err s \<noteq> None \<or> in_flight u st s = history u st)
        | Some r \<Rightarrow> ss_cancel s \<and> (r \<noteq> None \<or> ss_sent s = history u st))"

lemma remaining_start: "remaining u \<lparr>ec_created = [], ec_id = []\<rparr> st = history u st"
  by (simp add: remaining_def after_cursor_def)

lemma remaining_ledger: "ledger s = ledger st \<Longrightarrow> remaining u c s = remaining u c st"
  by (simp add: remaining_def history_def)

lemma stream_inv_start: "scan_ok st \<Longrightarrow> 0 \<le> ps \<Longrightarrow> stream_inv u ps st (stream_start st)"
  by (simp add: stream_inv_def stream_start_def in_flight_def remaining_start)

lemma stream_inv_fetch:
  assumes inv: "stream_inv u ps st s" and ok: "ledger_inv (ledger st)" "dated (ledger st)" "1 \<le> ps" "ps < 2147483647"
    and s: "\<not> ss_closed s" "ss_pend s = []" "ss_more s"
    and run: "repo_GetExpensesByUserAfter u (ss_cursor s) ps (ss_db s) = (Inr (page, next_c, hm), db)"
  shows "stream_inv u ps st (s\<lparr>ss_db := db, ss_pend := page, ss_cursor := next_c, ss_more := hm\<rparr>)"
proof -
  let ?R = "remaining u (ss_cursor s) st"
  from inv have db: "ledger (ss_db s) = ledger st" "scan_ok (ss_db s)" by (auto simp: stream_inv_def)
  from page_Inr [OF db(2) _ _ ok(3,4) run] db(1) ok(1,2) remaining_ledger [OF db(1)]
  have page: "page = take (nat ps) ?R" "hm = (int (length ?R) > ps)" "remaining u next_c st = drop (nat ps) ?R"
    "quiet (ss_db s) db" by auto
  then have db': "ledger db = ledger st" "scan_ok db"
    using db quiet_scan_ok [OF page(4)] by (auto simp: quiet_def)
  have "?R = page @ (if hm then remaining u next_c st else [])"
    using page ok(3) by (auto simp: not_less)
  then have "in_flight u st (s\<lparr>ss_db := db, ss_pend := page, ss_cursor := next_c, ss_more := hm\<rparr>) = in_flight u st s"
    using s by (simp add: in_flight_def)
  moreover have "int (length page) \<le> ps" using page(1) ok(3) by simp
  ultimately show ?thesis
    using inv s db' by (auto simp: stream_inv_def split: option.split_asm)
qed

text \<open>What a step keeps, by how it changes what is in flight.\<close>

lemma in_flight_push:
  "\<not> ss_closed s \<Longrightarrow> ss_pend s = e # es \<Longrightarrow> in_flight u st (s\<lparr>ss_pend := es, ss_chan := ss_chan s @ [e]\<rparr>) = in_flight u st s"
  by (simp add: in_flight_def)

lemma in_flight_send:
  "ss_chan s = e # es \<Longrightarrow> in_flight u st (s\<lparr>ss_chan := es, ss_sent := ss_sent s @ [e]\<rparr>) = in_flight u st s"
  by (simp add: in_flight_def)

lemma in_flight_finish:
  "\<not> ss_closed s \<Longrightarrow> ss_pend s = [] \<Longrightarrow> \<not> ss_more s
    \<Longrightarrow> in_flight u st (s\<lparr>ss_closed := True, ss_err := None\<rparr>) = in_flight u st s"
  by (simp add: in_flight_def)

lemma in_flight_stop:
  "\<not> ss_closed s \<Longrightarrow> initial (in_flight u st s) h \<Longrightarrow> initial (in_flight u st (s\<lparr>ss_closed := True, ss_err := r\<rparr>)) h"
  by (simp add: in_flight_def) (metis append.assoc initial_appendD)

lemma stream_inv_step:
  assumes inv: "stream_inv u ps st s" and ok: "ledger_inv (ledger st)" "dated (ledger st)" "1 \<le> ps" "ps < 2147483647"
    and step: "stream_step u ps s s'"
  shows "stream_inv u ps st s'"
  using step
proof cases
  case (fetch page next_c hm db)
  from stream_inv_fetch [OF inv ok fetch(2-5)] fetch(1) show ?thesis by simp
next
  case (fetch_error e db)
  have "quiet (ss_db s) db" by (rule keepsD [OF repo_reads_quiet(7) fetch_error(5)])
  then have "ledger db = ledger (ss_db s)" "scan_ok db = scan_ok (ss_db s)"
    by (simp_all add: quiet_scan_ok) (simp add: quiet_def)
  moreover have "in_flight u st (s\<lparr>ss_db := db, ss_closed := True, ss_err := r\<rparr>)
      = in_flight u st (s\<lparr>ss_closed := True, ss_err := r\<rparr>)" for r
    by (simp add: in_flight_def)
  ultimately show ?thesis
    using inv fetch_error(1) in_flight_stop [OF fetch_error(2)] by (auto simp: stream_inv_def split: option.split_asm)
next
  case (push e es)
  with inv in_flight_push [OF push(2,3)] show ?thesis by (auto simp: stream_inv_def split: option.split_asm)
next
  case (stop e es)
  with inv in_flight_stop [OF stop(2)] show ?thesis by (auto simp: stream_inv_def split: option.split_asm)
next
  case finish
  with inv in_flight_finish [OF finish(2-4)] show ?thesis by (auto simp: stream_inv_def split: option.split_asm)
next
  case (send_ok e es)
  from inv send_ok(2) have flow: "initial (in_flight u st s) (history u st)" by (simp add: stream_inv_def)
  then have "initial (ss_sent s @ [e]) (history u st)"
    using send_ok(3) by (simp add: in_flight_def) (metis append_Cons append_Nil append.assoc initial_appendD)
  with inv send_ok in_flight_send [OF send_ok(3)] show ?thesis by (auto simp: stream_inv_def split: option.split_asm)
next
  case (send_error e es)
  with inv show ?thesis by (auto simp: stream_inv_def split: option.split_asm)
next
  case (recv_cancelled e es)
  with inv show ?thesis by (auto simp: stream_inv_def split: option.split_asm)
next
  case return
  with inv have "ss_err s = None \<Longrightarrow> ss_sent s = history u st" by (auto simp: stream_inv_def in_flight_def)
  with inv return show ?thesis by (auto simp: stream_inv_def split: option.split_asm)
next
  case cancel
  have "in_flight u st s' = in_flight u st s" by (simp add: cancel in_flight_def)
  with inv cancel show ?thesis by (auto simp: stream_inv_def split: option.splits)
qed

lemma stream_inv_steps:
  assumes "(stream_step u ps)\<^sup>*\<^sup>* s s'" "stream_inv u ps st s"
    and "ledger_inv (ledger st)" "dated (ledger st)" "1 \<le> ps" "ps < 2147483647"
  shows "stream_inv u ps st s'"
  using assms(1) by (induction rule: rtranclp_induct) (use assms stream_inv_step in blast)+


section \<open>Runs of the stream\<close>

text \<open>
  \<^verbatim>\<open>StreamAllUserExpenses\<close> up to the point where both goroutines run: the guard on the user and
  the page size a non-positive request falls back to.
\<close>

definition StreamAllUserExpenses :: "string \<Rightarrow> int \<Rightarrow> exp_state \<Rightarrow> goerr + int \<times> stream_state" where
  "StreamAllUserExpenses userID pageSize st =
     (case v_result (v_checks [(userID \<noteq> [], ''userId'', ''user_id is required'')]) of
        Some e \<Rightarrow> Inl (Api e)
      | None \<Rightarrow> Inr (if pageSize < 1 then DefaultStreamPageSize else pageSize, stream_start st))"

text \<open>
  \<open>stream_run u ps st n s\<close>: from the start, \<open>n\<close> steps of the producer or the sender and any number
  of cancellations by the caller lead to \<open>s\<close>.
\<close>

inductive stream_run :: "string \<Rightarrow> int \<Rightarrow> exp_state \<Rightarrow> nat \<Rightarrow> stream_state \<Rightarrow> bool" for u ps st where
  start: "stream_run u ps st 0 (stream_start st)"
| work: "stream_run u ps st n s \<Longrightarrow> stream_step u ps s s' \<Longrightarrow> s' \<noteq> s\<lparr>ss_cancel := True\<rparr> \<Longrightarrow> stream_run u ps st (Suc n) s'"
| cancelled: "stream_run u ps st n s \<Longrightarrow> stream_run u ps st n (s\<lparr>ss_cancel := True\<rparr>)"

lemma stream_run_inv:
  assumes "stream_run u ps st n s" "scan_ok st" "ledger_inv (ledger st)" "dated (ledger st)" "1 \<le> ps" "ps < 2147483647"
  shows "stream_inv u ps st s"
  using assms(1)
proof induction
  case start
  then show ?case using assms by (simp add: stream_inv_start)
next
  case (work n s s')
  then show ?case using assms stream_inv_step by blast
next
  case (cancelled n s)
  then show ?case using assms stream_inv_step [OF _ _ _ _ _ stream_step.cancel] by blast
qed

text \<open>What is left to do: three steps for a row not yet fetched, two for one in the producer's hands, one in the channel.\<close>

definition work_left :: "string \<Rightarrow> exp_state \<Rightarrow> stream_state \<Rightarrow> nat" where
  "work_left u st s =
     (if ss_closed s then 0
      else 1 + 2 * length (ss_pend s) + (if ss_more s then 1 + 3 * length (remaining u (ss_cursor s) st) else 0))
     + length (ss_chan s) + (if ss_ret s = None then 1 else 0)"

lemma work_left_cancel [simp]: "work_left u st (s\<lparr>ss_cancel := b\<rparr>) = work_left u st s"
  by (simp add: work_left_def)

lemma work_left_fetch:
  assumes inv: "stream_inv u ps st s" and ok: "ledger_inv (ledger st)" "dated (ledger st)" "1 \<le> ps" "ps < 2147483647"
    and s: "\<not> ss_closed s" "ss_pend s = []" "ss_more s"
    and run: "repo_GetExpensesByUserAfter u (ss_cursor s) ps (ss_db s) = (Inr (page, next_c, hm), db)"
  shows "work_left u st (s\<lparr>ss_db := db, ss_pend := page, ss_cursor := next_c, ss_more := hm\<rparr>) < work_left u st s"
proof -
  let ?R = "remaining u (ss_cursor s) st"
  from inv have db: "ledger (ss_db s) = ledger st" "scan_ok (ss_db s)" by (auto simp: stream_inv_def)
  from page_Inr [OF db(2) _ _ ok(3,4) run] db(1) ok(1,2) remaining_ledger [OF db(1)]
  have page: "page = take (nat ps) ?R" "hm = (int (length ?R) > ps)" "remaining u next_c st = drop (nat ps) ?R"
    by auto
  show ?thesis
  proof (cases "int (length ?R) > ps")
    case True
    then have "length page + length (remaining u next_c st) = length ?R" "length page = nat ps"
      using page(1,3) ok(3) by simp_all
    with True s page(2) ok(3) show ?thesis by (simp add: work_left_def)
  next
    case False
    then have "length page \<le> length ?R" using page(1) by simp
    with False s page(2) show ?thesis by (simp add: work_left_def)
  qed
qed

lemma work_left_step:
  assumes "stream_inv u ps st s" "ledger_inv (ledger st)" "dated (ledger st)" "1 \<le> ps" "ps < 2147483647"
    and step: "stream_step u ps s s'" "s' \<noteq> s\<lparr>ss_cancel := True\<rparr>"
  shows "work_left u st s' < work_left u st s"
  using step(1)
proof cases
  case (fetch page next_c hm db)
  from work_left_fetch [OF assms(1-5) fetch(2-5)] fetch(1) show ?thesis by simp
qed (use step(2) in \<open>simp_all add: work_left_def\<close>)

lemma work_left_start: "work_left u st (stream_start st) = 3 * length (history u st) + 3"
  by (simp add: work_left_def stream_start_def remaining_start)

lemma work_left_run:
  assumes "stream_run u ps st n s" "scan_ok st" "ledger_inv (ledger st)" "dated (ledger st)" "1 \<le> ps" "ps < 2147483647"
  shows "n + work_left u st s \<le> 3 * length (history u st) + 3"
  using assms(1)
proof induction
  case (work n s s')
  then show ?case using work_left_step [OF stream_run_inv [OF work(1) assms(2-6)] assms(3-6) work(2,3)] by simp
next
  case (cancelled n s)
  then show ?case by simp
qed (simp add: work_left_start)

lemma work_exI:
  assumes "stream_step u ps s s'" "work_left u st s' < work_left u st s"
  shows "\<exists>s'. stream_step u ps s s' \<and> s' \<noteq> s\<lparr>ss_cancel := True\<rparr>"
proof (intro exI conjI)
  show "s' \<noteq> s\<lparr>ss_cancel := True\<rparr>" using assms(2) by auto
qed (rule assms(1))

lemma sender_can_step:
  assumes "ss_ret s = None" "1 \<le> ps"
    and inv: "stream_inv u ps st s" "ledger_inv (ledger st)" "dated (ledger st)" "ps < 2147483647"
  shows "\<exists>s'. stream_step u ps s s' \<and> s' \<noteq> s\<lparr>ss_cancel := True\<rparr>"
proof (cases "ss_chan s")
  case (Cons e es)
  show ?thesis
  proof (cases "ss_cancel s")
    case True
    from stream_step.recv_cancelled [OF assms(1) Cons True] show ?thesis by (rule work_exI) (use assms(1) Cons in \<open>simp add: work_left_def\<close>)
  next
    case False
    from stream_step.send_ok [OF assms(1) Cons False] show ?thesis by (rule work_exI) (use Cons assms(1) in \<open>simp add: work_left_def\<close>)
  qed
next
  case Nil
  consider "ss_closed s" | e es where "\<not> ss_closed s" "ss_pend s = e # es"
    | "\<not> ss_closed s" "ss_pend s = []" "ss_more s" | "\<not> ss_closed s" "ss_pend s = []" "\<not> ss_more s"
    by (cases "ss_pend s") auto
  then show ?thesis
  proof cases
    case 1
    from stream_step.return [OF assms(1) Nil 1] show ?thesis by (rule work_exI) (use assms(1) in \<open>simp add: work_left_def\<close>)
  next
    case 2
    then have "stream_step u ps s (s\<lparr>ss_pend := es, ss_chan := ss_chan s @ [e]\<rparr>)"
      using Nil assms(2) by (intro stream_step.push) auto
    then show ?thesis by (rule work_exI) (use 2 assms(1) in \<open>simp add: work_left_def\<close>)
  next
    case 3
    obtain r db where run: "repo_GetExpensesByUserAfter u (ss_cursor s) ps (ss_db s) = (r, db)" by (metis surj_pair)
    show ?thesis
    proof (cases r)
      case (Inl e)
      from stream_step.fetch_error [OF 3 run [unfolded Inl]] show ?thesis by (rule work_exI) (use 3 assms(1) in \<open>simp add: work_left_def\<close>)
    next
      case (Inr x)
      obtain page next_c hm where x: "x = (page, next_c, hm)" by (cases x) auto
      show ?thesis
        by (rule work_exI [OF stream_step.fetch [OF 3 run [unfolded Inr x]]],
            rule work_left_fetch [OF inv(1-3) assms(2) inv(4) 3 run [unfolded Inr x]])
    qed
  next
    case 4
    from stream_step.finish [OF 4] show ?thesis by (rule work_exI) (use 4 assms(1) in \<open>simp add: work_left_def\<close>)
  qed
qed


lemma stream_start_args:
  assumes "StreamAllUserExpenses u pageSize st = Inr (ps, s0)" "is_i32 pageSize" "pageSize \<noteq> 2147483647"
  shows "s0 = stream_start st" "1 \<le> ps" "ps < 2147483647"
  using assms by (auto simp: StreamAllUserExpenses_def is_i32_def DefaultStreamPageSize_def split: option.splits if_splits)

text \<open>
  C13: in every interleaving of the producer, the sender and the caller's cancellation, and with any
  database failure, what the export has sent is an initial part of the user's history in order of
  creation, without a gap, a repetition or a row of another user; the channel never holds more than
  a page; and when the call returns nil, everything was sent.
\<close>

theorem export_sends_history_in_order:
  assumes "StreamAllUserExpenses u pageSize st = Inr (ps, s0)" "is_i32 pageSize" "pageSize \<noteq> 2147483647"
    and "scan_ok st" "ledger_inv (ledger st)" "dated (ledger st)"
    and "stream_run u ps st n s"
  shows "initial (ss_sent s) (history u st) \<and> int (length (ss_chan s)) \<le> ps
    \<and> (ss_ret s = Some None \<longrightarrow> ss_sent s = history u st)"
  using stream_run_inv [OF assms(7,4,5,6)] stream_start_args [OF assms(1-3)]
  by (auto simp: stream_inv_def)

text \<open>
  C14: the export always ends: a run has at most three steps per row and three more, and as long as
  the call has not returned, the producer or the sender can take a step (no deadlock on the
  channel, whatever fails).
\<close>

theorem export_always_returns:
  assumes "StreamAllUserExpenses u pageSize st = Inr (ps, s0)" "is_i32 pageSize" "pageSize \<noteq> 2147483647"
    and "scan_ok st" "ledger_inv (ledger st)" "dated (ledger st)"
    and "stream_run u ps st n s"
  shows "n \<le> 3 * length (history u st) + 3 \<and> (ss_ret s = None \<longrightarrow> (\<exists>s'. stream_run u ps st (Suc n) s'))"
proof
  note ps = stream_start_args [OF assms(1-3)]
  show "n \<le> 3 * length (history u st) + 3"
    using work_left_run [OF assms(7,4,5,6) ps(2,3)] by simp
  show "ss_ret s = None \<longrightarrow> (\<exists>s'. stream_run u ps st (Suc n) s')"
    using sender_can_step [OF _ ps(2) stream_run_inv [OF assms(7,4,5,6) ps(2,3)] assms(5,6) ps(3)]
      stream_run.work [OF assms(7)] by blast
qed

section \<open>Witnesses\<close>

lemma demo_stream_args: "StreamAllUserExpenses ''alice'' 1 demo_one = Inr (1, stream_start demo_one)"
  by (simp add: StreamAllUserExpenses_def v_checks_def v_result_def v_new_def v_check_def v_has_errors_def)

lemma demo_one_dated: "dated (ledger demo_one)"
  by (simp add: dated_def demo_row_def new_expense_def with_money_def buildIdentitySnapshot_def demo_now_def)

lemma demo_fetch: "fst (repo_GetExpensesByUserAfter ''alice'' \<lparr>ec_created = [], ec_id = []\<rparr> 1 demo_one)
    = Inr ([demo_row], \<lparr>ec_created = demo_now, ec_id = ''id9''\<rparr>, False)"
  by code_simp

lemma demo_export:
  "\<exists>s. stream_run ''alice'' 1 demo_one 5 s \<and> ss_ret s = Some None \<and> ss_sent s = [demo_row]"
proof -
  let ?c = "\<lparr>ec_created = demo_now, ec_id = ''id9''\<rparr>"
  let ?s = "\<lambda>db pend closed chan sent ret. \<lparr>ss_db = db, ss_cursor = ?c, ss_more = False, ss_pend = pend, ss_closed = closed,
    ss_err = None, ss_chan = chan, ss_sent = sent, ss_ret = ret, ss_cancel = (ret \<noteq> None)\<rparr>"
  obtain db where fetch: "repo_GetExpensesByUserAfter ''alice'' \<lparr>ec_created = [], ec_id = []\<rparr> 1 demo_one
      = (Inr ([demo_row], ?c, False), db)"
    using demo_fetch by (metis prod.collapse)
  have "stream_run ''alice'' 1 demo_one 1 (?s db [demo_row] False [] [] None)"
    using stream_run.work [OF stream_run.start stream_step.fetch [where s = "stream_start demo_one"]] fetch
    by (simp add: stream_start_def)
  from stream_run.work [OF this stream_step.push]
  have "stream_run ''alice'' 1 demo_one 2 (?s db [] False [demo_row] [] None)" by (simp add: numeral_eq_Suc)
  from stream_run.work [OF this stream_step.send_ok]
  have "stream_run ''alice'' 1 demo_one 3 (?s db [] False [] [demo_row] None)" by (simp add: numeral_eq_Suc)
  from stream_run.work [OF this stream_step.finish]
  have "stream_run ''alice'' 1 demo_one 4 (?s db [] True [] [demo_row] None)" by (simp add: numeral_eq_Suc)
  from stream_run.work [OF this stream_step.return]
  have "stream_run ''alice'' 1 demo_one 5 (?s db [] True [] [demo_row] (Some None))" by (simp add: numeral_eq_Suc)
  then show ?thesis by (intro exI conjI, assumption) simp_all
qed

theorem export_sends_history_in_order_witness:
  "\<exists>s. stream_run ''alice'' 1 demo_one 5 s \<and> ss_sent s = history ''alice'' demo_one"
proof -
  obtain s where s: "stream_run ''alice'' 1 demo_one 5 s" "ss_ret s = Some None" using demo_export by blast
  with export_sends_history_in_order [OF demo_stream_args _ _ _ _ demo_one_dated s(1)] show ?thesis
    using demo_one_ok(1) by (auto simp: is_i32_def env_ok_def)
qed

theorem export_always_returns_witness: "(5::nat) \<le> 3 * length (history ''alice'' demo_one) + 3"
proof -
  obtain s where s: "stream_run ''alice'' 1 demo_one 5 s" using demo_export by blast
  from export_always_returns [OF demo_stream_args _ _ _ _ demo_one_dated s] show ?thesis
    using demo_one_ok(1) by (simp add: is_i32_def env_ok_def)
qed

end
