(* ===== verification/Finance_Model.thy ===== *)
theory Finance_Model
  imports Sql_Tables Fx_Converter
begin

text \<open>
  The finance service's data model (\<^verbatim>\<open>services/finance/internal/model\<close>): default settings,
  budget periods, tags, pro-rata schedules and health scores, the requests that change them, and
  the service's own error codes.
\<close>

section \<open>Stored entities\<close>

record default_settings =
  d_user :: string
  d_budget :: int
  d_ess :: int
  d_des :: int
  d_sav :: int
  d_cur :: string
  d_created :: gtime
  d_updated :: gtime

record period =
  p_id :: string
  p_user :: string
  p_year :: int
  p_month :: int
  p_budget :: int
  p_cur :: string
  p_ess :: int
  p_des :: int
  p_sav :: int
  p_created :: gtime
  p_updated :: gtime

record tag =
  tg_id :: string
  tg_user :: string
  tg_name :: string
  tg_default :: bool
  tg_created :: gtime
  tg_updated :: gtime

record schedule =
  sc_id :: string
  sc_user :: string
  sc_group :: string
  sc_name :: string
  sc_amount :: int
  sc_cur :: string
  sc_type :: string
  sc_tag :: string
  sc_year :: int
  sc_month :: int
  sc_index :: int
  sc_total :: int
  sc_status :: string
  sc_created :: gtime
  sc_applied :: "gtime option"
  sc_tamount :: int
  sc_tcur :: string
  sc_rcur :: string
  sc_snap :: "captured_snapshot option"
  sc_reason :: string

record health_component =
  hc_key :: string
  hc_score :: int
  hc_max :: int
  hc_detail :: string

record health_insight =
  hi_summary :: string
  hi_driver :: string
  hi_nudge :: string

record health_score =
  hs_year :: int
  hs_month :: int
  hs_total :: int
  hs_band :: string
  hs_provisional :: bool
  hs_version :: int
  hs_cur :: string
  hs_components :: "health_component list"
  hs_insight :: health_insight
  hs_configure :: bool

record trend_scalar =
  ht_year :: int
  ht_month :: int
  ht_total :: int
  ht_band :: string
  ht_provisional :: bool
  ht_version :: int
  ht_cur :: string

text \<open>A row of \<^verbatim>\<open>finance.health_scores\<close>: the scalar copies beside the score itself.\<close>

record score_row =
  hr_user :: string
  hr_year :: int
  hr_month :: int
  hr_total :: int
  hr_band :: string
  hr_score :: health_score
  hr_version :: int
  hr_computed :: gtime

section \<open>Requests\<close>

record onboarding_request =
  or_budget :: int
  or_ess :: int
  or_des :: int
  or_sav :: int
  or_cur :: string

record create_period_request =
  cp_year :: int
  cp_month :: int
  cp_budget :: "int option"
  cp_cur :: string
  cp_ess :: int
  cp_des :: int
  cp_sav :: int

record update_period_request =
  up_budget :: int
  up_ess :: int
  up_des :: int
  up_sav :: int

record prorata_request =
  pr_name :: string
  pr_amount :: int
  pr_cur :: string
  pr_type :: string
  pr_tag :: string
  pr_date :: string
  pr_months :: int
  pr_year :: int
  pr_month :: int

record period_facts =
  pf_id :: string
  pf_user :: string
  pf_year :: int
  pf_month :: int
  pf_cur :: string
  pf_locked :: bool

section \<open>Error codes\<close>

abbreviation fe_period_not_found :: string where "fe_period_not_found \<equiv> ''PERIOD_NOT_FOUND''"
abbreviation fe_duplicate_tag :: string where "fe_duplicate_tag \<equiv> ''DUPLICATE_TAG''"
abbreviation fe_tag_in_use :: string where "fe_tag_in_use \<equiv> ''TAG_IN_USE''"
abbreviation fe_default_tag :: string where "fe_default_tag \<equiv> ''DEFAULT_TAG''"
abbreviation fe_unsupported_currency :: string where "fe_unsupported_currency \<equiv> ''UNSUPPORTED_CURRENCY''"
abbreviation fe_currency_immutable :: string where "fe_currency_immutable \<equiv> ''REPORTING_CURRENCY_IMMUTABLE''"
abbreviation fe_snapshot_missing :: string where "fe_snapshot_missing \<equiv> ''SNAPSHOT_CURRENCY_MISSING''"

abbreviation pending :: string where "pending \<equiv> ''pending''"
abbreviation applied :: string where "applied \<equiv> ''applied''"
abbreviation failed :: string where "failed \<equiv> ''failed''"

end
