(* ===== verification/Finance_Store.thy ===== *)
theory Finance_Store
  imports Finance_Model
begin

text \<open>
  The finance service's PostgreSQL tables and its repository (\<^verbatim>\<open>finance/internal/db\<close>,
  \<^verbatim>\<open>finance/internal/repository/postgres.go\<close>, \<^verbatim>\<open>pgutil\<close>, the migrations' constraints).
  A table is the list of its rows.  The \<open>n\<close>-th statement has the outcome \<open>f_script n\<close>; \<open>f_scan\<close> is the
  order in which the database visits schedules that an \<^verbatim>\<open>ORDER BY\<close> leaves undetermined.  What
  PostgreSQL and its driver decide (the UUID syntax, \<^verbatim>\<open>lower\<close>, the collation) is the parameter
  \<open>pglib\<close>.  The field \<open>f_world\<close> is the state of the services the finance service calls.
\<close>

section \<open>State\<close>

record pglib =
  pg_uuid :: "string \<Rightarrow> string option"
  pg_lower :: "string \<Rightarrow> string"
  pg_collate :: "string \<Rightarrow> string \<Rightarrow> bool"

record 'w fin_state =
  f_periods :: "period list"
  f_tags :: "tag list"
  f_schedules :: "schedule list"
  f_defaults :: "default_settings list"
  f_scores :: "score_row list"
  f_scan :: "schedule list \<Rightarrow> schedule list"
  f_script :: "nat \<Rightarrow> outcome"
  f_calls :: nat
  f_dbnow :: "nat \<Rightarrow> gtime"
  f_uuids :: "nat \<Rightarrow> string"
  f_uuid_next :: nat
  f_clock :: "nat \<Rightarrow> gtime"
  f_ticks :: nat
  f_world :: 'w

type_synonym ('w, 'a) fin_op = "('w fin_state, goerr, 'a) op"

definition pg_error :: goerr where
  "pg_error = Opaque ''postgres''"

definition pg_check :: goerr where
  "pg_check = Opaque ''check constraint''"

text \<open>
  A statement is a function of the tables that returns a result or an error and the new tables.
  A statement that fails leaves the tables; the reply of one that succeeded may be lost.
\<close>

definition pg_stmt :: "('w fin_state \<Rightarrow> (goerr + 'a) \<times> 'w fin_state) \<Rightarrow> ('w, 'a) fin_op" where
  "pg_stmt f st =
     (let st' = st\<lparr>f_calls := f_calls st + 1\<rparr>
      in case f_script st (f_calls st) of
           Acked \<Rightarrow> f st'
         | Refused \<Rightarrow> (Inl pg_error, st')
         | Lost \<Rightarrow> (Inl pg_error, snd (f st')))"

definition pg_query :: "('w fin_state \<Rightarrow> 'a) \<Rightarrow> ('w, 'a) fin_op" where
  "pg_query f = pg_stmt (\<lambda>st. (Inr (f st), st))"

text \<open>\<^verbatim>\<open>:one\<close> queries return the first row or \<^verbatim>\<open>ErrNoRows\<close>.\<close>

definition pg_one :: "('w fin_state \<Rightarrow> 'a option) \<Rightarrow> ('w, 'a) fin_op" where
  "pg_one f = pg_stmt (\<lambda>st. (case f st of None \<Rightarrow> Inl NoRows | Some r \<Rightarrow> Inr r, st))"

definition pg_now :: "'w fin_state \<Rightarrow> gtime" where
  "pg_now st = f_dbnow st (f_calls st)"

definition gen_uuid :: "'w fin_state \<Rightarrow> string" where
  "gen_uuid st = f_uuids st (f_uuid_next st)"

section \<open>Constraints of the migrations\<close>

definition percents_ok :: "int \<Rightarrow> int \<Rightarrow> int \<Rightarrow> bool" where
  "percents_ok e d s \<longleftrightarrow> 0 \<le> e \<and> e \<le> 100 \<and> 0 \<le> d \<and> d \<le> 100 \<and> 0 \<le> s \<and> s \<le> 100 \<and> e + d + s = 100"

definition period_row_ok :: "period \<Rightarrow> bool" where
  "period_row_ok p \<longleftrightarrow> 1 \<le> p_month p \<and> p_month p \<le> 12 \<and> percents_ok (p_ess p) (p_des p) (p_sav p)
     \<and> currency_supported (p_cur p)"

definition defaults_row_ok :: "default_settings \<Rightarrow> bool" where
  "defaults_row_ok d \<longleftrightarrow> i32 (d_ess d + d_des d) = d_ess d + d_des d \<and> d_ess d + d_des d + d_sav d = 100
     \<and> rune_count (d_cur d) \<le> 3"

definition schedule_row_ok :: "schedule \<Rightarrow> bool" where
  "schedule_row_ok s \<longleftrightarrow> rune_count (sc_name s) \<le> 255 \<and> rune_count (sc_cur s) \<le> 3
     \<and> sc_type s \<in> {''essentials'', ''desires'', ''savings''} \<and> 1 \<le> sc_month s \<and> sc_month s \<le> 12
     \<and> sc_status s \<in> {pending, applied, failed} \<and> rune_count (sc_tcur s) \<le> 3 \<and> rune_count (sc_rcur s) \<le> 3
     \<and> rune_count (sc_reason s) \<le> 50"

definition score_row_ok :: "score_row \<Rightarrow> bool" where
  "score_row_ok r \<longleftrightarrow> 1 \<le> hr_month r \<and> hr_month r \<le> 12 \<and> 0 \<le> hr_total r \<and> hr_total r \<le> 100"

definition same_month :: "period \<Rightarrow> period \<Rightarrow> bool" where
  "same_month a b \<longleftrightarrow> p_user a = p_user b \<and> p_year a = p_year b \<and> p_month a = p_month b"

section \<open>Queries on default settings\<close>

definition q_UpsertDefaults :: "default_settings \<Rightarrow> ('w, default_settings) fin_op" where
  "q_UpsertDefaults d = pg_stmt (\<lambda>st.
     if \<not> defaults_row_ok d then (Inl pg_check, st)
     else case find_first (\<lambda>r. d_user r = d_user d) (f_defaults st) of
            None \<Rightarrow>
              (let row = d\<lparr>d_created := pg_now st, d_updated := pg_now st\<rparr>
               in (Inr row, st\<lparr>f_defaults := f_defaults st @ [row]\<rparr>))
          | Some old \<Rightarrow>
              (let row = d\<lparr>d_created := d_created old, d_updated := pg_now st\<rparr>
               in (Inr row, st\<lparr>f_defaults := update_rows (\<lambda>r. d_user r = d_user d) (\<lambda>_. row) (f_defaults st)\<rparr>)))"

definition q_GetDefaults :: "string \<Rightarrow> ('w, default_settings) fin_op" where
  "q_GetDefaults u = pg_one (\<lambda>st. find_first (\<lambda>r. d_user r = u) (f_defaults st))"

section \<open>Queries on tags\<close>

definition tag_clash :: "pglib \<Rightarrow> string \<Rightarrow> string \<Rightarrow> string \<Rightarrow> tag list \<Rightarrow> bool" where
  "tag_clash pg u name except tags \<longleftrightarrow>
     (\<exists>t\<in>set tags. tg_user t = u \<and> pg_lower pg (tg_name t) = pg_lower pg name \<and> tg_id t \<noteq> except)"

definition q_CreateTag :: "pglib \<Rightarrow> string \<Rightarrow> string \<Rightarrow> bool \<Rightarrow> ('w, tag) fin_op" where
  "q_CreateTag pg u name dflt = pg_stmt (\<lambda>st.
     let row = \<lparr>tg_id = gen_uuid st, tg_user = u, tg_name = name, tg_default = dflt,
                tg_created = pg_now st, tg_updated = pg_now st\<rparr>;
         st' = st\<lparr>f_uuid_next := f_uuid_next st + 1\<rparr>
     in if rune_count name > 50 then (Inl pg_check, st')
        else if tg_id row \<in> tg_id ` set (f_tags st) then (Inl (UniqueViolation ''tags_pkey''), st')
        else if tag_clash pg u name (tg_id row) (f_tags st)
          then (Inl (UniqueViolation ''idx_tags_user_name''), st')
        else (Inr row, st'\<lparr>f_tags := f_tags st @ [row]\<rparr>))"

definition q_GetTagByID :: "string \<Rightarrow> string \<Rightarrow> ('w, tag) fin_op" where
  "q_GetTagByID i u = pg_one (\<lambda>st. find_first (\<lambda>t. tg_id t = i \<and> tg_user t = u) (f_tags st))"

definition q_ListTags :: "pglib \<Rightarrow> string \<Rightarrow> ('w, tag list) fin_op" where
  "q_ListTags pg u = pg_query (\<lambda>st. order_by (\<lambda>a b. pg_collate pg (tg_name a) (tg_name b))
     (filter (\<lambda>t. tg_user t = u) (f_tags st)))"

definition q_UpdateTag :: "pglib \<Rightarrow> string \<Rightarrow> string \<Rightarrow> string \<Rightarrow> ('w, tag) fin_op" where
  "q_UpdateTag pg name i u = pg_stmt (\<lambda>st.
     let sel = (\<lambda>t. tg_id t = i \<and> tg_user t = u)
     in case find_first sel (f_tags st) of
          None \<Rightarrow> (Inl NoRows, st)
        | Some t \<Rightarrow>
            (let row = t\<lparr>tg_name := name, tg_updated := pg_now st\<rparr>
             in if rune_count name > 50 then (Inl pg_check, st)
                else if tag_clash pg u name i (f_tags st) then (Inl (UniqueViolation ''idx_tags_user_name''), st)
                else (Inr row, st\<lparr>f_tags := update_rows sel (\<lambda>_. row) (f_tags st)\<rparr>)))"

definition q_DeleteTag :: "string \<Rightarrow> string \<Rightarrow> ('w, unit) fin_op" where
  "q_DeleteTag i u = pg_stmt (\<lambda>st. (Inr (),
     st\<lparr>f_tags := filter (\<lambda>t. \<not> (tg_id t = i \<and> tg_user t = u \<and> \<not> tg_default t)) (f_tags st)\<rparr>))"

definition q_CountUserTags :: "string \<Rightarrow> ('w, int) fin_op" where
  "q_CountUserTags u = pg_query (\<lambda>st. int (length (filter (\<lambda>t. tg_user t = u) (f_tags st))))"

definition q_CountTagInProRata :: "string \<Rightarrow> string \<Rightarrow> ('w, int) fin_op" where
  "q_CountTagInProRata i u = pg_query (\<lambda>st.
     int (length (filter (\<lambda>s. sc_tag s = i \<and> sc_user s = u \<and> sc_status s = pending) (f_schedules st))))"

section \<open>Queries on budget periods\<close>

definition q_GetCurrentPeriod :: "string \<Rightarrow> int \<Rightarrow> int \<Rightarrow> ('w, period) fin_op" where
  "q_GetCurrentPeriod u y m = pg_one (\<lambda>st.
     find_first (\<lambda>p. p_user p = u \<and> p_year p = y \<and> p_month p = m) (f_periods st))"

definition q_GetPeriodByID :: "string \<Rightarrow> string \<Rightarrow> ('w, period) fin_op" where
  "q_GetPeriodByID i u = pg_one (\<lambda>st. find_first (\<lambda>p. p_id p = i \<and> p_user p = u) (f_periods st))"

definition q_CreatePeriod :: "period \<Rightarrow> ('w, period) fin_op" where
  "q_CreatePeriod p = pg_stmt (\<lambda>st.
     let row = p\<lparr>p_id := gen_uuid st, p_created := pg_now st, p_updated := pg_now st\<rparr>;
         st' = st\<lparr>f_uuid_next := f_uuid_next st + 1\<rparr>
     in if \<not> period_row_ok row then (Inl pg_check, st')
        else if p_id row \<in> p_id ` set (f_periods st) then (Inl (UniqueViolation ''budget_periods_pkey''), st')
        else if \<exists>r\<in>set (f_periods st). same_month r row
          then (Inl (UniqueViolation ''budget_periods_user_id_year_month_key''), st')
        else (Inr row, st'\<lparr>f_periods := f_periods st @ [row]\<rparr>))"

definition q_UpdatePeriod :: "int \<Rightarrow> int \<Rightarrow> int \<Rightarrow> int \<Rightarrow> string \<Rightarrow> string \<Rightarrow> ('w, period) fin_op" where
  "q_UpdatePeriod budget e d s i u = pg_stmt (\<lambda>st.
     let sel = (\<lambda>p. p_id p = i \<and> p_user p = u)
     in case find_first sel (f_periods st) of
          None \<Rightarrow> (Inl NoRows, st)
        | Some p \<Rightarrow>
            (let row = p\<lparr>p_budget := budget, p_ess := e, p_des := d, p_sav := s, p_updated := pg_now st\<rparr>
             in if \<not> period_row_ok row then (Inl pg_check, st)
                else (Inr row, st\<lparr>f_periods := update_rows sel (\<lambda>_. row) (f_periods st)\<rparr>)))"

text \<open>\<^verbatim>\<open>ORDER BY year DESC, month DESC\<close>\<close>

definition period_desc :: "period \<Rightarrow> period \<Rightarrow> bool" where
  "period_desc a b \<longleftrightarrow> p_year b < p_year a \<or> p_year a = p_year b \<and> p_month b \<le> p_month a"

definition q_ListPeriods :: "string \<Rightarrow> ('w, period list) fin_op" where
  "q_ListPeriods u = pg_query (\<lambda>st. order_by period_desc (filter (\<lambda>p. p_user p = u) (f_periods st)))"

definition q_GetLatestPeriod :: "string \<Rightarrow> ('w, period) fin_op" where
  "q_GetLatestPeriod u = pg_one (\<lambda>st.
     case order_by period_desc (filter (\<lambda>p. p_user p = u) (f_periods st)) of [] \<Rightarrow> None | p # _ \<Rightarrow> Some p)"

section \<open>Queries on pro-rata schedules\<close>

definition q_CreateProRataSchedule :: "schedule \<Rightarrow> ('w, schedule) fin_op" where
  "q_CreateProRataSchedule s = pg_stmt (\<lambda>st.
     let row = s\<lparr>sc_id := gen_uuid st, sc_status := pending, sc_created := pg_now st, sc_applied := None\<rparr>;
         st' = st\<lparr>f_uuid_next := f_uuid_next st + 1\<rparr>
     in if \<not> schedule_row_ok row then (Inl pg_check, st')
        else if sc_id row \<in> sc_id ` set (f_schedules st) then (Inl (UniqueViolation ''pro_rata_schedules_pkey''), st')
        else if \<exists>r\<in>set (f_schedules st). sc_group r = sc_group row \<and> sc_index r = sc_index row
          then (Inl (UniqueViolation ''pro_rata_schedules_pro_rata_group_installment_index_key''), st')
        else (Inr row, st'\<lparr>f_schedules := f_schedules st @ [row]\<rparr>))"

definition q_GetPendingProRata :: "string \<Rightarrow> int \<Rightarrow> int \<Rightarrow> ('w, schedule list) fin_op" where
  "q_GetPendingProRata u y m = pg_query (\<lambda>st. order_by (\<lambda>a b. sc_index a \<le> sc_index b)
     (filter (\<lambda>s. sc_user s = u \<and> sc_year s = y \<and> sc_month s = m \<and> sc_status s = pending) (f_scan st (f_schedules st))))"

definition schedule_asc :: "schedule \<Rightarrow> schedule \<Rightarrow> bool" where
  "schedule_asc a b \<longleftrightarrow>
     sc_year a < sc_year b \<or> sc_year a = sc_year b
       \<and> (sc_month a < sc_month b \<or> sc_month a = sc_month b \<and> sc_index a \<le> sc_index b)"

definition q_GetUpcomingProRata :: "string \<Rightarrow> ('w, schedule list) fin_op" where
  "q_GetUpcomingProRata u = pg_query (\<lambda>st. order_by schedule_asc
     (filter (\<lambda>s. sc_user s = u \<and> sc_status s = pending) (f_scan st (f_schedules st))))"

definition q_MarkProRataApplied :: "string \<Rightarrow> ('w, unit) fin_op" where
  "q_MarkProRataApplied i = pg_stmt (\<lambda>st. (Inr (),
     st\<lparr>f_schedules := update_rows (\<lambda>s. sc_id s = i)
          (\<lambda>s. s\<lparr>sc_status := applied, sc_applied := Some (pg_now st)\<rparr>) (f_schedules st)\<rparr>))"

definition q_MarkProRataFailed :: "string \<Rightarrow> string \<Rightarrow> ('w, unit) fin_op" where
  "q_MarkProRataFailed i reason = pg_stmt (\<lambda>st.
     if rune_count reason > 50 \<and> (\<exists>s\<in>set (f_schedules st). sc_id s = i) then (Inl pg_check, st)
     else (Inr (), st\<lparr>f_schedules := update_rows (\<lambda>s. sc_id s = i)
            (\<lambda>s. s\<lparr>sc_status := failed, sc_reason := reason\<rparr>) (f_schedules st)\<rparr>))"

section \<open>Queries on health scores\<close>

definition q_GetHealthScore :: "string \<Rightarrow> int \<Rightarrow> int \<Rightarrow> ('w, score_row) fin_op" where
  "q_GetHealthScore u y m = pg_one (\<lambda>st.
     find_first (\<lambda>r. hr_user r = u \<and> hr_year r = y \<and> hr_month r = m) (f_scores st))"

definition q_UpsertHealthScore :: "score_row \<Rightarrow> ('w, score_row) fin_op" where
  "q_UpsertHealthScore r = pg_stmt (\<lambda>st.
     let row = r\<lparr>hr_computed := pg_now st\<rparr>;
         sel = (\<lambda>o'. hr_user o' = hr_user r \<and> hr_year o' = hr_year r \<and> hr_month o' = hr_month r)
     in if \<not> score_row_ok row then (Inl pg_check, st)
        else (Inr row, st\<lparr>f_scores :=
               (case find_first sel (f_scores st) of
                  None \<Rightarrow> f_scores st @ [row]
                | Some _ \<Rightarrow> update_rows sel (\<lambda>_. row) (f_scores st))\<rparr>))"

definition score_desc :: "score_row \<Rightarrow> score_row \<Rightarrow> bool" where
  "score_desc a b \<longleftrightarrow> hr_year b < hr_year a \<or> hr_year a = hr_year b \<and> hr_month b \<le> hr_month a"

definition q_ListHealthScoreScalars :: "string \<Rightarrow> ('w, score_row list) fin_op" where
  "q_ListHealthScoreScalars u = pg_query (\<lambda>st. order_by score_desc (filter (\<lambda>r. hr_user r = u) (f_scores st)))"

section \<open>Erasure\<close>

definition q_DeleteAllUserProRataSchedules :: "string \<Rightarrow> ('w, unit) fin_op" where
  "q_DeleteAllUserProRataSchedules u =
     pg_stmt (\<lambda>st. (Inr (), st\<lparr>f_schedules := filter (\<lambda>s. sc_user s \<noteq> u) (f_schedules st)\<rparr>))"

definition q_DeleteAllUserTags :: "string \<Rightarrow> ('w, unit) fin_op" where
  "q_DeleteAllUserTags u = pg_stmt (\<lambda>st. (Inr (), st\<lparr>f_tags := filter (\<lambda>t. tg_user t \<noteq> u) (f_tags st)\<rparr>))"

definition q_DeleteAllUserBudgetPeriods :: "string \<Rightarrow> ('w, unit) fin_op" where
  "q_DeleteAllUserBudgetPeriods u =
     pg_stmt (\<lambda>st. (Inr (), st\<lparr>f_periods := filter (\<lambda>p. p_user p \<noteq> u) (f_periods st)\<rparr>))"

definition q_DeleteAllUserHealthScores :: "string \<Rightarrow> ('w, unit) fin_op" where
  "q_DeleteAllUserHealthScores u =
     pg_stmt (\<lambda>st. (Inr (), st\<lparr>f_scores := filter (\<lambda>r. hr_user r \<noteq> u) (f_scores st)\<rparr>))"

definition q_DeleteAllUserDefaultSettings :: "string \<Rightarrow> ('w, unit) fin_op" where
  "q_DeleteAllUserDefaultSettings u =
     pg_stmt (\<lambda>st. (Inr (), st\<lparr>f_defaults := filter (\<lambda>d. d_user d \<noteq> u) (f_defaults st)\<rparr>))"

end
