(* ===== verification/Finance_Repo.thy ===== *)
theory Finance_Repo
  imports Finance_Store
begin

text \<open>
  The repository the finance service works with (\<^verbatim>\<open>finance/internal/repository/postgres.go\<close>)
  and its transactions.  Identifiers are parsed as UUIDs first; a missing row is the value
  \<open>None\<close> (a nil pointer), not an error.  The conversions between database rows and model values
  (\<^verbatim>\<open>dbTagToModel\<close> and so on) are field by field, and both sides are the same record here.
\<close>

section \<open>Helpers\<close>

definition ParseUUID :: "pglib \<Rightarrow> string \<Rightarrow> goerr + string" where
  "ParseUUID pg s =
     (case pg_uuid pg s of None \<Rightarrow> Inl (Wrapped ''parsing UUID'' (Opaque ''invalid UUID'')) | Some u \<Rightarrow> Inr u)"

text \<open>\<^verbatim>\<open>if pgutil.IsNoRows(err) { return nil, nil }\<close>\<close>

definition nil_if_no_rows :: "('w, 'a) fin_op \<Rightarrow> ('w, 'a option) fin_op" where
  "nil_if_no_rows m =
     (\<lambda>st. case m st of
        (Inl e, st') \<Rightarrow> if IsNoRows e then (Inr None, st') else (Inl e, st')
      | (Inr r, st') \<Rightarrow> (Inr (Some r), st'))"

definition with_uuid :: "pglib \<Rightarrow> string \<Rightarrow> (string \<Rightarrow> ('w, 'a) fin_op) \<Rightarrow> ('w, 'a) fin_op" where
  "with_uuid pg s k = bindR (liftR (ParseUUID pg s)) k"

section \<open>Default settings\<close>

definition r_UpsertDefaults :: "pglib \<Rightarrow> default_settings \<Rightarrow> ('w, default_settings) fin_op" where
  "r_UpsertDefaults pg d = with_uuid pg (d_user d) (\<lambda>uid. q_UpsertDefaults (d\<lparr>d_user := uid\<rparr>))"

definition r_GetDefaults :: "pglib \<Rightarrow> string \<Rightarrow> ('w, default_settings option) fin_op" where
  "r_GetDefaults pg u = with_uuid pg u (\<lambda>uid. nil_if_no_rows (q_GetDefaults uid))"

section \<open>Tags\<close>

definition r_CreateTag :: "pglib \<Rightarrow> string \<Rightarrow> string \<Rightarrow> bool \<Rightarrow> ('w, tag) fin_op" where
  "r_CreateTag pg u name dflt = with_uuid pg u (\<lambda>uid. q_CreateTag pg uid name dflt)"

definition r_GetTag :: "pglib \<Rightarrow> string \<Rightarrow> string \<Rightarrow> ('w, tag option) fin_op" where
  "r_GetTag pg i u = with_uuid pg i (\<lambda>tid. with_uuid pg u (\<lambda>uid. nil_if_no_rows (q_GetTagByID tid uid)))"

definition r_ListTags :: "pglib \<Rightarrow> string \<Rightarrow> ('w, tag list) fin_op" where
  "r_ListTags pg u = with_uuid pg u (\<lambda>uid. q_ListTags pg uid)"

definition r_UpdateTag :: "pglib \<Rightarrow> string \<Rightarrow> string \<Rightarrow> string \<Rightarrow> ('w, tag option) fin_op" where
  "r_UpdateTag pg i u name =
     with_uuid pg i (\<lambda>tid. with_uuid pg u (\<lambda>uid. nil_if_no_rows (q_UpdateTag pg name tid uid)))"

definition r_DeleteTag :: "pglib \<Rightarrow> string \<Rightarrow> string \<Rightarrow> ('w, unit) fin_op" where
  "r_DeleteTag pg i u = with_uuid pg i (\<lambda>tid. with_uuid pg u (\<lambda>uid. q_DeleteTag tid uid))"

definition r_CountUserTags :: "pglib \<Rightarrow> string \<Rightarrow> ('w, int) fin_op" where
  "r_CountUserTags pg u = with_uuid pg u (\<lambda>uid. q_CountUserTags uid)"

definition r_CountTagInProRata :: "pglib \<Rightarrow> string \<Rightarrow> string \<Rightarrow> ('w, int) fin_op" where
  "r_CountTagInProRata pg i u = with_uuid pg i (\<lambda>tid. with_uuid pg u (\<lambda>uid. q_CountTagInProRata tid uid))"

section \<open>Budget periods\<close>

definition r_GetCurrentPeriod :: "pglib \<Rightarrow> string \<Rightarrow> int \<Rightarrow> int \<Rightarrow> ('w, period option) fin_op" where
  "r_GetCurrentPeriod pg u y m = with_uuid pg u (\<lambda>uid. nil_if_no_rows (q_GetCurrentPeriod uid y m))"

definition r_CreatePeriod :: "pglib \<Rightarrow> period \<Rightarrow> ('w, period) fin_op" where
  "r_CreatePeriod pg p = with_uuid pg (p_user p) (\<lambda>uid. q_CreatePeriod (p\<lparr>p_user := uid\<rparr>))"

definition r_GetPeriodByID :: "pglib \<Rightarrow> string \<Rightarrow> string \<Rightarrow> ('w, period option) fin_op" where
  "r_GetPeriodByID pg i u =
     with_uuid pg i (\<lambda>pid. with_uuid pg u (\<lambda>uid. nil_if_no_rows (q_GetPeriodByID pid uid)))"

definition r_UpdatePeriod :: "pglib \<Rightarrow> period \<Rightarrow> ('w, period option) fin_op" where
  "r_UpdatePeriod pg p =
     with_uuid pg (p_id p) (\<lambda>pid. with_uuid pg (p_user p) (\<lambda>uid.
       nil_if_no_rows (q_UpdatePeriod (p_budget p) (p_ess p) (p_des p) (p_sav p) pid uid)))"

definition r_ListPeriods :: "pglib \<Rightarrow> string \<Rightarrow> ('w, period list) fin_op" where
  "r_ListPeriods pg u = with_uuid pg u (\<lambda>uid. q_ListPeriods uid)"

definition r_GetLatestPeriod :: "pglib \<Rightarrow> string \<Rightarrow> ('w, period option) fin_op" where
  "r_GetLatestPeriod pg u = with_uuid pg u (\<lambda>uid. nil_if_no_rows (q_GetLatestPeriod uid))"

section \<open>Pro-rata schedules\<close>

definition r_CreateProRataSchedule :: "pglib \<Rightarrow> schedule \<Rightarrow> ('w, schedule) fin_op" where
  "r_CreateProRataSchedule pg s =
     with_uuid pg (sc_user s) (\<lambda>uid. with_uuid pg (sc_group s) (\<lambda>gid. with_uuid pg (sc_tag s) (\<lambda>tid.
       q_CreateProRataSchedule (s\<lparr>sc_user := uid, sc_group := gid, sc_tag := tid\<rparr>))))"

definition r_GetPendingProRata :: "pglib \<Rightarrow> string \<Rightarrow> int \<Rightarrow> int \<Rightarrow> ('w, schedule list) fin_op" where
  "r_GetPendingProRata pg u y m = with_uuid pg u (\<lambda>uid. q_GetPendingProRata uid y m)"

definition r_MarkProRataApplied :: "pglib \<Rightarrow> string \<Rightarrow> ('w, unit) fin_op" where
  "r_MarkProRataApplied pg i = with_uuid pg i (\<lambda>sid. q_MarkProRataApplied sid)"

definition r_MarkProRataFailed :: "pglib \<Rightarrow> string \<Rightarrow> string \<Rightarrow> ('w, unit) fin_op" where
  "r_MarkProRataFailed pg i reason = with_uuid pg i (\<lambda>sid. q_MarkProRataFailed sid reason)"

definition r_GetUpcomingProRata :: "pglib \<Rightarrow> string \<Rightarrow> ('w, schedule list) fin_op" where
  "r_GetUpcomingProRata pg u = with_uuid pg u (\<lambda>uid. q_GetUpcomingProRata uid)"

section \<open>Health scores\<close>

definition r_GetHealthScore :: "pglib \<Rightarrow> string \<Rightarrow> int \<Rightarrow> int \<Rightarrow> ('w, health_score option) fin_op" where
  "r_GetHealthScore pg u y m =
     with_uuid pg u (\<lambda>uid. bindR (nil_if_no_rows (q_GetHealthScore uid y m)) (\<lambda>r. retR (map_option hr_score r)))"

definition r_UpsertHealthScore :: "pglib \<Rightarrow> string \<Rightarrow> health_score \<Rightarrow> ('w, health_score) fin_op" where
  "r_UpsertHealthScore pg u s =
     with_uuid pg u (\<lambda>uid. bindR (q_UpsertHealthScore
         \<lparr>hr_user = uid, hr_year = hs_year s, hr_month = hs_month s, hr_total = hs_total s, hr_band = hs_band s,
          hr_score = s, hr_version = hs_version s, hr_computed = \<lparr>t_unix = 0, t_nsec = 0, t_off = 0\<rparr>\<rparr>)
       (\<lambda>row. retR (hr_score row)))"

definition r_ListHealthScoreScalars :: "pglib \<Rightarrow> string \<Rightarrow> ('w, trend_scalar list) fin_op" where
  "r_ListHealthScoreScalars pg u =
     with_uuid pg u (\<lambda>uid. bindR (q_ListHealthScoreScalars uid) (\<lambda>rows.
       retR (map (\<lambda>r. \<lparr>ht_year = hr_year r, ht_month = hr_month r, ht_total = hr_total r, ht_band = hr_band r,
                        ht_provisional = False, ht_version = hr_version r, ht_cur = []\<rparr>) rows)))"

section \<open>Erasure and transactions\<close>

definition r_DeleteAllUserData :: "pglib \<Rightarrow> string \<Rightarrow> ('w, unit) fin_op" where
  "r_DeleteAllUserData pg u =
     with_uuid pg u (\<lambda>uid.
       bindR (wrapR (Wrapped ''deleting pro_rata_schedules'') (q_DeleteAllUserProRataSchedules uid)) (\<lambda>_.
       bindR (wrapR (Wrapped ''deleting tags'') (q_DeleteAllUserTags uid)) (\<lambda>_.
       bindR (wrapR (Wrapped ''deleting budget_periods'') (q_DeleteAllUserBudgetPeriods uid)) (\<lambda>_.
       bindR (wrapR (Wrapped ''deleting health_scores'') (q_DeleteAllUserHealthScores uid)) (\<lambda>_.
       wrapR (Wrapped ''deleting default_settings'') (q_DeleteAllUserDefaultSettings uid))))))"

text \<open>
  A transaction: \<^verbatim>\<open>BeginTx\<close>, the statements of \<open>body\<close> on the transaction's repository, and
  \<^verbatim>\<open>Commit\<close>; the deferred \<^verbatim>\<open>Rollback\<close> undoes the tables when any of them fails.  A
  commit whose reply is lost has taken effect.  The texts are those the caller wraps errors in.
\<close>

definition restore_tables :: "'w fin_state \<Rightarrow> 'w fin_state \<Rightarrow> 'w fin_state" where
  "restore_tables old st = st\<lparr>f_periods := f_periods old, f_tags := f_tags old, f_schedules := f_schedules old,
     f_defaults := f_defaults old, f_scores := f_scores old\<rparr>"

definition in_tx :: "string \<Rightarrow> string \<Rightarrow> ('w, 'a) fin_op \<Rightarrow> ('w, 'a) fin_op" where
  "in_tx begin_text commit_text body st =
     (case wrapR (Wrapped begin_text) (pg_query (\<lambda>_. ())) st of
        (Inl e, st1) \<Rightarrow> (Inl e, st1)
      | (Inr _, st1) \<Rightarrow>
          (case body st1 of
             (Inl e, st2) \<Rightarrow> (Inl e, restore_tables st st2)
           | (Inr x, st2) \<Rightarrow>
               (let st3 = st2\<lparr>f_calls := f_calls st2 + 1\<rparr>
                in case f_script st2 (f_calls st2) of
                     Acked \<Rightarrow> (Inr x, st3)
                   | Refused \<Rightarrow> (Inl (Wrapped commit_text pg_error), restore_tables st st3)
                   | Lost \<Rightarrow> (Inl (Wrapped commit_text pg_error), st3))))"

end
