(* ===== verification/Finance_Service.thy ===== *)
theory Finance_Service
  imports Finance_Repo
begin

text \<open>
  The finance service's operations on default settings, tags and budget periods
  (\<^verbatim>\<open>finance/internal/service/finance.go\<close>, \<^verbatim>\<open>alluserdata.go\<close>,
  \<^verbatim>\<open>deleteuserdata.go\<close>) and the interfaces of the services it calls
  (\<^verbatim>\<open>expense_client.go\<close>, \<^verbatim>\<open>fx_client.go\<close>).  The clients act on the state \<open>f_world\<close> of the
  rest of the system, so that they can be arbitrary or the modelled expense service itself.
\<close>

section \<open>The clients of other services\<close>

record expense_data =
  ed_id :: string
  ed_amount :: int
  ed_cur :: string
  ed_type :: string
  ed_tag :: string
  ed_date :: string

record period_ref =
  pe_id :: string
  pe_user :: string
  pe_year :: int
  pe_month :: int
  pe_rcur :: string
  pe_source :: string

record installment_input =
  in_user :: string
  in_period :: period_ref
  in_name :: string
  in_amount :: int
  in_cur :: string
  in_type :: string
  in_tag :: string
  in_date :: string
  in_group :: string
  in_index :: int
  in_total :: int
  in_snap :: "captured_snapshot option"

record created_expense =
  ce_id :: string
  ce_created :: string

record 'w expense_client =
  xc_active :: "string \<Rightarrow> int \<Rightarrow> int \<Rightarrow> ('w, goerr, expense_data list) op"
  xc_count :: "string \<Rightarrow> string \<Rightarrow> ('w, goerr, int) op"
  xc_install :: "installment_input \<Rightarrow> ('w, goerr, created_expense) op"

type_synonym 'w capture_client = "(string list \<Rightarrow> string \<Rightarrow> ('w, goerr, captured_snapshot option) op) option"

definition in_world :: "('w, goerr, 'a) op \<Rightarrow> ('w, 'a) fin_op" where
  "in_world m st = (case m (f_world st) of (r, w) \<Rightarrow> (r, st\<lparr>f_world := w\<rparr>))"

text \<open>\<^verbatim>\<open>s.nowFunc()\<close>\<close>

definition f_now :: "('w, gtime) fin_op" where
  "f_now st = (Inr (f_clock st (f_ticks st)), st\<lparr>f_ticks := f_ticks st + 1\<rparr>)"

section \<open>Validation\<close>

definition DefaultTags :: "string list" where
  "DefaultTags =
     [''Bills'', ''Food'', ''Household'', ''Investment'', ''Personal Care'', ''Recreation/Entertainment'',
      ''Self Investment'', ''Social'', ''Transport'', ''Travel'']"

definition ValidateEDSSplit :: "int \<Rightarrow> int \<Rightarrow> int \<Rightarrow> apierr option" where
  "ValidateEDSSplit e d s =
     (let sum = i32 (i32 (e + d) + s)
      in v_result (v_checks
        [(e \<ge> 0, ''essentialsPercent'', ''must be non-negative''),
         (d \<ge> 0, ''desiresPercent'', ''must be non-negative''),
         (s \<ge> 0, ''savingsPercent'', ''must be non-negative''),
         (e \<le> 100, ''essentialsPercent'', ''must not exceed 100''),
         (d \<le> 100, ''desiresPercent'', ''must not exceed 100''),
         (s \<le> 100, ''savingsPercent'', ''must not exceed 100''),
         (sum = 100, ''essentialsPercent'', ''must sum to 100 with desires and savings''),
         (sum = 100, ''desiresPercent'', ''must sum to 100 with essentials and savings''),
         (sum = 100, ''savingsPercent'', ''must sum to 100 with essentials and desires'')]))"

definition validateSupportedCurrency :: "golib \<Rightarrow> string \<Rightarrow> string \<Rightarrow> apierr option" where
  "validateSupportedCurrency lib field code =
     (let v = v_checks [(currency_supported code, field, ''unsupported currency'')]
      in if v_has_errors v
         then Some \<lparr>ae_code = fe_unsupported_currency, ae_msg = ''Unsupported currency '' @ go_quote lib code,
                    ae_status = 400, ae_fields = v\<rparr>
         else None)"

definition validateTagName :: "string \<Rightarrow> apierr option" where
  "validateTagName name =
     v_result (v_checks
       [(name \<noteq> [], ''name'', ''required''),
        (rune_count name \<le> 50, ''name'', ''must be 50 characters or fewer'')])"

definition duplicateTagError :: "golib \<Rightarrow> string \<Rightarrow> apierr" where
  "duplicateTagError lib name =
     Conflict fe_duplicate_tag (''A tag named '' @ go_quote lib name @ '' already exists'')"

definition budget_check :: "int \<Rightarrow> apierr option" where
  "budget_check b = v_result (v_checks [(b \<ge> 0, ''budgetAmount'', ''must be non-negative'')])"

definition apiR :: "apierr option \<Rightarrow> ('w, unit) fin_op" where
  "apiR v = checkR (map_option Api v)"

section \<open>Default settings and onboarding\<close>

definition no_time :: gtime where
  "no_time = \<lparr>t_unix = -62135596800, t_nsec = 0, t_off = 0\<rparr>"

definition settings_of :: "string \<Rightarrow> onboarding_request \<Rightarrow> string \<Rightarrow> default_settings" where
  "settings_of u req code = \<lparr>d_user = u, d_budget = or_budget req, d_ess = or_ess req, d_des = or_des req,
     d_sav = or_sav req, d_cur = code, d_created = no_time, d_updated = no_time\<rparr>"

fun seed_tags :: "golib \<Rightarrow> pglib \<Rightarrow> string \<Rightarrow> string \<Rightarrow> string list \<Rightarrow> ('w, unit) fin_op" where
  "seed_tags lib pg what u [] = retR ()"
| "seed_tags lib pg what u (n # ns) =
     bindR (wrapR (Wrapped (what @ '' '' @ go_quote lib n)) (r_CreateTag pg u n True)) (\<lambda>_.
     seed_tags lib pg what u ns)"

definition CompleteOnboarding :: "golib \<Rightarrow> pglib \<Rightarrow> string \<Rightarrow> onboarding_request \<Rightarrow> ('w, default_settings) fin_op" where
  "CompleteOnboarding lib pg u req =
     bindR (apiR (ValidateEDSSplit (or_ess req) (or_des req) (or_sav req))) (\<lambda>_.
     let code = normalizeCurrencyCode lib (or_cur req)
     in bindR (apiR (validateSupportedCurrency lib ''currency'' code)) (\<lambda>_.
        in_tx ''beginning transaction'' ''committing transaction''
          (bindR (wrapR (Wrapped ''upserting defaults'') (r_UpsertDefaults pg (settings_of u req code))) (\<lambda>d.
           bindR (seed_tags lib pg ''seeding tag'' u DefaultTags) (\<lambda>_.
           retR d)))))"

definition GetDefaults :: "pglib \<Rightarrow> string \<Rightarrow> ('w, default_settings) fin_op" where
  "GetDefaults pg u =
     bindR (wrapR (Wrapped ''getting defaults'') (r_GetDefaults pg u)) (\<lambda>d.
     case d of
       None \<Rightarrow> failR (Api (NotFound ''Default settings not found''))
     | Some x \<Rightarrow> retR x)"

definition UpdateDefaults :: "golib \<Rightarrow> pglib \<Rightarrow> string \<Rightarrow> onboarding_request \<Rightarrow> ('w, default_settings) fin_op" where
  "UpdateDefaults lib pg u req =
     bindR (apiR (ValidateEDSSplit (or_ess req) (or_des req) (or_sav req))) (\<lambda>_.
     bindR (apiR (budget_check (or_budget req))) (\<lambda>_.
     let code = normalizeCurrencyCode lib (or_cur req)
     in bindR (apiR (validateSupportedCurrency lib ''currency'' code)) (\<lambda>_.
        wrapR (Wrapped ''updating defaults'') (r_UpsertDefaults pg (settings_of u req code)))))"

definition getPeriodCreationDefaults :: "golib \<Rightarrow> pglib \<Rightarrow> string \<Rightarrow> ('w, default_settings) fin_op" where
  "getPeriodCreationDefaults lib pg u =
     bindR (wrapR (Wrapped ''getting defaults for period creation'') (r_GetDefaults pg u)) (\<lambda>r.
     case r of
       None \<Rightarrow> failR (Opaque (''defaults row missing for user '' @ u @ '' during period creation''))
     | Some d \<Rightarrow>
         (let d' = d\<lparr>d_cur := normalizeCurrencyCode lib (d_cur d)\<rparr>
          in bindR (apiR (validateSupportedCurrency lib ''reportingCurrencyCode'' (d_cur d'))) (\<lambda>_. retR d')))"

section \<open>Budget periods\<close>

definition period_not_found :: "int \<Rightarrow> int \<Rightarrow> apierr" where
  "period_not_found y m = \<lparr>ae_code = fe_period_not_found,
     ae_msg = ''No budget period found for '' @ show_int y @ ''-'' @ show_padded 2 m, ae_status = 404, ae_fields = []\<rparr>"

definition GetCurrentPeriod :: "pglib \<Rightarrow> string \<Rightarrow> int \<Rightarrow> int \<Rightarrow> ('w, period) fin_op" where
  "GetCurrentPeriod pg u y m =
     bindR (apiR (v_result (v_checks [(m \<ge> 1 \<and> m \<le> 12, ''month'', ''must be between 1 and 12'')]))) (\<lambda>_.
     bindR (wrapR (Wrapped ''getting current period'') (r_GetCurrentPeriod pg u y m)) (\<lambda>p.
     case p of None \<Rightarrow> failR (Api (period_not_found y m)) | Some x \<Rightarrow> retR x))"

definition ListPeriods :: "pglib \<Rightarrow> string \<Rightarrow> ('w, period list) fin_op" where
  "ListPeriods pg u = wrapR (Wrapped ''listing periods'') (r_ListPeriods pg u)"

definition other_month :: "period \<Rightarrow> gtime \<Rightarrow> bool" where
  "other_month p now \<longleftrightarrow> p_year p \<noteq> i32 (t_year now) \<or> p_month p \<noteq> i32 (t_month now)"

definition GetPeriodContext :: "pglib \<Rightarrow> string \<Rightarrow> int \<Rightarrow> int \<Rightarrow> ('w, period_facts) fin_op" where
  "GetPeriodContext pg u y m =
     bindR (GetCurrentPeriod pg u y m) (\<lambda>p.
     bindR f_now (\<lambda>now.
     retR \<lparr>pf_id = p_id p, pf_user = p_user p, pf_year = p_year p, pf_month = p_month p, pf_cur = p_cur p,
           pf_locked = other_month p now\<rparr>))"

definition UpdatePeriod :: "pglib \<Rightarrow> string \<Rightarrow> string \<Rightarrow> update_period_request \<Rightarrow> ('w, period) fin_op" where
  "UpdatePeriod pg u i req =
     bindR (apiR (ValidateEDSSplit (up_ess req) (up_des req) (up_sav req))) (\<lambda>_.
     bindR (apiR (budget_check (up_budget req))) (\<lambda>_.
     bindR (wrapR (Wrapped ''fetching period'') (r_GetPeriodByID pg i u)) (\<lambda>existing.
     case existing of
       None \<Rightarrow> failR (Api (NotFound ''Budget period not found''))
     | Some e \<Rightarrow>
         bindR f_now (\<lambda>now.
         if other_month e now
         then failR (Api \<lparr>ae_code = ''PERIOD_LOCKED'', ae_msg = ''Past periods are read-only and cannot be modified'',
                          ae_status = 403, ae_fields = []\<rparr>)
         else bindR (wrapR (Wrapped ''updating period'')
                (r_UpdatePeriod pg \<lparr>p_id = i, p_user = u, p_year = 0, p_month = 0, p_budget = up_budget req, p_cur = [],
                   p_ess = up_ess req, p_des = up_des req, p_sav = up_sav req, p_created = no_time, p_updated = no_time\<rparr>))
              (\<lambda>updated.
              case updated of
                None \<Rightarrow> failR (Api (NotFound ''Budget period not found''))
              | Some p \<Rightarrow> retR p)))))"

section \<open>Tags\<close>

definition ListTags :: "golib \<Rightarrow> pglib \<Rightarrow> string \<Rightarrow> ('w, tag list) fin_op" where
  "ListTags lib pg u =
     bindR (wrapR (Wrapped ''counting user tags'') (r_CountUserTags pg u)) (\<lambda>count.
     bindR (if count = 0
            then in_tx ''beginning transaction for tag seeding'' ''committing tag seeding''
                   (seed_tags lib pg ''lazy-seeding tag'' u DefaultTags)
            else retR ()) (\<lambda>_.
     wrapR (Wrapped ''listing tags'') (r_ListTags pg u)))"

text \<open>The two error branches of a tag write: a name that is taken, and any other failure.\<close>

definition tag_write :: "golib \<Rightarrow> string \<Rightarrow> string \<Rightarrow> ('w, 'a) fin_op \<Rightarrow> ('w, 'a) fin_op" where
  "tag_write lib what name =
     wrapR (\<lambda>e. if IsUniqueViolation e then Api (duplicateTagError lib name) else Wrapped what e)"

definition CreateTag :: "golib \<Rightarrow> pglib \<Rightarrow> string \<Rightarrow> string \<Rightarrow> ('w, tag) fin_op" where
  "CreateTag lib pg u req_name =
     (let name = trim_space req_name
      in bindR (apiR (validateTagName name)) (\<lambda>_.
         tag_write lib ''creating tag'' name (r_CreateTag pg u name False)))"

definition UpdateTag :: "golib \<Rightarrow> pglib \<Rightarrow> string \<Rightarrow> string \<Rightarrow> string \<Rightarrow> ('w, tag) fin_op" where
  "UpdateTag lib pg u i req_name =
     (let name = trim_space req_name
      in bindR (apiR (validateTagName name)) (\<lambda>_.
         bindR (tag_write lib ''updating tag'' name (r_UpdateTag pg i u name)) (\<lambda>t.
         case t of None \<Rightarrow> failR (Api (NotFound ''Tag not found'')) | Some x \<Rightarrow> retR x)))"

definition tag_in_use :: "int \<Rightarrow> int \<Rightarrow> apierr" where
  "tag_in_use expenses schedules =
     Conflict fe_tag_in_use (''Tag is referenced by '' @
       (if expenses > 0 then show_int expenses @ '' expense(s)'' else [])
       @ (if expenses > 0 \<and> schedules > 0 then '' and '' else [])
       @ (if schedules > 0 then show_int schedules @ '' pending schedule(s)'' else []))"

definition DeleteTag :: "pglib \<Rightarrow> 'w expense_client \<Rightarrow> string \<Rightarrow> string \<Rightarrow> ('w, unit) fin_op" where
  "DeleteTag pg xc u i =
     bindR (wrapR (Wrapped ''getting tag'') (r_GetTag pg i u)) (\<lambda>t.
     case t of
       None \<Rightarrow> failR (Api (NotFound ''Tag not found''))
     | Some tag \<Rightarrow>
         if tg_default tag
         then failR (Api \<lparr>ae_code = fe_default_tag, ae_msg = ''Default tags cannot be deleted, only renamed'',
                          ae_status = 403, ae_fields = []\<rparr>)
         else bindR (wrapR (Wrapped ''checking tag usage in expenses'') (in_world (xc_count xc u i))) (\<lambda>expenses.
              bindR (wrapR (Wrapped ''checking tag usage in pro-rata schedules'') (r_CountTagInProRata pg i u)) (\<lambda>schedules.
              if expenses > 0 \<or> schedules > 0 then failR (Api (tag_in_use expenses schedules))
              else wrapR (Wrapped ''deleting tag'') (r_DeleteTag pg i u))))"

section \<open>All of a user's data\<close>

text \<open>
  \<^verbatim>\<open>GetAllUserData\<close> starts its three reads at once.  They write disjoint variables and change no
  table, so they are modelled in the order they are started; another order changes only which of
  several failures is the one returned.
\<close>

record all_user_data =
  au_tags :: "tag list"
  au_periods :: "period list"
  au_defaults :: "default_settings option"

definition GetAllUserData :: "pglib \<Rightarrow> string \<Rightarrow> ('w, all_user_data) fin_op" where
  "GetAllUserData pg u =
     bindR (wrapR (Wrapped ''listing tags for export'') (r_ListTags pg u)) (\<lambda>tags.
     bindR (wrapR (Wrapped ''listing periods for export'') (r_ListPeriods pg u)) (\<lambda>periods.
     bindR (wrapR (Wrapped ''getting defaults for export'') (r_GetDefaults pg u)) (\<lambda>d.
     retR \<lparr>au_tags = tags, au_periods = periods, au_defaults = d\<rparr>)))"

definition DeleteAllUserData :: "pglib \<Rightarrow> string \<Rightarrow> ('w, unit) fin_op" where
  "DeleteAllUserData pg u =
     in_tx ''beginning transaction'' ''committing transaction''
       (wrapR (Wrapped ''deleting all user data'') (r_DeleteAllUserData pg u))"

end
