(* ===== verification/Go_Floats.thy ===== *)
theory Go_Floats
  imports Go_Integers
begin

text \<open>
  Go's \<^verbatim>\<open>float64\<close>.  A finite double is the rational number it denotes; every operation
  is the exact one followed by \<open>fl\<close>, the rounding to 53 significant bits, ties to even.  The
  magnitudes the code computes with lie far inside the range of a double, so overflow and
  subnormal numbers do not occur; infinities and NaN are not modelled (the code guards its
  divisions).  The facts proved are those reasoning about the code needs: rounding is monotone and
  exact on integers up to \<open>2^53\<close>, and its relative error is at most \<open>2^-53\<close>.
\<close>

section \<open>Powers of two and exponents\<close>

definition pow2 :: "int \<Rightarrow> rat" where
  "pow2 e = (if 0 \<le> e then 2 ^ nat e else 1 / 2 ^ nat (- e))"

lemma pow2_pos [simp]: "0 < pow2 e"
  by (simp add: pow2_def)

lemma pow2_nonzero [simp]: "pow2 e \<noteq> 0"
  by (simp add: pow2_def)

lemma pow2_Suc: "pow2 (e + 1) = 2 * pow2 e"
proof (cases "0 \<le> e")
  case True
  then have "nat (e + 1) = Suc (nat e)" by simp
  with True show ?thesis by (simp add: pow2_def)
next
  case False
  then have "nat (- e) = Suc (nat (- (e + 1)))" by simp
  with False show ?thesis by (cases "e = -1") (simp_all add: pow2_def)
qed

lemma pow2_add_nat: "pow2 (e + int n) = 2 ^ n * pow2 e"
proof (induction n)
  case (Suc n)
  have "pow2 (e + int (Suc n)) = pow2 ((e + int n) + 1)" by (simp add: algebra_simps)
  with Suc show ?case by (simp only: pow2_Suc) simp
qed simp

lemma pow2_mono: "e \<le> e' \<Longrightarrow> pow2 e \<le> pow2 e'"
  using pow2_add_nat [of e "nat (e' - e)"] by simp

lemma pow2_strict: "pow2 e < pow2 e' \<Longrightarrow> e < e'"
  using pow2_mono [of e' e] by linarith

fun bit_len :: "int \<Rightarrow> int" where
  "bit_len n = (if n \<le> 0 then 0 else 1 + bit_len (n div 2))"

declare bit_len.simps [simp del]

lemma bit_len_nonneg: "0 \<le> bit_len n"
  by (induction n rule: bit_len.induct) (subst bit_len.simps, simp)

lemma bit_len_bounds: "0 < n \<Longrightarrow> pow2 (bit_len n - 1) \<le> of_int n \<and> of_int n < pow2 (bit_len n)"
proof (induction n rule: bit_len.induct)
  case (1 n)
  show ?case
  proof (cases "n = 1")
    case True
    have "bit_len 1 = 1" by (simp add: bit_len.simps [of 1] bit_len.simps [of 0])
    with True show ?thesis by (simp add: pow2_def)
  next
    case False
    with 1 have h: "0 < n div 2" and n: "\<not> n \<le> 0" by linarith+
    let ?b = "bit_len (n div 2)"
    have b: "bit_len n = ?b + 1" using n by (simp add: bit_len.simps [of n])
    have ih: "pow2 (?b - 1) \<le> of_int (n div 2)" "of_int (n div 2) < pow2 ?b" using "1.IH" [OF n h] by simp_all
    have p: "pow2 ?b = 2 * pow2 (?b - 1)" using pow2_Suc [of "?b - 1"] by simp
    have lo: "2 * of_int (n div 2) \<le> (of_int n :: rat)"
    proof -
      have "2 * (n div 2) \<le> n" by presburger
      then have "(of_int (2 * (n div 2)) :: rat) \<le> of_int n" by (simp only: of_int_le_iff)
      then show ?thesis by simp
    qed
    have up: "of_int n \<le> 2 * of_int (n div 2) + (1::rat)"
    proof -
      have "n \<le> 2 * (n div 2) + 1" by presburger
      then have "(of_int n :: rat) \<le> of_int (2 * (n div 2) + 1)" by (simp only: of_int_le_iff)
      then show ?thesis by simp
    qed
    obtain k where k: "pow2 ?b = of_int k"
    proof
      show "pow2 ?b = of_int (2 ^ nat ?b)" using bit_len_nonneg [of "n div 2"] by (simp add: pow2_def)
    qed
    then have "n div 2 + 1 \<le> k" using ih(2) by (simp add: k)
    then have "of_int (n div 2) + 1 \<le> pow2 ?b" unfolding k by (metis of_int_1 of_int_add of_int_le_iff)
    with ih lo up show ?thesis unfolding b pow2_Suc p by (simp add: p)
  qed
qed

text \<open>The exponent of a positive number: the integer \<open>e\<close> with \<open>2^e \<le> x < 2^(e+1)\<close>.\<close>

definition exponent :: "rat \<Rightarrow> int" where
  "exponent x = (case quotient_of x of (n, d) \<Rightarrow> let e = bit_len n - bit_len d in if pow2 e \<le> x then e else e - 1)"

lemma pow2_add: "pow2 (a + b) = pow2 a * pow2 b"
proof (cases "0 \<le> b")
  case True
  then show ?thesis using pow2_add_nat [of a "nat b"] by (simp add: pow2_def [of b])
next
  case False
  then have "pow2 a = 2 ^ nat (- b) * pow2 (a + b)" using pow2_add_nat [of "a + b" "nat (- b)"] by simp
  with False show ?thesis by (simp add: pow2_def [of b])
qed

lemma exponent_bounds:
  assumes "0 < x"
  shows "pow2 (exponent x) \<le> x" "x < pow2 (exponent x + 1)"
proof -
  obtain n d where q: "quotient_of x = (n, d)" by (metis surj_pair)
  have d: "0 < d" and x: "x = of_int n / of_int d" using quotient_of_denom_pos [OF q] quotient_of_div [OF q] by auto
  have n: "0 < n" using assms d by (simp add: x zero_less_divide_iff)
  let ?e = "bit_len n - bit_len d"
  note bn = bit_len_bounds [OF n] and bd = bit_len_bounds [OF d]
  have dpos: "(0::rat) < of_int d" using d by simp
  have "x * of_int d = of_int n" using d by (simp add: x)
  have split1: "pow2 (?e + 1) * pow2 (bit_len d - 1) = pow2 (bit_len n)"
    unfolding pow2_add [symmetric] by (simp add: algebra_simps)
  have split2: "pow2 (?e - 1) * pow2 (bit_len d) = pow2 (bit_len n - 1)"
    unfolding pow2_add [symmetric] by (simp add: algebra_simps)
  have "of_int n < pow2 (?e + 1) * of_int d"
  proof -
    have "of_int n < pow2 (?e + 1) * pow2 (bit_len d - 1)" using bn split1 by simp
    also have "\<dots> \<le> pow2 (?e + 1) * of_int d" using bd by simp
    finally show ?thesis .
  qed
  then have up: "x < pow2 (?e + 1)" using dpos by (simp add: x divide_less_eq)
  have "pow2 (?e - 1) * of_int d \<le> of_int n"
  proof -
    have "pow2 (?e - 1) * of_int d \<le> pow2 (?e - 1) * pow2 (bit_len d)" using bd by simp
    also have "\<dots> \<le> of_int n" using bn split2 by simp
    finally show ?thesis .
  qed
  then have lo: "pow2 (?e - 1) \<le> x" using dpos by (simp add: x le_divide_eq)
  show "pow2 (exponent x) \<le> x" using lo by (simp add: exponent_def q Let_def)
  show "x < pow2 (exponent x + 1)" using up by (simp add: exponent_def q Let_def)
qed

lemma exponent_mono: "0 < x \<Longrightarrow> x \<le> y \<Longrightarrow> exponent x \<le> exponent y"
  using exponent_bounds [of x] exponent_bounds [of y] pow2_strict [of "exponent x" "exponent y + 1"] by linarith

section \<open>Rounding\<close>

definition round_even :: "rat \<Rightarrow> int" where
  "round_even x =
     (let f = \<lfloor>x\<rfloor>; r = x - of_int f
      in if r < 1 / 2 then f else if 1 / 2 < r then f + 1 else if even f then f else f + 1)"

lemma round_even_of_int [simp]: "round_even (of_int k) = k"
  by (simp add: round_even_def)

lemma round_even_near: "\<bar>of_int (round_even x) - x\<bar> \<le> 1 / 2"
proof -
  have "of_int \<lfloor>x\<rfloor> \<le> x" "x < of_int \<lfloor>x\<rfloor> + 1" using floor_correct [of x] by simp_all
  then show ?thesis unfolding round_even_def Let_def abs_le_iff by (auto; linarith)
qed

lemma round_even_cases: "round_even x = \<lfloor>x\<rfloor> \<or> round_even x = \<lfloor>x\<rfloor> + 1"
  by (simp add: round_even_def Let_def)

lemma round_even_mono:
  assumes "x \<le> y"
  shows "round_even x \<le> round_even y"
proof (cases "\<lfloor>x\<rfloor> = \<lfloor>y\<rfloor>")
  case True
  with assms show ?thesis by (auto simp: round_even_def Let_def)
next
  case False
  with floor_mono [OF assms] have "\<lfloor>x\<rfloor> + 1 \<le> \<lfloor>y\<rfloor>" by simp
  with round_even_cases [of x] round_even_cases [of y] show ?thesis by linarith
qed

text \<open>The rounding of a real result to the nearest double.\<close>

definition fl :: "rat \<Rightarrow> rat" where
  "fl x = (if x = 0 then 0
           else let s = pow2 (exponent \<bar>x\<bar> - 52) in sgn x * of_int (round_even (\<bar>x\<bar> / s)) * s)"

lemma fl_zero [simp]: "fl 0 = 0"
  by (simp add: fl_def)

lemma fl_minus: "fl (- x) = - fl x"
  by (simp add: fl_def Let_def sgn_minus)

lemma fl_pos: "0 < x \<Longrightarrow> fl x = of_int (round_even (x / pow2 (exponent x - 52))) * pow2 (exponent x - 52)"
  by (simp add: fl_def Let_def)

lemma fl_window:
  assumes "0 < x"
  shows "pow2 (exponent x) \<le> fl x" "fl x \<le> pow2 (exponent x + 1)"
proof -
  let ?s = "pow2 (exponent x - 52)"
  have a: "pow2 (exponent x) = of_int (2 ^ 52) * ?s" "pow2 (exponent x + 1) = of_int (2 ^ 53) * ?s"
    using pow2_add_nat [of "exponent x - 52" 52] pow2_add_nat [of "exponent x - 52" 53] by (simp_all add: algebra_simps)
  have "of_int (2 ^ 52) \<le> x / ?s" "x / ?s \<le> of_int (2 ^ 53)"
    using exponent_bounds [OF assms] a by (simp_all add: le_divide_eq divide_le_eq)
  then have "2 ^ 52 \<le> round_even (x / ?s)" "round_even (x / ?s) \<le> 2 ^ 53"
    by (metis round_even_mono round_even_of_int)+
  then have r: "of_int (2 ^ 52) \<le> (of_int (round_even (x / ?s)) :: rat)" "(of_int (round_even (x / ?s)) :: rat) \<le> of_int (2 ^ 53)"
    by (simp_all only: of_int_le_iff)
  show "pow2 (exponent x) \<le> fl x" "fl x \<le> pow2 (exponent x + 1)"
    unfolding fl_pos [OF assms] a using r by (simp_all only: mult_right_mono less_imp_le [OF pow2_pos])
qed

lemma fl_nonneg: "0 \<le> x \<Longrightarrow> 0 \<le> fl x"
proof (cases "x = 0")
  case False
  assume "0 \<le> x"
  with False have "pow2 (exponent x) \<le> fl x" by (intro fl_window) simp
  then show ?thesis using pow2_pos [of "exponent x"] by linarith
qed simp

lemma fl_mono_pos:
  assumes "0 < x" "x \<le> y"
  shows "fl x \<le> fl y"
proof (cases "exponent x = exponent y")
  case True
  have "x / pow2 (exponent y - 52) \<le> y / pow2 (exponent y - 52)" using assms(2) by (simp add: divide_right_mono less_imp_le)
  then have "round_even (x / pow2 (exponent y - 52)) \<le> round_even (y / pow2 (exponent y - 52))" by (rule round_even_mono)
  with assms True show ?thesis by (simp add: fl_pos)
next
  case False
  with exponent_mono [OF assms] have "exponent x + 1 \<le> exponent y" by simp
  then have "pow2 (exponent x + 1) \<le> pow2 (exponent y)" by (rule pow2_mono)
  with fl_window(2) [OF assms(1)] fl_window(1) [of y] assms show ?thesis by linarith
qed

lemma fl_mono: "x \<le> y \<Longrightarrow> fl x \<le> fl y"
proof -
  assume le: "x \<le> y"
  consider "0 < x" | "x \<le> 0" "0 \<le> y" | "y < 0" by linarith
  then show ?thesis
  proof cases
    case 1
    then show ?thesis using le by (rule fl_mono_pos)
  next
    case 2
    then have "0 \<le> fl (- x)" "0 \<le> fl y" by (simp_all add: fl_nonneg)
    then show ?thesis by (simp add: fl_minus)
  next
    case 3
    then have "fl (- y) \<le> fl (- x)" using le by (intro fl_mono_pos) auto
    then show ?thesis by (simp add: fl_minus)
  qed
qed

text \<open>Numbers with at most 53 significant bits are doubles.\<close>

lemma fl_grid:
  assumes "0 < x" "x / pow2 (exponent x - 52) = of_int j"
  shows "fl x = x"
proof -
  have "fl x = of_int j * pow2 (exponent x - 52)" unfolding fl_pos [OF assms(1)] assms(2) round_even_of_int ..
  also have "\<dots> = x / pow2 (exponent x - 52) * pow2 (exponent x - 52)" unfolding assms(2) ..
  finally show ?thesis by simp
qed

lemma exponent_le:
  assumes "0 < x" "x < pow2 e"
  shows "exponent x < e"
  using exponent_bounds(1) [OF assms(1)] assms(2) by (metis le_less_trans pow2_strict)

lemma fl_exact_pos:
  assumes x: "x = of_int k * pow2 e" and k: "0 < k" "k < 2 ^ 53"
  shows "fl x = x"
proof -
  have pos: "0 < x" unfolding x by (rule mult_pos_pos) (simp_all add: k)
  have "(of_int k :: rat) < of_int (2 ^ 53)" using k(2) by (simp only: of_int_less_iff)
  then have "x < of_int (2 ^ 53) * pow2 e" unfolding x by (rule mult_strict_right_mono) simp
  also have "\<dots> = pow2 (e + int 53)" unfolding pow2_add_nat by simp
  finally have "exponent x < e + int 53" by (rule exponent_le [OF pos])
  then have "exponent x - 52 \<le> e" by simp
  then obtain n where e: "e = (exponent x - 52) + int n" by (metis zle_iff_zadd)
  have "x = of_int k * pow2 ((exponent x - 52) + int n)" using x e by simp
  then have "x / pow2 (exponent x - 52) = of_int (k * 2 ^ n)" unfolding pow2_add_nat
    by (simp add: divide_eq_eq)
  with pos show ?thesis by (rule fl_grid)
qed

lemma fl_exact:
  assumes "x = of_int k * pow2 e" "\<bar>k\<bar> \<le> 2 ^ 53"
  shows "fl x = x"
proof -
  have pos: "fl (of_int j * pow2 e) = of_int j * pow2 e" if "0 < j" "j \<le> 2 ^ 53" for j
  proof (cases "j = 2 ^ 53")
    case True
    then have "of_int j * pow2 e = of_int 1 * pow2 (e + int 53)" using pow2_add_nat [of e 53] by simp
    moreover have "fl (of_int 1 * pow2 (e + int 53)) = of_int 1 * pow2 (e + int 53)"
      by (rule fl_exact_pos [OF refl]) simp_all
    ultimately show ?thesis by (simp only:)
  next
    case False
    with that show ?thesis by (intro fl_exact_pos [OF refl]) auto
  qed
  consider "k = 0" | "0 < k" | "k < 0" by linarith
  then show ?thesis
  proof cases
    case 3
    then have "fl (of_int (- k) * pow2 e) = of_int (- k) * pow2 e" using assms(2) by (intro pos) auto
    then show ?thesis by (simp add: assms(1) fl_minus)
  qed (use assms pos in auto)
qed

lemma fl_of_int [simp]: "\<bar>k\<bar> \<le> 2 ^ 53 \<Longrightarrow> fl (of_int k) = of_int k"
  using fl_exact [of "of_int k" k 0] by (simp add: pow2_def)

lemma fl_half: "\<bar>k\<bar> \<le> 2 ^ 53 \<Longrightarrow> fl (of_int k / 2) = of_int k / 2"
  using fl_exact [of "of_int k / 2" k "-1"] by (simp add: pow2_def)

lemma fl_error:
  assumes "0 < x"
  shows "\<bar>fl x - x\<bar> \<le> pow2 (exponent x - 53)"
proof -
  let ?s = "pow2 (exponent x - 52)"
  have "fl x - x = (of_int (round_even (x / ?s)) - x / ?s) * ?s" by (simp add: fl_pos [OF assms] algebra_simps)
  then have "\<bar>fl x - x\<bar> = \<bar>of_int (round_even (x / ?s)) - x / ?s\<bar> * ?s"
    by (simp only: abs_mult abs_of_pos [OF pow2_pos])
  also have "\<dots> \<le> 1 / 2 * ?s" by (rule mult_right_mono [OF round_even_near]) (simp add: less_imp_le)
  also have "\<dots> = pow2 (exponent x - 53)" using pow2_Suc [of "exponent x - 53"] by simp
  finally show ?thesis .
qed

section \<open>The operations\<close>

definition f64 :: "int \<Rightarrow> rat" where
  "f64 n = fl (of_int n)"

definition fadd :: "rat \<Rightarrow> rat \<Rightarrow> rat" where "fadd a b = fl (a + b)"

definition fsub :: "rat \<Rightarrow> rat \<Rightarrow> rat" where "fsub a b = fl (a - b)"

definition fmul :: "rat \<Rightarrow> rat \<Rightarrow> rat" where "fmul a b = fl (a * b)"

definition fdiv :: "rat \<Rightarrow> rat \<Rightarrow> rat" where "fdiv a b = fl (a / b)"

text \<open>\<^verbatim>\<open>math.Round\<close>: to the nearest integer, halves away from zero.\<close>

definition math_Round :: "rat \<Rightarrow> int" where
  "math_Round x = (if x < 0 then - \<lfloor>1 / 2 - x\<rfloor> else \<lfloor>x + 1 / 2\<rfloor>)"

lemma math_Round_mono:
  assumes le: "x \<le> y"
  shows "math_Round x \<le> math_Round y"
proof -
  consider "0 \<le> x" | "x < 0" "0 \<le> y" | "y < 0" by linarith
  then show ?thesis
  proof cases
    case 1
    then show ?thesis using le floor_mono [of "x + 1 / 2" "y + 1 / 2"] by (simp add: math_Round_def)
  next
    case 2
    have "0 \<le> \<lfloor>1 / 2 - x\<rfloor>" "0 \<le> \<lfloor>y + 1 / 2\<rfloor>" using 2 by simp_all
    moreover have "math_Round x = - \<lfloor>1 / 2 - x\<rfloor>" "math_Round y = \<lfloor>y + 1 / 2\<rfloor>" using 2 by (simp_all add: math_Round_def)
    ultimately show ?thesis by linarith
  next
    case 3
    then show ?thesis using le floor_mono [of "1 / 2 - y" "1 / 2 - x"] by (simp add: math_Round_def)
  qed
qed

lemma math_Round_of_int [simp]: "math_Round (of_int k) = k"
proof -
  have "\<lfloor>of_int k + 1 / 2 :: rat\<rfloor> = k" for k by (simp add: floor_unique)
  from this [of k] this [of "- k"] show ?thesis by (simp add: math_Round_def)
qed

text \<open>
  \<^verbatim>\<open>math.Sqrt\<close> is correctly rounded: the square root is computed to at least 59 bits, and an
  inexact one lies strictly between two such values, so that the midpoint rounds as it does.
\<close>

fun isqrt :: "int \<Rightarrow> int" where
  "isqrt n = (if n \<le> 0 then 0 else let r = 2 * isqrt (n div 4) in if (r + 1) * (r + 1) \<le> n then r + 1 else r)"

declare isqrt.simps [simp del]

lemma isqrt_correct: "0 \<le> n \<Longrightarrow> 0 \<le> isqrt n \<and> isqrt n * isqrt n \<le> n \<and> n < (isqrt n + 1) * (isqrt n + 1)"
proof (induction n rule: isqrt.induct)
  case (1 n)
  show ?case
  proof (cases "n = 0")
    case True
    then show ?thesis by (simp add: isqrt.simps [of 0])
  next
    case False
    with 1 have n: "\<not> n \<le> 0" "0 \<le> n div 4" by simp_all
    let ?q = "isqrt (n div 4)"
    have ih: "0 \<le> ?q" "?q * ?q \<le> n div 4" "n div 4 < (?q + 1) * (?q + 1)" using "1.IH" [OF n] by simp_all
    have "4 * (?q * ?q) \<le> n" using ih(2) by linarith
    moreover have "n < 4 * ((?q + 1) * (?q + 1))" using ih(3) by linarith
    ultimately show ?thesis using ih(1) n(1) by (simp add: isqrt.simps [of n] Let_def algebra_simps)
  qed
qed

definition math_Sqrt :: "rat \<Rightarrow> rat" where
  "math_Sqrt x =
     (if x \<le> 0 then 0
      else (let k = 60 - exponent x div 2; y = x * pow2 (2 * k); m = isqrt \<lfloor>y\<rfloor>
            in fl ((of_int m + (if of_int (m * m) = y then 0 else 1 / 2)) / pow2 k)))"

end
