(* ===== verification/Finance_Dashboard.thy ===== *)
theory Finance_Dashboard
  imports Finance_Service Go_Floats
begin

text \<open>
  The dashboard of the finance service (\<^verbatim>\<open>finance/internal/service/dashboard.go\<close>): the summary of a
  period, the spending per tag, the cumulative chart, the trends and the comparison with earlier
  periods.  The pure computations are the functions the code exports; the operations read the
  period and the expenses and apply them.

  The reads the code starts together with an \<^verbatim>\<open>errgroup\<close> write disjoint slots and change
  nothing, so they are modelled in the order they are started; another order changes only which
  of several errors is returned.  Go leaves the conversion of a \<^verbatim>\<open>float64\<close> outside the range of
  an integer type to the platform; the parameter \<open>cvt\<close> is its result.
\<close>

section \<open>Helpers\<close>

fun eachR :: "('a \<Rightarrow> ('s, 'e, 'b) op) \<Rightarrow> 'a list \<Rightarrow> ('s, 'e, 'b list) op" where
  "eachR f [] = retR []"
| "eachR f (x # xs) = bindR (f x) (\<lambda>y. bindR (eachR f xs) (\<lambda>ys. retR (y # ys)))"

type_synonym platform = "nat \<Rightarrow> rat \<Rightarrow> int"

definition float_to_int :: "platform \<Rightarrow> nat \<Rightarrow> rat \<Rightarrow> int" where
  "float_to_int cvt w x =
     (let n = (if x < 0 then - \<lfloor>- x\<rfloor> else \<lfloor>x\<rfloor>)
      in if - (2 ^ (w - 1)) \<le> n \<and> n < 2 ^ (w - 1) then n else cvt w x)"

text \<open>\<^verbatim>\<open>for \<dots> { total += amount }\<close> over \<^verbatim>\<open>int64\<close> amounts.\<close>

definition sum64 :: "int list \<Rightarrow> int" where
  "sum64 xs = foldl (\<lambda>a x. i64 (a + x)) 0 xs"

definition spent_on :: "string \<Rightarrow> expense_data list \<Rightarrow> int" where
  "spent_on ty exps = sum64 (map ed_amount (filter (\<lambda>e. ed_type e = ty) exps))"

text \<open>\<^verbatim>\<open>math.Round(float64(a)/float64(b)*10000) / 100\<close>\<close>

definition percent_of :: "int \<Rightarrow> int \<Rightarrow> rat" where
  "percent_of a b = fdiv (of_int (math_Round (fmul (fdiv (f64 a) (f64 b)) 10000))) 100"

definition month_name :: "int \<Rightarrow> int \<Rightarrow> string" where
  "month_name y m = show_int y @ ''-'' @ show_padded 2 m"

section \<open>Calendar of a period\<close>

definition daysInMonth :: "int \<Rightarrow> int \<Rightarrow> int" where
  "daysInMonth y m = (let k = i32 (m + 1) - 2 in days_in (y + k div 12) (k mod 12 + 1))"

definition computeDaysElapsed :: "int \<Rightarrow> int \<Rightarrow> int \<Rightarrow> gtime \<Rightarrow> int" where
  "computeDaysElapsed y m days now = (if i32 (t_year now) = y \<and> i32 (t_month now) = m then t_day now else days)"

definition parseDayForPeriod :: "string \<Rightarrow> int \<Rightarrow> int \<Rightarrow> int" where
  "parseDayForPeriod date y m =
     (case parse_date date of
        None \<Rightarrow> 0
      | Some (ty, tm, td) \<Rightarrow> if ty \<noteq> y \<or> tm \<noteq> m then 1 else td)"

section \<open>The summary of a period\<close>

record category_summary =
  cs_allocated :: int
  cs_spent :: int
  cs_remaining :: int
  cs_percent :: rat

record period_summary =
  ps_id :: string
  ps_year :: int
  ps_month :: int
  ps_budget :: int
  ps_spent :: int
  ps_remaining :: int
  ps_days :: int
  ps_elapsed :: int
  ps_rate :: int
  ps_pace :: int
  ps_on_track :: bool
  ps_ess :: category_summary
  ps_des :: category_summary
  ps_sav :: category_summary

definition allocateCategories :: "int \<Rightarrow> int \<Rightarrow> int \<Rightarrow> int \<Rightarrow> int \<times> int \<times> int" where
  "allocateCategories budget ep dp sp =
     (if budget = 0 then (0, 0, 0)
      else let e = go_quo (i64 (budget * ep)) 100;
               d = go_quo (i64 (budget * dp)) 100;
               s = go_quo (i64 (budget * sp)) 100;
               remainder = i64 (budget - i64 (i64 (e + d) + s))
           in if remainder = 0 then (e, d, s)
              else let (max_pct, target) = (if dp > ep then (dp, ''desires'') else (ep, ''essentials''));
                       target = (if sp > max_pct then ''savings'' else target)
                   in if target = ''essentials'' then (i64 (e + remainder), d, s)
                      else if target = ''desires'' then (e, i64 (d + remainder), s)
                      else (e, d, i64 (s + remainder)))"

definition buildCategorySummary :: "int \<Rightarrow> int \<Rightarrow> category_summary" where
  "buildCategorySummary allocated spent =
     \<lparr>cs_allocated = allocated, cs_spent = spent, cs_remaining = i64 (allocated - spent),
      cs_percent =
        (if allocated > 0 then percent_of spent allocated
         else if spent > 0 then fadd 100 (of_int (math_Round (fdiv (f64 spent) 100)))
         else 0)\<rparr>"

definition ComputePeriodSummary :: "period \<Rightarrow> expense_data list \<Rightarrow> int \<Rightarrow> int \<Rightarrow> gtime \<Rightarrow> period_summary" where
  "ComputePeriodSummary p exps y m now =
     (let days = daysInMonth y m;
          elapsed = computeDaysElapsed y m days now;
          spent = sum64 (map ed_amount exps);
          (ea, da, sa) = allocateCategories (p_budget p) (p_ess p) (p_des p) (p_sav p);
          remaining = i64 (p_budget p - spent);
          rate = (if elapsed > 0 then go_quo spent elapsed else 0);
          left = days - elapsed
      in \<lparr>ps_id = p_id p, ps_year = y, ps_month = m, ps_budget = p_budget p, ps_spent = spent,
          ps_remaining = remaining, ps_days = days, ps_elapsed = elapsed, ps_rate = rate,
          ps_pace = (if left > 0 then go_quo remaining left else 0),
          ps_on_track = (if days > 0 then f64 rate \<le> fdiv (f64 (p_budget p)) (f64 days) else True),
          ps_ess = buildCategorySummary ea (spent_on ''essentials'' exps),
          ps_des = buildCategorySummary da (spent_on ''desires'' exps),
          ps_sav = buildCategorySummary sa (spent_on ''savings'' exps)\<rparr>)"

definition fetch_expenses :: "'w expense_client \<Rightarrow> string \<Rightarrow> string \<Rightarrow> int \<Rightarrow> int \<Rightarrow> ('w, expense_data list) fin_op" where
  "fetch_expenses xc what u y m = wrapR (Wrapped what) (in_world (xc_active xc u y m))"

definition GetPeriodSummary :: "pglib \<Rightarrow> 'w expense_client \<Rightarrow> string \<Rightarrow> int \<Rightarrow> int \<Rightarrow> ('w, period_summary) fin_op" where
  "GetPeriodSummary pg xc u y m =
     bindR (GetCurrentPeriod pg u y m) (\<lambda>p.
     bindR (fetch_expenses xc ''fetching expenses'' u y m) (\<lambda>exps.
     bindR f_now (\<lambda>now.
     retR (ComputePeriodSummary p exps y m now))))"

section \<open>Spending by tag\<close>

record tag_spending =
  ts_id :: string
  ts_name :: string
  ts_amount :: int
  ts_percent :: rat

text \<open>
  Ranging over a Go map visits its keys in an unspecified order; \<open>rank\<close> stands for the order it
  happens to take.  The sort that follows is by amount only, so tags with equal amounts come in
  an order the code does not determine.
\<close>

definition ComputeTagSpending :: "(string \<Rightarrow> nat) \<Rightarrow> expense_data list \<Rightarrow> (string \<times> string) list \<Rightarrow> tag_spending list" where
  "ComputeTagSpending rank exps names =
     (if exps = [] then []
      else let spent = sum64 (map ed_amount exps);
               amount = (\<lambda>i. sum64 (map ed_amount (filter (\<lambda>e. ed_tag e = i) exps)));
               name = (\<lambda>i. case map_of names i of None \<Rightarrow> ''Unknown'' | Some n \<Rightarrow> if n = [] then ''Unknown'' else n);
               keys = order_by (\<lambda>a b. rank a \<le> rank b) (remdups (map ed_tag exps))
           in order_by (\<lambda>a b. ts_amount b \<le> ts_amount a)
                (map (\<lambda>i. \<lparr>ts_id = i, ts_name = name i, ts_amount = amount i,
                           ts_percent = (if spent > 0 then percent_of (amount i) spent else 0)\<rparr>) keys))"

definition GetSpendingByTag ::
  "pglib \<Rightarrow> 'w expense_client \<Rightarrow> (string \<Rightarrow> nat) \<Rightarrow> string \<Rightarrow> int \<Rightarrow> int \<Rightarrow> ('w, tag_spending list) fin_op" where
  "GetSpendingByTag pg xc rank u y m =
     bindR (GetCurrentPeriod pg u y m) (\<lambda>_.
     bindR (fetch_expenses xc ''fetching expenses'' u y m) (\<lambda>exps.
     bindR (wrapR (Wrapped ''listing tags'') (r_ListTags pg u)) (\<lambda>tags.
     let names = foldl (\<lambda>l t. alist_set (tg_id t) (tg_name t) l) [] tags
     in retR (ComputeTagSpending rank exps names))))"

section \<open>Cumulative spending\<close>

record cumulative_point =
  cu_day :: int
  cu_actual :: int
  cu_ideal :: int

definition day_spend :: "expense_data list \<Rightarrow> int \<Rightarrow> int \<Rightarrow> int \<Rightarrow> int \<Rightarrow> int" where
  "day_spend exps y m days d =
     sum64 (map ed_amount (filter (\<lambda>e. let day = parseDayForPeriod (ed_date e) y m
                                        in day > 0 \<and> day \<le> days \<and> day = d) exps))"

definition ideal_spend :: "platform \<Rightarrow> int \<Rightarrow> int \<Rightarrow> int \<Rightarrow> int" where
  "ideal_spend cvt budget days d =
     float_to_int cvt 64 (of_int (math_Round (fmul (fdiv (f64 budget) (f64 days)) (f64 d))))"

fun cumulate :: "(int \<Rightarrow> int) \<Rightarrow> (int \<Rightarrow> int) \<Rightarrow> int \<Rightarrow> int list \<Rightarrow> cumulative_point list" where
  "cumulate spend ideal c [] = []"
| "cumulate spend ideal c (d # ds) =
     (let c' = i64 (c + spend d)
      in \<lparr>cu_day = d, cu_actual = c', cu_ideal = ideal d\<rparr> # cumulate spend ideal c' ds)"

definition ComputeCumulativeSpend :: "platform \<Rightarrow> expense_data list \<Rightarrow> int \<Rightarrow> int \<Rightarrow> int \<Rightarrow> int \<Rightarrow> cumulative_point list" where
  "ComputeCumulativeSpend cvt exps budget y m days =
     cumulate (day_spend exps y m days) (ideal_spend cvt budget days) 0 [1..days]"

definition GetCumulativeSpend ::
  "platform \<Rightarrow> pglib \<Rightarrow> 'w expense_client \<Rightarrow> string \<Rightarrow> int \<Rightarrow> int \<Rightarrow> ('w, cumulative_point list) fin_op" where
  "GetCumulativeSpend cvt pg xc u y m =
     bindR (GetCurrentPeriod pg u y m) (\<lambda>p.
     bindR (fetch_expenses xc ''fetching expenses'' u y m) (\<lambda>exps.
     retR (ComputeCumulativeSpend cvt exps (p_budget p) y m (daysInMonth y m))))"

section \<open>Trends\<close>

record trend_point =
  tr_year :: int
  tr_month :: int
  tr_spent :: int
  tr_budget :: int
  tr_ess :: int
  tr_des :: int
  tr_sav :: int
  tr_ess_pct :: rat
  tr_des_pct :: rat
  tr_sav_pct :: rat
  tr_cur :: string

definition trend_point_of :: "(int \<times> int) \<Rightarrow> period option \<Rightarrow> expense_data list \<Rightarrow> trend_point" where
  "trend_point_of ym p exps =
     \<lparr>tr_year = fst ym, tr_month = snd ym, tr_spent = sum64 (map ed_amount exps),
      tr_budget = (case p of None \<Rightarrow> 0 | Some p \<Rightarrow> p_budget p),
      tr_ess = spent_on ''essentials'' exps, tr_des = spent_on ''desires'' exps, tr_sav = spent_on ''savings'' exps,
      tr_ess_pct = (case p of None \<Rightarrow> 0 | Some p \<Rightarrow> f64 (p_ess p)),
      tr_des_pct = (case p of None \<Rightarrow> 0 | Some p \<Rightarrow> f64 (p_des p)),
      tr_sav_pct = (case p of None \<Rightarrow> 0 | Some p \<Rightarrow> f64 (p_sav p)),
      tr_cur = (case p of None \<Rightarrow> [] | Some p \<Rightarrow> p_cur p)\<rparr>"

fun ComputeSpendingTrends :: "period option list \<Rightarrow> expense_data list list \<Rightarrow> (int \<times> int) list \<Rightarrow> trend_point list" where
  "ComputeSpendingTrends (p # ps) (e # es) (ym # yms) = trend_point_of ym p e # ComputeSpendingTrends ps es yms"
| "ComputeSpendingTrends _ _ _ = []"

text \<open>\<^verbatim>\<open>months < 1\<close> means the default of 6, and more than 12 means 12.\<close>

definition clamp_months :: "int \<Rightarrow> int" where
  "clamp_months n = (let n = (if n < 1 then 6 else n) in if n > 12 then 12 else n)"

fun months_back :: "nat \<Rightarrow> int \<Rightarrow> int \<Rightarrow> (int \<times> int) list" where
  "months_back 0 y m = []"
| "months_back (Suc n) y m =
     (y, m) # (let m' = i32 (m - 1) in if m' = 0 then months_back n (i32 (y - 1)) 12 else months_back n y m')"

definition period_of :: "period list \<Rightarrow> int \<times> int \<Rightarrow> period option" where
  "period_of ps ym = find_first (\<lambda>p. (p_year p, p_month p) = ym) (rev ps)"

definition trend_read :: "'w expense_client \<Rightarrow> string \<Rightarrow> period list \<Rightarrow> int \<times> int \<Rightarrow> ('w, expense_data list) fin_op" where
  "trend_read xc u ps ym =
     (case period_of ps ym of
        None \<Rightarrow> retR []
      | Some _ \<Rightarrow> fetch_expenses xc (''fetching expenses for '' @ month_name (fst ym) (snd ym)) u (fst ym) (snd ym))"

definition GetSpendingTrends ::
  "pglib \<Rightarrow> 'w expense_client \<Rightarrow> string \<Rightarrow> int \<Rightarrow> int \<Rightarrow> int \<Rightarrow> ('w, trend_point list) fin_op" where
  "GetSpendingTrends pg xc u y m months =
     bindR (wrapR (Wrapped ''listing periods'') (r_ListPeriods pg u)) (\<lambda>ps.
     let window = rev (months_back (nat (clamp_months months)) y m)
     in bindR (eachR (trend_read xc u ps) window) (\<lambda>exps.
        retR (ComputeSpendingTrends (map (period_of ps) window) exps window)))"

section \<open>Comparison with earlier periods\<close>

record historical_comparison =
  hx_current :: int
  hx_previous :: int
  hx_previous_cur :: string
  hx_comparable :: bool
  hx_rolling :: "int option"
  hx_change :: rat

definition allSameReportingCurrency :: "string \<Rightarrow> period list \<Rightarrow> bool" where
  "allSameReportingCurrency code ps \<longleftrightarrow> code \<noteq> [] \<and> list_all (\<lambda>p. p_cur p = code) ps"

definition getTotalSpentForPeriod :: "'w expense_client \<Rightarrow> string \<Rightarrow> period \<Rightarrow> ('w, int) fin_op" where
  "getTotalSpentForPeriod xc u p =
     bindR (fetch_expenses xc (''fetching expenses for '' @ month_name (p_year p) (p_month p)) u (p_year p) (p_month p)) (\<lambda>exps.
     retR (sum64 (map ed_amount exps)))"

definition compared_periods :: "period \<Rightarrow> period list \<Rightarrow> period list" where
  "compared_periods p priors = p # (if length priors \<ge> 3 then priors else take 1 priors)"

definition comparison :: "period \<Rightarrow> period list \<Rightarrow> int list \<Rightarrow> historical_comparison" where
  "comparison p priors spent =
     (let cur = spent ! 0; base = \<lparr>hx_current = cur, hx_previous = 0, hx_previous_cur = [], hx_comparable = True,
                                   hx_rolling = None, hx_change = 0\<rparr>;
          with_previous =
            (case priors of
               [] \<Rightarrow> base
             | q # _ \<Rightarrow>
                 (let prev = spent ! 1; r = base\<lparr>hx_previous := prev, hx_previous_cur := p_cur q\<rparr>
                  in if p_cur p \<noteq> [] \<and> p_cur q \<noteq> [] \<and> p_cur p \<noteq> p_cur q then r\<lparr>hx_comparable := False, hx_change := 0\<rparr>
                     else if prev > 0 then r\<lparr>hx_change := percent_of (i64 (cur - prev)) prev\<rparr>
                     else if cur > 0 then r\<lparr>hx_change := 100\<rparr>
                     else r))
      in if length priors \<ge> 3 \<and> allSameReportingCurrency (p_cur p) priors
         then with_previous\<lparr>hx_rolling := Some (go_quo (i64 (i64 (spent ! 1 + spent ! 2) + spent ! 3)) 3)\<rparr>
         else with_previous)"

definition computeHistoricalComparison ::
  "'w expense_client \<Rightarrow> string \<Rightarrow> int \<Rightarrow> int \<Rightarrow> period list \<Rightarrow> ('w, historical_comparison) fin_op" where
  "computeHistoricalComparison xc u y m ps =
     (case dropWhile (\<lambda>p. \<not> (p_year p = y \<and> p_month p = m)) ps of
        [] \<Rightarrow> failR (Opaque ''requested period not found in list'')
      | p # rest \<Rightarrow>
          (let priors = take 3 rest
           in bindR (eachR (getTotalSpentForPeriod xc u) (compared_periods p priors)) (\<lambda>spent.
              retR (comparison p priors spent))))"

definition GetHistoricalComparison ::
  "pglib \<Rightarrow> 'w expense_client \<Rightarrow> string \<Rightarrow> int \<Rightarrow> int \<Rightarrow> ('w, historical_comparison) fin_op" where
  "GetHistoricalComparison pg xc u y m =
     bindR (GetCurrentPeriod pg u y m) (\<lambda>_.
     bindR (wrapR (Wrapped ''listing periods'') (r_ListPeriods pg u)) (\<lambda>ps.
     computeHistoricalComparison xc u y m ps))"

end
