(* ===== verification/Finance_Health.thy ===== *)
theory Finance_Health
  imports Finance_Dashboard
begin

text \<open>
  The monthly financial health score (\<^verbatim>\<open>finance/internal/service/healthscore*.go\<close>,
  \<^verbatim>\<open>finance/internal/model/healthscore.go\<close>): the weights of the components, the four component
  scores, the insight text, and the operations that compute, store and list scores.

  Floating-point expressions are evaluated operation by operation, without fused multiply-add, as
  on amd64; every product the code adds to another value except the squares of \<open>sampleStdDev\<close> is
  exact in any case.  Divisions by zero, which the code guards, do not produce infinities here.
\<close>

section \<open>Bands and weights\<close>

abbreviation health_key_savings :: string where "health_key_savings \<equiv> ''savings_achievement''"
abbreviation health_key_budget :: string where "health_key_budget \<equiv> ''budget_adherence''"
abbreviation health_key_allocation :: string where "health_key_allocation \<equiv> ''allocation_balance''"
abbreviation health_key_stability :: string where "health_key_stability \<equiv> ''spending_stability''"

definition FormulaVersion :: int where
  "FormulaVersion = 4"

definition Band :: "int \<Rightarrow> string" where
  "Band t = (if t \<ge> 80 then ''green'' else if t \<ge> 55 then ''amber'' else ''red'')"

record weights =
  w_no_savings :: bool
  w_no_stability :: bool
  w_savings :: rat
  w_budget :: rat
  w_alloc :: rat
  w_stability :: rat
  w_max_savings :: int
  w_max_budget :: int
  w_max_alloc :: int
  w_max_stability :: int

text \<open>The sum of the base weights of the components present, and a weight renormalised by it.\<close>

definition weight_denom :: "bool \<Rightarrow> bool \<Rightarrow> rat" where
  "weight_denom savings stability =
     (let denom = fadd 25 30; denom = (if savings then fadd denom 25 else denom)
      in if stability then fadd denom 20 else denom)"

definition effWeight :: "rat \<Rightarrow> rat \<Rightarrow> rat" where
  "effWeight denom base = fdiv (fmul 100 base) denom"

definition weight_max :: "platform \<Rightarrow> rat \<Rightarrow> rat \<Rightarrow> int" where
  "weight_max cvt denom base = float_to_int cvt 32 (of_int (math_Round (effWeight denom base)))"

definition resolveWeights :: "platform \<Rightarrow> bool \<Rightarrow> bool \<Rightarrow> weights" where
  "resolveWeights cvt savings stability =
     (let denom = weight_denom savings stability;
          mb = weight_max cvt denom 25;
          ma = weight_max cvt denom 30;
          ms = (if savings then weight_max cvt denom 25 else 0);
          mt = (if stability then weight_max cvt denom 20 else 0)
      in \<lparr>w_no_savings = \<not> savings, w_no_stability = \<not> stability,
          w_savings = (if savings then effWeight denom 25 else 0), w_budget = effWeight denom 25,
          w_alloc = effWeight denom 30, w_stability = (if stability then effWeight denom 20 else 0),
          w_max_savings = ms, w_max_budget = mb,
          w_max_alloc = i32 (ma + i32 (100 - i32 (i32 (i32 (ms + mb) + ma) + mt))),
          w_max_stability = mt\<rparr>)"

definition roundClamp :: "platform \<Rightarrow> rat \<Rightarrow> int \<Rightarrow> int" where
  "roundClamp cvt x mx =
     (let score = float_to_int cvt 32 (of_int (math_Round x)) in if score < 0 then 0 else if score > mx then mx else score)"

definition isProvisional :: "int \<Rightarrow> int \<Rightarrow> gtime \<Rightarrow> bool" where
  "isProvisional y m now \<longleftrightarrow> i32 (t_year now) = y \<and> i32 (t_month now) = m"

section \<open>Money in texts\<close>

definition currencySymbols :: "(string \<times> string) list" where
  "currencySymbols =
     [(''USD'', ''$''), (''EUR'', [CHR 0xE2, CHR 0x82, CHR 0xAC]), (''GBP'', [CHR 0xC2, CHR 0xA3]), (''JPY'', [CHR 0xC2, CHR 0xA5])]"

definition currencySymbol :: "string \<Rightarrow> string" where
  "currencySymbol code = (case map_of currencySymbols code of Some s \<Rightarrow> s | None \<Rightarrow> code @ '' '')"

definition twoDigits :: "int \<Rightarrow> string" where
  "twoDigits r = (if r < 10 then ''0'' @ show_int r else show_int r)"

fun comma_groups :: "string \<Rightarrow> string" where
  "comma_groups (a # b # c # d # s) = [a, b, c] @ '','' @ comma_groups (d # s)"
| "comma_groups s = s"

definition withThousandsSeparators :: "int \<Rightarrow> string" where
  "withThousandsSeparators n =
     (let digits = show_int n; lead = length digits mod 3
      in if length digits \<le> 3 then digits
         else (if lead > 0 then take lead digits @ '','' else []) @ comma_groups (drop lead digits))"

definition formatMoney :: "int \<Rightarrow> string \<Rightarrow> string" where
  "formatMoney cents symbol =
     (let negative = cents < 0;
          c = (if negative then i64 (- cents) else cents);
          dollars = go_quo c 100;
          remainder = go_rem c 100;
          formatted = symbol @ withThousandsSeparators dollars @ (if remainder \<noteq> 0 then ''.'' @ twoDigits remainder else [])
      in if negative then ''-'' @ formatted else formatted)"

section \<open>Savings and budget\<close>

definition savingsComponent :: "int \<Rightarrow> int \<Rightarrow> rat \<Rightarrow> string \<Rightarrow> rat \<times> string" where
  "savingsComponent actual target weight symbol =
     (let ratio = fdiv (f64 actual) (f64 target); ratio = (if ratio > 1 then 1 else ratio)
      in (fmul weight ratio, ''Saved '' @ formatMoney actual symbol @ '' of '' @ formatMoney target symbol @ '' target''))"

definition budgetFactor :: "int \<Rightarrow> int \<Rightarrow> rat" where
  "budgetFactor actual target =
     (if target = 0 then (if actual = 0 then 1 else 0)
      else let ratio = fdiv (f64 actual) (f64 target)
           in if ratio \<le> 1 then 1 else if ratio \<ge> 3 / 2 then 0 else fdiv (fsub (3 / 2) ratio) (1 / 2))"

definition budgetComponent :: "int \<Rightarrow> int \<Rightarrow> rat \<Rightarrow> string \<Rightarrow> rat \<times> string" where
  "budgetComponent actual target weight symbol =
     (fmul weight (budgetFactor actual target),
      ''Spent '' @ formatMoney actual symbol @ '' of '' @ formatMoney target symbol @ '' plan'')"

section \<open>Allocation\<close>

type_synonym category_dev = "string \<times> rat"

definition allocBalancedDetail :: string where
  "allocBalancedDetail = ''Balanced across categories''"

fun best_dev :: "(rat \<Rightarrow> rat \<Rightarrow> bool) \<Rightarrow> category_dev option \<Rightarrow> category_dev list \<Rightarrow> category_dev option" where
  "best_dev better best [] = best"
| "best_dev better best (d # ds) =
     best_dev better
       (if better (snd d) 0 \<and> (case best of None \<Rightarrow> True | Some b \<Rightarrow> better (snd d) (snd b)) then Some d else best) ds"

definition maxPositiveDev :: "category_dev list \<Rightarrow> category_dev option" where
  "maxPositiveDev devs = best_dev (\<lambda>a b. a > b) None devs"

definition minNegativeDev :: "category_dev list \<Rightarrow> category_dev option" where
  "minNegativeDev devs = best_dev (\<lambda>a b. a < b) None devs"

definition dev_points :: "platform \<Rightarrow> rat \<Rightarrow> int" where
  "dev_points cvt d = float_to_int cvt 64 (of_int (math_Round (fmul d 100)))"

definition allocationDetail :: "platform \<Rightarrow> category_dev list \<Rightarrow> string" where
  "allocationDetail cvt devs =
     (case maxPositiveDev devs of
        None \<Rightarrow> allocBalancedDetail
      | Some (label, d) \<Rightarrow>
          if dev_points cvt d \<le> 0 then allocBalancedDetail
          else label @ '' '' @ show_int (dev_points cvt d) @ '' pts over target share'')"

definition allocationComponent ::
  "platform \<Rightarrow> int \<Rightarrow> int \<Rightarrow> int \<Rightarrow> int \<Rightarrow> int \<Rightarrow> int \<Rightarrow> bool \<Rightarrow> rat \<Rightarrow> rat \<times> string \<times> category_dev list" where
  "allocationComponent cvt ea da sa ep dp sp no_savings weight =
     (let percent_sum = i32 (ep + dp);
          denom = i64 (ea + da);
          percent_sum = (if no_savings then percent_sum else i32 (percent_sum + sp));
          denom = (if no_savings then denom else i64 (denom + sa))
      in if denom = 0 then (weight, allocBalancedDetail, [])
         else let target = (\<lambda>p. fdiv (f64 p) (f64 percent_sum));
                  actual = (\<lambda>a. fdiv (f64 a) (f64 denom));
                  dev_e = fsub (actual ea) (target ep);
                  dev_d = fsub (actual da) (target dp);
                  wdev = fmul (1 / 2) \<bar>dev_e\<bar>;
                  wdev = (if dev_d > 0 then fadd wdev (fmul 1 \<bar>dev_d\<bar>) else fadd wdev (fmul (1 / 2) \<bar>dev_d\<bar>));
                  devs = [(''Essentials'', dev_e), (''Desires'', dev_d)];
                  dev_s = fsub (actual sa) (target sp);
                  wdev = (if no_savings then wdev
                          else if dev_s < 0 then fadd wdev (fmul 1 \<bar>dev_s\<bar>) else fadd wdev (fmul (1 / 2) \<bar>dev_s\<bar>));
                  devs = (if no_savings then devs else devs @ [(''Savings'', dev_s)]);
                  normalized = fdiv wdev 1;
                  normalized = (if normalized > 1 then 1 else normalized)
              in (fmul weight (fsub 1 normalized), allocationDetail cvt devs, devs))"

section \<open>Stability\<close>

definition stabilitySteadyDetail :: string where
  "stabilitySteadyDetail = ''Desires spend held steady month to month''"

definition meanInt64 :: "int list \<Rightarrow> rat" where
  "meanInt64 vs = fdiv (f64 (sum64 vs)) (f64 (int (length vs)))"

definition sampleStdDev :: "int list \<Rightarrow> rat \<Rightarrow> rat" where
  "sampleStdDev vs mean =
     (let sq = foldl (\<lambda>acc v. let delta = fsub (f64 v) mean in fadd acc (fmul delta delta)) 0 vs
      in math_Sqrt (fdiv sq (f64 (int (length vs) - 1))))"

definition stabilityDetail :: "platform \<Rightarrow> rat \<Rightarrow> string" where
  "stabilityDetail cvt cov =
     (let pct = float_to_int cvt 64 (of_int (math_Round (fmul cov 100)))
      in if pct \<le> 0 then stabilitySteadyDetail else ''Desires spend varied ~'' @ show_int pct @ ''% month to month'')"

definition stabilityComponent :: "platform \<Rightarrow> int list \<Rightarrow> rat \<Rightarrow> rat \<times> string \<times> bool" where
  "stabilityComponent cvt vs weight =
     (if length vs < 3 then (0, [], False)
      else let mean = meanInt64 vs
           in if mean = 0 then (weight, stabilitySteadyDetail, True)
              else let cov = fdiv (sampleStdDev vs mean) mean;
                       ratio = fsub 1 (fdiv cov 1);
                       ratio = (if ratio < 0 then 0 else ratio);
                       ratio = (if ratio > 1 then 1 else ratio)
                   in (fmul weight ratio, stabilityDetail cvt cov, True))"

section \<open>The insight\<close>

record insight_inputs =
  ii_savings :: int
  ii_savings_target :: int
  ii_spent :: int
  ii_target :: int
  ii_max_savings :: int
  ii_max_budget :: int
  ii_max_alloc :: int
  ii_max_stability :: int
  ii_devs :: "category_dev list"
  ii_symbol :: string

fun lowest :: "health_component \<Rightarrow> health_component list \<Rightarrow> health_component" where
  "lowest driver [] = driver"
| "lowest driver (c # cs) = lowest (if hc_score c < hc_score driver then c else driver) cs"

definition selectDriver :: "health_component list \<Rightarrow> health_component" where
  "selectDriver cs = lowest (hd cs) (tl cs)"

definition allAtMax :: "health_component list \<Rightarrow> bool" where
  "allAtMax cs \<longleftrightarrow> list_all (\<lambda>c. \<not> hc_score c < hc_max c) cs"

definition no_insight :: health_insight where
  "no_insight = \<lparr>hi_summary = [], hi_driver = [], hi_nudge = []\<rparr>"

definition buildInsight :: "platform \<Rightarrow> health_component list \<Rightarrow> insight_inputs \<Rightarrow> health_insight" where
  "buildInsight cvt cs i =
     (if allAtMax cs
      then \<lparr>hi_summary = ''You'' @ [CHR 0x27] @ ''re on plan across the board.'', hi_driver = [],
            hi_nudge = ''Keep your spending and savings on their current track to hold this score.''\<rparr>
      else let d = selectDriver cs; points = (\<lambda>mx. show_int (i32 (mx - hc_score d)))
           in if hc_key d = health_key_savings
              then \<lparr>hi_summary = ''Savings is the softest score this month.'', hi_driver = hc_key d,
                    hi_nudge = ''Move an extra '' @ formatMoney (i64 (ii_savings_target i - ii_savings i)) (ii_symbol i)
                      @ '' to savings to reach your target and lift your score about '' @ points (ii_max_savings i) @ '' points.''\<rparr>
              else if hc_key d = health_key_budget
              then let overspend = i64 (ii_spent i - ii_target i)
                   in \<lparr>hi_summary = ''Budget adherence is the softest score this month.'', hi_driver = hc_key d,
                       hi_nudge =
                         (if overspend > 0
                          then ''Trim about '' @ formatMoney overspend (ii_symbol i)
                            @ '' from essentials and desires to get back to plan and lift your score about ''
                            @ points (ii_max_budget i) @ '' points.''
                          else ''Keep essentials and desires within your plan to lift this score.'')\<rparr>
              else if hc_key d = health_key_allocation
              then \<lparr>hi_summary = ''Your category balance is the softest score this month.'', hi_driver = hc_key d,
                    hi_nudge =
                      (case (maxPositiveDev (ii_devs i), minNegativeDev (ii_devs i)) of
                         (Some (hi, dev), Some (lo, _)) \<Rightarrow>
                           hi @ '' is running '' @ show_int (dev_points cvt dev)
                           @ '' pts over its target share. Shifting spend toward '' @ lo
                           @ '' could recover up to '' @ points (ii_max_alloc i) @ '' points.''
                       | _ \<Rightarrow> ''Rebalancing your categories could recover up to '' @ points (ii_max_alloc i) @ '' points.'')\<rparr>
              else if hc_key d = health_key_stability
              then \<lparr>hi_summary = ''Spending stability is the softest score this month.'', hi_driver = hc_key d,
                    hi_nudge = ''Steadier discretionary spending month to month could lift your score about ''
                      @ points (ii_max_stability i) @ '' points.''\<rparr>
              else no_insight)"

section \<open>The score\<close>

definition sumActualsByType :: "expense_data list \<Rightarrow> int \<times> int \<times> int" where
  "sumActualsByType exps = (spent_on ''essentials'' exps, spent_on ''desires'' exps, spent_on ''savings'' exps)"

definition health_components ::
  "platform \<Rightarrow> period \<Rightarrow> int \<times> int \<times> int \<Rightarrow> int list \<Rightarrow> weights \<Rightarrow> int \<Rightarrow> int \<Rightarrow> string \<Rightarrow> health_component list \<times> category_dev list" where
  "health_components cvt p actuals window w savings_target combined_target symbol =
     (case actuals of (ea, da, sa) \<Rightarrow>
        let comp = (\<lambda>key x mx detail. \<lparr>hc_key = key, hc_score = roundClamp cvt x mx, hc_max = mx, hc_detail = detail\<rparr>);
            savings = savingsComponent sa savings_target (w_savings w) symbol;
            budget = budgetComponent (i64 (ea + da)) combined_target (w_budget w) symbol;
            (ax, adetail, devs) = allocationComponent cvt ea da sa (p_ess p) (p_des p) (p_sav p) (w_no_savings w) (w_alloc w);
            (tx, tdetail, _) = stabilityComponent cvt window (w_stability w)
        in ((if w_no_savings w then [] else [comp health_key_savings (fst savings) (w_max_savings w) (snd savings)])
            @ [comp health_key_budget (fst budget) (w_max_budget w) (snd budget),
               comp health_key_allocation ax (w_max_alloc w) adetail]
            @ (if w_no_stability w then [] else [comp health_key_stability tx (w_max_stability w) tdetail]),
            devs))"

definition clamp_total :: "int \<Rightarrow> int" where
  "clamp_total t = (let t = (if t < 0 then 0 else t) in if t > 100 then 100 else t)"

definition ComputeHealthScore ::
  "platform \<Rightarrow> period \<Rightarrow> expense_data list \<Rightarrow> int list \<Rightarrow> int \<Rightarrow> int \<Rightarrow> gtime \<Rightarrow> string \<Rightarrow> health_score" where
  "ComputeHealthScore cvt p exps window y m now currency =
     (let (ea, da, sa) = sumActualsByType exps;
          spent = i64 (ea + da);
          savings_target = go_quo (i64 (p_budget p * p_sav p)) 100;
          combined_target = go_quo (i64 (p_budget p * i32 (p_ess p + p_des p))) 100;
          w = resolveWeights cvt (savings_target \<noteq> 0) (length window \<ge> 3);
          symbol = currencySymbol currency;
          (cs, devs) = health_components cvt p (ea, da, sa) window w savings_target combined_target symbol;
          tot = clamp_total (foldl (\<lambda>t c. i32 (t + hc_score c)) 0 cs)
      in \<lparr>hs_year = y, hs_month = m, hs_total = tot, hs_band = Band tot, hs_provisional = isProvisional y m now,
          hs_version = FormulaVersion, hs_cur = currency, hs_components = cs,
          hs_insight = buildInsight cvt cs
            \<lparr>ii_savings = sa, ii_savings_target = savings_target, ii_spent = spent, ii_target = combined_target,
             ii_max_savings = w_max_savings w, ii_max_budget = w_max_budget w, ii_max_alloc = w_max_alloc w,
             ii_max_stability = w_max_stability w, ii_devs = devs, ii_symbol = symbol\<rparr>,
          hs_configure = False\<rparr>)"

section \<open>Reading and storing scores\<close>

definition afterTarget :: "int \<Rightarrow> int \<Rightarrow> int \<Rightarrow> int \<Rightarrow> bool" where
  "afterTarget y m ty tm \<longleftrightarrow> y > ty \<or> (y = ty \<and> m > tm)"

definition sumDesires :: "expense_data list \<Rightarrow> int" where
  "sumDesires exps = sum64 (map ed_amount (filter (\<lambda>e. ed_type e = ''desires'') exps))"

definition desires_window :: "period list \<Rightarrow> int \<Rightarrow> int \<Rightarrow> gtime \<Rightarrow> period list" where
  "desires_window ps y m now =
     take 6 (filter (\<lambda>p. \<not> afterTarget (p_year p) (p_month p) y m \<and> \<not> isProvisional (p_year p) (p_month p) now) ps)"

definition buildDesiresWindow :: "pglib \<Rightarrow> 'w expense_client \<Rightarrow> string \<Rightarrow> int \<Rightarrow> int \<Rightarrow> ('w, int list) fin_op" where
  "buildDesiresWindow pg xc u y m =
     bindR (wrapR (Wrapped ''listing periods'') (r_ListPeriods pg u)) (\<lambda>ps.
     bindR f_now (\<lambda>now.
     eachR (\<lambda>p. bindR (fetch_expenses xc (''fetching desires for '' @ month_name (p_year p) (p_month p)) u (p_year p) (p_month p))
                   (\<lambda>exps. retR (sumDesires exps)))
       (desires_window ps y m now)))"

definition computeHealthScore ::
  "platform \<Rightarrow> pglib \<Rightarrow> 'w expense_client \<Rightarrow> string \<Rightarrow> period \<Rightarrow> int \<Rightarrow> int \<Rightarrow> ('w, health_score) fin_op" where
  "computeHealthScore cvt pg xc u p y m =
     (let currency = (if p_cur p = [] then ''USD'' else p_cur p)
      in bindR (fetch_expenses xc ''fetching expenses'' u y m) (\<lambda>exps.
         bindR (buildDesiresWindow pg xc u y m) (\<lambda>window.
         bindR f_now (\<lambda>now.
         retR (ComputeHealthScore cvt p exps window y m now currency)))))"

text \<open>Storing a score is best effort: a failure is reported and forgotten.\<close>

definition store_score :: "pglib \<Rightarrow> string \<Rightarrow> health_score \<Rightarrow> ('w, unit) fin_op" where
  "store_score pg u score st = (Inr (), snd (r_UpsertHealthScore pg u score st))"

definition resolveHealthScore ::
  "platform \<Rightarrow> pglib \<Rightarrow> 'w expense_client \<Rightarrow> string \<Rightarrow> period \<Rightarrow> int \<Rightarrow> int \<Rightarrow> ('w, health_score) fin_op" where
  "resolveHealthScore cvt pg xc u p y m =
     bindR f_now (\<lambda>now.
     if isProvisional y m now then computeHealthScore cvt pg xc u p y m
     else bindR (wrapR (Wrapped ''getting stored health score'') (r_GetHealthScore pg u y m)) (\<lambda>stored.
          let fresh =
            bindR (computeHealthScore cvt pg xc u p y m) (\<lambda>score.
            bindR (store_score pg u score) (\<lambda>_.
            retR score))
          in case stored of
               None \<Rightarrow> fresh
             | Some s \<Rightarrow>
                 if hs_version s = FormulaVersion
                 then retR (if hs_cur s = [] then s\<lparr>hs_cur := p_cur p\<rparr> else s)
                 else fresh))"

definition configure_score :: "int \<Rightarrow> int \<Rightarrow> string \<Rightarrow> health_score" where
  "configure_score y m code = \<lparr>hs_year = y, hs_month = m, hs_total = 0, hs_band = [], hs_provisional = False, hs_version = 0,
     hs_cur = code, hs_components = [], hs_insight = no_insight, hs_configure = True\<rparr>"

definition GetHealthScore ::
  "platform \<Rightarrow> pglib \<Rightarrow> 'w expense_client \<Rightarrow> string \<Rightarrow> int \<Rightarrow> int \<Rightarrow> ('w, health_score) fin_op" where
  "GetHealthScore cvt pg xc u y m =
     bindR (GetCurrentPeriod pg u y m) (\<lambda>p.
     if p_budget p = 0 then retR (configure_score y m (p_cur p))
     else resolveHealthScore cvt pg xc u p y m)"

definition trend_selection :: "period list \<Rightarrow> int \<Rightarrow> int \<Rightarrow> int \<Rightarrow> period list" where
  "trend_selection ps y m months =
     rev (take (nat months) (filter (\<lambda>p. \<not> afterTarget (p_year p) (p_month p) y m \<and> p_budget p \<noteq> 0) ps))"

definition score_trend_point ::
  "platform \<Rightarrow> pglib \<Rightarrow> 'w expense_client \<Rightarrow> string \<Rightarrow> trend_scalar list \<Rightarrow> gtime \<Rightarrow> period \<Rightarrow> ('w, trend_scalar) fin_op" where
  "score_trend_point cvt pg xc u scalars now p =
     (let resolve =
        bindR (resolveHealthScore cvt pg xc u p (p_year p) (p_month p)) (\<lambda>s.
        retR \<lparr>ht_year = hs_year s, ht_month = hs_month s, ht_total = hs_total s, ht_band = hs_band s,
              ht_provisional = hs_provisional s, ht_version = hs_version s, ht_cur = p_cur p\<rparr>)
      in if isProvisional (p_year p) (p_month p) now then resolve
         else case find_first (\<lambda>t. ht_year t = p_year p \<and> ht_month t = p_month p) (rev scalars) of
                None \<Rightarrow> resolve
              | Some t \<Rightarrow> if ht_version t = FormulaVersion then retR (t\<lparr>ht_cur := p_cur p\<rparr>) else resolve)"

definition GetHealthScoreTrend ::
  "platform \<Rightarrow> pglib \<Rightarrow> 'w expense_client \<Rightarrow> string \<Rightarrow> int \<Rightarrow> int \<Rightarrow> int \<Rightarrow> ('w, trend_scalar list) fin_op" where
  "GetHealthScoreTrend cvt pg xc u y m months =
     bindR (wrapR (Wrapped ''listing periods'') (r_ListPeriods pg u)) (\<lambda>ps.
     bindR (wrapR (Wrapped ''listing health score scalars'') (r_ListHealthScoreScalars pg u)) (\<lambda>scalars.
     bindR f_now (\<lambda>now.
     eachR (score_trend_point cvt pg xc u scalars now) (trend_selection ps y m (clamp_months months)))))"

end
