(* ===== verification/Finance_Dashboard_Facts.thy ===== *)
theory Finance_Dashboard_Facts
  imports Finance_Dashboard
begin

text \<open>
  What the dashboard shows: the allocations of a budget add up to it, the amounts per category and
  per tag are a partition of what was spent, the cumulative chart ends at the total, and the
  on-track test computed with floating-point numbers is the exact comparison of the two rates.
\<close>

section \<open>Wrapping sums\<close>

lemma i64_zero [simp]: "i64 0 = 0"
  by (simp add: i64_def)

lemma sum64_fold: "foldl (\<lambda>a x. i64 (a + x)) (i64 a) xs = i64 (a + sum_list xs)"
  by (induction xs arbitrary: a) (simp_all add: i64_absorb add.assoc)

lemma sum64_sum_list: "sum64 xs = i64 (sum_list xs)"
  using sum64_fold [of 0 xs] by (simp add: sum64_def)

lemma sum64_Nil [simp]: "sum64 [] = 0"
  by (simp add: sum64_def)

lemma is_i64_sum64 [simp]: "is_i64 (sum64 xs)"
  by (simp add: sum64_sum_list)

lemma i64_sum_map: "i64 (sum_list (map (\<lambda>x. i64 (f x)) xs)) = i64 (sum_list (map f xs))"
proof (induction xs)
  case (Cons x xs)
  have "i64 (i64 (f x) + sum_list (map (\<lambda>x. i64 (f x)) xs)) = i64 (f x + i64 (sum_list (map (\<lambda>x. i64 (f x)) xs)))"
    by (simp add: i64_absorb)
  with Cons show ?case by (simp add: i64_absorb)
qed simp

text \<open>A list split by a key that takes the values \<open>ks\<close>: the sums of the parts add up.\<close>

lemma sum_list_by_key:
  assumes "distinct ks" "key ` set xs \<subseteq> set ks"
  shows "sum_list (map (\<lambda>k. sum_list (map f (filter (\<lambda>x. key x = k) xs))) ks) = (sum_list (map f xs) :: int)"
  using assms(2)
proof (induction xs)
  case (Cons x xs)
  have "(\<Sum>k\<leftarrow>ks. sum_list (map f (filter (\<lambda>x. key x = k) (x # xs))))
      = (\<Sum>k\<leftarrow>ks. (if k = key x then f x else 0) + sum_list (map f (filter (\<lambda>x. key x = k) xs)))"
    by (rule arg_cong [where f = sum_list], rule map_cong) auto
  also have "\<dots> = (\<Sum>k\<leftarrow>ks. if k = key x then f x else 0) + sum_list (map f xs)"
    using Cons by (simp add: sum_list_addf)
  also have "(\<Sum>k\<leftarrow>ks. if k = key x then f x else 0) = f x"
    using Cons.prems assms(1) by (simp add: sum_list_distinct_conv_sum_set)
  finally show ?case by simp
qed simp

lemma sum64_by_key:
  assumes "distinct ks" "key ` set xs \<subseteq> set ks"
  shows "i64 (sum_list (map (\<lambda>k. sum64 (map f (filter (\<lambda>x. key x = k) xs))) ks)) = sum64 (map f xs)"
  unfolding sum64_sum_list i64_sum_map sum_list_by_key [OF assms] ..

section \<open>The allocation of a budget\<close>

lemma allocate_cases:
  assumes "allocateCategories budget ep dp sp = (e, d, s)" "budget \<noteq> 0"
  defines "E \<equiv> go_quo (i64 (budget * ep)) 100" and "D \<equiv> go_quo (i64 (budget * dp)) 100"
    and "S \<equiv> go_quo (i64 (budget * sp)) 100"
  defines "r \<equiv> i64 (budget - i64 (i64 (E + D) + S))"
  shows "(e, d, s) = (E, D, S) \<and> r = 0 \<or> (e, d, s) \<in> {(i64 (E + r), D, S), (E, i64 (D + r), S), (E, D, i64 (S + r))}"
  using assms(1,2) unfolding allocateCategories_def Let_def E_def D_def S_def r_def by (auto split: if_splits)

lemma allocate_sum:
  assumes "allocateCategories budget ep dp sp = (e, d, s)" "is_i64 budget"
  shows "i64 (e + d + s) = budget"
proof (cases "budget = 0")
  case False
  define E D S where "E = go_quo (i64 (budget * ep)) 100" "D = go_quo (i64 (budget * dp)) 100" "S = go_quo (i64 (budget * sp)) 100"
  define r where "r = i64 (budget - i64 (i64 (E + D) + S))"
  have r: "i64 (E + D + S + r) = budget"
  proof -
    have "i64 (E + D + S + r) = i64 (E + D + S + (budget - i64 (i64 (E + D) + S)))" unfolding r_def by (rule i64_add_right)
    also have "\<dots> = i64 ((E + D + S + budget) - i64 (i64 (E + D) + S))" by (simp add: algebra_simps)
    also have "\<dots> = i64 ((E + D + S + budget) - (E + D + S))" by (simp only: i64_absorb)
    finally show ?thesis using assms(2) by simp
  qed
  have c: "(e, d, s) = (E, D, S) \<and> r = 0 \<or> (e, d, s) \<in> {(i64 (E + r), D, S), (E, i64 (D + r), S), (E, D, i64 (S + r))}"
    using allocate_cases [OF assms(1) False] unfolding E_D_S_def r_def .
  have "i64 (i64 (E + r) + D + S) = budget" using i64_add_left [of "E + r" "D + S"] r by (simp add: add.assoc add.commute [of r] add.left_commute [of r])
  moreover have "i64 (E + i64 (D + r) + S) = budget" using i64_add_right [of "E + S" "D + r"] r by (simp add: ac_simps)
  moreover have "i64 (E + D + i64 (S + r)) = budget" using i64_add_right [of "E + D" "S + r"] r by (simp add: ac_simps)
  moreover have "i64 (E + D + S) = budget" if "r = 0" using r that by simp
  ultimately show ?thesis using c by (elim disjE) auto
qed (use assms in \<open>simp add: allocateCategories_def\<close>)

lemma share_exact:
  assumes "0 \<le> budget" "budget * 100 \<le> 9223372036854775807" "0 \<le> p" "p \<le> 100"
  shows "go_quo (i64 (budget * p)) 100 = budget * p div 100"
proof -
  have "0 \<le> budget * p" "budget * p \<le> budget * 100" using assms by (simp_all add: mult_left_mono)
  then have "is_i64 (budget * p)" using assms(2) by (simp add: is_i64_def)
  with \<open>0 \<le> budget * p\<close> show ?thesis by (simp add: go_quo_nonneg)
qed

lemma allocate_near:
  assumes "allocateCategories budget ep dp sp = (e, d, s)" "0 \<le> budget" "budget * 100 \<le> 9223372036854775807" "percents_ok ep dp sp"
  shows "e + d + s = budget"
    "budget * ep div 100 \<le> e \<and> e \<le> budget * ep div 100 + 2"
    "budget * dp div 100 \<le> d \<and> d \<le> budget * dp div 100 + 2"
    "budget * sp div 100 \<le> s \<and> s \<le> budget * sp div 100 + 2"
proof -
  have p: "0 \<le> ep" "ep \<le> 100" "0 \<le> dp" "dp \<le> 100" "0 \<le> sp" "sp \<le> 100" "ep + dp + sp = 100"
    using assms(4) by (simp_all add: percents_ok_def)
  let ?e = "budget * ep div 100" and ?d = "budget * dp div 100" and ?s = "budget * sp div 100"
  have q: "go_quo (i64 (budget * ep)) 100 = ?e" "go_quo (i64 (budget * dp)) 100 = ?d" "go_quo (i64 (budget * sp)) 100 = ?s"
    using share_exact [OF assms(2,3)] p by simp_all
  have nn: "0 \<le> ?e" "0 \<le> ?d" "0 \<le> ?s"
    using assms(2) p by (simp_all add: pos_imp_zdiv_nonneg_iff)
  have tot: "budget * ep + budget * dp + budget * sp = budget * 100" by (simp only: p(7) flip: distrib_left)
  have r: "0 \<le> budget - (?e + ?d + ?s)" "budget - (?e + ?d + ?s) \<le> 2" using tot by linarith+
  have small: "i64 x = x" if "0 \<le> x" "x \<le> budget" for x
    using that assms(2,3) by (intro i64_id) (simp add: is_i64_def)
  have w: "i64 (?e + ?d) = ?e + ?d" "i64 (?e + ?d + ?s) = ?e + ?d + ?s"
    "i64 (budget - (?e + ?d + ?s)) = budget - (?e + ?d + ?s)"
    "i64 (?e + (budget - (?e + ?d + ?s))) = ?e + (budget - (?e + ?d + ?s))"
    "i64 (?d + (budget - (?e + ?d + ?s))) = ?d + (budget - (?e + ?d + ?s))"
    "i64 (?s + (budget - (?e + ?d + ?s))) = ?s + (budget - (?e + ?d + ?s))"
    using nn r by (simp_all add: small)
  have cases: "(e, d, s) \<in> {(?e, ?d, ?s)} \<and> budget = ?e + ?d + ?s \<or>
      (e, d, s) \<in> {(?e + (budget - (?e + ?d + ?s)), ?d, ?s), (?e, ?d + (budget - (?e + ?d + ?s)), ?s), (?e, ?d, ?s + (budget - (?e + ?d + ?s)))}"
  proof (cases "budget = 0")
    case True
    then show ?thesis using assms(1) by (simp add: allocateCategories_def)
  next
    case False
    show ?thesis using allocate_cases [OF assms(1) False] unfolding q w by auto
  qed
  then show "e + d + s = budget" by auto
  show "?e \<le> e \<and> e \<le> ?e + 2" "?d \<le> d \<and> d \<le> ?d + 2" "?s \<le> s \<and> s \<le> ?s + 2"
    using cases r by auto
qed

text \<open>
  C20: The period summary is consistent.  If the split of the period is a valid one and the budget
  is not so large that a hundredfold of it overflows, the three allocations add up to the budget
  and each is the exact share or at most 2 minor units more; if every expense is of one of the
  three types, the three amounts spent add up to the total (as \<^verbatim>\<open>int64\<close>); what remains is the
  budget less the total; and every category remains with its allocation less its spending.
\<close>

theorem period_summary_consistent:
  assumes "percents_ok (p_ess p) (p_des p) (p_sav p)" "0 \<le> p_budget p" "p_budget p * 100 \<le> 9223372036854775807"
    and "ed_type ` set exps \<subseteq> {''essentials'', ''desires'', ''savings''}"
    and s: "s = ComputePeriodSummary p exps y m now"
  shows "cs_allocated (ps_ess s) + cs_allocated (ps_des s) + cs_allocated (ps_sav s) = ps_budget s
    \<and> \<bar>100 * cs_allocated (ps_ess s) - p_budget p * p_ess p\<bar> \<le> 200
    \<and> \<bar>100 * cs_allocated (ps_des s) - p_budget p * p_des p\<bar> \<le> 200
    \<and> \<bar>100 * cs_allocated (ps_sav s) - p_budget p * p_sav p\<bar> \<le> 200
    \<and> i64 (cs_spent (ps_ess s) + cs_spent (ps_des s) + cs_spent (ps_sav s)) = ps_spent s
    \<and> ps_remaining s = i64 (ps_budget s - ps_spent s) \<and> ps_spent s = i64 (sum_list (map ed_amount exps))"
proof -
  obtain ea da sa where al: "allocateCategories (p_budget p) (p_ess p) (p_des p) (p_sav p) = (ea, da, sa)" by (metis prod_cases3)
  note near = allocate_near [OF al assms(2,3,1)]
  have fields: "cs_allocated (ps_ess s) = ea" "cs_allocated (ps_des s) = da" "cs_allocated (ps_sav s) = sa"
    "ps_budget s = p_budget p" "ps_spent s = sum64 (map ed_amount exps)"
    "cs_spent (ps_ess s) = spent_on ''essentials'' exps" "cs_spent (ps_des s) = spent_on ''desires'' exps"
    "cs_spent (ps_sav s) = spent_on ''savings'' exps" "ps_remaining s = i64 (p_budget p - sum64 (map ed_amount exps))"
    unfolding s ComputePeriodSummary_def Let_def al by (simp_all add: buildCategorySummary_def)
  have "\<bar>100 * ea - p_budget p * p_ess p\<bar> \<le> 200 \<and> \<bar>100 * da - p_budget p * p_des p\<bar> \<le> 200
      \<and> \<bar>100 * sa - p_budget p * p_sav p\<bar> \<le> 200"
    using near(2-) by linarith
  moreover have "i64 (spent_on ''essentials'' exps + spent_on ''desires'' exps + spent_on ''savings'' exps) = sum64 (map ed_amount exps)"
    using sum64_by_key [of "[''essentials'', ''desires'', ''savings'']" ed_type exps ed_amount] assms(4)
    by (simp add: spent_on_def add.assoc)
  ultimately show ?thesis unfolding fields using near(1) sum64_sum_list by blast
qed

theorem period_summary_consistent_witness:
  defines "p \<equiv> \<lparr>p_id = ''p'', p_user = ''u'', p_year = 2026, p_month = 2, p_budget = 1001, p_cur = ''USD'', p_ess = 50,
     p_des = 30, p_sav = 20, p_created = no_time, p_updated = no_time\<rparr>"
  defines "e \<equiv> \<lambda>t a. \<lparr>ed_id = [], ed_amount = a, ed_cur = ''USD'', ed_type = t, ed_tag = [], ed_date = ''2026-02-03''\<rparr>"
  defines "s \<equiv> ComputePeriodSummary p [e ''desires'' 7, e ''savings'' 5] 2026 2 no_time"
  shows "ps_spent s = 12 \<and> cs_allocated (ps_ess s) + cs_allocated (ps_des s) + cs_allocated (ps_sav s) = 1001"
proof -
  have p: "percents_ok (p_ess p) (p_des p) (p_sav p)" "0 \<le> p_budget p" "p_budget p * 100 \<le> 9223372036854775807" "p_budget p = 1001"
    by (simp_all add: p_def percents_ok_def)
  have e: "ed_type ` set [e ''desires'' 7, e ''savings'' 5] \<subseteq> {''essentials'', ''desires'', ''savings''}" by (simp add: e_def)
  note th = period_summary_consistent [OF p(1-3) e meta_eq_to_obj_eq [OF s_def]]
  have "i64 (sum_list (map ed_amount [e ''desires'' 7, e ''savings'' 5])) = 12" by (simp add: e_def i64_def)
  moreover have "ps_budget s = 1001" by (simp add: s_def ComputePeriodSummary_def Let_def p(4) split: prod.split)
  ultimately show ?thesis using th by (simp only:)
qed

section \<open>Spending by tag\<close>

text \<open>
  C33: The tag chart is a partition of the spending.  Whatever order the map is traversed in, every
  tag of the expenses has exactly one entry with the sum of its expenses, no other tag has one,
  the entries are in descending order of amount, their amounts add up to the total spent (as
  \<^verbatim>\<open>int64\<close>), and no entry is without a name.
\<close>

theorem tag_chart_partitions_spending:
  "let r = ComputeTagSpending rank exps names
   in distinct (map ts_id r) \<and> set (map ts_id r) = ed_tag ` set exps \<and> sorted_wrt (\<lambda>a b. ts_amount b \<le> ts_amount a) r
    \<and> i64 (sum_list (map ts_amount r)) = sum64 (map ed_amount exps)
    \<and> list_all (\<lambda>t. ts_amount t = sum64 (map ed_amount (filter (\<lambda>e. ed_tag e = ts_id t) exps)) \<and> ts_name t \<noteq> []) r"
proof (cases "exps = []")
  case False
  define r where "r = ComputeTagSpending rank exps names"
  let ?amount = "\<lambda>i. sum64 (map ed_amount (filter (\<lambda>e. ed_tag e = i) exps))"
  let ?keys = "order_by (\<lambda>a b. rank a \<le> rank b) (remdups (map ed_tag exps))"
  obtain f where f: "mset r = mset (map f ?keys)" "\<And>i. ts_id (f i) = i" "\<And>i. ts_amount (f i) = ?amount i" "\<And>i. ts_name (f i) \<noteq> []"
    and s: "sorted_wrt (\<lambda>a b. ts_amount b \<le> ts_amount a) r"
  proof
    let ?f = "\<lambda>i. \<lparr>ts_id = i, ts_name = (case map_of names i of None \<Rightarrow> ''Unknown'' | Some n \<Rightarrow> if n = [] then ''Unknown'' else n),
        ts_amount = ?amount i, ts_percent = (if sum64 (map ed_amount exps) > 0 then percent_of (?amount i) (sum64 (map ed_amount exps)) else 0)\<rparr>"
    have r: "r = order_by (\<lambda>a b. ts_amount b \<le> ts_amount a) (map ?f ?keys)"
      using False by (simp add: r_def ComputeTagSpending_def Let_def)
    then show "mset r = mset (map ?f ?keys)" by simp
    show "ts_id (?f i) = i" "ts_amount (?f i) = ?amount i" "ts_name (?f i) \<noteq> []" for i by (simp_all split: option.split)
    show "sorted_wrt (\<lambda>a b. ts_amount b \<le> ts_amount a) r" unfolding r by (rule sorted_order_by) auto
  qed
  have ids: "mset (map ts_id r) = mset ?keys" using f(1,2) by (simp add: image_mset.compositionality comp_def)
  have amounts: "mset (map ts_amount r) = mset (map ?amount ?keys)" using f(1,3) by (simp add: image_mset.compositionality comp_def)
  have keys: "distinct ?keys" "set ?keys = ed_tag ` set exps"
    by (metis distinct_remdups mset_order_by mset_eq_imp_distinct_iff) simp
  have "sum_list (map ts_amount r) = sum_list (map ?amount ?keys)" using amounts by (metis sum_mset_sum_list)
  then have "i64 (sum_list (map ts_amount r)) = sum64 (map ed_amount exps)" using sum64_by_key [OF keys(1), of ed_tag exps ed_amount] keys(2) by simp
  moreover have "distinct (map ts_id r)" "set (map ts_id r) = ed_tag ` set exps"
    using ids keys by (metis mset_eq_imp_distinct_iff) (metis ids keys(2) set_mset_mset)
  moreover have "set r = f ` set ?keys" using f(1) by (metis list.set_map set_mset_mset)
  then have "list_all (\<lambda>t. ts_amount t = ?amount (ts_id t) \<and> ts_name t \<noteq> []) r" using f by (auto simp: list_all_iff)
  ultimately show ?thesis using s unfolding Let_def r_def by blast
qed (simp add: ComputeTagSpending_def)

section \<open>The cumulative chart\<close>

lemma cumulate_days: "map cu_day (cumulate spend ideal c ds) = ds"
  by (induction ds arbitrary: c) (simp_all add: Let_def)

lemma cumulate_actual:
  "map cu_actual (cumulate spend ideal (i64 c) ds) = map (\<lambda>k. i64 (c + sum_list (map spend (take k ds)))) [1..<length ds + 1]"
proof (induction ds arbitrary: c)
  case (Cons d ds)
  have "[1..<length (d # ds) + 1] = 1 # map Suc [1..<length ds + 1]"
    by (subst upt_conv_Cons) (simp_all only: map_Suc_upt, simp_all)
  moreover have "cumulate spend ideal (i64 c) (d # ds)
      = \<lparr>cu_day = d, cu_actual = i64 (c + spend d), cu_ideal = ideal d\<rparr> # cumulate spend ideal (i64 (c + spend d)) ds"
    by (simp add: Let_def i64_absorb)
  ultimately show ?case using Cons [of "c + spend d"] by (simp add: comp_def add.assoc)
qed simp

lemma day_spend_eq:
  assumes "1 \<le> d" "d \<le> days"
  shows "day_spend exps y m days d = sum64 (map ed_amount (filter (\<lambda>e. parseDayForPeriod (ed_date e) y m = d) exps))"
proof -
  have "filter (\<lambda>e. let day = parseDayForPeriod (ed_date e) y m in day > 0 \<and> day \<le> days \<and> day = d) exps
      = filter (\<lambda>e. parseDayForPeriod (ed_date e) y m = d) exps"
    using assms by (intro filter_cong) (auto simp: Let_def)
  then show ?thesis unfolding day_spend_def by (simp only:)
qed

lemma period_day_range:
  assumes "1 \<le> m" "m \<le> 12"
  shows "0 \<le> parseDayForPeriod date y m \<and> parseDayForPeriod date y m \<le> daysInMonth y m"
proof -
  have "i32 (m + 1) = m + 1" using assms by (intro i32_id) (simp add: is_i32_def)
  then have "daysInMonth y m = days_in y m" using assms by (simp add: daysInMonth_def Let_def div_pos_pos_trivial mod_pos_pos_trivial)
  moreover have "28 \<le> days_in y m" using days_in_bounds [of y m] by simp
  ultimately show ?thesis
    using parse_date_range [of date] by (auto simp: parseDayForPeriod_def split: option.split)
qed

text \<open>
  The cumulative chart shows every dated expense once.  There is one point per day of the
  month, in order; the amount at the \<open>k\<close>-th day is the sum (as \<^verbatim>\<open>int64\<close>) of the expenses whose day
  in the period is at most \<open>k\<close>, and the last point is the sum of all expenses with a readable date,
  the expenses dated in other months included.
\<close>

lemma cumulative_chart_complete:
  assumes "1 \<le> m" "m \<le> 12" and r: "r = ComputeCumulativeSpend cvt exps budget y m (daysInMonth y m)"
  shows "map cu_day r = [1..daysInMonth y m]
    \<and> map cu_actual r = map (\<lambda>k. sum64 (map ed_amount (filter (\<lambda>e. 1 \<le> parseDayForPeriod (ed_date e) y m
          \<and> parseDayForPeriod (ed_date e) y m \<le> k) exps))) [1..daysInMonth y m]
    \<and> cu_actual (last r) = sum64 (map ed_amount (filter (\<lambda>e. parse_date (ed_date e) \<noteq> None) exps))"
proof -
  let ?n = "daysInMonth y m" and ?day = "\<lambda>e. parseDayForPeriod (ed_date e) y m"
  have range: "0 \<le> ?day e \<and> ?day e \<le> ?n" for e by (rule period_day_range [OF assms(1,2)])
  have pos: "1 \<le> ?day e \<longleftrightarrow> parse_date (ed_date e) \<noteq> None" for e
    using parse_date_range [of "ed_date e"] by (auto simp: parseDayForPeriod_def split: option.split)
  have n: "28 \<le> ?n" using days_in_bounds by (simp add: daysInMonth_def Let_def)
  have upto: "i64 (sum_list (map (day_spend exps y m ?n) [1..k])) = sum64 (map ed_amount (filter (\<lambda>e. 1 \<le> ?day e \<and> ?day e \<le> k) exps))"
    if "k \<le> ?n" for k
  proof -
    let ?xs = "filter (\<lambda>e. 1 \<le> ?day e \<and> ?day e \<le> k) exps"
    have "map (day_spend exps y m ?n) [1..k] = map (\<lambda>d. sum64 (map ed_amount (filter (\<lambda>e. ?day e = d) ?xs))) [1..k]"
    proof (rule map_cong [OF refl])
      fix d assume d: "d \<in> set [1..k]"
      then have "filter (\<lambda>e. ?day e = d) ?xs = filter (\<lambda>e. ?day e = d) exps" by (auto simp: intro!: filter_cong)
      with d that show "day_spend exps y m ?n d = sum64 (map ed_amount (filter (\<lambda>e. ?day e = d) ?xs))"
        by (simp add: day_spend_eq)
    qed
    moreover have "?day ` set ?xs \<subseteq> set [1..k]" by auto
    ultimately show ?thesis by (simp only: sum64_by_key [OF distinct_upto])
  qed
  have r': "r = cumulate (day_spend exps y m ?n) (ideal_spend cvt budget ?n) (i64 0) [1..?n]"
    by (simp add: r ComputeCumulativeSpend_def)
  have take: "take k [1..?n] = [1..int k]" if "k \<le> nat ?n" for k
    using that by (auto intro!: nth_equalityI)
  have days: "map int [1..<nat ?n + 1] = [1..?n]" by (auto intro!: nth_equalityI simp del: upt_Suc)
  let ?F = "\<lambda>k. sum64 (map ed_amount (filter (\<lambda>e. 1 \<le> ?day e \<and> ?day e \<le> k) exps))"
  have "map cu_actual r = map (\<lambda>k. i64 (sum_list (map (day_spend exps y m ?n) (take k [1..?n])))) [1..<nat ?n + 1]"
    unfolding r' cumulate_actual by simp
  also have "\<dots> = map (\<lambda>k. ?F (int k)) [1..<nat ?n + 1]"
  proof (rule map_cong [OF refl])
    fix k assume "k \<in> set [1..<nat ?n + 1]"
    then have k: "k \<le> nat ?n" "int k \<le> ?n" by auto
    show "i64 (sum_list (map (day_spend exps y m ?n) (take k [1..?n]))) = ?F (int k)"
      unfolding take [OF k(1)] by (rule upto [OF k(2)])
  qed
  also have "\<dots> = map ?F (map int [1..<nat ?n + 1])" by simp
  finally have actual: "map cu_actual r = map ?F [1..?n]" unfolding days .
  have last: "[1..?n] \<noteq> []" "last [1..?n] = ?n" using n by (simp_all add: upto_rec2)
  then have "r \<noteq> []" using actual by auto
  then have "cu_actual (last r) = last (map cu_actual r)" by (simp add: last_map)
  also have "\<dots> = ?F (last [1..?n])" unfolding actual by (rule last_map [OF last(1)])
  also have "\<dots> = ?F ?n" unfolding last(2) ..
  finally have "cu_actual (last r) = ?F ?n" .
  then have "cu_actual (last r) = sum64 (map ed_amount (filter (\<lambda>e. parse_date (ed_date e) \<noteq> None) exps))"
    by (simp add: range pos)
  with actual show ?thesis by (simp add: r' cumulate_days)
qed

theorem cumulative_chart_complete_witness:
  defines "e \<equiv> \<lambda>a d. \<lparr>ed_id = [], ed_amount = a, ed_cur = ''USD'', ed_type = ''desires'', ed_tag = [], ed_date = d\<rparr>"
  shows "cu_actual (last (ComputeCumulativeSpend (\<lambda>_ _. 0) [e 5 ''2026-02-03'', e 7 ''2025-12-31'', e 9 ''soon''] 1000 2026 2 (daysInMonth 2026 2))) = 12"
proof -
  have "parse_date ''2026-02-03'' \<noteq> None" "parse_date ''2025-12-31'' \<noteq> None" "parse_date ''soon'' = None" by code_simp+
  moreover have "sum64 [5, 7] = 12" by code_simp
  ultimately show ?thesis
    using cumulative_chart_complete [of 2 "ComputeCumulativeSpend (\<lambda>_ _. 0) [e 5 ''2026-02-03'', e 7 ''2025-12-31'', e 9 ''soon''] 1000 2026 2 (daysInMonth 2026 2)",
      OF _ _ refl] by (simp add: e_def)
qed

section \<open>The on-track test\<close>

lemma float_rate_test:
  assumes "0 \<le> b" "b < 2 ^ 47" "1 \<le> n" "n \<le> 31"
  shows "f64 r \<le> fdiv (f64 b) (f64 n) \<longleftrightarrow> r * n \<le> b"
proof -
  let ?x = "of_int b / of_int n :: rat"
  have f: "f64 b = of_int b" "f64 n = of_int n" unfolding f64_def using assms by simp_all
  have n: "(0::rat) < of_int n" using assms(3) by simp
  show ?thesis unfolding f unfolding fdiv_def f64_def
  proof
    assume "r * n \<le> b"
    then have "of_int (r * n) \<le> (of_int b :: rat)" by (simp only: of_int_le_iff)
    then have "of_int r \<le> ?x" using n by (simp add: le_divide_eq)
    then show "fl (of_int r) \<le> fl ?x" by (rule fl_mono)
  next
    assume le: "fl (of_int r) \<le> fl ?x"
    show "r * n \<le> b"
    proof (rule ccontr)
      assume "\<not> r * n \<le> b"
      then have rn: "b + 1 \<le> r * n" by simp
      then have "0 < r * n" using assms(1) by linarith
      then have r: "0 < r" using assms(3) by (simp add: zero_less_mult_iff)
      have "of_int (b + 1) \<le> (of_int (r * n) :: rat)" using rn by (simp only: of_int_le_iff)
      then have lower: "?x + 1 / of_int n \<le> of_int r" using n by (simp add: add_divide_distrib [symmetric] divide_le_eq)
      have third: "(1 / 32 :: rat) < 1 / of_int n"
        using n assms(4) by (simp add: frac_less2 less_divide_eq)
      have x: "?x < 2 ^ 47"
      proof -
        have "?x \<le> of_int b" using n assms(1,3) by (simp add: divide_le_eq mult_le_cancel_left1)
        also have "of_int b < (of_int (2 ^ 47) :: rat)" using assms(2) by (simp only: of_int_less_iff)
        finally show ?thesis by simp
      qed
      have near: "fl ?x \<le> ?x + 1 / 32"
      proof (cases "b = 0")
        case False
        then have pos: "0 < ?x" using n assms(1) by simp
        have "pow2 47 = 2 ^ 47" by (simp add: pow2_def)
        then have "exponent ?x < 47" using x by (intro exponent_le [OF pos]) simp
        then have "pow2 (exponent ?x - 53) \<le> pow2 (- 5)" by (intro pow2_mono) simp
        also have "pow2 (- 5) = 1 / 32" by (simp add: pow2_def)
        finally show ?thesis using fl_error [OF pos] by linarith
      qed simp
      show False
      proof (cases "r \<le> 2 ^ 53")
        case True
        then have "fl (of_int r) = of_int r" using r by (intro fl_of_int) simp
        with le near lower third show False by linarith
      next
        case False
        then have "(of_int (2 ^ 53) :: rat) \<le> of_int r" by (simp only: of_int_le_iff)
        then have "fl (of_int (2 ^ 53)) \<le> fl (of_int r :: rat)" by (rule fl_mono)
        then have "of_int (2 ^ 53) \<le> fl (of_int r :: rat)" by (simp only: fl_of_int abs_of_nonneg zero_le_power zero_le_numeral order_refl)
        then have "(2 ^ 53 :: rat) \<le> fl ?x" using le by simp
        with near x show False by simp
      qed
    qed
  qed
qed

text \<open>
  C32: The on-track test is exact.  The code compares the daily rate with the ideal rate in
  floating point; for a budget below \<open>2^47\<close> minor units the answer is that of the exact
  comparison: on track if and only if the daily rate, kept up for the whole period, stays within
  the budget.
\<close>

theorem on_track_is_exact:
  assumes "0 \<le> p_budget p" "p_budget p < 2 ^ 47" "s = ComputePeriodSummary p exps y m now"
  shows "ps_on_track s \<longleftrightarrow> ps_rate s * ps_days s \<le> ps_budget s"
proof -
  have d: "1 \<le> daysInMonth y m" "daysInMonth y m \<le> 31" using days_in_bounds [of "y + (i32 (m + 1) - 2) div 12" "(i32 (m + 1) - 2) mod 12 + 1"]
    by (simp_all add: daysInMonth_def Let_def)
  then show ?thesis
    unfolding assms(3) ComputePeriodSummary_def Let_def by (simp add: float_rate_test [OF assms(1,2)] split: prod.split)
qed

theorem on_track_is_exact_witness:
  defines "p \<equiv> \<lparr>p_id = ''p'', p_user = ''u'', p_year = 2026, p_month = 2, p_budget = 1001, p_cur = ''USD'', p_ess = 50,
     p_des = 30, p_sav = 20, p_created = no_time, p_updated = no_time\<rparr>"
  shows "\<not> ps_on_track (ComputePeriodSummary p [\<lparr>ed_id = [], ed_amount = 1008, ed_cur = [], ed_type = [], ed_tag = [], ed_date = []\<rparr>] 2026 2 no_time)"
proof -
  let ?e = "\<lparr>ed_id = [], ed_amount = 1008, ed_cur = [], ed_type = [], ed_tag = [], ed_date = []\<rparr>"
  let ?s = "ComputePeriodSummary p [?e] 2026 2 no_time"
  have "daysInMonth 2026 2 = 28" "computeDaysElapsed 2026 2 28 no_time = 28" "sum64 [1008] = 1008" "go_quo 1008 28 = 36" by code_simp+
  then have "ps_rate ?s = 36" "ps_days ?s = 28" "ps_budget ?s = 1001"
    by (simp_all add: ComputePeriodSummary_def Let_def p_def split: prod.split)
  with on_track_is_exact [of p ?s, OF _ _ refl] show ?thesis by (simp add: p_def)
qed

end
