(* ===== verification/Finance_Health_Facts.thy ===== *)
theory Finance_Health_Facts
  imports Finance_Health Finance_Dashboard_Facts
begin

text \<open>
  The health score is well formed: its components are within their maxima, the maxima add up to
  100 for every set of components, and the total and the band follow from the components.  Spending
  more never improves budget adherence.  An amount in a text reads back as the amount.
\<close>

section \<open>Weights\<close>

lemma to_int32: "- 2147483648 \<le> k \<Longrightarrow> k < 2147483648 \<Longrightarrow> float_to_int cvt 32 (of_int k) = k"
  by (simp add: float_to_int_def Let_def)

lemma weight_denom_values:
  "weight_denom False False = 55" "weight_denom True False = 80" "weight_denom False True = 75" "weight_denom True True = 100"
  by code_simp+

lemma rounded_weights:
  "math_Round (effWeight 55 25) = 45" "math_Round (effWeight 55 30) = 55"
  "math_Round (effWeight 80 25) = 31" "math_Round (effWeight 80 30) = 38"
  "math_Round (effWeight 75 25) = 33" "math_Round (effWeight 75 30) = 40" "math_Round (effWeight 75 20) = 27"
  "math_Round (effWeight 100 25) = 25" "math_Round (effWeight 100 30) = 30" "math_Round (effWeight 100 20) = 20"
  by code_simp+

lemma weight_max_value: "- 2147483648 \<le> math_Round (effWeight d b) \<Longrightarrow> math_Round (effWeight d b) < 2147483648 \<Longrightarrow>
    weight_max cvt d b = math_Round (effWeight d b)"
  unfolding weight_max_def by (rule to_int32)

lemma weight_maxima:
  "weight_max cvt 55 25 = 45" "weight_max cvt 55 30 = 55" "weight_max cvt 80 25 = 31" "weight_max cvt 80 30 = 38"
  "weight_max cvt 75 25 = 33" "weight_max cvt 75 30 = 40" "weight_max cvt 75 20 = 27"
  "weight_max cvt 100 25 = 25" "weight_max cvt 100 30 = 30" "weight_max cvt 100 20 = 20"
  by (simp_all add: weight_max_value rounded_weights)

lemma small_i32: "i32 0 = 0" "numeral n \<le> (2147483647::int) \<Longrightarrow> i32 (numeral n) = numeral n"
  by (rule i32_id, simp add: is_i32_def)+

lemma resolved_weights:
  "resolveWeights cvt True True = \<lparr>w_no_savings = False, w_no_stability = False, w_savings = effWeight 100 25,
     w_budget = effWeight 100 25, w_alloc = effWeight 100 30, w_stability = effWeight 100 20, w_max_savings = 25,
     w_max_budget = 25, w_max_alloc = 30, w_max_stability = 20\<rparr>"
  "resolveWeights cvt True False = \<lparr>w_no_savings = False, w_no_stability = True, w_savings = effWeight 80 25,
     w_budget = effWeight 80 25, w_alloc = effWeight 80 30, w_stability = 0, w_max_savings = 31,
     w_max_budget = 31, w_max_alloc = 38, w_max_stability = 0\<rparr>"
  "resolveWeights cvt False True = \<lparr>w_no_savings = True, w_no_stability = False, w_savings = 0,
     w_budget = effWeight 75 25, w_alloc = effWeight 75 30, w_stability = effWeight 75 20, w_max_savings = 0,
     w_max_budget = 33, w_max_alloc = 40, w_max_stability = 27\<rparr>"
  "resolveWeights cvt False False = \<lparr>w_no_savings = True, w_no_stability = True, w_savings = 0,
     w_budget = effWeight 55 25, w_alloc = effWeight 55 30, w_stability = 0, w_max_savings = 0,
     w_max_budget = 45, w_max_alloc = 55, w_max_stability = 0\<rparr>"
  unfolding resolveWeights_def Let_def weight_denom_values weight_maxima if_True if_False by (simp_all add: small_i32)

lemma resolved_maxima:
  fixes cvt :: platform and a b :: bool
  defines "w \<equiv> resolveWeights cvt a b"
  shows "w_max_savings w + w_max_budget w + w_max_alloc w + w_max_stability w = 100"
    "0 \<le> w_max_savings w" "0 < w_max_budget w" "0 < w_max_alloc w" "0 \<le> w_max_stability w"
    "w_no_savings w = (\<not> a)" "w_no_stability w = (\<not> b)" "\<not> a \<Longrightarrow> w_max_savings w = 0" "\<not> b \<Longrightarrow> w_max_stability w = 0"
  unfolding w_def by (cases a; cases b; simp add: resolved_weights)+

section \<open>Totals and bands\<close>

lemma roundClamp_range: "0 \<le> mx \<Longrightarrow> 0 \<le> roundClamp cvt x mx \<and> roundClamp cvt x mx \<le> mx"
  by (simp add: roundClamp_def Let_def)

definition component_ok :: "health_component \<Rightarrow> bool" where
  "component_ok c \<longleftrightarrow> 0 \<le> hc_score c \<and> hc_score c \<le> hc_max c"

lemma components_ok:
  assumes "health_components cvt p (ea, da, sa) window (resolveWeights cvt a b) st ct symbol = (cs, devs)"
  shows "list_all component_ok cs" "sum_list (map hc_max cs) = 100" "cs \<noteq> []"
    "hc_key ` set cs \<subseteq> {health_key_savings, health_key_budget, health_key_allocation, health_key_stability}"
  using assms resolved_maxima [where cvt = cvt and a = a and b = b]
  by (auto simp: health_components_def Let_def component_ok_def roundClamp_range split: prod.splits if_splits)

lemma sum_scores_bounds:
  assumes "list_all component_ok cs"
  shows "0 \<le> sum_list (map hc_score cs) \<and> sum_list (map hc_score cs) \<le> sum_list (map hc_max cs)"
  using assms by (induction cs) (auto simp: component_ok_def)

lemma fold_scores:
  assumes "list_all component_ok cs" "0 \<le> t" "t + sum_list (map hc_max cs) \<le> 100"
  shows "foldl (\<lambda>t c. i32 (t + hc_score c)) t cs = t + sum_list (map hc_score cs)"
  using assms
proof (induction cs arbitrary: t)
  case (Cons c cs)
  then have c: "0 \<le> hc_score c" "hc_score c \<le> hc_max c" "list_all component_ok cs" by (simp_all add: component_ok_def [of c])
  have "0 \<le> sum_list (map hc_max cs)" using sum_scores_bounds [OF c(3)] by linarith
  then have "is_i32 (t + hc_score c)" using Cons.prems c by (simp add: is_i32_def)
  with Cons c show ?case by (simp add: add.assoc)
qed simp

section \<open>The driver\<close>

lemma lowest_first:
  "\<exists>pre post. d # cs = pre @ lowest d cs # post \<and> list_all (\<lambda>c. hc_score (lowest d cs) < hc_score c) pre
     \<and> list_all (\<lambda>c. hc_score (lowest d cs) \<le> hc_score c) post"
proof (induction cs arbitrary: d)
  case (Cons c cs)
  show ?case
  proof (cases "hc_score c < hc_score d")
    case True
    from Cons [of c] obtain pre post where h: "c # cs = pre @ lowest c cs # post" "list_all (\<lambda>x. hc_score (lowest c cs) < hc_score x) pre"
      "list_all (\<lambda>x. hc_score (lowest c cs) \<le> hc_score x) post" by blast
    have "c \<in> set pre \<or> c = lowest c cs" using h(1) by (cases pre) auto
    then have "hc_score (lowest c cs) < hc_score d" using True h(2) by (auto simp: list_all_iff)
    then have "d # c # cs = (d # pre) @ lowest c cs # post" "list_all (\<lambda>x. hc_score (lowest c cs) < hc_score x) (d # pre)"
      using h(1,2) by simp_all
    moreover have "lowest d (c # cs) = lowest c cs" using True by simp
    ultimately show ?thesis using h(3) by metis
  next
    case False
    from Cons [of d] obtain pre post where h: "d # cs = pre @ lowest d cs # post" "list_all (\<lambda>x. hc_score (lowest d cs) < hc_score x) pre"
      "list_all (\<lambda>x. hc_score (lowest d cs) \<le> hc_score x) post" by blast
    show ?thesis
    proof (cases pre)
      case Nil
      then show ?thesis using h False by (intro exI [of _ "[]"] exI [of _ "c # cs"]) auto
    next
      case (Cons x xs)
      then have "x = d" "cs = xs @ lowest d cs # post" "hc_score (lowest d cs) < hc_score d" using h by auto
      with False h Cons show ?thesis by (intro exI [of _ "d # c # xs"] exI [of _ post]) auto
    qed
  qed
next
  case Nil
  show ?case by (intro exI [of _ "[]"]) simp
qed

lemma selectDriver_first:
  assumes "cs \<noteq> []"
  shows "selectDriver cs = hd (filter (\<lambda>c. list_all (\<lambda>d. hc_score c \<le> hc_score d) cs) cs)" "selectDriver cs \<in> set cs"
proof -
  obtain d ds where c: "cs = d # ds" using assms by (cases cs) auto
  let ?l = "lowest d ds"
  from lowest_first [of d ds] obtain pre post where h: "cs = pre @ ?l # post" "list_all (\<lambda>c. hc_score ?l < hc_score c) pre"
    "list_all (\<lambda>c. hc_score ?l \<le> hc_score c) post" unfolding c by blast
  have "filter (\<lambda>c. list_all (\<lambda>d. hc_score c \<le> hc_score d) cs) pre = []"
    using h(1,2) by (auto simp: filter_empty_conv list_all_iff not_le)
  moreover have "list_all (\<lambda>d. hc_score ?l \<le> hc_score d) cs" using h by (subst h(1)) (auto simp: list_all_iff)
  moreover have "filter (\<lambda>c. list_all (\<lambda>d. hc_score c \<le> hc_score d) cs) cs
      = filter (\<lambda>c. list_all (\<lambda>d. hc_score c \<le> hc_score d) cs) pre
        @ filter (\<lambda>c. list_all (\<lambda>d. hc_score c \<le> hc_score d) cs) (?l # post)"
    by (subst h(1)) (simp only: filter_append)
  ultimately have "hd (filter (\<lambda>c. list_all (\<lambda>d. hc_score c \<le> hc_score d) cs) cs) = ?l" by simp
  then show "selectDriver cs = hd (filter (\<lambda>c. list_all (\<lambda>d. hc_score c \<le> hc_score d) cs) cs)" by (simp add: selectDriver_def c)
  show "selectDriver cs \<in> set cs" by (subst h(1)) (simp add: selectDriver_def c)
qed

lemma insight_driver:
  assumes "list_all component_ok cs" "cs \<noteq> []"
    and "hc_key ` set cs \<subseteq> {health_key_savings, health_key_budget, health_key_allocation, health_key_stability}"
  shows "hi_driver (buildInsight cvt cs i) =
    (if list_all (\<lambda>c. hc_score c = hc_max c) cs then []
     else hc_key (hd (filter (\<lambda>c. list_all (\<lambda>d. hc_score c \<le> hc_score d) cs) cs)))"
proof -
  have "allAtMax cs \<longleftrightarrow> list_all (\<lambda>c. hc_score c = hc_max c) cs"
    using assms(1) unfolding allAtMax_def list_all_iff component_ok_def by (metis order_antisym_conv not_less order_refl)
  moreover have "hc_key (selectDriver cs) \<in> {health_key_savings, health_key_budget, health_key_allocation, health_key_stability}"
    using selectDriver_first(2) [OF assms(2)] assms(3) by blast
  then have "\<not> allAtMax cs \<Longrightarrow> hi_driver (buildInsight cvt cs i) = hc_key (selectDriver cs)"
    by (auto simp: buildInsight_def Let_def)
  moreover have "allAtMax cs \<Longrightarrow> hi_driver (buildInsight cvt cs i) = []" by (simp add: buildInsight_def)
  ultimately show ?thesis by (simp add: selectDriver_first(1) [OF assms(2)])
qed

lemma health_score_run:
  obtains cs devs where "hs_components (ComputeHealthScore cvt p exps window y m now currency) = cs"
    "hs_total (ComputeHealthScore cvt p exps window y m now currency) = sum_list (map hc_score cs)"
    "list_all component_ok cs" "sum_list (map hc_max cs) = 100"
    "hi_driver (hs_insight (ComputeHealthScore cvt p exps window y m now currency)) =
      (if list_all (\<lambda>c. hc_score c = hc_max c) cs then []
       else hc_key (hd (filter (\<lambda>c. list_all (\<lambda>d. hc_score c \<le> hc_score d) cs) cs)))"
proof -
  let ?s = "ComputeHealthScore cvt p exps window y m now currency"
  obtain ea da sa where act: "sumActualsByType exps = (ea, da, sa)" by (metis prod_cases3)
  let ?st = "go_quo (i64 (p_budget p * p_sav p)) 100" and ?ct = "go_quo (i64 (p_budget p * i32 (p_ess p + p_des p))) 100"
  let ?w = "resolveWeights cvt (?st \<noteq> 0) (length window \<ge> 3)"
  obtain cs devs where cs: "health_components cvt p (ea, da, sa) window ?w ?st ?ct (currencySymbol currency) = (cs, devs)" by (metis surj_pair)
  note ok = components_ok [OF cs]
  have "hs_components ?s = cs" by (simp add: ComputeHealthScore_def act cs Let_def)
  moreover have "hs_total ?s = clamp_total (foldl (\<lambda>t c. i32 (t + hc_score c)) 0 cs)" by (simp add: ComputeHealthScore_def act cs Let_def)
  moreover have "foldl (\<lambda>t c. i32 (t + hc_score c)) 0 cs = sum_list (map hc_score cs)" using fold_scores [OF ok(1), of 0] ok(2) by simp
  moreover have "clamp_total (sum_list (map hc_score cs)) = sum_list (map hc_score cs)"
    using sum_scores_bounds [OF ok(1)] ok(2) by (simp add: clamp_total_def Let_def)
  moreover obtain i where "hs_insight ?s = buildInsight cvt cs i" by (simp add: ComputeHealthScore_def act cs Let_def)
  ultimately show ?thesis using that [of cs] ok insight_driver [OF ok(1,3,4), of cvt i] by simp
qed

text \<open>
  C21: A health score is always well formed.  Whatever the period, the expenses, the history and the
  platform: every component's score lies between 0 and its maximum, the maxima add up to 100, the
  total is the sum of the scores and lies between 0 and 100, and the band is the one the total
  falls in.  The insight names no driver if every component is at its maximum, and otherwise the
  first of the components with the lowest score.
\<close>

theorem health_score_well_formed:
  "let s = ComputeHealthScore cvt p exps window y m now currency
   in list_all component_ok (hs_components s) \<and> sum_list (map hc_max (hs_components s)) = 100
      \<and> hs_total s = sum_list (map hc_score (hs_components s)) \<and> 0 \<le> hs_total s \<and> hs_total s \<le> 100
      \<and> hs_band s = (if hs_total s < 55 then ''red'' else if hs_total s < 80 then ''amber'' else ''green'')
      \<and> hs_version s = 4
      \<and> hi_driver (hs_insight s) =
          (if list_all (\<lambda>c. hc_score c = hc_max c) (hs_components s) then []
           else hc_key (hd (filter (\<lambda>c. list_all (\<lambda>d. hc_score c \<le> hc_score d) (hs_components s)) (hs_components s))))"
proof -
  let ?s = "ComputeHealthScore cvt p exps window y m now currency"
  have band: "hs_band ?s = Band (hs_total ?s)" "hs_version ?s = 4"
    by (simp_all add: ComputeHealthScore_def Let_def FormulaVersion_def split: prod.split)
  obtain cs where cs: "hs_components ?s = cs" "hs_total ?s = sum_list (map hc_score cs)" "list_all component_ok cs"
    "sum_list (map hc_max cs) = 100" "hi_driver (hs_insight ?s) =
      (if list_all (\<lambda>c. hc_score c = hc_max c) cs then []
       else hc_key (hd (filter (\<lambda>c. list_all (\<lambda>d. hc_score c \<le> hc_score d) cs) cs)))"
    by (rule health_score_run)
  have "0 \<le> hs_total ?s" "hs_total ?s \<le> 100" using sum_scores_bounds [OF cs(3)] cs(2,4) by simp_all
  then show ?thesis using cs band by (simp add: Let_def Band_def)
qed

section \<open>Budget adherence\<close>

lemma fdiv_mono: "a \<le> b \<Longrightarrow> 0 < c \<Longrightarrow> fdiv a c \<le> fdiv b c"
  by (simp add: fdiv_def fl_mono divide_right_mono)

lemma f64_mono: "a \<le> b \<Longrightarrow> f64 a \<le> f64 b"
  by (simp add: f64_def fl_mono)

lemma f64_pos: "0 < n \<Longrightarrow> 0 < f64 n"
proof -
  assume "0 < n"
  then have "f64 1 \<le> f64 n" by (intro f64_mono) simp
  moreover have "f64 1 = 1" unfolding f64_def using fl_of_int [of 1] by simp
  ultimately show ?thesis by simp
qed

lemma fl_one [simp]: "fl 1 = 1"
  using fl_of_int [of 1] by simp

lemma budget_factor_antimono:
  assumes "0 < target" "a \<le> b"
  shows "budgetFactor b target \<le> budgetFactor a target"
proof -
  have r: "fdiv (f64 a) (f64 target) \<le> fdiv (f64 b) (f64 target)" using assms by (intro fdiv_mono f64_mono f64_pos)
  have top: "fdiv (fsub (3 / 2) x) (1 / 2) \<le> 1" if "1 < x" for x
  proof -
    have "fsub (3 / 2) x \<le> fl (of_int 1 / 2)" unfolding fsub_def using that by (intro fl_mono) simp
    then have "fsub (3 / 2) x \<le> 1 / 2" using fl_half [of 1] by simp
    then have "fl (fsub (3 / 2) x / (1 / 2)) \<le> fl 1" by (intro fl_mono) simp
    then show ?thesis by (simp add: fdiv_def)
  qed
  have bot: "0 \<le> fdiv (fsub (3 / 2) x) (1 / 2)" if "x < 3 / 2" for x
    unfolding fdiv_def fsub_def using that by (intro fl_nonneg divide_nonneg_pos) simp_all
  have mid: "fdiv (fsub (3 / 2) y) (1 / 2) \<le> fdiv (fsub (3 / 2) x) (1 / 2)" if "x \<le> y" for x y
    unfolding fsub_def using that by (intro fdiv_mono fl_mono) simp_all
  show ?thesis using assms(1) r top bot mid by (auto simp: budgetFactor_def Let_def)
qed

lemma roundClamp_mono:
  assumes "x \<le> y" "0 \<le> mx" "\<bar>math_Round x\<bar> < 2147483648" "\<bar>math_Round y\<bar> < 2147483648"
  shows "roundClamp cvt x mx \<le> roundClamp cvt y mx"
proof -
  have "float_to_int cvt 32 (of_int (math_Round x)) = math_Round x" "float_to_int cvt 32 (of_int (math_Round y)) = math_Round y"
    using assms(3,4) by (simp_all add: to_int32)
  with math_Round_mono [OF assms(1)] assms(2) show ?thesis by (simp add: roundClamp_def Let_def)
qed

lemma budget_factor_range: "0 \<le> budgetFactor a t \<and> budgetFactor a t \<le> 1"
proof -
  have "fsub (3 / 2) x \<le> 1 / 2 \<and> 0 \<le> fsub (3 / 2) x" if "1 < x" "x < 3 / 2" for x
  proof -
    have "fsub (3 / 2) x \<le> fl (of_int 1 / 2)" unfolding fsub_def using that by (intro fl_mono) simp
    moreover have "0 \<le> fsub (3 / 2) x" unfolding fsub_def using that by (intro fl_nonneg) simp
    ultimately show ?thesis using fl_half [of 1] by simp
  qed
  then have "fl (fsub (3 / 2) x / (1 / 2)) \<le> fl 1 \<and> 0 \<le> fl (fsub (3 / 2) x / (1 / 2))" if "1 < x" "x < 3 / 2" for x
    using that by (intro conjI fl_mono fl_nonneg) auto
  then show ?thesis by (auto simp: budgetFactor_def Let_def fdiv_def)
qed

lemma budget_factor_full:
  assumes "0 < target" "a \<le> target"
  shows "budgetFactor a target = 1"
proof -
  have "fdiv (f64 a) (f64 target) \<le> fdiv (f64 target) (f64 target)" using assms by (intro fdiv_mono f64_mono f64_pos)
  also have "\<dots> = 1" using f64_pos [OF assms(1)] by (simp add: fdiv_def)
  finally show ?thesis using assms by (simp add: budgetFactor_def Let_def)
qed

lemma budget_factor_none:
  assumes "0 < target" "target < 2 ^ 52" "a < 2 ^ 53" "3 * target \<le> 2 * a"
  shows "budgetFactor a target = 0"
proof -
  have f: "f64 a = of_int a" "f64 target = of_int target" unfolding f64_def using assms by simp_all
  have "of_int (3 * target) \<le> (of_int (2 * a) :: rat)" using assms(4) by (simp only: of_int_le_iff)
  then have "(3 / 2 :: rat) \<le> of_int a / of_int target" using assms(1) by (simp add: le_divide_eq)
  then have "fl (of_int 3 / 2) \<le> fdiv (f64 a) (f64 target)" unfolding f fdiv_def by (intro fl_mono) simp
  then have "3 / 2 \<le> fdiv (f64 a) (f64 target)" using fl_half [of 3] by simp
  then show ?thesis using assms(1) by (simp add: budgetFactor_def Let_def)
qed

text \<open>
  Budget adherence falls with spending.  For a positive target, the score of the budget
  component never rises when more is spent; it is the full maximum at or under the target and 0
  from one and a half times the target on.
\<close>

lemma budget_score_falls_with_spending:
  assumes "0 < target" "a \<le> b" "0 \<le> w" "w \<le> 100" "0 \<le> mx"
  shows "roundClamp cvt (fst (budgetComponent b target w sy)) mx \<le> roundClamp cvt (fst (budgetComponent a target w sy)) mx
    \<and> (a \<le> target \<longrightarrow> fst (budgetComponent a target w sy) = fl w)
    \<and> (target < 2 ^ 52 \<and> a < 2 ^ 53 \<and> 3 * target \<le> 2 * a \<longrightarrow> roundClamp cvt (fst (budgetComponent a target w sy)) mx = 0)"
proof -
  have small: "\<bar>math_Round (fmul w (budgetFactor x target))\<bar> < 2147483648" for x
  proof -
    have "0 \<le> w * budgetFactor x target" using assms(3) budget_factor_range by simp
    then have "0 \<le> fmul w (budgetFactor x target)" by (simp add: fmul_def fl_nonneg)
    then have lo: "math_Round (of_int 0) \<le> math_Round (fmul w (budgetFactor x target))" by (intro math_Round_mono) simp
    have "w * budgetFactor x target \<le> 100 * 1" using assms(3,4) budget_factor_range [of x target] by (intro mult_mono) simp_all
    then have "fmul w (budgetFactor x target) \<le> fl (of_int 100)" unfolding fmul_def by (intro fl_mono) simp
    then have "fmul w (budgetFactor x target) \<le> of_int 100" using fl_of_int [of 100] by simp
    then have "math_Round (fmul w (budgetFactor x target)) \<le> 100" using math_Round_mono math_Round_of_int by metis
    with lo show ?thesis unfolding math_Round_of_int by linarith
  qed
  have "fmul w (budgetFactor b target) \<le> fmul w (budgetFactor a target)"
    unfolding fmul_def using budget_factor_antimono [OF assms(1,2)] assms(3) by (intro fl_mono mult_left_mono)
  then have "roundClamp cvt (fmul w (budgetFactor b target)) mx \<le> roundClamp cvt (fmul w (budgetFactor a target)) mx"
    using assms(5) small by (intro roundClamp_mono)
  moreover have "roundClamp cvt 0 mx = 0" using to_int32 [of 0 cvt] math_Round_of_int [of 0] assms(5) by (simp add: roundClamp_def)
  ultimately show ?thesis
    using budget_factor_full [OF assms(1)] budget_factor_none [OF assms(1), of a]
    by (simp add: budgetComponent_def fmul_def)
qed

lemma budget_score_falls_with_spending_witness:
  "roundClamp (\<lambda>_ _. 0) (fst (budgetComponent 1200 1000 25 ''$'')) 25 \<le> roundClamp (\<lambda>_ _. 0) (fst (budgetComponent 1100 1000 25 ''$'')) 25"
  using budget_score_falls_with_spending [of 1000 1100 1200 25 25] by simp

section \<open>Amounts in texts\<close>

text \<open>How a reader takes an amount: the sign, the symbol, the digits without commas, the cents after a point.\<close>

definition read_money :: "string \<Rightarrow> string \<Rightarrow> int" where
  "read_money symbol s =
     (let negative = has_prefix ''-'' s;
          t = filter (\<lambda>c. c \<noteq> CHR '','') (drop (length symbol) (if negative then drop 1 s else s));
          amount = 100 * digits_val (takeWhile (\<lambda>c. c \<noteq> CHR ''.'') t) + digits_val (drop 1 (dropWhile (\<lambda>c. c \<noteq> CHR ''.'') t))
      in if negative then - amount else amount)"

lemma digit_not_mark: "is_digit c \<Longrightarrow> c \<noteq> CHR '','' \<and> c \<noteq> CHR ''.'' \<and> c \<noteq> CHR ''-''"
  by (auto simp: is_digit_def byte_def)

lemma comma_groups_filter: "list_all (\<lambda>c. c \<noteq> CHR '','') s \<Longrightarrow> filter (\<lambda>c. c \<noteq> CHR '','') (comma_groups s) = s"
proof (induction s rule: comma_groups.induct)
  case (1 a b c d s)
  then show ?case by simp
qed (simp_all add: filter_id_conv list_all_iff)

lemma separators_filter:
  assumes "0 \<le> n"
  shows "filter (\<lambda>c. c \<noteq> CHR '','') (withThousandsSeparators n) = dec_digits n"
proof -
  have d: "list_all (\<lambda>c. c \<noteq> CHR '','') (dec_digits n)" using dec_digits_all_digit [OF assms] digit_not_mark by (auto simp: list_all_iff)
  then have take: "filter (\<lambda>c. c \<noteq> CHR '','') (take k (dec_digits n)) = take k (dec_digits n)" for k
    by (auto simp: filter_id_conv list_all_iff dest: in_set_takeD)
  have drop: "filter (\<lambda>c. c \<noteq> CHR '','') (comma_groups (drop k (dec_digits n))) = drop k (dec_digits n)" for k
    using d by (intro comma_groups_filter) (auto simp: list_all_iff dest: in_set_dropD)
  show ?thesis using assms d by (auto simp: withThousandsSeparators_def Let_def show_int_def take drop filter_id_conv list_all_iff)
qed

lemma comma_groups_hd: "s \<noteq> [] \<Longrightarrow> \<exists>t. comma_groups s = hd s # t"
  by (cases s rule: comma_groups.cases) simp_all

lemma separators_start:
  assumes "0 \<le> n"
  shows "\<exists>d ds. withThousandsSeparators n = d # ds \<and> is_digit d"
proof -
  obtain d ds where d: "dec_digits n = d # ds" "is_digit d"
    using dec_digits_all_digit [OF assms] dec_digits_not_Nil [of n] by (cases "dec_digits n") auto
  have s: "show_int n = d # ds" using assms d by (simp add: show_int_def)
  consider "length (d # ds) \<le> 3" | "\<not> length (d # ds) \<le> 3" "0 < length (d # ds) mod 3" | "\<not> length (d # ds) \<le> 3" "length (d # ds) mod 3 = 0"
    by (meson gr0I)
  then show ?thesis
  proof cases
    case 1
    then show ?thesis using d(2) by (simp add: withThousandsSeparators_def s)
  next
    case 2
    then obtain k where k: "length (d # ds) mod 3 = Suc k" using gr0_implies_Suc by blast
    have "withThousandsSeparators n = take (Suc k) (d # ds) @ '','' @ comma_groups (drop (Suc k) (d # ds))"
      unfolding withThousandsSeparators_def s Let_def k using 2(1) by (simp only: if_False zero_less_Suc if_True append_assoc)
    then show ?thesis using d(2) by simp
  next
    case 3
    then have "withThousandsSeparators n = comma_groups (d # ds)"
      unfolding withThousandsSeparators_def s Let_def 3(2) using 3(1) by simp
    then show ?thesis using comma_groups_hd [of "d # ds"] d(2) by auto
  qed
qed

lemma two_digits:
  assumes "0 \<le> r" "r < 100"
  shows "list_all is_digit (twoDigits r)" "digits_val (twoDigits r) = r"
proof -
  have s: "show_int r = dec_digits r" using assms by (simp add: show_int_def)
  have z: "''0'' = replicate 1 (digit_char 0)" by (simp add: digit_char_def char_of_def)
  show "list_all is_digit (twoDigits r)"
    using dec_digits_all_digit [OF assms(1)] by (simp add: twoDigits_def s) (simp add: is_digit_def byte_def)
  show "digits_val (twoDigits r) = r"
    unfolding twoDigits_def s z using digits_val_zeros [of 1 "dec_digits r"] assms(1) by simp
qed

lemma read_digits:
  assumes "0 \<le> n" "0 \<le> r" "r < 100"
  shows "let t = filter (\<lambda>c. c \<noteq> CHR '','') (withThousandsSeparators n @ (if r \<noteq> 0 then ''.'' @ twoDigits r else []))
    in 100 * digits_val (takeWhile (\<lambda>c. c \<noteq> CHR ''.'') t) + digits_val (drop 1 (dropWhile (\<lambda>c. c \<noteq> CHR ''.'') t)) = 100 * n + r"
proof -
  have two: "filter (\<lambda>c. c \<noteq> CHR '','') (twoDigits r) = twoDigits r"
    using two_digits(1) [OF assms(2,3)] digit_not_mark by (auto simp: filter_id_conv list_all_iff)
  have "\<forall>c\<in>set (dec_digits n). c \<noteq> CHR ''.''" using dec_digits_all_digit [OF assms(1)] digit_not_mark by (auto simp: list_all_iff)
  then have "takeWhile (\<lambda>c. c \<noteq> CHR ''.'') (dec_digits n) = dec_digits n" "dropWhile (\<lambda>c. c \<noteq> CHR ''.'') (dec_digits n) = []"
    "takeWhile (\<lambda>c. c \<noteq> CHR ''.'') (dec_digits n @ CHR ''.'' # twoDigits r) = dec_digits n"
    "dropWhile (\<lambda>c. c \<noteq> CHR ''.'') (dec_digits n @ CHR ''.'' # twoDigits r) = CHR ''.'' # twoDigits r"
    by (simp_all add: takeWhile_eq_all_conv dropWhile_eq_Nil_conv takeWhile_append2 dropWhile_append2)
  then show ?thesis
    by (simp add: Let_def separators_filter [OF assms(1)] two two_digits(2) [OF assms(2,3)] digits_val_dec_digits [OF assms(1)])
       (simp add: digits_val_def)
qed

text \<open>
  C34: An amount in a text reads back.  For every amount the code can hold (but the least
  \<^verbatim>\<open>int64\<close>, whose negation overflows) and every symbol, removing the sign, the symbol and
  the thousands separators from what \<^verbatim>\<open>formatMoney\<close> writes and reading the digits before and
  after the point as units and hundredths gives the amount.
\<close>

theorem money_text_reads_back:
  assumes "is_i64 cents" "- 9223372036854775808 < cents" "\<not> has_prefix ''-'' symbol"
  shows "read_money symbol (formatMoney cents symbol) = cents"
proof -
  let ?c = "\<bar>cents\<bar>"
  have c: "(if cents < 0 then i64 (- cents) else cents) = ?c" using assms(1,2) by (simp add: is_i64_def)
  have q: "go_quo ?c 100 = ?c div 100" "go_rem ?c 100 = ?c mod 100" by (simp_all add: go_quo_nonneg go_rem_nonneg)
  define t where "t = withThousandsSeparators (?c div 100) @ (if ?c mod 100 \<noteq> 0 then ''.'' @ twoDigits (?c mod 100) else [])"
  have f: "formatMoney cents symbol = (if cents < 0 then ''-'' else []) @ symbol @ t"
    unfolding formatMoney_def Let_def c q t_def by simp
  have r: "let t = filter (\<lambda>c. c \<noteq> CHR '','') t
    in 100 * digits_val (takeWhile (\<lambda>c. c \<noteq> CHR ''.'') t) + digits_val (drop 1 (dropWhile (\<lambda>c. c \<noteq> CHR ''.'') t)) = ?c"
    using read_digits [of "?c div 100" "?c mod 100"] unfolding t_def by simp
  obtain d ds where "withThousandsSeparators (?c div 100) = d # ds" "is_digit d"
    using separators_start [of "?c div 100"] pos_imp_zdiv_nonneg_iff [of 100 ?c] by auto
  then have "\<not> has_prefix ''-'' t" using digit_not_mark by (simp add: has_prefix_def t_def)
  then have p: "has_prefix ''-'' (formatMoney cents symbol) \<longleftrightarrow> cents < 0"
    using assms(3) unfolding f by (cases symbol) (simp_all add: has_prefix_def)
  have "drop (length symbol) (if cents < 0 then drop 1 (formatMoney cents symbol) else formatMoney cents symbol) = t"
    unfolding f by simp
  then show ?thesis using r unfolding read_money_def p Let_def by (simp only:) simp
qed

theorem money_text_reads_back_witness: "formatMoney (- 248012) ''$'' = ''-$2,480.12'' \<and> read_money ''$'' (formatMoney (- 248012) ''$'') = - 248012"
proof -
  have "formatMoney (- 248012) ''$'' = ''-$2,480.12''" by code_simp
  then show ?thesis using money_text_reads_back [of "- 248012" "''$''"] by (simp add: is_i64_def has_prefix_def)
qed

end
