(* ===== verification/Finance_ProRata.thy ===== *)
theory Finance_ProRata
  imports Finance_Service
begin

text \<open>
  Pro-rata expenses and the creation of budget periods
  (\<^verbatim>\<open>finance/internal/service/prorata.go\<close>): an expense spread over several months is one
  installment written to the ledger at once and a pending schedule for each later month; creating a
  period applies the schedules that target it, after the months skipped since the latest period
  have been created with the default settings.
\<close>

section \<open>Installments and months\<close>

definition CalculateInstallments :: "int \<Rightarrow> int \<Rightarrow> int list" where
  "CalculateInstallments amount months =
     (if months \<le> 0 then []
      else if months = 1 then [amount]
      else (let base = go_quo amount months;
                remainder = i64 (amount - i64 (base * months))
            in i64 (base + remainder) # replicate (nat (months - 1)) base))"

definition AdvanceMonth :: "int \<Rightarrow> int \<Rightarrow> int \<times> int" where
  "AdvanceMonth year month =
     (let m = i32 (month + 1) in if m > 12 then (i32 (year + 1), 1) else (year, m))"

definition reached :: "int \<Rightarrow> int \<Rightarrow> int \<Rightarrow> int \<Rightarrow> bool" where
  "reached year month targetYear targetMonth \<longleftrightarrow> year > targetYear \<or> year = targetYear \<and> month \<ge> targetMonth"

text \<open>
  The loop of \<^verbatim>\<open>computeMissedMonths\<close> from \<open>(year, month)\<close>; \<open>None\<close> is a loop that never ends
  (as for a target month 13 in the last year an \<^verbatim>\<open>int32\<close> can hold).
\<close>

partial_function (option) missed_from :: "int \<Rightarrow> int \<Rightarrow> int \<Rightarrow> int \<Rightarrow> (int \<times> int) list option" where
  "missed_from year month ty tm =
     (case AdvanceMonth year month of (y, m) \<Rightarrow>
        if reached y m ty tm then Some []
        else Option.bind (missed_from y m ty tm) (\<lambda>ms. Some ((y, m) # ms)))"

declare missed_from.simps [code]

definition computeMissedMonths :: "int \<Rightarrow> int \<Rightarrow> int \<Rightarrow> int \<Rightarrow> (int \<times> int) list option" where
  "computeMissedMonths lastYear lastMonth ty tm = missed_from lastYear lastMonth ty tm"

definition month_name :: "int \<Rightarrow> string" where
  "month_name m =
     (if m = 1 then ''January'' else if m = 2 then ''February'' else if m = 3 then ''March''
      else if m = 4 then ''April'' else if m = 5 then ''May'' else if m = 6 then ''June''
      else if m = 7 then ''July'' else if m = 8 then ''August'' else if m = 9 then ''September''
      else if m = 10 then ''October'' else if m = 11 then ''November'' else ''December'')"

text \<open>\<^verbatim>\<open>time.Date\<close> carries a month outside 1 to 12 into the year.\<close>

definition monthLabel :: "int \<Rightarrow> int \<Rightarrow> string" where
  "monthLabel year month =
     month_name ((month - 1) mod 12 + 1) @ '' '' @ show_padded 4 (year + (month - 1) div 12)"

section \<open>Creating a pro-rata expense\<close>

definition prorata_checks :: "prorata_request \<Rightarrow> apierr option" where
  "prorata_checks req =
     v_result (v_checks
       [(trim_space (pr_name req) \<noteq> [], ''name'', ''required''),
        (pr_amount req > 0, ''totalAmountInMinorUnits'', ''must be positive''),
        (pr_months req \<ge> 2, ''spreadOverMonths'', ''must be at least 2''),
        (pr_type req \<in> {''essentials'', ''desires'', ''savings''}, ''expenseType'', ''must be essentials, desires, or savings''),
        (trim_space (pr_tag req) \<noteq> [], ''tagId'', ''required''),
        (trim_space (pr_date req) \<noteq> [], ''expenseDateIso'', ''required''),
        (pr_year req \<ge> 1, ''periodYear'', ''required''),
        (pr_month req \<ge> 1 \<and> pr_month req \<le> 12, ''periodMonth'', ''must be between 1 and 12'')])"

definition resolveProRataTransactionCurrency :: "golib \<Rightarrow> period \<Rightarrow> prorata_request \<Rightarrow> apierr + string" where
  "resolveProRataTransactionCurrency lib p req =
     (let tc = normalizeCurrencyCode lib (pr_cur req);
          code = (if tc \<noteq> [] then tc else normalizeCurrencyCode lib (p_cur p))
      in case validateSupportedCurrency lib ''transactionCurrency'' code of
           Some e \<Rightarrow> Inl e
         | None \<Rightarrow> Inr code)"

definition period_ref_of :: "period \<Rightarrow> string \<Rightarrow> period_ref" where
  "period_ref_of p reporting = \<lparr>pe_id = p_id p, pe_user = p_user p, pe_year = p_year p, pe_month = p_month p,
     pe_rcur = reporting, pe_source = ''finance_service''\<rparr>"

definition first_installment :: "string \<Rightarrow> prorata_request \<Rightarrow> period \<Rightarrow> string \<Rightarrow> string \<Rightarrow> string \<Rightarrow> int \<Rightarrow>
    captured_snapshot \<Rightarrow> installment_input" where
  "first_installment u req p reporting tc grp amount snap =
     \<lparr>in_user = u, in_period = period_ref_of p reporting, in_name = pr_name req, in_amount = amount, in_cur = tc,
      in_type = pr_type req, in_tag = pr_tag req, in_date = pr_date req, in_group = grp, in_index = 1,
      in_total = pr_months req, in_snap = Some snap\<rparr>"

definition schedule_for :: "string \<Rightarrow> prorata_request \<Rightarrow> string \<Rightarrow> string \<Rightarrow> string \<Rightarrow> captured_snapshot \<Rightarrow>
    int \<Rightarrow> int \<Rightarrow> int \<Rightarrow> int \<Rightarrow> schedule" where
  "schedule_for u req grp tc reporting snap amount year month i =
     \<lparr>sc_id = [], sc_user = u, sc_group = grp, sc_name = pr_name req, sc_amount = amount, sc_cur = tc,
      sc_type = pr_type req, sc_tag = pr_tag req, sc_year = year, sc_month = month, sc_index = i,
      sc_total = pr_months req, sc_status = [], sc_created = no_time, sc_applied = None, sc_tamount = amount,
      sc_tcur = tc, sc_rcur = reporting, sc_snap = Some snap, sc_reason = []\<rparr>"

text \<open>The loop over installments 2 to n: \<open>amounts\<close> are those not yet scheduled.\<close>

fun create_schedules :: "pglib \<Rightarrow> (int \<Rightarrow> int \<Rightarrow> int \<Rightarrow> int \<Rightarrow> schedule) \<Rightarrow> int \<Rightarrow> int \<Rightarrow> int \<Rightarrow> int list \<Rightarrow>
    ('w, schedule list) fin_op" where
  "create_schedules pg mk year month i [] = retR []"
| "create_schedules pg mk year month i (a # amounts) =
     (case AdvanceMonth year month of (y, m) \<Rightarrow>
        bindR (wrapR (\<lambda>_. Api (Internal
            ''First installment was created but schedule creation failed. Please contact support.''))
          (r_CreateProRataSchedule pg (mk a y m i))) (\<lambda>s.
        bindR (create_schedules pg mk y m (i + 1) amounts) (\<lambda>ss.
        retR (s # ss))))"

record prorata_expense =
  px_id :: string
  px_name :: string
  px_amount :: int
  px_tcur :: string
  px_cur :: string
  px_type :: string
  px_tag :: string
  px_date :: string
  px_year :: int
  px_month :: int
  px_prorata :: bool
  px_group :: string
  px_index :: int
  px_total :: int
  px_created :: string

record prorata_response =
  po_expense :: prorata_expense
  po_schedules :: "schedule list"

definition prorata_expense_of :: "prorata_request \<Rightarrow> string \<Rightarrow> string \<Rightarrow> int \<Rightarrow> created_expense \<Rightarrow> prorata_expense" where
  "prorata_expense_of req tc grp amount created =
     \<lparr>px_id = ce_id created, px_name = pr_name req, px_amount = amount, px_tcur = tc, px_cur = tc,
      px_type = pr_type req, px_tag = pr_tag req, px_date = pr_date req, px_year = pr_year req, px_month = pr_month req,
      px_prorata = True, px_group = grp, px_index = 1, px_total = pr_months req, px_created = ce_created created\<rparr>"

definition new_uuid :: "('w, string) fin_op" where
  "new_uuid st = (Inr (gen_uuid st), st\<lparr>f_uuid_next := f_uuid_next st + 1\<rparr>)"

definition CreateProRataExpense :: "golib \<Rightarrow> pglib \<Rightarrow> 'w expense_client \<Rightarrow> 'w capture_client \<Rightarrow> string \<Rightarrow>
    prorata_request \<Rightarrow> ('w, prorata_response) fin_op" where
  "CreateProRataExpense lib pg xc fx u req =
     bindR (apiR (prorata_checks req)) (\<lambda>_.
     bindR (GetCurrentPeriod pg u (pr_year req) (pr_month req)) (\<lambda>p.
     let reporting = normalizeCurrencyCode lib (p_cur p)
     in if \<not> currency_supported reporting
        then failR (Api (Internal ''creation period reporting currency is not supported''))
        else bindR (liftR (map_sum Api id (resolveProRataTransactionCurrency lib p req))) (\<lambda>tc.
        let installments = CalculateInstallments (pr_amount req) (pr_months req)
        in bindR new_uuid (\<lambda>grp.
           bindR f_now (\<lambda>now.
           case fx of
             None \<Rightarrow> failR (Api (Internal ''pro-rata snapshot capture is not configured''))
           | Some capture \<Rightarrow>
               bindR (in_world (capture [tc, reporting] (fmt_rfc3339 (t_utc now)))) (\<lambda>snapshot.
               case snapshot of
                 None \<Rightarrow> failR (Api (Internal ''FX returned an empty pro-rata snapshot''))
               | Some snap \<Rightarrow>
                   bindR (wrapR (Wrapped ''creating first installment via expense service'')
                     (in_world (xc_install xc (first_installment u req p reporting tc grp (hd installments) snap)))) (\<lambda>created.
                   bindR (create_schedules pg (schedule_for u req grp tc reporting snap)
                     (pr_year req) (pr_month req) 2 (tl installments)) (\<lambda>schedules.
                   retR \<lparr>po_expense = prorata_expense_of req tc grp (hd installments) created,
                         po_schedules = schedules\<rparr>))))))))"

definition GetUpcomingProRata :: "pglib \<Rightarrow> string \<Rightarrow> ('w, schedule list) fin_op" where
  "GetUpcomingProRata pg u = wrapR (Wrapped ''getting upcoming pro-rata'') (r_GetUpcomingProRata pg u)"

section \<open>Applying the schedules of a month\<close>

definition classifyProRataExpenseError :: "goerr \<Rightarrow> string" where
  "classifyProRataExpenseError err =
     (case as_api err of
        Some e \<Rightarrow> if ae_code e = fe_snapshot_missing then fe_snapshot_missing else []
      | None \<Rightarrow>
          (case as_grpc err of
             Some (c, m) \<Rightarrow> if c = GFailedPrecondition then fe_snapshot_missing else []
           | None \<Rightarrow> []))"

text \<open>\<^verbatim>\<open>markProRataFailed\<close>: an error of the update is only reported; the result is the schedule's
  status as the code leaves it in memory.\<close>

definition markProRataFailed :: "pglib \<Rightarrow> schedule \<Rightarrow> string \<Rightarrow> ('w, schedule) fin_op" where
  "markProRataFailed pg s reason st =
     (case r_MarkProRataFailed pg (sc_id s) reason st of
        (Inl e, st') \<Rightarrow> (Inr s, st')
      | (Inr _, st') \<Rightarrow> (Inr (s\<lparr>sc_status := failed, sc_reason := reason\<rparr>), st'))"

definition schedule_date :: "schedule \<Rightarrow> string" where
  "schedule_date s = show_padded 4 (sc_year s) @ ''-'' @ show_padded 2 (sc_month s) @ ''-01''"

definition installment_of :: "golib \<Rightarrow> string \<Rightarrow> period_ref \<Rightarrow> schedule \<Rightarrow> installment_input" where
  "installment_of lib u pref s =
     \<lparr>in_user = u, in_period = pref, in_name = sc_name s, in_amount = sc_amount s,
      in_cur = normalizeCurrencyCode lib (sc_tcur s), in_type = sc_type s, in_tag = sc_tag s, in_date = schedule_date s,
      in_group = sc_group s, in_index = sc_index s, in_total = sc_total s, in_snap = sc_snap s\<rparr>"

text \<open>
  \<^verbatim>\<open>applyOneProRataSchedule\<close>: \<open>Some\<close> is the applied schedule.  It never fails: an error moves the
  schedule to \<^verbatim>\<open>failed\<close>, or is reported and leaves it pending.
\<close>

definition applyOneProRataSchedule :: "golib \<Rightarrow> pglib \<Rightarrow> 'w expense_client \<Rightarrow> string \<Rightarrow> schedule \<Rightarrow> string \<Rightarrow>
    period_ref \<Rightarrow> ('w, schedule option) fin_op" where
  "applyOneProRataSchedule lib pg xc u s reporting pref st =
     (case sc_snap s of
        None \<Rightarrow> bindR (markProRataFailed pg s fe_snapshot_missing) (\<lambda>_. retR None) st
      | Some snap \<Rightarrow>
          if map_of (cs_rates snap) reporting = None
          then bindR (markProRataFailed pg s fe_snapshot_missing) (\<lambda>_. retR None) st
          else (case in_world (xc_install xc (installment_of lib u pref s)) st of
                  (Inl err, st1) \<Rightarrow>
                    (let reason = classifyProRataExpenseError err
                     in if reason \<noteq> [] then bindR (markProRataFailed pg s reason) (\<lambda>_. retR None) st1
                        else (Inr None, st1))
                | (Inr _, st1) \<Rightarrow>
                    (case r_MarkProRataApplied pg (sc_id s) st1 of
                       (Inl e, st2) \<Rightarrow> (Inr None, st2)
                     | (Inr _, st2) \<Rightarrow> (Inr (Some (s\<lparr>sc_status := applied\<rparr>)), st2))))"

fun apply_each :: "(schedule \<Rightarrow> ('w, schedule option) fin_op) \<Rightarrow> schedule list \<Rightarrow> ('w, schedule list) fin_op" where
  "apply_each f [] = retR []"
| "apply_each f (s # ss) =
     bindR (f s) (\<lambda>r. bindR (apply_each f ss) (\<lambda>rs. retR (case r of None \<Rightarrow> rs | Some x \<Rightarrow> x # rs)))"

definition applyPendingProRata :: "golib \<Rightarrow> pglib \<Rightarrow> 'w expense_client \<Rightarrow> string \<Rightarrow> period \<Rightarrow> ('w, schedule list) fin_op" where
  "applyPendingProRata lib pg xc u p =
     bindR (wrapR (Wrapped ''getting pending pro-rata'') (r_GetPendingProRata pg u (p_year p) (p_month p))) (\<lambda>pend.
     if length pend = 0 then retR []
     else (let reporting = normalizeCurrencyCode lib (p_cur p)
           in apply_each (\<lambda>s. applyOneProRataSchedule lib pg xc u s reporting (period_ref_of p reporting)) pend))"

text \<open>An error of \<^verbatim>\<open>applyPendingProRata\<close> is reported by both callers, which carry on.\<close>

definition apply_or_report :: "golib \<Rightarrow> pglib \<Rightarrow> 'w expense_client \<Rightarrow> string \<Rightarrow> period \<Rightarrow> ('w, schedule list) fin_op" where
  "apply_or_report lib pg xc u p st =
     (case applyPendingProRata lib pg xc u p st of
        (Inl e, st') \<Rightarrow> (Inr [], st')
      | (Inr ss, st') \<Rightarrow> (Inr ss, st'))"

section \<open>Creating periods\<close>

definition auto_period :: "string \<Rightarrow> default_settings \<Rightarrow> int \<times> int \<Rightarrow> period" where
  "auto_period u d ym = \<lparr>p_id = [], p_user = u, p_year = fst ym, p_month = snd ym, p_budget = d_budget d,
     p_cur = d_cur d, p_ess = d_ess d, p_des = d_des d, p_sav = d_sav d, p_created = no_time, p_updated = no_time\<rparr>"

fun create_missed :: "golib \<Rightarrow> pglib \<Rightarrow> 'w expense_client \<Rightarrow> string \<Rightarrow> default_settings \<Rightarrow> (int \<times> int) list \<Rightarrow>
    ('w, string list \<times> schedule list) fin_op" where
  "create_missed lib pg xc u d [] = retR ([], [])"
| "create_missed lib pg xc u d (ym # yms) =
     bindR (wrapR (Wrapped (''auto-creating period for '' @ show_int (fst ym) @ ''-'' @ show_padded 2 (snd ym)))
       (r_CreatePeriod pg (auto_period u d ym))) (\<lambda>p.
     bindR (apply_or_report lib pg xc u p) (\<lambda>ss.
     bindR (create_missed lib pg xc u d yms) (\<lambda>(labels, rest).
     retR (monthLabel (fst ym) (snd ym) # labels, ss @ rest))))"

text \<open>\<open>None\<close> is a loop over the months that does not end.\<close>

definition createMissedPeriods :: "golib \<Rightarrow> pglib \<Rightarrow> 'w expense_client \<Rightarrow> string \<Rightarrow> period option \<Rightarrow> int \<Rightarrow> int \<Rightarrow>
    ('w, string list \<times> schedule list) fin_op option" where
  "createMissedPeriods lib pg xc u latest ty tm =
     (case latest of
        None \<Rightarrow> Some (retR ([], []))
      | Some l \<Rightarrow>
          (case computeMissedMonths (p_year l) (p_month l) ty tm of
             None \<Rightarrow> None
           | Some [] \<Rightarrow> Some (retR ([], []))
           | Some missed \<Rightarrow> Some (bindR (getPeriodCreationDefaults lib pg u) (\<lambda>d. create_missed lib pg xc u d missed))))"

record create_period_response =
  pp_period :: period
  pp_applied :: "schedule list"
  pp_auto :: "string list"

definition new_period :: "string \<Rightarrow> create_period_request \<Rightarrow> int \<Rightarrow> string \<Rightarrow> period" where
  "new_period u req budget reporting = \<lparr>p_id = [], p_user = u, p_year = cp_year req, p_month = cp_month req,
     p_budget = budget, p_cur = reporting, p_ess = cp_ess req, p_des = cp_des req, p_sav = cp_sav req,
     p_created = no_time, p_updated = no_time\<rparr>"

definition period_checks :: "create_period_request \<Rightarrow> int \<Rightarrow> apierr option" where
  "period_checks req budget =
     v_result (v_checks
       [(cp_month req \<ge> 1 \<and> cp_month req \<le> 12, ''month'', ''must be between 1 and 12''),
        (budget \<ge> 0, ''budgetAmount'', ''must be non-negative'')])"

definition CreatePeriodWithProRata :: "golib \<Rightarrow> pglib \<Rightarrow> 'w expense_client \<Rightarrow> string \<Rightarrow> create_period_request \<Rightarrow>
    'w fin_state \<Rightarrow> ((goerr + create_period_response) \<times> 'w fin_state) option" where
  "CreatePeriodWithProRata lib pg xc u req st =
     (let budget = (case cp_budget req of None \<Rightarrow> 0 | Some b \<Rightarrow> b);
          reporting = normalizeCurrencyCode lib (cp_cur req)
      in case bindR (apiR (ValidateEDSSplit (cp_ess req) (cp_des req) (cp_sav req))) (\<lambda>_.
              bindR (apiR (period_checks req budget)) (\<lambda>_.
              bindR (apiR (validateSupportedCurrency lib ''reportingCurrencyCode'' reporting)) (\<lambda>_.
              wrapR (Wrapped ''getting latest period'') (r_GetLatestPeriod pg u)))) st of
           (Inl e, st1) \<Rightarrow> Some (Inl e, st1)
         | (Inr latest, st1) \<Rightarrow>
             (case createMissedPeriods lib pg xc u latest (cp_year req) (cp_month req) of
                None \<Rightarrow> None
              | Some missed \<Rightarrow> Some (bindR missed (\<lambda>(labels, applied1).
                  bindR (wrapR (Wrapped ''creating period'') (r_CreatePeriod pg (new_period u req budget reporting))) (\<lambda>p.
                  bindR (apply_or_report lib pg xc u p) (\<lambda>applied2.
                  retR \<lparr>pp_period = p, pp_applied = applied1 @ applied2, pp_auto = labels\<rparr>))) st1)))"

end
