(* ===== verification/Finance_Frame.thy ===== *)
theory Finance_Frame
  imports Finance_ProRata
begin

text \<open>
  What every operation of the finance service keeps.  A relation between two states of the tables
  that the single statements keep is kept by every operation: the locale \<open>table_relation\<close> states
  this once, and the invariants and frame conditions of the service are interpretations of it.
\<close>

lemma keeps_pg_stmt:
  assumes "transp R" "\<And>s n. R s (s\<lparr>f_calls := n\<rparr>)" "\<And>s. R s (snd (f s))"
  shows "keeps R (pg_stmt f)"
proof (rule keepsI)
  fix s r s'
  assume run: "pg_stmt f s = (r, s')"
  let ?s = "s\<lparr>f_calls := f_calls s + 1\<rparr>"
  from run have "s' = ?s \<or> s' = snd (f ?s)" by (auto simp: pg_stmt_def Let_def split: outcome.splits)
  then show "R s s'" using assms by (metis transpE)
qed

locale step_relation =
  fixes lib :: golib and pg :: pglib and R :: "'w fin_state \<Rightarrow> 'w fin_state \<Rightarrow> bool"
  assumes R_refl: "reflp R" and R_trans: "transp R"
    and calls: "R s (s\<lparr>f_calls := n\<rparr>)"
    and ticks: "R s (s\<lparr>f_ticks := n\<rparr>)"
    and uuid_next: "f_uuid_next s \<le> n \<Longrightarrow> R s (s\<lparr>f_uuid_next := n\<rparr>)"
    and restore: "R s s' \<Longrightarrow> R s (restore_tables s s')"
begin

lemmas basic = keeps_basic [OF R_refl]
lemmas seq = keeps_bindR [OF R_trans]

lemma reads [intro]: "keeps R (pg_query f)" "keeps R (pg_one g)"
  unfolding pg_query_def pg_one_def by (rule keeps_pg_stmt [OF R_trans calls], simp add: reflpD [OF R_refl])+

lemma with_uuid [intro]: "(\<And>u. keeps R (k u)) \<Longrightarrow> keeps R (with_uuid pg s k)"
  unfolding with_uuid_def by (rule seq) (auto intro: basic)

lemma nil_no_rows [intro]: "keeps R m \<Longrightarrow> keeps R (nil_if_no_rows m)"
  by (auto simp: keeps_def nil_if_no_rows_def split: prod.splits sum.splits) (metis snd_conv)+

lemma clock [intro]: "keeps R f_now"
  by (rule keepsI) (auto simp: f_now_def ticks)

lemma uuid [intro]: "keeps R new_uuid"
  by (rule keepsI) (auto simp: new_uuid_def intro: uuid_next)

lemma api [intro]: "keeps R (apiR v)"
  unfolding apiR_def by (rule basic)

lemma transaction [intro]:
  assumes "keeps R body"
  shows "keeps R (in_tx t1 t2 body)"
proof (rule keepsI)
  fix s r s'
  assume run: "in_tx t1 t2 body s = (r, s')"
  have begun: "keeps R (wrapR (Wrapped t1) (pg_query (\<lambda>_. ())))" by (rule keeps_wrapR) (rule reads)
  obtain r1 s1 where b: "wrapR (Wrapped t1) (pg_query (\<lambda>_. ())) s = (r1, s1)" by (metis surj_pair)
  note R1 = keepsD [OF begun b]
  obtain r2 s2 where m: "body s1 = (r2, s2)" by (metis surj_pair)
  have R2: "R s s2" using R1 keepsD [OF assms m] by (rule transpD [OF R_trans])
  have R3: "R s (s2\<lparr>f_calls := n\<rparr>)" for n using R2 calls by (rule transpD [OF R_trans])
  show "R s s'"
    using run b m R1 restore [OF R2] R3 restore [OF R3]
    by (auto simp: in_tx_def Let_def split: sum.splits outcome.splits)
qed

lemma repo_reads [intro]:
  "keeps R (r_GetDefaults pg u)" "keeps R (r_GetTag pg i u)" "keeps R (r_ListTags pg u)"
  "keeps R (r_CountUserTags pg u)" "keeps R (r_CountTagInProRata pg i u)" "keeps R (r_GetCurrentPeriod pg u y m)"
  "keeps R (r_GetPeriodByID pg i u)" "keeps R (r_ListPeriods pg u)" "keeps R (r_GetLatestPeriod pg u)"
  "keeps R (r_GetPendingProRata pg u y m)" "keeps R (r_GetUpcomingProRata pg u)"
  "keeps R (r_GetHealthScore pg u y m)" "keeps R (r_ListHealthScoreScalars pg u)"
  unfolding r_GetDefaults_def r_GetTag_def r_ListTags_def r_CountUserTags_def r_CountTagInProRata_def
    r_GetCurrentPeriod_def r_GetPeriodByID_def r_ListPeriods_def r_GetLatestPeriod_def r_GetPendingProRata_def
    r_GetUpcomingProRata_def r_GetHealthScore_def r_ListHealthScoreScalars_def q_GetDefaults_def q_GetTagByID_def
    q_ListTags_def q_CountUserTags_def q_CountTagInProRata_def q_GetCurrentPeriod_def q_GetPeriodByID_def
    q_ListPeriods_def q_GetLatestPeriod_def q_GetPendingProRata_def q_GetUpcomingProRata_def q_GetHealthScore_def
    q_ListHealthScoreScalars_def
  by (intro with_uuid nil_no_rows reads seq basic)+

end

locale world_relation = step_relation +
  assumes world: "R s (s\<lparr>f_world := w\<rparr>)"
begin

lemma world_op [intro]: "keeps R (in_world m)"
  by (rule keepsI) (auto simp: in_world_def world split: prod.splits)

end

text \<open>A relation that marking a schedule keeps, whatever its status, is kept by applying schedules.\<close>

locale marking_relation = world_relation +
  assumes mark_applied: "keeps R (q_MarkProRataApplied i)"
    and mark_failed: "keeps R (q_MarkProRataFailed i reason)"
begin

lemma repo_marks [intro]: "keeps R (r_MarkProRataApplied pg i)" "keeps R (r_MarkProRataFailed pg i reason)"
  unfolding r_MarkProRataApplied_def r_MarkProRataFailed_def by (intro with_uuid mark_applied mark_failed)+

lemma mark_prorata_failed: "keeps R (markProRataFailed pg s reason)"
  by (rule keepsI) (auto simp: markProRataFailed_def split: prod.splits sum.splits dest: keepsD [OF repo_marks(2)])

lemma apply_one: "keeps R (applyOneProRataSchedule lib pg xc u s reporting pref)"
proof (rule keepsI)
  fix st r st'
  assume run: "applyOneProRataSchedule lib pg xc u s reporting pref st = (r, st')"
  have failing: "keeps R (bindR (markProRataFailed pg s why) (\<lambda>_. retR None))" for why
    by (intro seq mark_prorata_failed basic)
  from run show "R st st'"
    by (auto simp: applyOneProRataSchedule_def Let_def reflpD [OF R_refl]
        split: option.splits if_splits prod.splits sum.splits
        dest!: keepsD [OF failing] keepsD [OF repo_marks(1)] keepsD [OF world_op]
        intro: transpD [OF R_trans])
qed

lemma apply_all: "(\<And>s. keeps R (f s)) \<Longrightarrow> keeps R (apply_each f ss)"
proof (induction ss)
  case Nil
  show ?case unfolding apply_each.simps by (rule basic)
next
  case (Cons s ss)
  then show ?case unfolding apply_each.simps by (intro seq basic) auto
qed

lemma marking_apply_pending: "keeps R (applyPendingProRata lib pg xc u p)"
  unfolding applyPendingProRata_def Let_def by (intro seq keeps_wrapR keeps_if repo_reads basic apply_all apply_one)

end

locale write_relation = step_relation +
  assumes upsert_defaults: "keeps R (q_UpsertDefaults d)"
    and create_tag: "keeps R (q_CreateTag pg u nm dflt)"
    and update_tag: "keeps R (q_UpdateTag pg nm i u)"
    and delete_tag: "keeps R (q_DeleteTag i u)"
    and create_period: "keeps R (q_CreatePeriod p)"
    and update_period: "keeps R (q_UpdatePeriod bud ess des sav i u)"
    and upsert_score: "keeps R (q_UpsertHealthScore row)"
begin

lemma repo_writes [intro]:
  "keeps R (r_UpsertDefaults pg d)" "keeps R (r_CreateTag pg u nm b)" "keeps R (r_UpdateTag pg i u nm)"
  "keeps R (r_DeleteTag pg i u)" "keeps R (r_CreatePeriod pg p)" "keeps R (r_UpdatePeriod pg p)"
  "keeps R (r_UpsertHealthScore pg u hs)"
  unfolding r_UpsertDefaults_def r_CreateTag_def r_UpdateTag_def r_DeleteTag_def r_CreatePeriod_def r_UpdatePeriod_def
    r_UpsertHealthScore_def
  by (intro with_uuid nil_no_rows upsert_defaults create_tag update_tag delete_tag create_period update_period
      upsert_score seq basic)+

lemma seed [intro]: "keeps R (seed_tags lib pg w u ns)"
proof (induction ns)
  case (Cons n ns)
  show ?case unfolding seed_tags.simps by (intro seq keeps_wrapR repo_writes Cons)
qed (unfold seed_tags.simps, rule basic)

lemma settings_ops:
  "keeps R (CompleteOnboarding lib pg u req)" "keeps R (GetDefaults pg u)" "keeps R (UpdateDefaults lib pg u req)"
  "keeps R (getPeriodCreationDefaults lib pg u)"
  unfolding CompleteOnboarding_def GetDefaults_def UpdateDefaults_def getPeriodCreationDefaults_def Let_def
  by (intro seq basic keeps_wrapR keeps_option api transaction seed repo_reads repo_writes)+

lemma tag_ops:
  "keeps R (ListTags lib pg u)" "keeps R (CreateTag lib pg u nm)" "keeps R (UpdateTag lib pg u i nm)"
  unfolding ListTags_def CreateTag_def UpdateTag_def tag_write_def Let_def
  by (intro seq basic keeps_wrapR keeps_option keeps_if api transaction seed repo_reads repo_writes)+

lemma delete_tag_op: "keeps R (in_world (xc_count xc u i)) \<Longrightarrow> keeps R (DeleteTag pg xc u i)"
  unfolding DeleteTag_def by (intro seq basic keeps_wrapR keeps_option keeps_if repo_reads repo_writes)

lemma current_period: "keeps R (GetCurrentPeriod pg u y m)"
  unfolding GetCurrentPeriod_def by (intro seq basic keeps_wrapR keeps_option api repo_reads)

lemma period_ops:
  "keeps R (ListPeriods pg u)" "keeps R (GetPeriodContext pg u y m)" "keeps R (UpdatePeriod pg u i preq)"
  "keeps R (GetAllUserData pg u)" "keeps R (GetUpcomingProRata pg u)"
  unfolding ListPeriods_def GetPeriodContext_def UpdatePeriod_def GetAllUserData_def GetUpcomingProRata_def
  by (intro seq basic keeps_wrapR keeps_option keeps_if api clock current_period repo_reads repo_writes)+


end

text \<open>With the calls of other services and the schedules of a new period, every operation keeps the relation.\<close>

locale table_relation = write_relation lib pg R + world_relation lib pg R
  for lib pg and R :: "'w fin_state \<Rightarrow> 'w fin_state \<Rightarrow> bool" +
  assumes create_schedule: "keeps R (q_CreateProRataSchedule sc)"
    and apply_pending: "keeps R (applyPendingProRata lib pg xc u p)"
begin

lemma repo_create_schedule [intro]: "keeps R (r_CreateProRataSchedule pg sc)"
  unfolding r_CreateProRataSchedule_def by (intro with_uuid create_schedule)

lemma schedules [intro]: "keeps R (create_schedules pg mk y m i as)"
proof (induction as arbitrary: y m i)
  case (Cons a as)
  show ?case
    unfolding create_schedules.simps by (intro keeps_prod seq keeps_wrapR repo_create_schedule Cons basic)
qed (unfold create_schedules.simps, rule basic)

lemma apply_report [intro]: "keeps R (apply_or_report lib pg xc u p)"
  by (rule keepsI) (auto simp: apply_or_report_def split: prod.splits sum.splits dest: keepsD [OF apply_pending])

lemma missed [intro]: "keeps R (create_missed lib pg xc u d yms)"
proof (induction yms)
  case (Cons ym yms)
  show ?case
    unfolding create_missed.simps
    by (intro seq keeps_wrapR repo_writes apply_report keeps_prod Cons basic)
qed (unfold create_missed.simps, rule basic)

lemma prorata_op: "keeps R (CreateProRataExpense lib pg xc fx u preq)"
  unfolding CreateProRataExpense_def Let_def
  by (intro seq basic keeps_wrapR keeps_option keeps_if api clock uuid world_op current_period schedules)

lemma create_period_op:
  assumes "CreatePeriodWithProRata lib pg xc u req st = Some (r, st')"
  shows "R st st'"
proof -
  have checks: "keeps R (bindR (apiR v1) (\<lambda>_. bindR (apiR v2) (\<lambda>_. bindR (apiR v3) (\<lambda>_.
      wrapR (Wrapped ''getting latest period'') (r_GetLatestPeriod pg u)))))" for v1 v2 v3
    by (intro seq keeps_wrapR api repo_reads)
  have missed: "keeps R m" if "createMissedPeriods lib pg xc u latest ty tm = Some m" for m latest ty tm
    using that by (auto simp: createMissedPeriods_def split: option.splits list.splits
        intro!: basic seq settings_ops missed)
  have create: "keeps R (bindR m (\<lambda>(labels, applied1).
      bindR (wrapR (Wrapped ''creating period'') (r_CreatePeriod pg p)) (\<lambda>p.
      bindR (apply_or_report lib pg xc u p) (\<lambda>applied2.
      retR \<lparr>pp_period = p, pp_applied = applied1 @ applied2, pp_auto = labels\<rparr>))))"
    if "keeps R m" for m p
    by (intro seq that keeps_prod keeps_wrapR repo_writes apply_report basic)
  from assms show ?thesis
    unfolding CreatePeriodWithProRata_def Let_def
    by (auto split: prod.splits sum.splits option.splits
        dest!: keepsD [OF checks] missed keepsD [OF create] intro: transpD [OF R_trans])
qed

end

end
