(* ===== verification/Finance_Health_Store.thy ===== *)
theory Finance_Health_Store
  imports Finance_Health_Facts Finance_Frame
begin

text \<open>
  What the dashboard and the health score do to the tables: the dashboard reads, and the health
  score writes at most the score of the month it was asked for, never that of the open month, and
  never over a score of the current formula.
\<close>

section \<open>Frames\<close>

text \<open>What a read keeps: the tables and what the environment will answer.\<close>

definition reads_only :: "'w fin_state \<Rightarrow> 'w fin_state \<Rightarrow> bool" where
  "reads_only s t \<longleftrightarrow>
     f_periods t = f_periods s \<and> f_tags t = f_tags s \<and> f_schedules t = f_schedules s \<and> f_defaults t = f_defaults s
     \<and> f_scores t = f_scores s \<and> f_script t = f_script s \<and> f_clock t = f_clock s \<and> f_dbnow t = f_dbnow s"

definition writes_scores_only :: "'w fin_state \<Rightarrow> 'w fin_state \<Rightarrow> bool" where
  "writes_scores_only s t \<longleftrightarrow> reads_only (s\<lparr>f_scores := f_scores t\<rparr>) t"

lemma reads_only_basic:
  "reflp reads_only" "transp reads_only" "reads_only s (s\<lparr>f_calls := n\<rparr>)" "reads_only s (s\<lparr>f_ticks := n\<rparr>)"
  "reads_only s (s\<lparr>f_uuid_next := n\<rparr>)" "reads_only s (s\<lparr>f_world := w\<rparr>)"
  "reads_only s s' \<Longrightarrow> reads_only s (restore_tables s s')"
  by (auto simp: reflp_def transp_def reads_only_def restore_tables_def)

lemma writes_scores_basic:
  "reflp writes_scores_only" "transp writes_scores_only" "writes_scores_only s (s\<lparr>f_calls := n\<rparr>)"
  "writes_scores_only s (s\<lparr>f_ticks := n\<rparr>)" "writes_scores_only s (s\<lparr>f_uuid_next := n\<rparr>)" "writes_scores_only s (s\<lparr>f_world := w\<rparr>)"
  "writes_scores_only s s' \<Longrightarrow> writes_scores_only s (restore_tables s s')"
  by (auto simp: reflp_def transp_def writes_scores_only_def reads_only_def restore_tables_def)

interpretation reading: world_relation lib pg reads_only for lib pg
  by unfold_locales (use reads_only_basic in auto)

interpretation scoring: world_relation lib pg writes_scores_only for lib pg
  by unfold_locales (use writes_scores_basic in auto)

lemma keeps_list: "keeps R a \<Longrightarrow> (\<And>x r. keeps R (b x r)) \<Longrightarrow> keeps R (case xs of [] \<Rightarrow> a | x # r \<Rightarrow> b x r)"
  by (cases xs) auto

context world_relation
begin

lemma each: "(\<And>x. keeps R (f x)) \<Longrightarrow> keeps R (eachR f xs)"
proof (induction xs)
  case Nil
  show ?case unfolding eachR.simps by (rule basic)
next
  case (Cons x xs)
  then show ?case unfolding eachR.simps by (intro seq basic) auto
qed

lemma current_period: "keeps R (GetCurrentPeriod pg u y m)"
  unfolding GetCurrentPeriod_def by (intro seq api keeps_wrapR repo_reads) (auto intro: basic split: option.split)

lemma fetch: "keeps R (fetch_expenses xc what u y m)"
  unfolding fetch_expenses_def by (intro keeps_wrapR world_op)

lemma compute_score: "keeps R (computeHealthScore cvt pg xc u p y m)"
  unfolding computeHealthScore_def buildDesiresWindow_def Let_def
  by (intro seq fetch keeps_wrapR repo_reads clock each basic)

end

section \<open>The dashboard only reads\<close>

lemma dashboard_keeps:
  "keeps reads_only (GetPeriodSummary pg xc u y m)"
  "keeps reads_only (GetSpendingByTag pg xc rank u y m)"
  "keeps reads_only (GetCumulativeSpend cvt pg xc u y m)"
  "keeps reads_only (GetSpendingTrends pg xc u y m n)"
  "keeps reads_only (GetHistoricalComparison pg xc u y m)"
proof -
  show "keeps reads_only (GetPeriodSummary pg xc u y m)"
    unfolding GetPeriodSummary_def by (intro reading.seq reading.current_period reading.fetch reading.clock reading.basic)
  show "keeps reads_only (GetSpendingByTag pg xc rank u y m)"
    unfolding GetSpendingByTag_def Let_def
    by (intro reading.seq reading.current_period reading.fetch keeps_wrapR reading.repo_reads reading.basic)
  show "keeps reads_only (GetCumulativeSpend cvt pg xc u y m)"
    unfolding GetCumulativeSpend_def by (intro reading.seq reading.current_period reading.fetch reading.basic)
  have "keeps reads_only (trend_read xc u ps ym)" for ps ym
    unfolding trend_read_def by (cases "period_of ps ym") (simp_all add: reading.fetch reading.basic(1))
  then show "keeps reads_only (GetSpendingTrends pg xc u y m n)"
    unfolding GetSpendingTrends_def Let_def by (intro reading.seq keeps_wrapR reading.repo_reads reading.each reading.basic)
  have "keeps reads_only (getTotalSpentForPeriod xc u p)" for p
    unfolding getTotalSpentForPeriod_def by (intro reading.seq reading.fetch reading.basic)
  then have "keeps reads_only (computeHistoricalComparison xc u y m ps)" for ps
    unfolding computeHistoricalComparison_def Let_def by (intro keeps_list reading.seq reading.each reading.basic)
  then show "keeps reads_only (GetHistoricalComparison pg xc u y m)"
    unfolding GetHistoricalComparison_def by (intro reading.seq reading.current_period keeps_wrapR reading.repo_reads)
qed

section \<open>Runs of the health score\<close>

definition score_of_month :: "string \<Rightarrow> int \<Rightarrow> int \<Rightarrow> score_row list \<Rightarrow> score_row option" where
  "score_of_month uid y m rows = find_first (\<lambda>r. hr_user r = uid \<and> hr_year r = y \<and> hr_month r = m) rows"

lemma lookup_run:
  assumes "r_GetHealthScore pg u y m st = (Inr v, st')"
  obtains uid where "pg_uuid pg u = Some uid" "v = map_option hr_score (score_of_month uid y m (f_scores st))"
    "reads_only st st'" "f_world st' = f_world st"
proof -
  have ro: "reads_only st st'" by (rule keepsD [OF reading.repo_reads(12) assms])
  from assms obtain uid where u: "pg_uuid pg u = Some uid"
    by (auto simp: r_GetHealthScore_def with_uuid_def ParseUUID_def split: option.splits)
  with assms have "v = map_option hr_score (score_of_month uid y m (f_scores st)) \<and> f_world st' = f_world st"
    by (auto simp: r_GetHealthScore_def with_uuid_def ParseUUID_def bindR_def nil_if_no_rows_def q_GetHealthScore_def pg_one_def
        pg_stmt_def Let_def score_of_month_def pg_error_def split: option.splits outcome.splits if_splits)
  with u ro that show ?thesis by blast
qed

lemma current_period_run:
  assumes "GetCurrentPeriod pg u y m st = (Inr p, st')"
  shows "1 \<le> m" "m \<le> 12" "reads_only st st'" "f_world st' = f_world st" "f_ticks st' = f_ticks st"
proof -
  show "reads_only st st'" by (rule keepsD [OF reading.current_period assms])
  show "1 \<le> m" "m \<le> 12"
    using assms by (auto simp: GetCurrentPeriod_def apiR_def op_iffs v_result_def v_checks_def v_check_def v_has_errors_def v_new_def
        split: if_splits)
  show "f_world st' = f_world st" "f_ticks st' = f_ticks st"
    using assms
    by (auto simp: GetCurrentPeriod_def apiR_def op_iffs r_GetCurrentPeriod_def with_uuid_def nil_if_no_rows_def q_GetCurrentPeriod_def
        pg_one_def pg_stmt_def Let_def split: option.splits outcome.splits if_splits prod.splits sum.splits)
qed

lemma computed_score:
  assumes "computeHealthScore cvt pg xc u p y m st = (Inr s, st')"
  shows "hs_year s = y" "hs_month s = m" "hs_version s = FormulaVersion" "hs_cur s \<noteq> []" "\<not> hs_configure s" "0 \<le> hs_total s" "hs_total s \<le> 100"
proof -
  from assms obtain exps window now where s: "s = ComputeHealthScore cvt p exps window y m now (if p_cur p = [] then ''USD'' else p_cur p)"
    by (auto simp: computeHealthScore_def op_iffs Let_def)
  show "hs_year s = y" "hs_month s = m" "hs_version s = FormulaVersion" "hs_cur s \<noteq> []" "\<not> hs_configure s"
    by (simp_all add: s ComputeHealthScore_def Let_def split: prod.split)
  obtain cs where cs: "hs_total s = sum_list (map hc_score cs)" "list_all component_ok cs" "sum_list (map hc_max cs) = 100"
    unfolding s by (rule health_score_run)
  show "0 \<le> hs_total s" "hs_total s \<le> 100" using sum_scores_bounds [OF cs(2)] cs(1,3) by simp_all
qed

lemma store_keeps: "keeps writes_scores_only (store_score pg u s)"
proof -
  have "keeps writes_scores_only (q_UpsertHealthScore row)" for row :: score_row and x :: 'w
    unfolding q_UpsertHealthScore_def
    by (rule keeps_pg_stmt [OF writes_scores_basic(2,3)])
       (auto simp: writes_scores_only_def reads_only_def Let_def split: option.split)
  then have "keeps writes_scores_only (r_UpsertHealthScore pg u s)"
    unfolding r_UpsertHealthScore_def by (intro scoring.with_uuid scoring.seq scoring.basic)
  then show ?thesis by (auto simp: keeps_def store_score_def)
qed

lemma store_acked:
  assumes "store_score pg u s st = (Inr v, st')" "pg_uuid pg u = Some uid" "\<And>n. f_script st n = Acked"
    and "score_of_month uid (hs_year s) (hs_month s) (f_scores st) = None"
    and "1 \<le> hs_month s" "hs_month s \<le> 12" "0 \<le> hs_total s" "hs_total s \<le> 100"
  shows "\<exists>row. score_of_month uid (hs_year s) (hs_month s) (f_scores st') = Some row \<and> hr_score row = s"
proof -
  have st': "st' = snd (r_UpsertHealthScore pg u s st)" using assms(1) by (simp add: store_score_def)
  show ?thesis
    using assms(2-) unfolding st'
    by (auto simp: r_UpsertHealthScore_def with_uuid_def ParseUUID_def bindR_def q_UpsertHealthScore_def pg_stmt_def Let_def
        score_row_ok_def score_of_month_def find_first_append) (simp_all add: find_first_def)
qed

lemma resolve_run:
  fixes st :: "'w fin_state"
  assumes run: "resolveHealthScore cvt pg xc u p y m st = (r, st')"
  defines "prov \<equiv> isProvisional y m (f_clock st (f_ticks st))"
  shows "writes_scores_only st st'"
    "prov \<Longrightarrow> f_scores st' = f_scores st"
    "\<not> prov \<Longrightarrow> pg_uuid pg u = Some uid \<Longrightarrow> score_of_month uid y m (f_scores st) = Some row \<Longrightarrow> hs_version (hr_score row) = FormulaVersion \<Longrightarrow>
      f_scores st' = f_scores st \<and> f_world st' = f_world st \<and>
      (\<forall>s. r = Inr s \<longrightarrow> s = (if hs_cur (hr_score row) = [] then (hr_score row)\<lparr>hs_cur := p_cur p\<rparr> else hr_score row))"
proof -
  have whole: "keeps writes_scores_only (resolveHealthScore cvt pg xc u p y m)"
    unfolding resolveHealthScore_def Let_def
    by (intro scoring.seq scoring.clock keeps_if keeps_option keeps_wrapR scoring.repo_reads scoring.compute_score scoring.basic store_keeps)
  show "writes_scores_only st st'" by (rule keepsD [OF whole run])
  let ?st = "st\<lparr>f_ticks := f_ticks st + 1\<rparr>"
  have now: "bindR f_now k st = k (f_clock st (f_ticks st)) ?st" for k :: "gtime \<Rightarrow> ('w, health_score) fin_op"
    by (simp add: bindR_def f_now_def)
  show "f_scores st' = f_scores st" if prov
  proof -
    have "computeHealthScore cvt pg xc u p y m ?st = (r, st')"
      using run that by (simp add: resolveHealthScore_def now prov_def)
    then have "reads_only ?st st'" by (rule keepsD [OF reading.compute_score])
    then show ?thesis by (simp add: reads_only_def)
  qed
  show "f_scores st' = f_scores st \<and> f_world st' = f_world st \<and>
      (\<forall>s. r = Inr s \<longrightarrow> s = (if hs_cur (hr_score row) = [] then (hr_score row)\<lparr>hs_cur := p_cur p\<rparr> else hr_score row))"
    if "\<not> prov" and u: "pg_uuid pg u = Some uid" and row: "score_of_month uid y m (f_scores st) = Some row" and v: "hs_version (hr_score row) = FormulaVersion"
  proof -
    obtain v st1 where l: "r_GetHealthScore pg u y m ?st = (v, st1)" by (metis surj_pair)
    have ro: "reads_only ?st st1" by (rule keepsD [OF reading.repo_reads(12) l])
    show ?thesis
    proof (cases v)
      case (Inl e)
      then have "f_world st1 = f_world st"
        using l by (auto simp: r_GetHealthScore_def with_uuid_def bindR_def nil_if_no_rows_def q_GetHealthScore_def pg_one_def
            pg_stmt_def Let_def split: sum.splits option.splits outcome.splits if_splits)
      moreover have "r = Inl (Wrapped ''getting stored health score'' e)" "st' = st1"
        using run that(1) l Inl by (simp_all add: resolveHealthScore_def prov_def f_now_def bindR_def wrapR_def)
      ultimately show ?thesis using ro by (simp add: reads_only_def)
    next
      case (Inr o')
      from lookup_run [OF l [unfolded Inr]] u row have o': "o' = Some (hr_score row)" and w: "f_world st1 = f_world st" by auto
      have "r = Inr (if hs_cur (hr_score row) = [] then (hr_score row)\<lparr>hs_cur := p_cur p\<rparr> else hr_score row)" "st' = st1"
        using run that(1) l v unfolding Inr o'
        by (simp_all add: resolveHealthScore_def prov_def f_now_def bindR_def wrapR_def Let_def)
      then show ?thesis using ro w by (simp add: reads_only_def)
    qed
  qed
qed

section \<open>The properties\<close>

text \<open>
  C31: The dashboard only reads, and the health score stores only what is final.  No dashboard
  request changes a table.  A health-score request changes no table but that of the scores; it
  changes nothing at all while the month asked for is the current one; and when the month has a
  score of the current formula, it returns that score (with the currency filled in where an old
  row lacks it) without storing anything and without asking the expense service.
\<close>

theorem dashboard_reads_and_scores_policy:
  fixes st :: "'w fin_state"
  assumes run: "GetHealthScore cvt pg xc u y m st = (r, st')"
    and p: "GetPeriodSummary pg xc u y m st = (r1, st1)" "GetSpendingByTag pg xc rank u y m st = (r2, st2)"
      "GetCumulativeSpend cvt pg xc u y m st = (r3, st3)" "GetSpendingTrends pg xc u y m n st = (r4, st4)"
      "GetHistoricalComparison pg xc u y m st = (r5, st5)"
    and stored: "pg_uuid pg u = Some uid" "score_of_month uid y m (f_scores st) = row"
  shows "list_all (reads_only st) [st1, st2, st3, st4, st5] \<and> writes_scores_only st st'
    \<and> (if isProvisional y m (f_clock st (f_ticks st)) then f_scores st' = f_scores st
       else case row of
              None \<Rightarrow> True
            | Some w \<Rightarrow> hs_version (hr_score w) = FormulaVersion \<longrightarrow>
                f_scores st' = f_scores st \<and> f_world st' = f_world st
                \<and> (\<forall>s. r = Inr s \<and> \<not> hs_configure s \<longrightarrow>
                     (if hs_cur (hr_score w) = [] then \<exists>code. s = (hr_score w)\<lparr>hs_cur := code\<rparr> else s = hr_score w)))"
proof -
  have dash: "list_all (reads_only st) [st1, st2, st3, st4, st5]"
    using keepsD [OF dashboard_keeps(1) p(1)] keepsD [OF dashboard_keeps(2) p(2)] keepsD [OF dashboard_keeps(3) p(3)]
      keepsD [OF dashboard_keeps(4) p(4)] keepsD [OF dashboard_keeps(5) p(5)] by simp
  obtain q st0 where c: "GetCurrentPeriod pg u y m st = (q, st0)" by (metis surj_pair)
  have ro: "reads_only st st0" by (rule keepsD [OF reading.current_period c])
  have wo: "writes_scores_only st s" if "writes_scores_only st0 s" for s
    using that ro by (auto simp: writes_scores_only_def reads_only_def)
  have start: "f_scores st0 = f_scores st" "f_clock st0 = f_clock st" using ro by (simp_all add: reads_only_def)
  have same: "writes_scores_only st st0" using ro by (simp add: writes_scores_only_def reads_only_def)
  show ?thesis
  proof (cases q)
    case (Inl e)
    have "f_world st0 = f_world st"
      using c unfolding Inl
      by (auto simp: GetCurrentPeriod_def apiR_def op_iffs r_GetCurrentPeriod_def with_uuid_def nil_if_no_rows_def q_GetCurrentPeriod_def
        pg_one_def pg_stmt_def Let_def split: option.splits outcome.splits if_splits prod.splits sum.splits)
    moreover have "r = Inl e" "st' = st0" using run c Inl by (simp_all add: GetHealthScore_def bindR_def)
    ultimately show ?thesis using dash same start by (auto split: option.split)
  next
    case (Inr p')
    note cur = current_period_run [OF c [unfolded Inr]]
    show ?thesis
    proof (cases "p_budget p' = 0")
      case True
      then have "r = Inr (configure_score y m (p_cur p'))" "st' = st0" using run c Inr by (simp_all add: GetHealthScore_def bindR_def)
      then show ?thesis using dash same start cur(4) by (auto simp: configure_score_def split: option.split)
    next
      case False
      then have rs: "resolveHealthScore cvt pg xc u p' y m st0 = (r, st')" using run c Inr by (simp add: GetHealthScore_def bindR_def)
      note res = resolve_run [OF rs, unfolded cur(5) start]
      show ?thesis
        using dash wo [OF res(1)] res(2) res(3) [OF _ stored(1)] stored(2) cur(4) by (auto split: option.split)
    qed
  qed
qed


end
