(* ===== verification/Finance_Invariants.thy ===== *)
theory Finance_Invariants
  imports Finance_Frame
begin

text \<open>
  The invariant of the finance service's tables, kept by every operation of the service and by the
  erasure of a user, whatever the database answers and in every reachable state: one period per
  user and month with a percentage split of 100 and a supported currency, tag names unique per user
  up to case, one schedule per installment of a group, one default row per user and one score per
  user and month.
\<close>

section \<open>The invariant\<close>

definition periods_inv :: "period list \<Rightarrow> bool" where
  "periods_inv L \<longleftrightarrow> distinct (map p_id L) \<and> distinct (map (\<lambda>p. (p_user p, p_year p, p_month p)) L)
     \<and> (\<forall>p\<in>set L. period_row_ok p)"

definition tags_inv :: "pglib \<Rightarrow> tag list \<Rightarrow> bool" where
  "tags_inv pg L \<longleftrightarrow> distinct (map tg_id L) \<and> distinct (map (\<lambda>t. (tg_user t, pg_lower pg (tg_name t))) L)
     \<and> (\<forall>t\<in>set L. rune_count (tg_name t) \<le> 50)"

definition schedules_inv :: "schedule list \<Rightarrow> bool" where
  "schedules_inv L \<longleftrightarrow> distinct (map sc_id L) \<and> distinct (map (\<lambda>s. (sc_group s, sc_index s)) L)
     \<and> (\<forall>s\<in>set L. schedule_row_ok s)"

definition defaults_inv :: "default_settings list \<Rightarrow> bool" where
  "defaults_inv L \<longleftrightarrow> distinct (map d_user L) \<and> (\<forall>d\<in>set L. d_ess d + d_des d + d_sav d = 100)"

definition scores_inv :: "score_row list \<Rightarrow> bool" where
  "scores_inv L \<longleftrightarrow> distinct (map (\<lambda>r. (hr_user r, hr_year r, hr_month r)) L) \<and> (\<forall>r\<in>set L. score_row_ok r)"

definition tables_inv :: "pglib \<Rightarrow> 'w fin_state \<Rightarrow> bool" where
  "tables_inv pg st \<longleftrightarrow> periods_inv (f_periods st) \<and> tags_inv pg (f_tags st) \<and> schedules_inv (f_schedules st)
     \<and> defaults_inv (f_defaults st) \<and> scores_inv (f_scores st)"

text \<open>Keeping an invariant, as a relation.\<close>

definition pres :: "('s \<Rightarrow> bool) \<Rightarrow> 's \<Rightarrow> 's \<Rightarrow> bool" where
  "pres I s s' \<longleftrightarrow> (I s \<longrightarrow> I s')"

lemma pres_refl: "reflp (pres I)" and pres_trans: "transp (pres I)"
  by (auto simp: pres_def reflp_def transp_def)

lemma keeps_presI: "(\<And>s. I s \<Longrightarrow> I (snd (m s))) \<Longrightarrow> keeps (pres I) m"
  by (simp add: keeps_def pres_def)

section \<open>Rows\<close>

lemma periods_inv_append:
  "periods_inv L \<Longrightarrow> period_row_ok p \<Longrightarrow> p_id p \<notin> p_id ` set L \<Longrightarrow> \<not> (\<exists>r\<in>set L. same_month r p) \<Longrightarrow> periods_inv (L @ [p])"
  by (auto simp: periods_inv_def same_month_def)

lemma periods_inv_update:
  assumes inv: "periods_inv L" and p: "find_first (\<lambda>p. p_id p = i \<and> p_user p = u) L = Some p"
    and ok: "period_row_ok row" and same: "p_id row = p_id p" "p_user row = p_user p" "p_year row = p_year p" "p_month row = p_month p"
  shows "periods_inv (update_rows (\<lambda>p. p_id p = i \<and> p_user p = u) (\<lambda>_. row) L)"
proof -
  have d: "distinct (map p_id L)" using inv by (simp add: periods_inv_def)
  have key: "p_id r = p_id p" if "p_id r = i \<and> p_user r = u" for r
    using that p by (auto dest: find_first_Some)
  have "map p_id (update_rows (\<lambda>p. p_id p = i \<and> p_user p = u) (\<lambda>_. row) L) = map p_id L"
    "map (\<lambda>p. (p_user p, p_year p, p_month p)) (update_rows (\<lambda>p. p_id p = i \<and> p_user p = u) (\<lambda>_. row) L)
      = map (\<lambda>p. (p_user p, p_year p, p_month p)) L"
    by (rule map_update_unique [OF d p key], assumption, simp add: same)+
  moreover have "set (update_rows (\<lambda>p. p_id p = i \<and> p_user p = u) (\<lambda>_. row) L) \<subseteq> insert row (set L)"
    by (auto simp: set_update_rows)
  ultimately show ?thesis using inv ok by (auto simp: periods_inv_def)
qed

lemma tags_inv_append:
  "tags_inv pg L \<Longrightarrow> rune_count (tg_name t) \<le> 50 \<Longrightarrow> tg_id t \<notin> tg_id ` set L
    \<Longrightarrow> \<not> tag_clash pg (tg_user t) (tg_name t) (tg_id t) L \<Longrightarrow> tags_inv pg (L @ [t])"
  by (auto simp: tags_inv_def tag_clash_def image_iff)

lemma tags_inv_update:
  assumes inv: "tags_inv pg L" and t: "find_first (\<lambda>t. tg_id t = i \<and> tg_user t = u) L = Some t"
    and ok: "rune_count (tg_name row) \<le> 50" "\<not> tag_clash pg u (tg_name row) i L"
    and same: "tg_id row = tg_id t" "tg_user row = tg_user t"
  shows "tags_inv pg (update_rows (\<lambda>t. tg_id t = i \<and> tg_user t = u) (\<lambda>_. row) L)"
proof -
  have d: "distinct (map tg_id L)" using inv by (simp add: tags_inv_def)
  have t': "t \<in> set L" "tg_id t = i" "tg_user t = u" using t by (auto dest: find_first_Some)
  have key: "tg_id r = tg_id t" if "tg_id r = i \<and> tg_user r = u" for r using that t' by simp
  let ?f = "\<lambda>t. (tg_user t, pg_lower pg (tg_name t))" and ?L = "update_rows (\<lambda>t. tg_id t = i \<and> tg_user t = u) (\<lambda>_. row) L"
  have upd: "?L = map (\<lambda>r. if r = t then row else r) L" by (rule update_unique [OF d t key])
  have "map tg_id ?L = map tg_id L" by (rule map_update_unique [OF d t key]) (simp_all add: same)
  moreover have "distinct (map ?f ?L)"
    unfolding upd map_map distinct_map
  proof (intro conjI inj_onI)
    show "distinct L" using d by (simp add: distinct_map)
    have taken: "r = t" if "r \<in> set L" "?f r = ?f row" for r
      using ok(2) that same t' inj_onD [of tg_id "set L" r t] d by (simp add: tag_clash_def distinct_map)
    have inj: "inj_on ?f (set L)" using inv by (simp add: tags_inv_def distinct_map)
    fix a b
    assume ab: "a \<in> set L" "b \<in> set L"
      and eq: "(?f \<circ> (\<lambda>r. if r = t then row else r)) a = (?f \<circ> (\<lambda>r. if r = t then row else r)) b"
    consider "a = t" "b = t" | "a = t" "b \<noteq> t" | "a \<noteq> t" "b = t" | "a \<noteq> t" "b \<noteq> t" by blast
    then show "a = b"
    proof cases
      case 2
      with eq have "?f b = ?f row" by simp
      from taken [OF ab(2) this] 2 show ?thesis by simp
    next
      case 3
      with eq have "?f a = ?f row" by simp
      from taken [OF ab(1) this] 3 show ?thesis by simp
    next
      case 4
      with eq inj_onD [OF inj _ ab] show ?thesis by simp
    qed simp
  qed
  moreover have "\<forall>r\<in>set ?L. rune_count (tg_name r) \<le> 50" using inv ok(1) by (auto simp: upd tags_inv_def)
  ultimately show ?thesis using d by (simp add: tags_inv_def)
qed

lemma schedules_inv_append:
  "schedules_inv L \<Longrightarrow> schedule_row_ok s \<Longrightarrow> sc_id s \<notin> sc_id ` set L
    \<Longrightarrow> \<not> (\<exists>r\<in>set L. sc_group r = sc_group s \<and> sc_index r = sc_index s) \<Longrightarrow> schedules_inv (L @ [s])"
  by (auto simp: schedules_inv_def)

lemma schedules_inv_mark:
  assumes "schedules_inv L" "\<And>s. sc_id (f s) = sc_id s \<and> sc_group (f s) = sc_group s \<and> sc_index (f s) = sc_index s"
    and "\<And>s. s \<in> set L \<Longrightarrow> sel s \<Longrightarrow> schedule_row_ok s \<Longrightarrow> schedule_row_ok (f s)"
  shows "schedules_inv (update_rows sel f L)"
proof -
  have "map sc_id (update_rows sel f L) = map sc_id L"
    "map (\<lambda>s. (sc_group s, sc_index s)) (update_rows sel f L) = map (\<lambda>s. (sc_group s, sc_index s)) L"
    by (rule map_update_rows, simp add: assms(2))+
  with assms show ?thesis by (auto simp: schedules_inv_def set_update_rows)
qed

lemma scores_inv_upsert:
  assumes inv: "scores_inv L" and ok: "score_row_ok row"
    and sel: "sel = (\<lambda>r. hr_user r = hr_user row \<and> hr_year r = hr_year row \<and> hr_month r = hr_month row)"
  shows "scores_inv (case find_first sel L of None \<Rightarrow> L @ [row] | Some _ \<Rightarrow> update_rows sel (\<lambda>_. row) L)"
proof (cases "find_first sel L")
  case None
  then have "\<forall>x\<in>set L. \<not> sel x" by (simp add: find_first_None)
  with None inv ok show ?thesis by (auto simp: scores_inv_def sel)
next
  case (Some r)
  let ?k = "\<lambda>r. (hr_user r, hr_year r, hr_month r)"
  have "map ?k (update_rows sel (\<lambda>_. row) L) = map ?k L" by (rule map_update_rows) (simp add: sel)
  with Some inv ok show ?thesis by (auto simp: scores_inv_def set_update_rows)
qed

lemma defaults_inv_append:
  "defaults_inv L \<Longrightarrow> d_ess d + d_des d + d_sav d = 100 \<Longrightarrow> find_first (\<lambda>r. d_user r = d_user d) L = None \<Longrightarrow> defaults_inv (L @ [d])"
  by (auto simp: defaults_inv_def find_first_None)

lemma defaults_inv_update:
  assumes "defaults_inv L" "d_ess d + d_des d + d_sav d = 100"
  shows "defaults_inv (update_rows (\<lambda>r. d_user r = d_user d) (\<lambda>_. d) L)"
proof -
  have "map d_user (update_rows (\<lambda>r. d_user r = d_user d) (\<lambda>_. d) L) = map d_user L" by (rule map_update_rows) simp
  with assms show ?thesis by (auto simp: defaults_inv_def set_update_rows)
qed

text \<open>Deleting rows keeps every part of the invariant.\<close>

lemma inv_filter:
  "periods_inv P \<Longrightarrow> periods_inv (filter p P)" "tags_inv pg T \<Longrightarrow> tags_inv pg (filter t T)"
  "schedules_inv S \<Longrightarrow> schedules_inv (filter s S)" "defaults_inv D \<Longrightarrow> defaults_inv (filter d D)"
  "scores_inv H \<Longrightarrow> scores_inv (filter h H)"
  by (auto simp: periods_inv_def tags_inv_def schedules_inv_def defaults_inv_def scores_inv_def distinct_map_filter)

section \<open>Statements\<close>

lemma tables_inv_env [simp]:
  "tables_inv pg (s\<lparr>f_calls := n\<rparr>) = tables_inv pg s" "tables_inv pg (s\<lparr>f_ticks := n\<rparr>) = tables_inv pg s"
  "tables_inv pg (s\<lparr>f_uuid_next := n\<rparr>) = tables_inv pg s" "tables_inv pg (s\<lparr>f_world := w\<rparr>) = tables_inv pg s"
  "tables_inv pg (restore_tables s s') = tables_inv pg s"
  by (simp_all add: tables_inv_def restore_tables_def)

lemma keeps_tables_stmt:
  "(\<And>s. tables_inv pg s \<Longrightarrow> tables_inv pg (snd (f s))) \<Longrightarrow> keeps (pres (tables_inv pg)) (pg_stmt f)"
  by (rule keeps_pg_stmt [OF pres_trans]) (simp_all add: pres_def)

lemma create_period_inv: "keeps (pres (tables_inv pg)) (q_CreatePeriod p)"
  unfolding q_CreatePeriod_def
  by (rule keeps_tables_stmt) (auto simp: Let_def tables_inv_def intro!: periods_inv_append)

lemma update_period_inv: "keeps (pres (tables_inv pg)) (q_UpdatePeriod b e d s i u)"
  unfolding q_UpdatePeriod_def
  by (rule keeps_tables_stmt) (auto simp: Let_def tables_inv_def split: option.split intro!: periods_inv_update)

lemma create_tag_inv: "keeps (pres (tables_inv pg)) (q_CreateTag pg u nm dflt)"
  unfolding q_CreateTag_def
  by (rule keeps_tables_stmt) (auto simp: Let_def tables_inv_def intro!: tags_inv_append)

lemma update_tag_inv: "keeps (pres (tables_inv pg)) (q_UpdateTag pg nm i u)"
  unfolding q_UpdateTag_def
  by (rule keeps_tables_stmt) (auto simp: Let_def tables_inv_def split: option.split intro!: tags_inv_update)

lemma delete_tag_inv: "keeps (pres (tables_inv pg)) (q_DeleteTag i u)"
  unfolding q_DeleteTag_def by (rule keeps_tables_stmt) (auto simp: tables_inv_def inv_filter)

lemma create_schedule_inv: "keeps (pres (tables_inv pg)) (q_CreateProRataSchedule sc)"
  unfolding q_CreateProRataSchedule_def
  by (rule keeps_tables_stmt) (auto simp: Let_def tables_inv_def intro!: schedules_inv_append)

lemma mark_inv:
  "keeps (pres (tables_inv pg)) (q_MarkProRataApplied i)" "keeps (pres (tables_inv pg)) (q_MarkProRataFailed i reason)"
  unfolding q_MarkProRataApplied_def q_MarkProRataFailed_def
  by (rule keeps_tables_stmt, auto simp: tables_inv_def schedule_row_ok_def intro!: schedules_inv_mark)+

lemma upsert_defaults_inv: "keeps (pres (tables_inv pg)) (q_UpsertDefaults d)"
  unfolding q_UpsertDefaults_def
proof (rule keeps_tables_stmt, goal_cases)
  case (1 s)
  have "defaults_inv (update_rows (\<lambda>r. d_user r = d_user d) (\<lambda>_. row) (f_defaults s))"
    if "d_user row = d_user d" "d_ess row + d_des row + d_sav row = 100" for row
    using defaults_inv_update [of "f_defaults s" row] 1 that by (simp add: tables_inv_def)
  with 1 show ?case
    by (auto simp: tables_inv_def Let_def defaults_row_ok_def split: option.split intro!: defaults_inv_append)
qed

lemma upsert_score_inv: "keeps (pres (tables_inv pg)) (q_UpsertHealthScore row)"
  unfolding q_UpsertHealthScore_def Let_def
  by (rule keeps_tables_stmt) (auto simp: tables_inv_def intro!: scores_inv_upsert)

interpretation inv_marking: marking_relation lib pg "pres (tables_inv pg)" for lib pg
  by unfold_locales (use pres_refl pres_trans mark_inv in \<open>simp_all add: pres_def\<close>)

interpretation inv_tables: table_relation lib pg "pres (tables_inv pg)" for lib pg
  by unfold_locales
     (rule upsert_defaults_inv create_tag_inv update_tag_inv delete_tag_inv create_period_inv update_period_inv
        create_schedule_inv upsert_score_inv inv_marking.marking_apply_pending)+

end
