(* ===== verification/Finance_Evolution.thy ===== *)
theory Finance_Evolution
  imports Finance_Invariants
begin

text \<open>
  How the rows of the finance tables may change: a period keeps its owner, its month and its
  reporting currency, a schedule keeps everything but its status, which leaves \<^verbatim>\<open>pending\<close> at
  most once and for good, and neither disappears except when the user is erased.
\<close>

section \<open>The relation\<close>

definition fin_env_ok :: "pglib \<Rightarrow> 'w fin_state \<Rightarrow> bool" where
  "fin_env_ok pg st \<longleftrightarrow> (\<forall>rows. mset (f_scan st rows) = mset rows)
     \<and> (\<forall>k. pg_uuid pg (f_uuids st k) = Some (f_uuids st k))"

definition fin_ok :: "pglib \<Rightarrow> 'w fin_state \<Rightarrow> bool" where
  "fin_ok pg st \<longleftrightarrow> tables_inv pg st \<and> fin_env_ok pg st \<and> (\<forall>s\<in>set (f_schedules st). pg_uuid pg (sc_id s) = Some (sc_id s))"

definition same_period :: "period \<Rightarrow> period \<Rightarrow> bool" where
  "same_period p p' \<longleftrightarrow> p_id p' = p_id p \<and> p_user p' = p_user p \<and> p_year p' = p_year p \<and> p_month p' = p_month p
     \<and> p_cur p' = p_cur p \<and> p_created p' = p_created p"

definition schedule_step :: "schedule \<Rightarrow> schedule \<Rightarrow> bool" where
  "schedule_step s s' \<longleftrightarrow> s' = s \<or> sc_status s = pending
     \<and> ((\<exists>t. s' = s\<lparr>sc_status := applied, sc_applied := Some t\<rparr>) \<or> (\<exists>r. s' = s\<lparr>sc_status := failed, sc_reason := r\<rparr>))"

definition rows_kept :: "'w fin_state \<Rightarrow> 'w fin_state \<Rightarrow> bool" where
  "rows_kept st st' \<longleftrightarrow> (\<forall>p\<in>set (f_periods st). \<exists>p'\<in>set (f_periods st'). same_period p p')
     \<and> (\<forall>s\<in>set (f_schedules st). \<exists>s'\<in>set (f_schedules st'). schedule_step s s')"

definition kept_env :: "'w fin_state \<Rightarrow> 'w fin_state \<Rightarrow> bool" where
  "kept_env st st' \<longleftrightarrow> f_scan st' = f_scan st \<and> f_uuids st' = f_uuids st \<and> f_uuid_next st \<le> f_uuid_next st'"

definition evolves :: "pglib \<Rightarrow> 'w fin_state \<Rightarrow> 'w fin_state \<Rightarrow> bool" where
  "evolves pg st st' \<longleftrightarrow> (fin_ok pg st \<longrightarrow> fin_ok pg st' \<and> rows_kept st st' \<and> kept_env st st')"

lemma schedule_step_refl [simp]: "schedule_step s s" and same_period_refl [simp]: "same_period p p"
  by (simp_all add: schedule_step_def same_period_def)

lemma schedule_step_trans: "schedule_step a b \<Longrightarrow> schedule_step b c \<Longrightarrow> schedule_step a c"
  by (auto simp: schedule_step_def)

lemma in_same [intro]:
  "p \<in> P \<Longrightarrow> \<exists>x\<in>P. same_period p x" "s \<in> S \<Longrightarrow> \<exists>x\<in>S. schedule_step s x"
  using same_period_refl schedule_step_refl by blast+

lemma rows_kept_subset:
  assumes "set (f_periods st) \<subseteq> set (f_periods st')" "set (f_schedules st) \<subseteq> set (f_schedules st')"
  shows "rows_kept st st'"
  using assms same_period_refl schedule_step_refl unfolding rows_kept_def by blast

lemma rows_kept_refl [simp]: "rows_kept st st"
  by (rule rows_kept_subset) simp_all

lemma same_period_trans: "same_period a b \<Longrightarrow> same_period b c \<Longrightarrow> same_period a c"
  by (simp add: same_period_def)

lemma rows_kept_trans:
  assumes "rows_kept a b" "rows_kept b c"
  shows "rows_kept a c"
  unfolding rows_kept_def
proof (intro conjI ballI)
  fix p assume "p \<in> set (f_periods a)"
  then show "\<exists>p'\<in>set (f_periods c). same_period p p'"
    using assms same_period_trans unfolding rows_kept_def by blast
next
  fix s assume "s \<in> set (f_schedules a)"
  then show "\<exists>s'\<in>set (f_schedules c). schedule_step s s'"
    using assms schedule_step_trans unfolding rows_kept_def by blast
qed

lemma kept_env_refl [simp]: "kept_env st st" and kept_env_trans: "kept_env a b \<Longrightarrow> kept_env b c \<Longrightarrow> kept_env a c"
  by (auto simp: kept_env_def)

lemma evolves_refl: "reflp (evolves pg)" and evolves_trans: "transp (evolves pg)"
  by (auto simp: evolves_def reflp_def transp_def intro: rows_kept_trans kept_env_trans)

lemma fin_ok_kept:
  assumes "fin_ok pg st" "tables_inv pg st'" "kept_env st st'"
    and "\<And>s. s \<in> set (f_schedules st') \<Longrightarrow> sc_id s \<in> sc_id ` set (f_schedules st) \<or> (\<exists>k. sc_id s = f_uuids st k)"
  shows "fin_ok pg st'"
proof -
  have env: "fin_env_ok pg st" "fin_env_ok pg st'" using assms(1,3) by (simp_all add: fin_ok_def fin_env_ok_def kept_env_def)
  have "pg_uuid pg (sc_id s) = Some (sc_id s)" if "s \<in> set (f_schedules st')" for s
    using assms(4) [OF that] assms(1) env by (auto simp: fin_ok_def fin_env_ok_def)
  with assms(2) env show ?thesis by (simp add: fin_ok_def)
qed

section \<open>Statements\<close>

lemma keeps_evolves_stmt:
  assumes inv: "keeps (pres (tables_inv pg)) (pg_stmt f)"
    and step: "\<And>s. fin_ok pg s \<Longrightarrow> rows_kept s (snd (f s)) \<and> kept_env s (snd (f s))
      \<and> (\<forall>x\<in>set (f_schedules (snd (f s))). sc_id x \<in> sc_id ` set (f_schedules s) \<or> (\<exists>k. sc_id x = f_uuids s k))"
  shows "keeps (evolves pg) (pg_stmt f)"
proof (rule keepsI)
  fix s r s'
  assume run: "pg_stmt f s = (r, s')"
  let ?s = "s\<lparr>f_calls := f_calls s + 1\<rparr>"
  have s': "s' = ?s \<or> s' = snd (f ?s)" using run by (auto simp: pg_stmt_def Let_def split: outcome.splits)
  have "tables_inv pg s \<Longrightarrow> tables_inv pg s'" using keepsD [OF inv run] by (simp add: pres_def)
  moreover have "fin_ok pg ?s = fin_ok pg s" by (simp add: fin_ok_def fin_env_ok_def)
  moreover have "rows_kept ?s x = rows_kept s x" "kept_env ?s x = kept_env s x" for x
    by (simp_all add: rows_kept_def kept_env_def)
  ultimately show "evolves pg s s'"
    using s' step [of ?s] fin_ok_kept [of pg s s']
    by (auto simp: evolves_def rows_kept_def kept_env_def fin_ok_def in_same)
qed

lemma rows_keptI:
  assumes "f_periods st' = f_periods st \<or> (\<exists>p. f_periods st' = f_periods st @ [p])"
    and "f_schedules st' = f_schedules st \<or> (\<exists>s. f_schedules st' = f_schedules st @ [s])"
  shows "rows_kept st st'"
  using assms by (intro rows_kept_subset) auto

lemma evolves_unrelated:
  assumes "keeps (pres (tables_inv pg)) (pg_stmt f)"
    and "\<And>s. f_periods (snd (f s)) = f_periods s \<and> f_schedules (snd (f s)) = f_schedules s \<and> kept_env s (snd (f s))"
  shows "keeps (evolves pg) (pg_stmt f)"
  using assms(1) by (rule keeps_evolves_stmt) (use assms(2) in \<open>auto intro!: rows_keptI\<close>)

lemma evolves_upsert_defaults: "keeps (evolves pg) (q_UpsertDefaults d)"
  unfolding q_UpsertDefaults_def
  by (rule evolves_unrelated, rule upsert_defaults_inv [unfolded q_UpsertDefaults_def])
     (auto simp: Let_def kept_env_def split: option.split)

lemma evolves_create_tag: "keeps (evolves pg) (q_CreateTag pg u nm dflt)"
  unfolding q_CreateTag_def
  by (rule evolves_unrelated, rule create_tag_inv [unfolded q_CreateTag_def])
     (auto simp: Let_def kept_env_def gen_uuid_def split: option.split)

lemma evolves_update_tag: "keeps (evolves pg) (q_UpdateTag pg nm i u)"
  unfolding q_UpdateTag_def
  by (rule evolves_unrelated, rule update_tag_inv [unfolded q_UpdateTag_def])
     (auto simp: Let_def kept_env_def split: option.split)

lemma evolves_delete_tag: "keeps (evolves pg) (q_DeleteTag i u)"
  unfolding q_DeleteTag_def
  by (rule evolves_unrelated, rule delete_tag_inv [unfolded q_DeleteTag_def])
     (auto simp: Let_def kept_env_def split: option.split)

lemma evolves_upsert_score: "keeps (evolves pg) (q_UpsertHealthScore row)"
  unfolding q_UpsertHealthScore_def
  by (rule evolves_unrelated, rule upsert_score_inv [unfolded q_UpsertHealthScore_def])
     (auto simp: Let_def kept_env_def split: option.split)

lemma evolves_create_period: "keeps (evolves pg) (q_CreatePeriod p)"
  unfolding q_CreatePeriod_def
  by (rule keeps_evolves_stmt, rule create_period_inv [unfolded q_CreatePeriod_def])
     (auto simp: Let_def kept_env_def intro!: rows_keptI)

lemma evolves_create_schedule: "keeps (evolves pg) (q_CreateProRataSchedule sc)"
  unfolding q_CreateProRataSchedule_def
  by (rule keeps_evolves_stmt, rule create_schedule_inv [unfolded q_CreateProRataSchedule_def])
     (auto simp: Let_def kept_env_def gen_uuid_def intro!: rows_keptI)

lemma evolves_update_period: "keeps (evolves pg) (q_UpdatePeriod b e d s i u)"
  unfolding q_UpdatePeriod_def
proof (rule keeps_evolves_stmt, rule update_period_inv [unfolded q_UpdatePeriod_def], goal_cases)
  case (1 st)
  let ?sel = "\<lambda>p. p_id p = i \<and> p_user p = u"
  have d: "distinct (map p_id (f_periods st))" using 1 by (simp add: fin_ok_def tables_inv_def periods_inv_def)
  have "rows_kept st (st\<lparr>f_periods := update_rows ?sel (\<lambda>_. row) (f_periods st)\<rparr>)"
    if p: "find_first ?sel (f_periods st) = Some p" "same_period p row" for p row
  proof -
    have key: "p_id r = p_id p" if "?sel r" for r using that p(1) by (auto dest: find_first_Some)
    have "set (update_rows ?sel (\<lambda>_. row) (f_periods st)) = insert row (set (f_periods st) - {p})"
      by (rule set_update_unique [OF d p(1) key])
    with p(2) have "\<exists>y\<in>set (update_rows ?sel (\<lambda>_. row) (f_periods st)). same_period x y" if "x \<in> set (f_periods st)" for x
    proof (cases "x = p")
      case False
      with that \<open>set _ = insert row _\<close> have "x \<in> set (update_rows ?sel (\<lambda>_. row) (f_periods st))" by simp
      then show ?thesis by (rule in_same)
    qed simp
    then show ?thesis by (simp add: rows_kept_def in_same)
  qed
  then show ?case by (auto simp: Let_def kept_env_def same_period_def split: option.split)
qed

text \<open>Marking one pending schedule.\<close>

lemma rows_kept_mark:
  assumes ok: "fin_ok pg st" and s: "s \<in> set (f_schedules st)" and f: "schedule_step s (f s)"
  shows "rows_kept st (st\<lparr>f_schedules := update_rows (\<lambda>x. sc_id x = sc_id s) f (f_schedules st)\<rparr>)"
proof -
  have "x = s" if "x \<in> set (f_schedules st)" "sc_id x = sc_id s" for x
    using that s ok by (auto simp: fin_ok_def tables_inv_def schedules_inv_def distinct_map dest: inj_onD)
  then have "\<exists>y\<in>set (update_rows (\<lambda>x. sc_id x = sc_id s) f (f_schedules st)). schedule_step x y"
    if "x \<in> set (f_schedules st)" for x
  proof (cases "sc_id x = sc_id s")
    case True
    with \<open>\<And>x. x \<in> set (f_schedules st) \<Longrightarrow> sc_id x = sc_id s \<Longrightarrow> x = s\<close> that have "x = s" by simp
    with f s show ?thesis by (auto simp: set_update_rows)
  next
    case False
    with that schedule_step_refl show ?thesis unfolding set_update_rows by blast
  qed
  then show ?thesis by (simp add: rows_kept_def in_same)
qed

text \<open>
  What a list of schedules still to be applied must satisfy: they are stored, pending and distinct.
\<close>

definition pending_rows :: "'w fin_state \<Rightarrow> schedule list \<Rightarrow> bool" where
  "pending_rows st ss \<longleftrightarrow> distinct (map sc_id ss) \<and> (\<forall>s\<in>set ss. s \<in> set (f_schedules st) \<and> sc_status s = pending)"

text \<open>The effect of applying one schedule on the tables: nothing, or its row is marked.\<close>

definition marked :: "schedule \<Rightarrow> 'w fin_state \<Rightarrow> 'w fin_state \<Rightarrow> bool" where
  "marked s st st' \<longleftrightarrow> f_periods st' = f_periods st \<and> kept_env st st'
     \<and> (f_schedules st' = f_schedules st
        \<or> (\<exists>f. (\<forall>x. sc_status x = pending \<longrightarrow> schedule_step x (f x))
              \<and> f_schedules st' = update_rows (\<lambda>x. sc_id x = sc_id s) f (f_schedules st)))"

lemma marked_refl: "marked s st st"
  by (simp add: marked_def)

lemma marked_failed:
  assumes "pg_uuid pg (sc_id s) = Some (sc_id s)" "r_MarkProRataFailed pg (sc_id s) reason st = (r, st')"
  shows "marked s st st'"
proof -
  from assms have "q_MarkProRataFailed (sc_id s) reason st = (r, st')"
    by (simp add: r_MarkProRataFailed_def with_uuid_def ParseUUID_def)
  then show ?thesis
    by (auto simp: q_MarkProRataFailed_def pg_stmt_def Let_def marked_def kept_env_def schedule_step_def
        split: outcome.splits if_splits intro!: exI [of _ "\<lambda>s. s\<lparr>sc_status := failed, sc_reason := reason\<rparr>"])
qed

lemma marked_applied:
  assumes "pg_uuid pg (sc_id s) = Some (sc_id s)" "r_MarkProRataApplied pg (sc_id s) st = (r, st')"
  shows "marked s st st'"
proof -
  from assms have "q_MarkProRataApplied (sc_id s) st = (r, st')"
    by (simp add: r_MarkProRataApplied_def with_uuid_def ParseUUID_def)
  then show ?thesis
    by (auto simp: q_MarkProRataApplied_def pg_stmt_def Let_def marked_def kept_env_def schedule_step_def
        split: outcome.splits
        intro!: exI [of _ "\<lambda>s. s\<lparr>sc_status := applied, sc_applied := Some (pg_now (st\<lparr>f_calls := Suc (f_calls st)\<rparr>))\<rparr>"])
qed

lemma marked_world: "marked s st st' \<Longrightarrow> in_world m st0 = (r, st) \<Longrightarrow> marked s st0 st'"
  by (auto simp: in_world_def marked_def kept_env_def split: prod.splits)

lemma marked_apply_one:
  assumes id: "pg_uuid pg (sc_id s) = Some (sc_id s)"
    and run: "applyOneProRataSchedule lib pg xc u s reporting pref st = (r, st')"
  shows "marked s st st' \<and> isl r = False"
proof -
  have mf: "marked s st0 st1 \<and> isl r1 = False"
    if "bindR (markProRataFailed pg s why) (\<lambda>_. retR None) st0 = (r1, st1)" for why st0 st1 r1
    using that marked_failed [OF id] by (auto simp: bindR_def markProRataFailed_def split: prod.splits sum.splits)
  from run show ?thesis
    by (auto simp: applyOneProRataSchedule_def Let_def
        split: option.splits if_splits prod.splits sum.splits
        dest!: mf marked_applied [OF id] intro: marked_world [OF marked_refl] marked_world)
qed

lemma marked_keeps:
  assumes ok: "fin_ok pg st" and m: "marked s st st'" and s: "s \<in> set (f_schedules st)" "sc_status s = pending"
    and inv: "tables_inv pg st'"
  shows "fin_ok pg st' \<and> rows_kept st st' \<and> kept_env st st'"
proof -
  from m consider "f_schedules st' = f_schedules st"
    | f where "\<forall>x. sc_status x = pending \<longrightarrow> schedule_step x (f x)"
        "f_schedules st' = update_rows (\<lambda>x. sc_id x = sc_id s) f (f_schedules st)"
    by (auto simp: marked_def)
  then show ?thesis
  proof cases
    case 1
    with ok m inv fin_ok_kept [of pg st st'] show ?thesis by (auto simp: marked_def intro!: rows_keptI)
  next
    case 2
    have same: "x = s" if "x \<in> set (f_schedules st)" "sc_id x = sc_id s" for x
      using that s ok by (auto simp: fin_ok_def tables_inv_def schedules_inv_def distinct_map dest: inj_onD)
    have "sc_id (f s) = sc_id s" using 2(1) s(2) by (auto simp: schedule_step_def)
    with 2(2) same have "\<And>x. x \<in> set (f_schedules st') \<Longrightarrow> sc_id x \<in> sc_id ` set (f_schedules st)"
      by (auto simp: set_update_rows)
    with fin_ok_kept [of pg st st'] ok inv m have "fin_ok pg st'" by (auto simp: marked_def)
    moreover have "rows_kept st (st\<lparr>f_schedules := update_rows (\<lambda>x. sc_id x = sc_id s) f (f_schedules st)\<rparr>)"
      using rows_kept_mark [OF ok s(1)] 2(1) s(2) by blast
    ultimately show ?thesis using m 2(2) by (simp add: marked_def rows_kept_def)
  qed
qed

text \<open>Applying one schedule leaves the others of the list as they were.\<close>

lemma marked_others:
  assumes "marked s st st'" "pending_rows st (s # ss)"
  shows "pending_rows st' ss"
proof -
  have "x \<in> set (f_schedules st')" if "x \<in> set ss" for x
  proof -
    have "sc_id s \<notin> sc_id ` set ss" using assms(2) by (simp add: pending_rows_def)
    then have "sc_id x \<noteq> sc_id s" using that by (metis imageI)
    moreover have "x \<in> set (f_schedules st)" using that assms(2) by (simp add: pending_rows_def)
    moreover note assms(1)
    ultimately show ?thesis by (auto simp: marked_def set_update_rows)
  qed
  with assms(2) show ?thesis by (auto simp: pending_rows_def)
qed

lemma evolves_apply_each:
  assumes "apply_each (\<lambda>s. applyOneProRataSchedule lib pg xc u s reporting pref) ss st = (r, st')"
    and "fin_ok pg st" "pending_rows st ss"
  shows "fin_ok pg st' \<and> rows_kept st st' \<and> kept_env st st'"
  using assms
proof (induction ss arbitrary: st r)
  case (Cons s ss)
  let ?f = "\<lambda>s. applyOneProRataSchedule lib pg xc u s reporting pref"
  have s: "s \<in> set (f_schedules st)" "sc_status s = pending" using Cons.prems(3) by (auto simp: pending_rows_def)
  then have id: "pg_uuid pg (sc_id s) = Some (sc_id s)" using Cons.prems(2) by (auto simp: fin_ok_def)
  obtain r1 st1 where one: "?f s st = (r1, st1)" by (metis surj_pair)
  note m = marked_apply_one [OF id one]
  have "tables_inv pg st1"
    using keepsD [OF inv_marking.apply_one one] Cons.prems(2) by (simp add: pres_def fin_ok_def)
  note k = marked_keeps [OF Cons.prems(2) conjunct1 [OF m] s this]
  from m obtain x where r1: "r1 = Inr x" by (cases r1) auto
  obtain r2 where "apply_each ?f ss st1 = (r2, st')"
    using Cons.prems(1) one r1 by (auto simp: bindR_def split: prod.splits sum.splits)
  note rest = Cons.IH [OF this conjunct1 [OF k] marked_others [OF conjunct1 [OF m] Cons.prems(3)]]
  from k rest have "rows_kept st st'" by (blast intro: rows_kept_trans)
  moreover from k rest have "kept_env st st'" by (blast intro: kept_env_trans)
  ultimately show ?case using rest by simp
qed simp

lemma distinct_map_submset:
  assumes "mset xs \<subseteq># mset ys" "distinct (map f ys)"
  shows "distinct (map f xs)"
proof -
  obtain zs where "mset ys = mset (xs @ zs)"
    using assms(1) by (metis mset_append mset_subset_eq_exists_conv ex_mset)
  then have "mset (map f ys) = mset (map f (xs @ zs))" by simp
  with assms(2) have "distinct (map f (xs @ zs))" by (metis mset_eq_imp_distinct_iff)
  then show ?thesis by simp
qed

lemma pending_fetched:
  assumes "r_GetPendingProRata pg u y m st = (Inr ss, st')" "fin_ok pg st"
  shows "pending_rows st' ss \<and> fin_ok pg st' \<and> rows_kept st st' \<and> kept_env st st' \<and> f_world st' = f_world st
    \<and> f_schedules st' = f_schedules st \<and> f_periods st' = f_periods st
    \<and> (\<exists>uid. pg_uuid pg u = Some uid \<and> (\<forall>s\<in>set ss. sc_user s = uid \<and> sc_year s = y \<and> sc_month s = m))"
proof -
  from assms(1) obtain uid where uid: "pg_uuid pg u = Some uid"
    and q: "q_GetPendingProRata uid y m st = (Inr ss, st')"
    by (auto simp: r_GetPendingProRata_def with_uuid_def bindR_Inr_iff ParseUUID_def split: option.splits)
  let ?p = "\<lambda>s. sc_user s = uid \<and> sc_year s = y \<and> sc_month s = m \<and> sc_status s = pending"
  from q have st': "st' = st\<lparr>f_calls := f_calls st + 1\<rparr>"
    and ss: "ss = order_by (\<lambda>a b. sc_index a \<le> sc_index b) (filter ?p (f_scan st' (f_schedules st)))"
    by (auto simp: q_GetPendingProRata_def pg_query_def pg_stmt_def Let_def split: outcome.splits)
  have scan: "mset (f_scan st' (f_schedules st)) = mset (f_schedules st)"
    using assms(2) by (simp add: st' fin_ok_def fin_env_ok_def)
  then have sub: "mset ss \<subseteq># mset (f_schedules st)"
    unfolding ss by (simp add: mset_filter)
  then have "set ss \<subseteq> set (f_schedules st)" by (metis mset_subset_eqD set_mset_mset subsetI)
  moreover have "distinct (map sc_id ss)"
  proof -
    have "distinct (map sc_id (f_schedules st))" using assms(2) by (simp add: fin_ok_def tables_inv_def schedules_inv_def)
    with sub show ?thesis by (rule distinct_map_submset)
  qed
  moreover have "?p s" if "s \<in> set ss" for s using that unfolding ss by simp
  moreover have "fin_ok pg st'" using assms(2) by (simp add: st' fin_ok_def fin_env_ok_def)
  ultimately show ?thesis
    using uid by (auto simp: pending_rows_def st' kept_env_def intro!: rows_keptI)
qed

lemma evolves_apply_pending: "keeps (evolves pg) (applyPendingProRata lib pg xc u p)"
proof (rule keepsI)
  fix st r st'
  assume run: "applyPendingProRata lib pg xc u p st = (r, st')"
  let ?get = "r_GetPendingProRata pg u (p_year p) (p_month p)"
  obtain r1 st1 where get: "?get st = (r1, st1)" by (metis surj_pair)
  show "evolves pg st st'"
  proof (cases r1)
    case (Inl e)
    then have st': "st' = st1" using run get by (simp add: applyPendingProRata_def bindR_def wrapR_def)
    then have "st' = st \<or> st' = st\<lparr>f_calls := f_calls st + 1\<rparr>"
      using get by (auto simp: r_GetPendingProRata_def with_uuid_def bindR_def liftR_def q_GetPendingProRata_def
          pg_query_def pg_stmt_def Let_def split: sum.splits outcome.splits)
    then show ?thesis
      by (auto simp: evolves_def fin_ok_def fin_env_ok_def kept_env_def intro!: rows_keptI)
  next
    case (Inr ss)
    show ?thesis
      unfolding evolves_def
    proof
      assume ok: "fin_ok pg st"
      note f = pending_fetched [OF get [unfolded Inr] ok]
      show "fin_ok pg st' \<and> rows_kept st st' \<and> kept_env st st'"
      proof (cases "ss = []")
        case True
        then have "st' = st1" using run get Inr by (simp add: applyPendingProRata_def bindR_def wrapR_def)
        with f show ?thesis by simp
      next
        case False
        then have "apply_each (\<lambda>s. applyOneProRataSchedule lib pg xc u s (normalizeCurrencyCode lib (p_cur p))
            (period_ref_of p (normalizeCurrencyCode lib (p_cur p)))) ss st1 = (r, st')"
          using run get Inr by (simp add: applyPendingProRata_def bindR_def wrapR_def Let_def)
        from evolves_apply_each [OF this] f
        have rest: "fin_ok pg st' \<and> rows_kept st1 st' \<and> kept_env st1 st'" by simp
        with f have "rows_kept st st'" "kept_env st st'" by (blast intro: rows_kept_trans kept_env_trans)+
        with rest show ?thesis by simp
      qed
    qed
  qed
qed

interpretation evo: table_relation lib pg "evolves pg" for lib pg
proof unfold_locales
  fix s s' :: "'w fin_state"
  assume "evolves pg s s'"
  moreover have "f_schedules (restore_tables s s') = f_schedules s" "f_periods (restore_tables s s') = f_periods s"
    "f_scan (restore_tables s s') = f_scan s'" "f_uuids (restore_tables s s') = f_uuids s'"
    "f_uuid_next (restore_tables s s') = f_uuid_next s'"
    by (simp_all add: restore_tables_def)
  ultimately show "evolves pg s (restore_tables s s')"
    by (simp add: evolves_def fin_ok_def fin_env_ok_def kept_env_def rows_keptI)
next
  fix s :: "'w fin_state" and n w
  show "evolves pg s (s\<lparr>f_calls := n\<rparr>)" "evolves pg s (s\<lparr>f_ticks := n\<rparr>)" "evolves pg s (s\<lparr>f_world := w\<rparr>)"
    by (auto simp: evolves_def fin_ok_def fin_env_ok_def kept_env_def intro!: rows_keptI)
  show "f_uuid_next s \<le> n \<Longrightarrow> evolves pg s (s\<lparr>f_uuid_next := n\<rparr>)"
    by (auto simp: evolves_def fin_ok_def fin_env_ok_def kept_env_def intro!: rows_keptI)
qed (rule evolves_refl evolves_trans evolves_upsert_defaults evolves_create_tag evolves_update_tag
      evolves_delete_tag evolves_upsert_score evolves_create_period evolves_update_period
      evolves_create_schedule evolves_apply_pending)+

end
