(* ===== verification/Finance_Steps.thy ===== *)
theory Finance_Steps
  imports Finance_Evolution
begin

text \<open>
  The histories of the finance service: every operation that writes, as a step between two states
  of the tables.  The invariant of every reachable state, what a history can do to a period and to
  a schedule, and the erasure of a user.
\<close>

section \<open>Steps\<close>

text \<open>
  One request of a user, with any failures, or a change of the services finance calls
  (\<open>elsewhere\<close>) that \<open>moves\<close> allows.  Requests that only read are not listed: they change no table.
\<close>

inductive service_step :: "golib \<Rightarrow> pglib \<Rightarrow> 'w expense_client \<Rightarrow> 'w capture_client \<Rightarrow> ('w \<Rightarrow> 'w \<Rightarrow> bool) \<Rightarrow>
    'w fin_state \<Rightarrow> 'w fin_state \<Rightarrow> bool"
  for lib :: golib and pg :: pglib and xc :: "'w expense_client" and fx :: "'w capture_client" and moves :: "'w \<Rightarrow> 'w \<Rightarrow> bool" where
  onboarding: "CompleteOnboarding lib pg u req st = (r1, st') \<Longrightarrow> service_step lib pg xc fx moves st st'"
| defaults: "UpdateDefaults lib pg u req st = (r1, st') \<Longrightarrow> service_step lib pg xc fx moves st st'"
| list_tags: "ListTags lib pg u st = (r2, st') \<Longrightarrow> service_step lib pg xc fx moves st st'"
| create_tag: "CreateTag lib pg u nm st = (r3, st') \<Longrightarrow> service_step lib pg xc fx moves st st'"
| update_tag: "UpdateTag lib pg u i nm st = (r3, st') \<Longrightarrow> service_step lib pg xc fx moves st st'"
| delete_tag: "DeleteTag pg xc u i st = (r4, st') \<Longrightarrow> service_step lib pg xc fx moves st st'"
| create_period: "CreatePeriodWithProRata lib pg xc u creq st = Some (r5, st') \<Longrightarrow> service_step lib pg xc fx moves st st'"
| update_period: "UpdatePeriod pg u i ureq st = (r6, st') \<Longrightarrow> service_step lib pg xc fx moves st st'"
| prorata: "CreateProRataExpense lib pg xc fx u preq st = (r7, st') \<Longrightarrow> service_step lib pg xc fx moves st st'"
| score: "r_UpsertHealthScore pg u hs st = (r8, st') \<Longrightarrow> service_step lib pg xc fx moves st st'"
| elsewhere: "moves (f_world st) w \<Longrightarrow> service_step lib pg xc fx moves st (st\<lparr>f_world := w\<rparr>)"

text \<open>A history also erases users.\<close>

inductive fin_step :: "golib \<Rightarrow> pglib \<Rightarrow> 'w expense_client \<Rightarrow> 'w capture_client \<Rightarrow> ('w \<Rightarrow> 'w \<Rightarrow> bool) \<Rightarrow>
    'w fin_state \<Rightarrow> 'w fin_state \<Rightarrow> bool"
  for lib :: golib and pg :: pglib and xc :: "'w expense_client" and fx :: "'w capture_client" and moves :: "'w \<Rightarrow> 'w \<Rightarrow> bool" where
  service: "service_step lib pg xc fx moves st st' \<Longrightarrow> fin_step lib pg xc fx moves st st'"
| erase: "DeleteAllUserData pg u st = (r, st') \<Longrightarrow> fin_step lib pg xc fx moves st st'"

definition empty_tables :: "'w fin_state \<Rightarrow> bool" where
  "empty_tables st \<longleftrightarrow> f_periods st = [] \<and> f_tags st = [] \<and> f_schedules st = [] \<and> f_defaults st = [] \<and> f_scores st = []"

context table_relation
begin

lemma service_step_keeps:
  assumes "service_step lib pg xc fx moves st st'"
  shows "R st st'"
  using assms
proof cases
  case (delete_tag u i r4)
  then show ?thesis using keepsD [OF delete_tag_op [OF world_op]] by blast
next
  case (create_period u creq r5)
  then show ?thesis by (rule create_period_op)
next
  case (elsewhere w)
  then show ?thesis by (simp add: world)
qed (auto dest: keepsD [OF settings_ops(1)] keepsD [OF settings_ops(3)] keepsD [OF tag_ops(1)] keepsD [OF tag_ops(2)]
    keepsD [OF tag_ops(3)] keepsD [OF period_ops(3)] keepsD [OF prorata_op] keepsD [OF repo_writes(7)])

end

section \<open>Erasure\<close>

definition erased :: "string \<Rightarrow> 'w fin_state \<Rightarrow> 'w fin_state \<Rightarrow> bool" where
  "erased uid st st' \<longleftrightarrow> f_periods st' = filter (\<lambda>p. p_user p \<noteq> uid) (f_periods st)
     \<and> f_tags st' = filter (\<lambda>t. tg_user t \<noteq> uid) (f_tags st)
     \<and> f_schedules st' = filter (\<lambda>s. sc_user s \<noteq> uid) (f_schedules st)
     \<and> f_defaults st' = filter (\<lambda>d. d_user d \<noteq> uid) (f_defaults st)
     \<and> f_scores st' = filter (\<lambda>r. hr_user r \<noteq> uid) (f_scores st)"

definition same_tables :: "'w fin_state \<Rightarrow> 'w fin_state \<Rightarrow> bool" where
  "same_tables st st' \<longleftrightarrow> f_periods st' = f_periods st \<and> f_tags st' = f_tags st \<and> f_schedules st' = f_schedules st
     \<and> f_defaults st' = f_defaults st \<and> f_scores st' = f_scores st"

definition same_env :: "'w fin_state \<Rightarrow> 'w fin_state \<Rightarrow> bool" where
  "same_env st st' \<longleftrightarrow> f_world st' = f_world st \<and> f_scan st' = f_scan st \<and> f_uuids st' = f_uuids st \<and> f_uuid_next st' = f_uuid_next st"

lemma same_environment_trans: "transp same_env" and same_env_refl: "reflp same_env"
  by (auto simp: transp_def reflp_def same_env_def)

lemma keeps_env_delete: "(\<And>st. same_env st (snd (f st))) \<Longrightarrow> keeps same_env (pg_stmt f)"
  by (rule keeps_pg_stmt [OF same_environment_trans]) (simp_all add: same_env_def)

lemma erasing_env: "keeps same_env (r_DeleteAllUserData pg u)"
  unfolding r_DeleteAllUserData_def with_uuid_def q_DeleteAllUserProRataSchedules_def q_DeleteAllUserTags_def
    q_DeleteAllUserBudgetPeriods_def q_DeleteAllUserHealthScores_def q_DeleteAllUserDefaultSettings_def
  by (intro keeps_bindR [OF same_environment_trans] keeps_wrapR keeps_basic [OF same_env_refl] keeps_env_delete)
     (simp_all add: same_env_def)

lemma pg_stmt_Inr: "pg_stmt f st = (Inr x, st') \<Longrightarrow> f (st\<lparr>f_calls := f_calls st + 1\<rparr>) = (Inr x, st')"
  by (auto simp: pg_stmt_def Let_def split: outcome.splits)

lemma erasing_rows:
  assumes "r_DeleteAllUserData pg u st = (Inr x, st')"
  obtains uid where "pg_uuid pg u = Some uid" "erased uid st st'"
proof -
  from assms obtain uid where "pg_uuid pg u = Some uid" "erased uid st st'"
    by (auto simp: r_DeleteAllUserData_def with_uuid_def op_iffs ParseUUID_def q_DeleteAllUserProRataSchedules_def
        q_DeleteAllUserTags_def q_DeleteAllUserBudgetPeriods_def q_DeleteAllUserHealthScores_def
        q_DeleteAllUserDefaultSettings_def erased_def split: option.splits dest!: pg_stmt_Inr)
  then show ?thesis by (rule that)
qed

lemma DeleteAllUserData_cases:
  assumes run: "DeleteAllUserData pg u st = (r, st')"
  obtains (none) "isl r" "same_tables st st'" "same_env st st'"
  | (all) uid where "pg_uuid pg u = Some uid" "erased uid st st'" "same_env st st'"
proof -
  let ?body = "wrapR (Wrapped ''deleting all user data'') (r_DeleteAllUserData pg u)"
  obtain r1 s1 where b: "wrapR (Wrapped ''beginning transaction'') (pg_query (\<lambda>_. ())) st = (r1, s1)" by (metis surj_pair)
  have s1: "s1 = st\<lparr>f_calls := f_calls st + 1\<rparr>"
    using b by (auto simp: wrapR_def pg_query_def pg_stmt_def Let_def split: outcome.splits)
  obtain r2 s2 where m: "?body s1 = (r2, s2)" by (metis surj_pair)
  have env2: "same_env s1 s2" using keepsD [OF keeps_wrapR [OF erasing_env] m] .
  note run' = run [unfolded DeleteAllUserData_def in_tx_def b prod.case]
  show ?thesis
  proof (cases r1)
    case (Inl e)
    with run' s1 show ?thesis by (intro none) (auto simp: same_tables_def same_env_def)
  next
    case (Inr x)
    note run2 = run' [unfolded Inr sum.case m prod.case Let_def]
    show ?thesis
    proof (cases r2)
      case (Inl e)
      with run2 env2 s1 show ?thesis by (intro none) (auto simp: same_tables_def same_env_def restore_tables_def)
    next
      case (Inr y)
      with m obtain uid where uid: "pg_uuid pg u = Some uid" "erased uid s1 s2"
        by (auto simp: wrapR_Inr_iff elim: erasing_rows)
      with s1 env2 have e: "erased uid st s2" "same_env st s2" by (simp_all add: erased_def same_env_def)
      show ?thesis
      proof (cases "f_script s2 (f_calls s2) = Refused")
        case True
        with run2 Inr e show ?thesis by (intro none) (auto simp: same_tables_def same_env_def restore_tables_def)
      next
        case False
        with run2 Inr e have "erased uid st st'" "same_env st st'"
          by (auto simp: erased_def same_env_def split: outcome.splits)
        with uid show ?thesis by (intro all)
      qed
    qed
  qed
qed


section \<open>Reachable states\<close>

lemma erase_tables_inv:
  assumes "DeleteAllUserData pg u st = (r, st')" "tables_inv pg st"
  shows "tables_inv pg st'"
  using assms(1)
proof (cases rule: DeleteAllUserData_cases)
  case none
  with assms(2) show ?thesis by (simp add: tables_inv_def same_tables_def)
next
  case (all uid)
  with assms(2) show ?thesis by (simp add: tables_inv_def erased_def inv_filter)
qed

lemma fin_step_tables_inv: "fin_step lib pg xc fx moves st st' \<Longrightarrow> tables_inv pg st \<Longrightarrow> tables_inv pg st'"
  by (cases rule: fin_step.cases) (auto dest: erase_tables_inv inv_tables.service_step_keeps simp: pres_def)

lemma empty_tables_inv: "empty_tables st \<Longrightarrow> tables_inv pg st"
  by (simp add: empty_tables_def tables_inv_def periods_inv_def tags_inv_def schedules_inv_def defaults_inv_def scores_inv_def)


text \<open>
  C30: no sequence of requests short of an erasure removes a period or changes its owner, month or
  reporting currency, or removes a schedule; a schedule only ever changes by leaving the status
  \<^verbatim>\<open>pending\<close>, once, for \<^verbatim>\<open>applied\<close> or \<^verbatim>\<open>failed\<close>.
\<close>

theorem periods_and_schedules_persist:
  assumes "(service_step lib pg xc fx moves)\<^sup>*\<^sup>* st st'" "fin_ok pg st"
  shows "(\<forall>p\<in>set (f_periods st). \<exists>p'\<in>set (f_periods st'). same_period p p')
    \<and> (\<forall>s\<in>set (f_schedules st). \<exists>s'\<in>set (f_schedules st'). schedule_step s s')"
proof -
  from assms(1) have "evolves pg st st'"
  proof induction
    case base
    show ?case using evolves_refl by (rule reflpD)
  next
    case (step s s')
    then show ?case using evo.service_step_keeps transpD [OF evolves_trans] by blast
  qed
  with assms(2) show ?thesis by (simp add: evolves_def rows_kept_def)
qed

end
