(* ===== verification/Finance_Once.thy ===== *)
theory Finance_Once
  imports Finance_Steps
begin

text \<open>
  No installment of a pro-rata expense is requested twice from the expense service, although
  replies can be lost and nothing makes the requests idempotent: a group is new, a schedule is
  applied only while its month's period is being created, and a month's period is created once.
  The requests are observed by a client that writes each of them to a log before passing it on.
\<close>

section \<open>The observed clients\<close>

definition beside :: "('w, goerr, 'a) op \<Rightarrow> ('w \<times> 'l, goerr, 'a) op" where
  "beside m = (\<lambda>(w, l). case m w of (r, w') \<Rightarrow> (r, (w', l)))"

definition observed :: "'w expense_client \<Rightarrow> ('w \<times> installment_input list) expense_client" where
  "observed xc = \<lparr>xc_active = (\<lambda>u y m. beside (xc_active xc u y m)), xc_count = (\<lambda>u t. beside (xc_count xc u t)),
     xc_install = (\<lambda>i (w, l). case xc_install xc i w of (r, w') \<Rightarrow> (r, (w', l @ [i])))\<rparr>"

definition observed_capture :: "'w capture_client \<Rightarrow> ('w \<times> installment_input list) capture_client" where
  "observed_capture fx = map_option (\<lambda>f cs t. beside (f cs t)) fx"

type_synonym 'w observed_state = "('w \<times> installment_input list) fin_state"

definition requests :: "'w observed_state \<Rightarrow> installment_input list" where
  "requests st = snd (f_world st)"

definition install_key :: "installment_input \<Rightarrow> string \<times> int" where
  "install_key i = (in_group i, in_index i)"

definition schedule_key :: "schedule \<Rightarrow> string \<times> int" where
  "schedule_key s = (sc_group s, sc_index s)"

definition requested :: "'w observed_state \<Rightarrow> (string \<times> int) set" where
  "requested st = install_key ` set (requests st)"

section \<open>The invariant\<close>

definition used_uuid :: "'w fin_state \<Rightarrow> string \<Rightarrow> bool" where
  "used_uuid st g \<longleftrightarrow> (\<exists>k<f_uuid_next st. g = f_uuids st k)"

definition month_opened :: "period list \<Rightarrow> schedule \<Rightarrow> bool" where
  "month_opened P s \<longleftrightarrow> (\<exists>p\<in>set P. p_user p = sc_user s \<and> p_year p = sc_year s \<and> p_month p = sc_month s)"

definition once_inv :: "pglib \<Rightarrow> 'w observed_state \<Rightarrow> bool" where
  "once_inv pg st \<longleftrightarrow> fin_ok pg st \<and> inj (f_uuids st) \<and> distinct (map install_key (requests st))
     \<and> (\<forall>g\<in>fst ` requested st. used_uuid st g) \<and> (\<forall>s\<in>set (f_schedules st). used_uuid st (sc_group s))
     \<and> (\<forall>s\<in>set (f_schedules st). sc_status s = pending \<longrightarrow> schedule_key s \<in> requested st \<longrightarrow> month_opened (f_periods st) s)"

text \<open>Operations that neither request an installment nor touch a schedule.\<close>

definition no_request :: "pglib \<Rightarrow> 'w observed_state \<Rightarrow> 'w observed_state \<Rightarrow> bool" where
  "no_request pg st st' \<longleftrightarrow> evolves pg st st' \<and> f_schedules st' = f_schedules st \<and> requests st' = requests st"

lemma no_request_refl: "reflp (no_request pg)"
  using evolves_refl by (auto simp: reflp_def no_request_def)

lemma no_request_trans: "transp (no_request pg)"
proof (rule transpI)
  fix a b c assume "no_request pg a b" "no_request pg b c"
  then show "no_request pg a c" using transpD [OF evolves_trans] by (auto simp: no_request_def)
qed

lemma month_opened_kept: "month_opened (f_periods st) s \<Longrightarrow> rows_kept st st' \<Longrightarrow> month_opened (f_periods st') s"
  unfolding month_opened_def rows_kept_def same_period_def by metis

lemma used_uuid_kept: "used_uuid st g \<Longrightarrow> kept_env st st' \<Longrightarrow> used_uuid st' g"
  by (auto simp: used_uuid_def kept_env_def intro: less_le_trans)

lemma once_inv_quiet:
  assumes inv: "once_inv pg st" and q: "no_request pg st st'"
  shows "once_inv pg st'"
proof -
  have e: "fin_ok pg st'" "rows_kept st st'" "kept_env st st'"
    using inv q by (auto simp: once_inv_def no_request_def evolves_def)
  have same: "f_schedules st' = f_schedules st" "requests st' = requests st" "f_uuids st' = f_uuids st"
    using q e(3) by (auto simp: no_request_def kept_env_def)
  then show ?thesis
    using inv e by (auto simp: once_inv_def requested_def intro: used_uuid_kept month_opened_kept)
qed

lemma keeps_both: "keeps R m \<Longrightarrow> keeps S m \<Longrightarrow> keeps (\<lambda>s s'. R s s' \<and> S s s') m"
  by (simp add: keeps_def)

lemma keeps_no_request:
  assumes "keeps (evolves pg) (pg_stmt f)"
    and "\<And>s. f_schedules (snd (f s)) = f_schedules s \<and> f_world (snd (f s)) = f_world s"
  shows "keeps (no_request pg) (pg_stmt f)"
proof -
  have "keeps (\<lambda>s s'. f_schedules s' = f_schedules s \<and> requests s' = requests s) (pg_stmt f)"
    by (rule keeps_pg_stmt) (use assms(2) in \<open>auto simp: transp_def requests_def\<close>)
  from keeps_both [OF assms(1) this] show ?thesis unfolding no_request_def .
qed

lemma evolves_same_rows:
  assumes "fin_env_ok pg st' = fin_env_ok pg st" "same_tables st st'" "kept_env st st'"
  shows "evolves pg st st'"
  using assms by (auto simp: evolves_def fin_ok_def same_tables_def tables_inv_def intro!: rows_keptI)

interpretation quiet_ops: write_relation lib pg "no_request pg :: 'w observed_state \<Rightarrow> 'w observed_state \<Rightarrow> bool" for lib pg
proof unfold_locales
  fix s s' :: "'w observed_state"
  assume "no_request pg s s'"
  then show "no_request pg s (restore_tables s s')"
    using evo.restore by (auto simp: no_request_def restore_tables_def requests_def)
next
  fix s :: "'w observed_state" and n
  show "no_request pg s (s\<lparr>f_calls := n\<rparr>)" "no_request pg s (s\<lparr>f_ticks := n\<rparr>)"
    "f_uuid_next s \<le> n \<Longrightarrow> no_request pg s (s\<lparr>f_uuid_next := n\<rparr>)"
    by (auto simp: no_request_def requests_def evo.calls evo.ticks evo.uuid_next)
next
  show "keeps (no_request pg) (q_UpsertDefaults d)" for d
    using evolves_upsert_defaults unfolding q_UpsertDefaults_def
    by (rule keeps_no_request) (auto simp: Let_def split: option.split)
  show "keeps (no_request pg) (q_CreateTag pg u nm b)" for u nm b
    using evolves_create_tag unfolding q_CreateTag_def by (rule keeps_no_request) (auto simp: Let_def)
  show "keeps (no_request pg) (q_UpdateTag pg nm i u)" for nm i u
    using evolves_update_tag unfolding q_UpdateTag_def
    by (rule keeps_no_request) (auto simp: Let_def split: option.split)
  show "keeps (no_request pg) (q_DeleteTag i u)" for i u
    using evolves_delete_tag unfolding q_DeleteTag_def by (rule keeps_no_request) auto
  show "keeps (no_request pg) (q_CreatePeriod p)" for p
    using evolves_create_period unfolding q_CreatePeriod_def by (rule keeps_no_request) (auto simp: Let_def)
  show "keeps (no_request pg) (q_UpdatePeriod b e d s i u)" for b e d s i u
    using evolves_update_period unfolding q_UpdatePeriod_def
    by (rule keeps_no_request) (auto simp: Let_def split: option.split)
  show "keeps (no_request pg) (q_UpsertHealthScore r)" for r
    using evolves_upsert_score unfolding q_UpsertHealthScore_def
    by (rule keeps_no_request) (auto simp: Let_def split: option.split)
qed (rule no_request_refl no_request_trans)+

lemma beside_quiet:
  fixes m :: "('w, goerr, 'a) op"
  shows "keeps (no_request pg) (in_world (beside m))"
proof (rule keepsI)
  fix s :: "'w observed_state" and r s'
  assume "in_world (beside m) s = (r, s')"
  then obtain w where s': "s' = s\<lparr>f_world := w\<rparr>" "snd w = snd (f_world s)"
    by (auto simp: in_world_def beside_def split: prod.splits)
  then show "no_request pg s s'" using evo.world by (simp add: no_request_def requests_def)
qed

lemma quiet_triple: "keeps (no_request pg) m \<Longrightarrow> triple (once_inv pg) m (\<lambda>_. once_inv pg) (once_inv pg)"
  by (erule triple_keeps) (blast intro: once_inv_quiet)+

section \<open>Creating a pro-rata expense\<close>

text \<open>A group that nothing uses, and one whose first installment only has been requested.\<close>

definition fresh_group :: "pglib \<Rightarrow> string \<Rightarrow> 'w observed_state \<Rightarrow> bool" where
  "fresh_group pg g st \<longleftrightarrow> once_inv pg st \<and> used_uuid st g \<and> g \<notin> fst ` requested st \<and> g \<notin> sc_group ` set (f_schedules st)"

definition begun_group :: "pglib \<Rightarrow> string \<Rightarrow> 'w observed_state \<Rightarrow> bool" where
  "begun_group pg g st \<longleftrightarrow> once_inv pg st \<and> used_uuid st g \<and> (\<forall>j. (g, j) \<in> requested st \<longrightarrow> j = 1)"

lemma fresh_quiet: "fresh_group pg g st \<Longrightarrow> no_request pg st st' \<Longrightarrow> fresh_group pg g st'"
  using once_inv_quiet [of pg st st']
  by (auto simp: fresh_group_def no_request_def requested_def evolves_def once_inv_def intro: used_uuid_kept)

lemma new_group: "triple (once_inv pg) new_uuid (\<lambda>g. fresh_group pg g) (once_inv pg)"
proof (rule tripleI)
  fix st :: "'w observed_state" and x st'
  assume inv: "once_inv pg st" and run: "new_uuid st = (Inr x, st')"
  have x: "x = f_uuids st (f_uuid_next st)" and st': "st' = st\<lparr>f_uuid_next := f_uuid_next st + 1\<rparr>"
    using run by (auto simp: new_uuid_def gen_uuid_def)
  have "no_request pg st st'" using keepsD [OF quiet_ops.uuid run] .
  with inv have inv': "once_inv pg st'" by (rule once_inv_quiet)
  have old: "\<not> used_uuid st x" using inv by (auto simp: used_uuid_def x once_inv_def dest: injD)
  have "x \<notin> fst ` requested st'" "x \<notin> sc_group ` set (f_schedules st')"
    using old inv by (auto simp: once_inv_def st' requested_def requests_def)
  moreover have "used_uuid st' x" by (auto simp: used_uuid_def st' x)
  ultimately show "fresh_group pg x st'" using inv' by (simp add: fresh_group_def)
qed (simp add: new_uuid_def)

lemma request_first:
  fixes xc :: "'w expense_client"
  assumes "in_group i = g" "in_index i = 1"
  shows "triple (fresh_group pg g) (in_world (xc_install (observed xc) i)) (\<lambda>_. begun_group pg g) (once_inv pg)"
proof -
  have "once_inv pg st' \<and> begun_group pg g st'"
    if f: "fresh_group pg g st" and run: "in_world (xc_install (observed xc) i) st = (r, st')"
    for st r and st' :: "'w observed_state"
  proof -
    from run obtain w where st': "st' = st\<lparr>f_world := (w, requests st @ [i])\<rparr>"
      by (auto simp: in_world_def observed_def requests_def split: prod.splits)
    have req: "requested st' = insert (g, 1) (requested st)" "requests st' = requests st @ [i]"
      using assms by (auto simp: requested_def st' requests_def install_key_def)
    have "evolves pg st st'" unfolding st' by (rule evo.world)
    then have ok: "fin_ok pg st'" using f by (simp add: evolves_def fresh_group_def once_inv_def)
    have key: "install_key i = (g, 1)" using assms by (simp add: install_key_def)
    have "(g, 1) \<notin> requested st" using f by (force simp: fresh_group_def)
    then have d: "distinct (map install_key (requests st'))"
      using f by (simp add: req key fresh_group_def once_inv_def requested_def)
    have "schedule_key s \<noteq> (g, 1)" if "s \<in> set (f_schedules st)" for s
      using f that by (auto simp: fresh_group_def schedule_key_def)
    moreover have same: "f_schedules st' = f_schedules st" "f_periods st' = f_periods st" "f_uuids st' = f_uuids st"
      and used: "used_uuid st' = used_uuid st"
      by (auto simp: st' used_uuid_def fun_eq_iff)
    ultimately have "once_inv pg st'"
      using ok d f unfolding once_inv_def req(1) same used fresh_group_def by auto
    moreover have "used_uuid st' g" using f used by (simp add: fresh_group_def)
    moreover have "j = 1" if "(g, j) \<in> requested st'" for j
      using that f by (force simp: req fresh_group_def)
    ultimately show ?thesis by (simp add: begun_group_def)
  qed
  then show ?thesis by (blast intro: tripleI)
qed

lemma create_schedule_effect:
  assumes "q_CreateProRataSchedule s st = (r, st')"
  shows "f_periods st' = f_periods st \<and> f_world st' = f_world st \<and> (f_schedules st' = f_schedules st
      \<or> (\<exists>row. f_schedules st' = f_schedules st @ [row] \<and> sc_group row = sc_group s \<and> sc_index row = sc_index s))"
  using assms by (auto simp: q_CreateProRataSchedule_def pg_stmt_def Let_def split: outcome.splits if_splits)

lemma store_schedule:
  assumes "sc_group sc = g" "2 \<le> sc_index sc"
  shows "triple (begun_group pg g :: 'w observed_state \<Rightarrow> bool) (r_CreateProRataSchedule pg sc) (\<lambda>_. begun_group pg g) (once_inv pg)"
proof -
  have "begun_group pg g st'"
    if b: "begun_group pg g st" and run: "r_CreateProRataSchedule pg sc st = (r, st')"
    for st r and st' :: "'w observed_state"
  proof -
    have e: "fin_ok pg st'" "rows_kept st st'" "kept_env st st'"
      using keepsD [OF evo.repo_create_schedule run] b by (auto simp: evolves_def begun_group_def once_inv_def)
    obtain k where k: "k < f_uuid_next st" "g = f_uuids st k" using b by (auto simp: begun_group_def used_uuid_def)
    have g: "pg_uuid pg g = Some g" using b by (simp add: k begun_group_def once_inv_def fin_ok_def fin_env_ok_def)
    have "st' = st \<or> (\<exists>u t. q_CreateProRataSchedule (sc\<lparr>sc_user := u, sc_group := g, sc_tag := t\<rparr>) st = (r, st'))"
      using run assms(1) g
      by (auto simp: r_CreateProRataSchedule_def with_uuid_def bindR_def ParseUUID_def split: option.splits)
    then have eff: "f_schedules st' = f_schedules st
        \<or> (\<exists>row. f_schedules st' = f_schedules st @ [row] \<and> sc_group row = g \<and> sc_index row = sc_index sc)"
      and same: "requests st' = requests st" "f_periods st' = f_periods st"
      using create_schedule_effect by (fastforce simp: requests_def)+
    have req: "requested st' = requested st" by (simp add: requested_def same)
    have used: "used_uuid st h \<Longrightarrow> used_uuid st' h" for h using used_uuid_kept [OF _ e(3)] .
    have uu: "f_uuids st' = f_uuids st" using e(3) by (simp add: kept_env_def)
    from eff consider "f_schedules st' = f_schedules st"
      | row where "f_schedules st' = f_schedules st @ [row]" "sc_group row = g" "sc_index row = sc_index sc" by blast
    then have "once_inv pg st'"
    proof cases
      case 1
      with b e(1) used show ?thesis unfolding begun_group_def once_inv_def req same uu by auto
    next
      case 2
      have "schedule_key row \<notin> requested st" using b 2 assms by (auto simp: begun_group_def schedule_key_def)
      moreover have "used_uuid st' g" using b used by (simp add: begun_group_def)
      ultimately show ?thesis
        using b e(1) used 2(2) unfolding begun_group_def once_inv_def req same uu 2(1) by auto
    qed
    with b used show ?thesis by (simp add: begun_group_def req)
  qed
  then show ?thesis by (rule triple_all) (auto simp: begun_group_def)
qed

lemma store_schedules:
  assumes "\<And>a y m j. sc_group (mk a y m j) = g \<and> sc_index (mk a y m j) = j" "2 \<le> i"
  shows "triple (begun_group pg g :: 'w observed_state \<Rightarrow> bool) (create_schedules pg mk y m i as) (\<lambda>_. once_inv pg) (once_inv pg)"
  using assms(2)
proof (induction as arbitrary: y m i)
  case Nil
  show ?case unfolding create_schedules.simps by (rule triple_basic) (simp add: begun_group_def)
next
  case (Cons a as)
  show ?case
    unfolding create_schedules.simps
  proof (rule triple_prod)
    fix y' m'
    have i: "2 \<le> i + 1" using Cons.prems by simp
    show "triple (begun_group pg g :: 'w observed_state \<Rightarrow> bool) (bindR (wrapR (\<lambda>_. Api (Internal
            ''First installment was created but schedule creation failed. Please contact support.''))
          (r_CreateProRataSchedule pg (mk a y' m' i))) (\<lambda>s.
        bindR (create_schedules pg mk y' m' (i + 1) as) (\<lambda>ss. retR (s # ss)))) (\<lambda>_. once_inv pg) (once_inv pg)"
      by (rule triple_bindR, rule triple_wrapR, rule store_schedule, simp add: assms(1), simp add: assms(1) Cons.prems,
          rule triple_bindR, rule Cons.IH [OF i], rule triple_basic)
  qed
qed

lemma prorata_once:
  "triple (once_inv pg) (CreateProRataExpense lib pg (observed xc) (observed_capture fx) u req) (\<lambda>_. once_inv pg) (once_inv pg)"
proof (cases fx)
  case None
  have "keeps (no_request pg) (CreateProRataExpense lib pg (observed xc) (observed_capture fx) u req)"
    unfolding CreateProRataExpense_def Let_def None observed_capture_def option.map option.case
    by (intro quiet_ops.seq quiet_ops.basic keeps_if quiet_ops.api quiet_ops.clock quiet_ops.uuid quiet_ops.current_period)
  then show ?thesis by (rule quiet_triple)
next
  case (Some capture)
  note q = quiet_triple [OF quiet_ops.api] quiet_triple [OF quiet_ops.current_period]
    quiet_triple [OF quiet_ops.basic(2)] quiet_triple [OF quiet_ops.basic(3)]
  note fresh = triple_keeps [where P = "fresh_group pg g" and E = "once_inv pg" for g, OF _ fresh_quiet]
  show ?thesis
    unfolding CreateProRataExpense_def Let_def Some observed_capture_def option.map option.case
    apply (rule triple_bindR, rule q)
    apply (rule triple_bindR, rule q)
    subgoal for _ p
      apply (cases "currency_supported (normalizeCurrencyCode lib (p_cur p))")
       apply simp
       apply (rule triple_bindR, rule q)
      subgoal for tc
        apply (rule triple_bindR, rule new_group)
        subgoal for g
          apply (rule triple_bindR, rule fresh, rule quiet_ops.clock, assumption, assumption, simp add: fresh_group_def)
          apply (rule triple_bindR, rule fresh, rule beside_quiet, assumption, assumption, simp add: fresh_group_def)
          subgoal for now snapshot
            apply (cases snapshot)
             apply (simp, rule triple_basic, simp add: fresh_group_def)
            apply simp
            apply (rule triple_bindR, rule triple_wrapR, rule request_first [where g = g])
              apply (simp_all add: first_installment_def)
            apply (rule triple_bindR, rule store_schedules)
              apply (simp_all add: schedule_for_def)
            apply (rule triple_basic, assumption)
            done
          done
        done
      apply (simp, rule triple_basic, assumption)
      done
    done
qed

section \<open>Creating a period\<close>

lemma in_same_schedule: "y \<in> S \<Longrightarrow> \<exists>x\<in>S. schedule_step x y"
  using schedule_step_refl by blast

text \<open>
  What holds from the moment the period of a month is created until its schedules have been
  applied: the installments \<open>ss\<close> are stored, pending, of that month, and not requested so far.
\<close>

definition to_request :: "pglib \<Rightarrow> schedule list \<Rightarrow> 'w observed_state \<Rightarrow> bool" where
  "to_request pg ss st \<longleftrightarrow> once_inv pg st \<and> pending_rows st ss
     \<and> (\<forall>s\<in>set ss. month_opened (f_periods st) s \<and> schedule_key s \<notin> requested st)"

lemma apply_one_log:
  assumes "applyOneProRataSchedule lib pg (observed xc) u s reporting pref st = (r, st')"
  shows "requests st' = requests st \<or> requests st' = requests st @ [installment_of lib u pref s]"
proof -
  have mark: "keeps (\<lambda>s s'. requests s' = requests s) (r_MarkProRataApplied pg i)"
    "keeps (\<lambda>s s'. requests s' = requests s) (r_MarkProRataFailed pg i why)" for i why
    unfolding r_MarkProRataApplied_def r_MarkProRataFailed_def with_uuid_def q_MarkProRataApplied_def q_MarkProRataFailed_def
    by (intro keeps_bindR keeps_basic keeps_pg_stmt; simp add: transp_def reflp_def requests_def)+
  have failing: "requests st1 = requests st0"
    if "bindR (markProRataFailed pg s why) (\<lambda>_. retR None) st0 = (r1, st1)" for why st0 r1 st1
    using that by (auto simp: markProRataFailed_def bindR_def split: prod.splits sum.splits dest: keepsD [OF mark(2)])
  have install: "requests st1 = requests st0 @ [i]"
    if "in_world (xc_install (observed xc) i) st0 = (r1, st1)" for i st0 r1 st1
    using that by (auto simp: in_world_def observed_def requests_def split: prod.splits)
  from assms show ?thesis
    by (auto simp: applyOneProRataSchedule_def Let_def split: option.splits if_splits prod.splits sum.splits
        dest!: failing install keepsD [OF mark(1)])
qed

lemma once_inv_apply:
  assumes inv: "once_inv pg st" and s: "s \<in> set (f_schedules st)" "sc_status s = pending"
    and month: "month_opened (f_periods st) s" and new: "schedule_key s \<notin> requested st"
    and run: "applyOneProRataSchedule lib pg (observed xc) u s reporting pref st = (r, st')"
  shows "once_inv pg st' \<and> f_periods st' = f_periods st \<and> requested st' \<subseteq> insert (schedule_key s) (requested st)"
proof -
  have ok: "fin_ok pg st" using inv by (simp add: once_inv_def)
  then have id: "pg_uuid pg (sc_id s) = Some (sc_id s)" using s by (simp add: fin_ok_def)
  note m = conjunct1 [OF marked_apply_one [OF id run]]
  have "tables_inv pg st'" using keepsD [OF inv_marking.apply_one run] ok by (simp add: pres_def fin_ok_def)
  from marked_keeps [OF ok m s this] have e: "fin_ok pg st'" "rows_kept st st'" "kept_env st st'" by auto
  have P: "f_periods st' = f_periods st" using m by (simp add: marked_def)
  have uu: "f_uuids st' = f_uuids st" using e(3) by (simp add: kept_env_def)
  have used: "used_uuid st h \<Longrightarrow> used_uuid st' h" for h using used_uuid_kept [OF _ e(3)] .
  have key: "install_key (installment_of lib u pref s) = schedule_key s"
    by (simp add: install_key_def schedule_key_def installment_of_def)
  have sub: "requested st' \<subseteq> insert (schedule_key s) (requested st)" and d: "distinct (map install_key (requests st'))"
    using apply_one_log [OF run] new inv key by (auto simp: requested_def once_inv_def)
  have old: "\<exists>x\<in>set (f_schedules st). schedule_step x y" if "y \<in> set (f_schedules st')" for y
  proof -
    consider "f_schedules st' = f_schedules st" | (marked) f where "\<forall>x. sc_status x = pending \<longrightarrow> schedule_step x (f x)"
        "f_schedules st' = update_rows (\<lambda>x. sc_id x = sc_id s) f (f_schedules st)"
      using m unfolding marked_def by blast
    then show ?thesis
    proof cases
      case marked
      show ?thesis
      proof (cases "y \<in> set (f_schedules st)")
        case False
        with that marked(2) obtain x where x: "x \<in> set (f_schedules st)" "sc_id x = sc_id s" "y = f x"
          by (auto simp: set_update_rows)
        then have "x = s" using s ok by (auto simp: fin_ok_def tables_inv_def schedules_inv_def distinct_map dest: inj_onD)
        with marked(1) s x show ?thesis by blast
      qed (rule in_same_schedule)
    qed (use that in \<open>simp add: in_same_schedule\<close>)
  qed
  have "used_uuid st' g" if "g \<in> fst ` requested st'" for g
  proof -
    have "g \<in> insert (sc_group s) (fst ` requested st)" using that sub by (force simp: schedule_key_def)
    with inv s used show ?thesis by (auto simp: once_inv_def)
  qed
  moreover have "used_uuid st' (sc_group y) \<and> (sc_status y = pending \<longrightarrow> schedule_key y \<in> requested st' \<longrightarrow> month_opened (f_periods st') y)"
    if y: "y \<in> set (f_schedules st')" for y
  proof -
    from old [OF y] obtain x where x: "x \<in> set (f_schedules st)" "schedule_step x y" by blast
    then have same: "sc_group y = sc_group x" "schedule_key y = schedule_key x" "month_opened P y = month_opened P x" for P
      by (auto simp: schedule_step_def schedule_key_def month_opened_def)
    have "month_opened (f_periods st') y" if "sc_status y = pending" "schedule_key y \<in> requested st'"
    proof -
      have "x = s" if "schedule_key x = schedule_key s"
        using that x(1) s(1) ok
        by (auto simp: fin_ok_def tables_inv_def schedules_inv_def schedule_key_def distinct_map dest: inj_onD)
      moreover have "sc_status x = pending" using that x(2) by (auto simp: schedule_step_def)
      ultimately show ?thesis using that sub inv x(1) month by (auto simp: same P once_inv_def)
    qed
    with inv x(1) used same(1) show ?thesis by (auto simp: once_inv_def)
  qed
  ultimately have "once_inv pg st'" using e(1) d inv by (simp add: once_inv_def uu)
  with P sub show ?thesis by simp
qed

lemma apply_list_once:
  assumes "to_request pg ss st"
    and "apply_each (\<lambda>s. applyOneProRataSchedule lib pg (observed xc) u s reporting pref) ss st = (r, st')"
  shows "once_inv pg st'"
  using assms
proof (induction ss arbitrary: st r)
  case Nil
  then show ?case by (simp add: to_request_def)
next
  case (Cons s ss)
  let ?f = "\<lambda>s. applyOneProRataSchedule lib pg (observed xc) u s reporting pref"
  have s: "once_inv pg st" "s \<in> set (f_schedules st)" "sc_status s = pending" "month_opened (f_periods st) s"
    "schedule_key s \<notin> requested st" and rows: "pending_rows st (s # ss)"
    using Cons.prems(1) by (auto simp: to_request_def pending_rows_def)
  obtain r1 st1 where one: "?f s st = (r1, st1)" by (metis surj_pair)
  note k = once_inv_apply [OF s one]
  have ok: "fin_ok pg st" using s(1) by (simp add: once_inv_def)
  then have "pg_uuid pg (sc_id s) = Some (sc_id s)" using s(2) by (simp add: fin_ok_def)
  note m = marked_apply_one [OF this one]
  have "schedule_key x \<noteq> schedule_key s" if "x \<in> set ss" for x
  proof
    assume eq: "schedule_key x = schedule_key s"
    have "x \<in> set (f_schedules st)" using that rows by (simp add: pending_rows_def)
    with eq s(2) ok have "x = s"
      by (auto simp: fin_ok_def tables_inv_def schedules_inv_def schedule_key_def distinct_map dest: inj_onD)
    with rows that show False by (auto simp: pending_rows_def)
  qed
  with k Cons.prems(1) marked_others [OF conjunct1 [OF m] rows] have "to_request pg ss st1"
    by (auto simp: to_request_def)
  moreover obtain x where "r1 = Inr x" using m by (cases r1) auto
  then obtain r2 where "apply_each ?f ss st1 = (r2, st')"
    using Cons.prems(2) one by (auto simp: bindR_def split: prod.splits sum.splits)
  ultimately show ?case by (rule Cons.IH)
qed

lemma requested_same: "requests st' = requests st \<Longrightarrow> requested st' = requested st"
  by (simp add: requested_def)

text \<open>Right after the period of a month is stored, no schedule of the month has been requested.\<close>

definition opened :: "pglib \<Rightarrow> string \<Rightarrow> period \<Rightarrow> 'w observed_state \<Rightarrow> bool" where
  "opened pg u p st \<longleftrightarrow> once_inv pg st \<and> p \<in> set (f_periods st) \<and> pg_uuid pg u = Some (p_user p)
     \<and> (\<forall>s\<in>set (f_schedules st). sc_status s = pending \<and> sc_user s = p_user p \<and> sc_year s = p_year p
          \<and> sc_month s = p_month p \<longrightarrow> schedule_key s \<notin> requested st)"

lemma created_opened:
  fixes pg :: pglib
  assumes "p_user p = u"
  shows "triple (once_inv pg :: 'w observed_state \<Rightarrow> bool) (r_CreatePeriod pg p) (opened pg u) (once_inv pg)"
proof (rule tripleI)
  fix st st' :: "'w observed_state" and row
  assume inv: "once_inv pg st" and run: "r_CreatePeriod pg p st = (Inr row, st')"
  have q: "no_request pg st st'" using keepsD [OF quiet_ops.repo_writes(5) run] .
  then have S: "f_schedules st' = f_schedules st" and L: "requested st' = requested st"
    by (simp_all add: no_request_def requested_def)
  have inv': "once_inv pg st'" using once_inv_quiet [OF inv q] .
  from run assms obtain uid where uid: "pg_uuid pg u = Some uid" and create: "q_CreatePeriod (p\<lparr>p_user := uid\<rparr>) st = (Inr row, st')"
    by (auto simp: r_CreatePeriod_def with_uuid_def bindR_Inr_iff ParseUUID_def split: option.splits)
  from create have new: "row \<in> set (f_periods st')" "p_user row = uid" "\<forall>r\<in>set (f_periods st). \<not> same_month r row"
    by (auto simp: q_CreatePeriod_def pg_stmt_def Let_def split: outcome.splits if_splits)
  have "schedule_key s \<notin> requested st'"
    if "s \<in> set (f_schedules st')" "sc_status s = pending" "sc_user s = p_user row" "sc_year s = p_year row" "sc_month s = p_month row" for s
  proof
    assume "schedule_key s \<in> requested st'"
    with that inv have "month_opened (f_periods st) s" by (simp add: once_inv_def S L)
    then obtain p where p: "p \<in> set (f_periods st)" "p_user p = sc_user s" "p_year p = sc_year s" "p_month p = sc_month s"
      unfolding month_opened_def by blast
    with that have "same_month p row" by (simp add: same_month_def)
    with p(1) new(3) show False by blast
  qed
  with inv' new uid show "opened pg u row st'" by (auto simp: opened_def)
next
  fix st st' :: "'w observed_state" and e
  assume "once_inv pg st" "r_CreatePeriod pg p st = (Inl e, st')"
  then show "once_inv pg st'" using once_inv_quiet keepsD [OF quiet_ops.repo_writes(5)] by metis
qed

lemma apply_opened:
  fixes xc :: "'w expense_client"
  shows "triple (opened pg u p) (apply_or_report lib pg (observed xc) u p) (\<lambda>_. once_inv pg) (once_inv pg)"
proof (rule triple_all)
  fix st st' :: "'w observed_state" and r
  assume op: "opened pg u p st" and run: "apply_or_report lib pg (observed xc) u p st = (r, st')"
  obtain r0 where run0: "applyPendingProRata lib pg (observed xc) u p st = (r0, st')"
    using run by (auto simp: apply_or_report_def split: prod.splits sum.splits)
  let ?get = "r_GetPendingProRata pg u (p_year p) (p_month p)"
  obtain r1 st1 where get: "?get st = (r1, st1)" by (metis surj_pair)
  have quiet: "no_request pg st st1" using keepsD [OF quiet_ops.repo_reads(10) get] .
  have inv: "once_inv pg st" using op by (simp add: opened_def)
  note inv1 = once_inv_quiet [OF inv quiet]
  show "once_inv pg st'"
  proof (cases r1)
    case (Inl e)
    with run0 get inv1 show ?thesis by (simp add: applyPendingProRata_def bindR_def wrapR_def)
  next
    case (Inr ss)
    have ok: "fin_ok pg st" using inv by (simp add: once_inv_def)
    note f = pending_fetched [OF get [unfolded Inr] ok]
    show ?thesis
    proof (cases "ss = []")
      case True
      with run0 get Inr inv1 show ?thesis by (simp add: applyPendingProRata_def bindR_def wrapR_def)
    next
      case False
      have L: "requested st1 = requested st" using quiet by (simp add: no_request_def requested_def)
      have P: "f_periods st1 = f_periods st" "f_schedules st1 = f_schedules st" and rows: "pending_rows st1 ss"
        using f by blast+
      have uid: "pg_uuid pg u = Some (p_user p)" and p: "p \<in> set (f_periods st)" using op by (simp_all add: opened_def)
      have of_month: "\<forall>s\<in>set ss. sc_user s = p_user p \<and> sc_year s = p_year p \<and> sc_month s = p_month p"
        using f unfolding uid by blast
      have "month_opened (f_periods st1) s \<and> schedule_key s \<notin> requested st1" if "s \<in> set ss" for s
      proof -
        have "sc_user s = p_user p" "sc_year s = p_year p" "sc_month s = p_month p"
          using of_month that by blast+
        moreover have "s \<in> set (f_schedules st1)" "sc_status s = pending" using rows that by (simp_all add: pending_rows_def)
        ultimately have "schedule_key s \<notin> requested st" using op P(2) by (simp add: opened_def)
        moreover have "month_opened (f_periods st) s"
          unfolding month_opened_def using of_month that p by (intro bexI [of _ p]) simp_all
        ultimately show ?thesis by (simp add: L P)
      qed
      with rows inv1 have "to_request pg ss st1" by (simp add: to_request_def)
      moreover have "apply_each (\<lambda>s. applyOneProRataSchedule lib pg (observed xc) u s (normalizeCurrencyCode lib (p_cur p))
            (period_ref_of p (normalizeCurrencyCode lib (p_cur p)))) ss st1 = (r0, st')"
        using run0 get Inr False by (simp add: applyPendingProRata_def bindR_def wrapR_def Let_def)
      ultimately show ?thesis by (rule apply_list_once)
    qed
  qed
qed

lemma missed_once:
  fixes xc :: "'w expense_client"
  shows "triple (once_inv pg) (create_missed lib pg (observed xc) u d yms) (\<lambda>_. once_inv pg) (once_inv pg)"
proof (induction yms)
  case Nil
  show ?case unfolding create_missed.simps by (rule triple_basic)
next
  case (Cons ym yms)
  show ?case
    unfolding create_missed.simps
    by (rule triple_bindR, rule triple_wrapR, rule created_opened [of _ u], simp add: auto_period_def,
        rule triple_bindR, rule apply_opened, rule triple_bindR, rule Cons, rule triple_prod, rule triple_basic)
qed

lemma period_once:
  fixes xc :: "'w expense_client"
  assumes inv: "once_inv pg st" and run: "CreatePeriodWithProRata lib pg (observed xc) u req st = Some (r, st')"
  shows "once_inv pg st'"
proof -
  let ?budget = "case cp_budget req of None \<Rightarrow> 0 | Some b \<Rightarrow> b"
  let ?reporting = "normalizeCurrencyCode lib (cp_cur req)"
  let ?checks = "bindR (apiR (ValidateEDSSplit (cp_ess req) (cp_des req) (cp_sav req))) (\<lambda>_.
      bindR (apiR (period_checks req ?budget)) (\<lambda>_.
      bindR (apiR (validateSupportedCurrency lib ''reportingCurrencyCode'' ?reporting)) (\<lambda>_.
      wrapR (Wrapped ''getting latest period'') (r_GetLatestPeriod pg u))))"
  obtain r1 st1 where checks: "?checks st = (r1, st1)" by (metis surj_pair)
  have "keeps (no_request pg) ?checks"
    by (intro quiet_ops.seq keeps_wrapR quiet_ops.api quiet_ops.repo_reads)
  from once_inv_quiet [OF inv keepsD [OF this checks]] have inv1: "once_inv pg st1" .
  show ?thesis
  proof (cases r1)
    case (Inl e)
    with run checks inv1 show ?thesis by (simp add: CreatePeriodWithProRata_def Let_def)
  next
    case (Inr latest)
    from run checks Inr obtain missed where m: "createMissedPeriods lib pg (observed xc) u latest (cp_year req) (cp_month req) = Some missed"
      and rest: "bindR missed (\<lambda>(labels, applied1).
          bindR (wrapR (Wrapped ''creating period'') (r_CreatePeriod pg (new_period u req ?budget ?reporting))) (\<lambda>p.
          bindR (apply_or_report lib pg (observed xc) u p) (\<lambda>applied2.
          retR \<lparr>pp_period = p, pp_applied = applied1 @ applied2, pp_auto = labels\<rparr>))) st1 = (r, st')"
      by (auto simp: CreatePeriodWithProRata_def Let_def split: option.splits)
    have "triple (once_inv pg) missed (\<lambda>_. once_inv pg) (once_inv pg)"
      using m by (auto simp: createMissedPeriods_def simp del: create_missed.simps split: option.splits list.splits
          intro!: triple_basic triple_bindR [OF quiet_triple [OF quiet_ops.settings_ops(4)]] missed_once)
    then have "triple (once_inv pg) (bindR missed (\<lambda>(labels, applied1).
          bindR (wrapR (Wrapped ''creating period'') (r_CreatePeriod pg (new_period u req ?budget ?reporting))) (\<lambda>p.
          bindR (apply_or_report lib pg (observed xc) u p) (\<lambda>applied2.
          retR \<lparr>pp_period = p, pp_applied = applied1 @ applied2, pp_auto = labels\<rparr>)))) (\<lambda>_. once_inv pg) (once_inv pg)"
      apply (rule triple_bindR)
      apply (rule triple_prod, rule triple_bindR, rule triple_wrapR, rule created_opened [of _ u])
       apply (simp add: new_period_def)
      apply (rule triple_bindR, rule apply_opened, rule triple_basic, assumption)
      done
    from tripleD [OF this inv1] rest show ?thesis by (cases r) auto
  qed
qed

section \<open>Histories\<close>

definition log_untouched :: "'w \<times> installment_input list \<Rightarrow> 'w \<times> installment_input list \<Rightarrow> bool" where
  "log_untouched a b \<longleftrightarrow> snd b = snd a"

lemma service_step_once:
  assumes "service_step lib pg (observed xc) (observed_capture fx) log_untouched st st'" "once_inv pg st"
  shows "once_inv pg st'"
  using assms(1)
proof cases
  case (delete_tag u i r4)
  have "keeps (no_request pg) (DeleteTag pg (observed xc) u i)"
    by (rule quiet_ops.delete_tag_op) (simp add: observed_def beside_quiet)
  from once_inv_quiet [OF assms(2) keepsD [OF this delete_tag]] show ?thesis .
next
  case (create_period u creq r5)
  with assms(2) show ?thesis by (blast intro: period_once)
next
  case (prorata u preq r7)
  then show ?thesis using tripleD [OF prorata_once assms(2)] by (cases r7) auto
next
  case (elsewhere w)
  then have "no_request pg st st'" using evo.world by (auto simp: no_request_def requests_def log_untouched_def)
  with assms(2) show ?thesis by (rule once_inv_quiet)
qed (use assms(2) once_inv_quiet in \<open>blast dest: keepsD [OF quiet_ops.settings_ops(1)] keepsD [OF quiet_ops.settings_ops(3)]
    keepsD [OF quiet_ops.tag_ops(1)] keepsD [OF quiet_ops.tag_ops(2)] keepsD [OF quiet_ops.tag_ops(3)]
    keepsD [OF quiet_ops.period_ops(3)] keepsD [OF quiet_ops.repo_writes(7)]\<close>)+

lemma month_opened_erased:
  "month_opened P s \<Longrightarrow> sc_user s \<noteq> uid \<Longrightarrow> month_opened (filter (\<lambda>p. p_user p \<noteq> uid) P) s"
  by (auto simp: month_opened_def)

lemma erase_once:
  assumes "DeleteAllUserData pg u st = (r, st')" "once_inv pg st"
  shows "once_inv pg st'"
  using assms(1)
proof (cases rule: DeleteAllUserData_cases)
  case none
  then have "no_request pg st st'"
    by (auto simp: no_request_def same_tables_def same_env_def requests_def kept_env_def fin_env_ok_def intro!: evolves_same_rows)
  with assms(2) show ?thesis by (rule once_inv_quiet)
next
  case (all uid)
  have ok: "fin_ok pg st'"
    using assms erase_tables_inv [OF assms(1)] all(2,3)
    by (auto simp: once_inv_def fin_ok_def fin_env_ok_def same_env_def erased_def)
  have "requests st' = requests st" "f_uuids st' = f_uuids st" "used_uuid st' = used_uuid st"
    using all(3) by (auto simp: same_env_def requests_def used_uuid_def fun_eq_iff)
  with ok assms(2) all(2) requested_same [of st' st] show ?thesis
    by (auto simp: once_inv_def erased_def intro: month_opened_erased)
qed


end
