(* ===== verification/Finance_Calendar.thy ===== *)
theory Finance_Calendar
  imports Finance_ProRata
begin

text \<open>
  What the arithmetic of pro-rata computes: the installments of an amount, and the months between
  the latest period and a requested one.
\<close>

section \<open>Installments\<close>

lemma is_i64_below: "is_i64 a \<Longrightarrow> 0 \<le> x \<Longrightarrow> x \<le> a \<Longrightarrow> is_i64 x"
  by (simp add: is_i64_def)

lemma installments_shape:
  assumes "is_i64 a" "0 \<le> a" "2 \<le> m"
  shows "CalculateInstallments a m = (a div m + a mod m) # replicate (nat (m - 1)) (a div m)"
proof -
  have q: "go_quo a m = a div m" using assms by (simp add: go_quo_nonneg)
  have r: "a - a div m * m = a mod m" by (simp add: minus_div_mult_eq_mod)
  have b: "0 \<le> a div m * m" "a div m * m \<le> a" "0 \<le> a mod m" "a mod m \<le> a" "0 \<le> a div m"
    using assms by (simp_all add: pos_imp_zdiv_nonneg_iff minus_mod_eq_div_mult [symmetric] zmod_le_nonneg_dividend)
  have "a div m \<le> a div m * m" using b(5) assms(3) by (simp add: mult_le_cancel_left1)
  then have "a div m + a mod m \<le> a" using r by linarith
  with b have rng: "is_i64 (a div m * m)" "is_i64 (a mod m)" "is_i64 (a div m + a mod m)"
    by (simp_all add: is_i64_below [OF assms(1)])
  show ?thesis
    using assms(3) by (simp add: CalculateInstallments_def Let_def q r rng)
qed

text \<open>
  C18: an amount spread over n months is split into exactly n installments that add up to the
  amount; all but the first are the quotient, and the first exceeds them by less than n minor
  units.
\<close>

theorem installments_add_up:
  assumes "is_i64 a" "0 \<le> a" "1 \<le> m"
  shows "length (CalculateInstallments a m) = nat m \<and> sum_list (CalculateInstallments a m) = a
    \<and> set (tl (CalculateInstallments a m)) \<subseteq> {a div m}
    \<and> a div m \<le> hd (CalculateInstallments a m) \<and> hd (CalculateInstallments a m) - a div m < m"
proof (cases "m = 1")
  case True
  then show ?thesis by (simp add: CalculateInstallments_def)
next
  case False
  with assms(3) have m: "2 \<le> m" by simp
  have "a div m + a mod m + (m - 1) * (a div m) = a"
    using mult_div_mod_eq [of m a] by (simp add: algebra_simps)
  with m show ?thesis
    unfolding installments_shape [OF assms(1,2) m] by (auto simp: sum_list_replicate)
qed

section \<open>Months\<close>

text \<open>The number of a month, counting from the first month of the year 0.\<close>

definition month_no :: "int \<times> int \<Rightarrow> int" where
  "month_no ym = 12 * fst ym + snd ym - 1"

definition month_at :: "int \<Rightarrow> int \<times> int" where
  "month_at k = (k div 12, k mod 12 + 1)"

definition is_month :: "int \<times> int \<Rightarrow> bool" where
  "is_month ym \<longleftrightarrow> is_i32 (fst ym) \<and> 1 \<le> snd ym \<and> snd ym \<le> 12"

lemma month_at_no: "1 \<le> m \<Longrightarrow> m \<le> 12 \<Longrightarrow> month_at (month_no (y, m)) = (y, m)"
proof -
  assume "1 \<le> m" "m \<le> 12"
  then have "(12 * y + m - 1) div 12 = y" "(12 * y + m - 1) mod 12 = m - 1" by presburger+
  then show ?thesis by (simp add: month_at_def month_no_def)
qed

lemma month_no_at [simp]: "month_no (month_at k) = k"
  by (simp add: month_no_def month_at_def)

lemma month_at_range [simp]: "1 \<le> snd (month_at k)" "snd (month_at k) \<le> 12"
  by (simp_all add: month_at_def)

lemma AdvanceMonth_next:
  assumes "1 \<le> m" "m \<le> 12" "is_i32 y" "m = 12 \<longrightarrow> y < 2147483647"
  shows "AdvanceMonth y m = month_at (month_no (y, m) + 1)"
proof (cases "m = 12")
  case True
  with assms show ?thesis
    by (simp add: AdvanceMonth_def month_at_def month_no_def is_i32_def)
next
  case False
  with assms have "1 \<le> m + 1" "m + 1 \<le> 12" by auto
  from month_at_no [OF this, of y] have "month_at (month_no (y, m) + 1) = (y, m + 1)" by (simp add: month_no_def)
  with False assms show ?thesis by (simp add: AdvanceMonth_def is_i32_def)
qed

lemma reached_iff:
  "1 \<le> m \<Longrightarrow> m \<le> 12 \<Longrightarrow> 1 \<le> tm \<Longrightarrow> tm \<le> 12 \<Longrightarrow> reached y m ty tm \<longleftrightarrow> month_no (ty, tm) \<le> month_no (y, m)"
  by (auto simp: reached_def month_no_def)

text \<open>The reference definition: the months strictly between two months, in order.\<close>

definition months_between :: "int \<times> int \<Rightarrow> int \<times> int \<Rightarrow> (int \<times> int) list" where
  "months_between a b = map month_at [month_no a + 1..month_no b - 1]"

lemma missed_from_between:
  assumes "1 \<le> m" "m \<le> 12" "is_i32 y" "1 \<le> tm" "tm \<le> 12" "is_i32 ty" "(y, m) \<noteq> (2147483647, 12)"
  shows "missed_from y m ty tm = Some (months_between (y, m) (ty, tm))"
  using assms
proof (induction "nat (month_no (ty, tm) - month_no (y, m))" arbitrary: y m rule: less_induct)
  case less
  let ?n = "month_no (y, m) + 1"
  have adv: "AdvanceMonth y m = month_at ?n" using less.prems by (intro AdvanceMonth_next) (auto simp: is_i32_def)
  obtain y' m' where ym': "month_at ?n = (y', m')" by (cases "month_at ?n")
  then have no: "month_no (y', m') = ?n" by (metis month_no_at)
  have m': "1 \<le> m'" "m' \<le> 12" using month_at_range [of ?n] ym' by simp_all
  show ?case
  proof (cases "reached y' m' ty tm")
    case True
    then have "month_no (ty, tm) - 1 < ?n" using reached_iff m' less.prems no by simp
    with True show ?thesis
      by (simp add: missed_from.simps [of y m] adv ym' months_between_def)
  next
    case False
    then have lt: "?n < month_no (ty, tm)" using reached_iff m' less.prems no by simp
    have y': "is_i32 y'" "(y', m') \<noteq> (2147483647, 12)"
      using less.prems m' lt no by (auto simp: month_no_def is_i32_def)
    have "missed_from y' m' ty tm = Some (months_between (y', m') (ty, tm))"
      using less.prems m' y' lt no by (intro less.hyps) auto
    with False lt show ?thesis
      by (simp add: missed_from.simps [of y m] adv ym' months_between_def no upto_rec1 [of ?n])
  qed
qed

text \<open>
  C29: \<^verbatim>\<open>computeMissedMonths\<close> always ends, and returns exactly the months strictly between the
  latest period and the requested one in calendar order (none when the requested month is not
  later): the loop over years and months equals the range of month numbers.
\<close>

theorem missed_months_are_those_between:
  assumes "is_month (ly, lm)" "is_month (ty, tm)" "(ly, lm) \<noteq> (2147483647, 12)"
  shows "computeMissedMonths ly lm ty tm = Some (months_between (ly, lm) (ty, tm))
    \<and> (\<forall>y m. (y, m) \<in> set (months_between (ly, lm) (ty, tm)) \<longleftrightarrow>
          1 \<le> m \<and> m \<le> 12 \<and> month_no (ly, lm) < month_no (y, m) \<and> month_no (y, m) < month_no (ty, tm))"
proof
  show "computeMissedMonths ly lm ty tm = Some (months_between (ly, lm) (ty, tm))"
    using assms by (auto simp: computeMissedMonths_def is_month_def intro!: missed_from_between)
  have "(y, m) \<in> set (months_between (ly, lm) (ty, tm))"
    if "1 \<le> m" "m \<le> 12" "month_no (ly, lm) < month_no (y, m)" "month_no (y, m) < month_no (ty, tm)" for y m
    using that month_at_no [OF that(1,2), of y]
    by (auto simp: months_between_def intro!: image_eqI [where x = "month_no (y, m)"])
  moreover have "1 \<le> m \<and> m \<le> 12 \<and> month_no (ly, lm) < month_no (y, m) \<and> month_no (y, m) < month_no (ty, tm)"
    if ym: "(y, m) \<in> set (months_between (ly, lm) (ty, tm))" for y m
  proof -
    from ym obtain k where k: "(y, m) = month_at k" "month_no (ly, lm) < k" "k < month_no (ty, tm)"
      by (auto simp: months_between_def)
    with month_no_at [of k] month_at_range [of k] show ?thesis by (metis snd_conv)
  qed
  ultimately show "\<forall>y m. (y, m) \<in> set (months_between (ly, lm) (ty, tm)) \<longleftrightarrow>
      1 \<le> m \<and> m \<le> 12 \<and> month_no (ly, lm) < month_no (y, m) \<and> month_no (y, m) < month_no (ty, tm)" by blast
qed

lemma distinct_months_between: "distinct (months_between a b)"
  by (simp add: months_between_def distinct_map inj_on_def) (metis month_no_at)

section \<open>Witnesses\<close>

theorem installments_add_up_witness:
  "CalculateInstallments 10000 3 = [3334, 3333, 3333] \<and> sum_list (CalculateInstallments 10000 3) = 10000"
  using installments_add_up [of 10000 3] by (simp add: is_i64_def) code_simp

theorem missed_months_are_those_between_witness:
  "computeMissedMonths 2025 11 2026 2 = Some [(2025, 12), (2026, 1)]"
  using missed_months_are_those_between [of 2025 11 2026 2]
  by (simp add: is_month_def is_i32_def months_between_def month_no_def month_at_def upto.simps)

end
