(* ===== verification/Finance_Spread.thy ===== *)
theory Finance_Spread
  imports Finance_Once Finance_Calendar
begin

text \<open>
  What a successful pro-rata request leaves: one installment requested from the expense service and
  one pending schedule for each following month, which together add up to the amount.
\<close>

section \<open>Storing the schedules\<close>

lemma stored_row:
  assumes "r_CreateProRataSchedule pg s st = (Inr row, st')"
  shows "f_schedules st' = f_schedules st @ [row] \<and> f_world st' = f_world st \<and> sc_amount row = sc_amount s
    \<and> sc_year row = sc_year s \<and> sc_month row = sc_month s \<and> sc_index row = sc_index s \<and> sc_status row = pending
    \<and> pg_uuid pg (sc_group s) = Some (sc_group row)"
  using assms
  by (auto simp: r_CreateProRataSchedule_def with_uuid_def ParseUUID_def bindR_Inr_iff q_CreateProRataSchedule_def Let_def
      split: option.splits if_splits dest!: pg_stmt_Inr)

definition following :: "int \<times> int \<Rightarrow> nat \<Rightarrow> (int \<times> int) list" where
  "following ym n = map (\<lambda>k. month_at (month_no ym + 1 + int k)) [0..<n]"

lemma following_Suc: "following ym (Suc n) = month_at (month_no ym + 1) # following (month_at (month_no ym + 1)) n"
  by (simp add: following_def upt_conv_Cons map_Suc_upt [symmetric] add.assoc del: upt_Suc)

lemma stored_rows:
  assumes "create_schedules pg mk y m i as st = (Inr ss, st')"
    and mk: "\<And>a y m i. sc_amount (mk a y m i) = a \<and> sc_year (mk a y m i) = y \<and> sc_month (mk a y m i) = m
      \<and> sc_index (mk a y m i) = i \<and> sc_group (mk a y m i) = g"
    and "1 \<le> m" "m \<le> 12" "is_i32 y" "y + int (length as) < 2147483648"
  shows "f_schedules st' = f_schedules st @ ss \<and> f_world st' = f_world st \<and> map sc_amount ss = as
    \<and> map (\<lambda>s. (sc_year s, sc_month s)) ss = following (y, m) (length as) \<and> map sc_index ss = map (\<lambda>k. i + int k) [0..<length as]
    \<and> (\<forall>s\<in>set ss. sc_status s = pending \<and> pg_uuid pg g = Some (sc_group s))"
  using assms(1,3-)
proof (induction as arbitrary: y m i st ss)
  case Nil
  then show ?case by (simp add: following_def)
next
  case (Cons a as)
  let ?n = "month_no (y, m) + 1"
  obtain y' m' where ym': "month_at ?n = (y', m')" by (metis surj_pair)
  have adv: "AdvanceMonth y m = (y', m')"
    using Cons.prems AdvanceMonth_next [of m y] by (auto simp: ym')
  have no: "month_no (y', m') = ?n" by (metis month_no_at ym')
  have m': "1 \<le> m'" "m' \<le> 12" using month_at_range [of ?n] ym' by simp_all
  from no m' Cons.prems have y': "is_i32 y'" "y' + int (length as) < 2147483648"
    by (auto simp: month_no_def is_i32_def)
  from Cons.prems(1) obtain row st1 rest where row: "r_CreateProRataSchedule pg (mk a y' m' i) st = (Inr row, st1)"
    and rest: "create_schedules pg mk y' m' (i + 1) as st1 = (Inr rest, st')" and ss: "ss = row # rest"
    by (auto simp: adv bindR_Inr_iff wrapR_Inr_iff)
  note s = stored_row [OF row] and r = Cons.IH [OF rest m' y']
  have "map (\<lambda>k. i + int k) [0..<Suc (length as)] = i # map (\<lambda>k. (i + 1) + int k) [0..<length as]"
    by (simp add: upt_conv_Cons map_Suc_upt [symmetric] add.assoc del: upt_Suc)
  with s r mk show ?case by (simp add: ss following_Suc ym')
qed

section \<open>The whole request\<close>

lemma installments_total:
  assumes "is_i64 a" "0 \<le> a" "2 \<le> n"
  shows "hd (CalculateInstallments a n) + sum_list (tl (CalculateInstallments a n)) = a
    \<and> length (tl (CalculateInstallments a n)) = nat (n - 1)"
  using assms mult_div_mod_eq [of n a] by (simp add: installments_shape sum_list_replicate algebra_simps)

lemma prorata_checked:
  "prorata_checks req = None \<Longrightarrow> 0 < pr_amount req \<and> 2 \<le> pr_months req \<and> 1 \<le> pr_year req \<and> 1 \<le> pr_month req \<and> pr_month req \<le> 12"
  by (simp add: prorata_checks_def v_checks_None)

lemma observed_install:
  "in_world (xc_install (observed xc) i) st = (r, st') \<Longrightarrow> requests st' = requests st @ [i] \<and> f_schedules st' = f_schedules st"
  by (auto simp: in_world_def observed_def requests_def split: prod.splits)

lemma spread_run:
  assumes "CreateProRataExpense lib pg (observed xc) (observed_capture fx) u req st = (Inr resp, st')"
  obtains g p tc reporting snap s1 s2 created where "prorata_checks req = None" "no_request pg st s1" "used_uuid s1 g"
    "in_world (xc_install (observed xc) (first_installment u req p reporting tc g (hd (CalculateInstallments (pr_amount req) (pr_months req))) snap)) s1
       = (Inr created, s2)"
    "create_schedules pg (schedule_for u req g tc reporting snap) (pr_year req) (pr_month req) 2
       (tl (CalculateInstallments (pr_amount req) (pr_months req))) s2 = (Inr (po_schedules resp), st')"
proof -
  obtain capture where fx: "fx = Some capture"
    using assms by (cases fx) (auto simp: CreateProRataExpense_def observed_capture_def Let_def op_iffs split: if_splits)
  from assms obtain sa p sb tc g sc now sd snap s1 where
      checks: "prorata_checks req = None"
    and a: "GetCurrentPeriod pg u (pr_year req) (pr_month req) st = (Inr p, sa)"
    and g: "new_uuid sa = (Inr g, sc)" and now: "f_now sc = (Inr now, sd)"
    and cap: "in_world (beside (capture [tc, normalizeCurrencyCode lib (p_cur p)] (fmt_rfc3339 (t_utc now)))) sd = (Inr (Some snap), s1)"
    and rest: "bindR (wrapR (Wrapped ''creating first installment via expense service'')
          (in_world (xc_install (observed xc) (first_installment u req p (normalizeCurrencyCode lib (p_cur p)) tc g
             (hd (CalculateInstallments (pr_amount req) (pr_months req))) snap)))) (\<lambda>created.
        bindR (create_schedules pg (schedule_for u req g tc (normalizeCurrencyCode lib (p_cur p)) snap)
          (pr_year req) (pr_month req) 2 (tl (CalculateInstallments (pr_amount req) (pr_months req)))) (\<lambda>schedules.
        retR \<lparr>po_expense = prorata_expense_of req tc g (hd (CalculateInstallments (pr_amount req) (pr_months req))) created,
              po_schedules = schedules\<rparr>)) s1 = (Inr resp, st')"
    unfolding CreateProRataExpense_def observed_capture_def fx Let_def
    by (auto simp: op_iffs apiR_def split: if_splits option.splits)
  have "no_request pg st sa" using keepsD [OF quiet_ops.current_period a] .
  moreover have "no_request pg sa sc" using keepsD [OF quiet_ops.uuid g] .
  moreover have "no_request pg sc sd" using keepsD [OF quiet_ops.clock now] .
  moreover have last: "no_request pg sd s1" using keepsD [OF beside_quiet cap] .
  ultimately have q: "no_request pg st s1" by (meson no_request_trans transpD)
  have "used_uuid sc g" using g by (auto simp: new_uuid_def gen_uuid_def used_uuid_def)
  moreover have "f_uuids s1 = f_uuids sc" "f_uuid_next s1 = f_uuid_next sc"
    using now cap by (auto simp: f_now_def in_world_def split: prod.splits)
  ultimately have u: "used_uuid s1 g" by (simp add: used_uuid_def)
  from rest obtain created s2 where
      "in_world (xc_install (observed xc) (first_installment u req p (normalizeCurrencyCode lib (p_cur p)) tc g
         (hd (CalculateInstallments (pr_amount req) (pr_months req))) snap)) s1 = (Inr created, s2)"
      "create_schedules pg (schedule_for u req g tc (normalizeCurrencyCode lib (p_cur p)) snap) (pr_year req) (pr_month req) 2
       (tl (CalculateInstallments (pr_amount req) (pr_months req))) s2 = (Inr (po_schedules resp), st')"
    by (auto simp: op_iffs)
  from that [OF checks q u this] show ?thesis .
qed

text \<open>
  C19: a successful pro-rata request asks the expense service for exactly one installment, the
  first, and adds one pending schedule of the same group for each of the following months, in
  order; the amounts of the installment and the schedules add up to the requested amount.
\<close>

theorem spread_is_complete:
  assumes "CreateProRataExpense lib pg (observed xc) (observed_capture fx) u req st = (Inr resp, st')"
    and "is_i64 (pr_amount req)" "is_i32 (pr_year req)" "pr_year req + pr_months req < 2147483648" "fin_ok pg st"
  shows "\<exists>first. requests st' = requests st @ [first] \<and> f_schedules st' = f_schedules st @ po_schedules resp
    \<and> in_amount first + sum_list (map sc_amount (po_schedules resp)) = pr_amount req
    \<and> map (\<lambda>s. (sc_year s, sc_month s)) (po_schedules resp) = following (pr_year req, pr_month req) (nat (pr_months req - 1))
    \<and> map (\<lambda>s. (sc_group s, sc_index s, sc_status s)) (po_schedules resp)
        = map (\<lambda>k. (in_group first, 2 + int k, pending)) [0..<nat (pr_months req - 1)]"
  using assms(1)
proof (rule spread_run)
  fix g p tc reporting snap s1 s2 created
  let ?is = "CalculateInstallments (pr_amount req) (pr_months req)"
  let ?first = "first_installment u req p reporting tc g (hd ?is) snap"
  assume checks: "prorata_checks req = None" and q: "no_request pg st s1" and used: "used_uuid s1 g"
    and install: "in_world (xc_install (observed xc) ?first) s1 = (Inr created, s2)"
    and store: "create_schedules pg (schedule_for u req g tc reporting snap) (pr_year req) (pr_month req) 2 (tl ?is) s2
      = (Inr (po_schedules resp), st')"
  note c = prorata_checked [OF checks]
  note total = installments_total [OF assms(2), of "pr_months req"]
  have e: "fin_ok pg s1" using q assms(5) by (simp add: no_request_def evolves_def)
  with used have g: "pg_uuid pg g = Some g" by (auto simp: used_uuid_def fin_ok_def fin_env_ok_def)
  note first = observed_install [OF install]
  have "int (length (tl ?is)) = pr_months req - 1" using total c by simp
  then have "pr_year req + int (length (tl ?is)) < 2147483648" using assms(4) by simp
  note rows = stored_rows [OF store, of g, OF _ _ _ assms(3) this]
  have rows': "f_schedules st' = f_schedules s2 @ po_schedules resp \<and> f_world st' = f_world s2 \<and> map sc_amount (po_schedules resp) = tl ?is
    \<and> map (\<lambda>s. (sc_year s, sc_month s)) (po_schedules resp) = following (pr_year req, pr_month req) (length (tl ?is))
    \<and> map sc_index (po_schedules resp) = map (\<lambda>k. 2 + int k) [0..<length (tl ?is)]
    \<and> (\<forall>s\<in>set (po_schedules resp). sc_status s = pending \<and> pg_uuid pg g = Some (sc_group s))"
    by (rule rows) (use c in \<open>simp_all add: schedule_for_def\<close>)
  have "map (\<lambda>s. (sc_group s, sc_index s, sc_status s)) (po_schedules resp) = map (\<lambda>i. (g, i, pending)) (map sc_index (po_schedules resp))"
    unfolding map_map by (rule map_cong [OF refl]) (use rows' g in simp)
  also have "\<dots> = map (\<lambda>k. (g, 2 + int k, pending)) [0..<nat (pr_months req - 1)]"
    using rows' total c by simp
  finally have keys: "map (\<lambda>s. (sc_group s, sc_index s, sc_status s)) (po_schedules resp)
      = map (\<lambda>k. (in_group ?first, 2 + int k, pending)) [0..<nat (pr_months req - 1)]"
    by (simp add: first_installment_def)
  have "in_amount ?first = hd ?is" by (simp add: first_installment_def)
  then have sum: "in_amount ?first + sum_list (map sc_amount (po_schedules resp)) = pr_amount req"
    using rows' total c by simp
  have log: "requests st' = requests st @ [?first]" and S: "f_schedules st' = f_schedules st @ po_schedules resp"
    using first rows' q by (simp_all add: requests_def no_request_def)
  have months: "map (\<lambda>s. (sc_year s, sc_month s)) (po_schedules resp) = following (pr_year req, pr_month req) (nat (pr_months req - 1))"
    using rows' total c by simp
  from log S sum months keys show ?thesis by blast
qed

end
