(* ===== verification/Finance_Book.thy ===== *)
theory Finance_Book
  imports Finance_Steps
begin

text \<open>
  What the periods of a user mean: a book that maps a user and a month to a budget, a currency and
  a split.  Every request of the service acts on it by opening months that were closed and
  revising the budget of open ones, and nothing else: the tables refine the book.
\<close>

section \<open>The abstract book\<close>

record plan =
  bk_budget :: int
  bk_cur :: string
  bk_split :: "int \<times> int \<times> int"

type_synonym book = "string \<times> int \<times> int \<rightharpoonup> plan"

definition plan_ok :: "plan \<Rightarrow> bool" where
  "plan_ok c \<longleftrightarrow> currency_supported (bk_cur c) \<and> (case bk_split c of (e, d, s) \<Rightarrow> percents_ok e d s)"

inductive book_step :: "book \<Rightarrow> book \<Rightarrow> bool" where
  open_month: "b (u, y, m) = None \<Longrightarrow> 1 \<le> m \<Longrightarrow> m \<le> 12 \<Longrightarrow> plan_ok c \<Longrightarrow> book_step b (b((u, y, m) \<mapsto> c))"
| revise: "b k = Some c \<Longrightarrow> plan_ok c' \<Longrightarrow> bk_cur c' = bk_cur c \<Longrightarrow> book_step b (b(k \<mapsto> c'))"

section \<open>The book of a table\<close>

definition period_key :: "period \<Rightarrow> string \<times> int \<times> int" where
  "period_key p = (p_user p, p_year p, p_month p)"

definition plan_of :: "period \<Rightarrow> plan" where
  "plan_of p = \<lparr>bk_budget = p_budget p, bk_cur = p_cur p, bk_split = (p_ess p, p_des p, p_sav p)\<rparr>"

definition book_of :: "period list \<Rightarrow> book" where
  "book_of L = map_of (map (\<lambda>p. (period_key p, plan_of p)) L)"

lemma book_of_None: "book_of L k = None \<longleftrightarrow> k \<notin> period_key ` set L"
  by (auto simp: book_of_def map_of_eq_None_iff image_image)

lemma book_of_append:
  assumes "period_key p \<notin> period_key ` set L"
  shows "book_of (L @ [p]) = (book_of L)(period_key p \<mapsto> plan_of p)"
proof
  fix k
  have "book_of L (period_key p) = None" using assms by (simp add: book_of_None)
  then show "book_of (L @ [p]) k = ((book_of L)(period_key p \<mapsto> plan_of p)) k"
    by (cases "k = period_key p") (simp_all add: book_of_def map_add_def split: option.split)
qed

lemma book_of_Some:
  assumes "periods_inv L" "p \<in> set L"
  shows "book_of L (period_key p) = Some (plan_of p)"
proof -
  have "distinct (map fst (map (\<lambda>p. (period_key p, plan_of p)) L))"
    using assms(1) by (simp add: periods_inv_def period_key_def [abs_def] comp_def)
  moreover have "(period_key p, plan_of p) \<in> set (map (\<lambda>p. (period_key p, plan_of p)) L)" using assms(2) by auto
  ultimately show ?thesis unfolding book_of_def by (rule map_of_is_SomeI)
qed

lemma plan_of_ok: "period_row_ok p \<Longrightarrow> plan_ok (plan_of p)"
  by (simp add: period_row_ok_def plan_ok_def plan_of_def)

text \<open>Rewriting one row without moving it to another month.\<close>

lemma book_of_update:
  assumes inv: "periods_inv L" and p: "find_first sel L = Some p" and key: "\<And>r. sel r \<Longrightarrow> p_id r = p_id p"
    and same: "period_key row = period_key p"
  shows "book_of (update_rows sel (\<lambda>_. row) L) = (book_of L)(period_key p \<mapsto> plan_of row)"
proof -
  have ids: "distinct (map p_id L)" and keys: "inj_on period_key (set L)" and pL: "p \<in> set L"
    using inv p by (auto simp: periods_inv_def period_key_def [abs_def] distinct_map dest: find_first_Some)
  have upd: "update_rows sel (\<lambda>_. row) L = map (\<lambda>r. if r = p then row else r) L"
    by (rule update_unique [OF ids p]) (rule key)
  have inv': "book_of M k = Some c" if "distinct (map period_key M)" "r \<in> set M" "period_key r = k" "plan_of r = c" for M r k c
  proof -
    have "(k, c) \<in> set (map (\<lambda>p. (period_key p, plan_of p)) M)" using that by auto
    moreover have "distinct (map fst (map (\<lambda>p. (period_key p, plan_of p)) M))" using that by (simp add: comp_def)
    ultimately show ?thesis unfolding book_of_def by (simp only: map_of_is_SomeI)
  qed
  let ?M = "map (\<lambda>r. if r = p then row else r) L"
  have maps: "map period_key ?M = map period_key L" using same by simp
  have d: "distinct (map period_key L)" "distinct (map period_key ?M)"
    unfolding maps using inv by (simp_all add: periods_inv_def period_key_def [abs_def])
  have im: "period_key ` set ?M = period_key ` set L" by (metis maps list.set_map)
  show ?thesis
    unfolding upd
  proof
    fix k
    consider "k = period_key p" | r where "r \<in> set L" "k = period_key r" "r \<noteq> p" | "k \<notin> period_key ` set L" by blast
    then show "book_of ?M k = ((book_of L)(period_key p \<mapsto> plan_of row)) k"
    proof cases
      case 1
      moreover have "row \<in> set ?M" using pL by force
      ultimately show ?thesis using inv' [OF d(2) _ same refl] by simp
    next
      case 2
      then have "k \<noteq> period_key p" using keys pL by (auto dest: inj_onD)
      moreover have "r \<in> set ?M" using 2(1,3) by force
      then have "book_of ?M k = Some (plan_of r)" using 2(2) by (intro inv' [OF d(2)]) simp_all
      moreover have "book_of L k = Some (plan_of r)" using 2(1,2) by (intro inv' [OF d(1)]) simp_all
      ultimately show ?thesis by simp
    next
      case 3
      then have "k \<noteq> period_key p" using pL by auto
      moreover have "book_of ?M k = None" unfolding book_of_None im by (rule 3)
      moreover have "book_of L k = None" unfolding book_of_None by (rule 3)
      ultimately show ?thesis by simp
    qed
  qed
qed

section \<open>The simulation\<close>

definition refines_book :: "pglib \<Rightarrow> 'w fin_state \<Rightarrow> 'w fin_state \<Rightarrow> bool" where
  "refines_book pg st st' \<longleftrightarrow>
     (tables_inv pg st \<longrightarrow> tables_inv pg st' \<and> book_step\<^sup>*\<^sup>* (book_of (f_periods st)) (book_of (f_periods st')))"

lemma refines_refl: "reflp (refines_book pg)" and refines_trans: "transp (refines_book pg)"
  by (auto simp: refines_book_def reflp_def transp_def)

lemma keeps_refines:
  assumes "keeps (pres (tables_inv pg)) (pg_stmt f)"
    and "\<And>s. tables_inv pg s \<Longrightarrow> book_step\<^sup>*\<^sup>* (book_of (f_periods s)) (book_of (f_periods (snd (f s))))"
  shows "keeps (refines_book pg) (pg_stmt f)"
proof (rule keepsI)
  fix s r s'
  assume run: "pg_stmt f s = (r, s')"
  let ?s = "s\<lparr>f_calls := f_calls s + 1\<rparr>"
  from run have "s' = ?s \<or> s' = snd (f ?s)" by (auto simp: pg_stmt_def Let_def split: outcome.splits)
  then show "refines_book pg s s'"
    using keepsD [OF assms(1) run] assms(2) [of ?s] by (auto simp: refines_book_def pres_def)
qed

lemma refines_same_periods:
  assumes "keeps (pres (tables_inv pg)) (pg_stmt f)" "\<And>s. f_periods (snd (f s)) = f_periods s"
  shows "keeps (refines_book pg) (pg_stmt f)"
  using assms(1) by (rule keeps_refines) (simp add: assms(2))

lemma refines_create_period: "keeps (refines_book pg) (q_CreatePeriod p)"
  using create_period_inv unfolding q_CreatePeriod_def
proof (rule keeps_refines, goal_cases)
  case (1 s)
  let ?row = "p\<lparr>p_id := gen_uuid s, p_created := pg_now s, p_updated := pg_now s\<rparr>"
  have "book_step (book_of (f_periods s)) (book_of (f_periods s @ [?row]))"
    if "period_row_ok ?row" "\<not> (\<exists>r\<in>set (f_periods s). same_month r ?row)"
  proof -
    have new: "period_key ?row \<notin> period_key ` set (f_periods s)"
      using that(2) unfolding same_month_def period_key_def by (simp add: image_iff) metis
    then have "book_of (f_periods s) (period_key ?row) = None" by (simp add: book_of_None)
    with book_of_append [OF new] open_month [of "book_of (f_periods s)" "p_user p" "p_year p" "p_month p" "plan_of ?row"]
      plan_of_ok [OF that(1)] that(1)
    show ?thesis by (simp add: period_key_def period_row_ok_def)
  qed
  then show ?case by (auto simp: Let_def)
qed

lemma refines_update_period: "keeps (refines_book pg) (q_UpdatePeriod b e d sv i u)"
  using update_period_inv unfolding q_UpdatePeriod_def
proof (rule keeps_refines, goal_cases)
  case (1 s)
  let ?sel = "\<lambda>p. p_id p = i \<and> p_user p = u"
  have inv: "periods_inv (f_periods s)" using 1 by (simp add: tables_inv_def)
  have "book_step (book_of (f_periods s)) (book_of (update_rows ?sel (\<lambda>_. row) (f_periods s)))"
    if p: "find_first ?sel (f_periods s) = Some p" and row: "period_row_ok row" "period_key row = period_key p" "p_cur row = p_cur p"
    for p row
  proof -
    have pL: "p \<in> set (f_periods s)" and key: "p_id r = p_id p" if "?sel r" for r using p that by (auto dest: find_first_Some)
    from p have "?sel p" by (auto dest: find_first_Some)
    with pL have "book_of (f_periods s) (period_key p) = Some (plan_of p)" by (blast intro: book_of_Some [OF inv])
    moreover have "book_of (update_rows ?sel (\<lambda>_. row) (f_periods s)) = (book_of (f_periods s))(period_key p \<mapsto> plan_of row)"
      by (rule book_of_update [OF inv p key row(2)])
    moreover have "bk_cur (plan_of row) = bk_cur (plan_of p)" using row(3) by (simp add: plan_of_def)
    ultimately show ?thesis using revise plan_of_ok [OF row(1)] by metis
  qed
  then show ?case by (auto simp: Let_def period_key_def split: option.split)
qed

lemma refines_marking: "keeps (refines_book pg) (q_MarkProRataApplied i)"
  unfolding q_MarkProRataApplied_def
  by (rule refines_same_periods, rule mark_inv(1) [unfolded q_MarkProRataApplied_def]) (auto simp: Let_def split: option.split)

lemma refines_failing: "keeps (refines_book pg) (q_MarkProRataFailed i why)"
  unfolding q_MarkProRataFailed_def
  by (rule refines_same_periods, rule mark_inv(2) [unfolded q_MarkProRataFailed_def]) (auto simp: Let_def split: option.split)

lemma refines_defaults: "keeps (refines_book pg) (q_UpsertDefaults d)"
  unfolding q_UpsertDefaults_def
  by (rule refines_same_periods, rule upsert_defaults_inv [unfolded q_UpsertDefaults_def]) (auto simp: Let_def split: option.split)

lemma refines_create_tag: "keeps (refines_book pg) (q_CreateTag pg nm u b)"
  unfolding q_CreateTag_def
  by (rule refines_same_periods, rule create_tag_inv [unfolded q_CreateTag_def]) (auto simp: Let_def split: option.split)

lemma refines_update_tag: "keeps (refines_book pg) (q_UpdateTag pg nm i u)"
  unfolding q_UpdateTag_def
  by (rule refines_same_periods, rule update_tag_inv [unfolded q_UpdateTag_def]) (auto simp: Let_def split: option.split)

lemma refines_delete_tag: "keeps (refines_book pg) (q_DeleteTag i u)"
  unfolding q_DeleteTag_def
  by (rule refines_same_periods, rule delete_tag_inv [unfolded q_DeleteTag_def]) (auto simp: Let_def split: option.split)

lemma refines_create_schedule: "keeps (refines_book pg) (q_CreateProRataSchedule sc)"
  unfolding q_CreateProRataSchedule_def
  by (rule refines_same_periods, rule create_schedule_inv [unfolded q_CreateProRataSchedule_def]) (auto simp: Let_def split: option.split)

lemma refines_score: "keeps (refines_book pg) (q_UpsertHealthScore row)"
  unfolding q_UpsertHealthScore_def
  by (rule refines_same_periods, rule upsert_score_inv [unfolded q_UpsertHealthScore_def]) (auto simp: Let_def split: option.split)

lemmas refines_marks = refines_marking refines_failing
lemmas refines_others = refines_defaults refines_create_tag refines_update_tag refines_delete_tag
  refines_create_schedule refines_score

lemma refines_env:
  "refines_book pg s (s\<lparr>f_calls := n\<rparr>)" "refines_book pg s (s\<lparr>f_ticks := n\<rparr>)" "refines_book pg s (s\<lparr>f_uuid_next := n\<rparr>)"
  "refines_book pg s (s\<lparr>f_world := w\<rparr>)" "refines_book pg s (restore_tables s s')"
  by (auto simp: refines_book_def restore_tables_def tables_inv_def)

interpretation book_marking: marking_relation lib pg "refines_book pg" for lib pg
  by unfold_locales (rule refines_refl refines_trans refines_env refines_marks)+

interpretation book_refinement: table_relation lib pg "refines_book pg" for lib pg
  by unfold_locales (rule refines_others refines_create_period refines_update_period book_marking.marking_apply_pending)+


end
