(* ===== verification/Finance_Examples.thy ===== *)
theory Finance_Examples
  imports Finance_Spread Finance_Book
begin

text \<open>
  A concrete history of the finance service: a period is created, an expense is spread over two
  months, the period of the second month is created and the waiting installment applied.  The
  theorems on histories are used at its steps.
\<close>

section \<open>A history\<close>

definition demo_pg :: pglib where
  "demo_pg = \<lparr>pg_uuid = Some, pg_lower = id, pg_collate = (\<lambda>a b. a \<le> b)\<rparr>"

definition demo_uuid :: "nat \<Rightarrow> string" where
  "demo_uuid k = replicate k CHR ''u''"

definition demo_fin :: "period list \<Rightarrow> schedule list \<Rightarrow> nat \<Rightarrow> nat \<Rightarrow> nat \<Rightarrow> installment_input list \<Rightarrow> unit observed_state" where
  "demo_fin P S calls uuids ticks l = \<lparr>f_periods = P, f_tags = [], f_schedules = S, f_defaults = [], f_scores = [],
     f_scan = id, f_script = (\<lambda>_. Acked), f_calls = calls, f_dbnow = (\<lambda>_. no_time), f_uuids = demo_uuid,
     f_uuid_next = uuids, f_clock = (\<lambda>_. no_time), f_ticks = ticks, f_world = ((), l)\<rparr>"

definition demo_xc :: "unit expense_client" where
  "demo_xc = \<lparr>xc_active = (\<lambda>_ _ _ w. (Inr [], w)), xc_count = (\<lambda>_ _ w. (Inr 0, w)),
     xc_install = (\<lambda>i w. (Inr \<lparr>ce_id = ''e'', ce_created = []\<rparr>, w))\<rparr>"

definition demo_capture :: "unit capture_client" where
  "demo_capture = Some (\<lambda>cs t w. (Inr (Some demo_snapshot), w))"

definition demo_period_req :: "int \<Rightarrow> create_period_request" where
  "demo_period_req m = \<lparr>cp_year = 2026, cp_month = m, cp_budget = Some 1000, cp_cur = ''USD'', cp_ess = 50, cp_des = 30, cp_sav = 20\<rparr>"

definition demo_period :: "int \<Rightarrow> string \<Rightarrow> period" where
  "demo_period m i = \<lparr>p_id = i, p_user = ''ann'', p_year = 2026, p_month = m, p_budget = 1000, p_cur = ''USD'',
     p_ess = 50, p_des = 30, p_sav = 20, p_created = no_time, p_updated = no_time\<rparr>"

definition demo_spread :: prorata_request where
  "demo_spread = \<lparr>pr_name = ''sofa'', pr_amount = 901, pr_cur = ''JPY'', pr_type = ''desires'', pr_tag = ''home'',
     pr_date = ''2026-01-15'', pr_months = 2, pr_year = 2026, pr_month = 1\<rparr>"

lemma demo_uuid_inj: "inj demo_uuid"
  by (rule injI) (metis demo_uuid_def length_replicate)

lemma demo_usd [simp]: "normalizeCurrencyCode lib ''USD'' = ''USD''" "normalizeCurrencyCode lib ''JPY'' = ''JPY''"
  "currency_supported ''USD''" "currency_supported ''JPY''" "validateSupportedCurrency lib f ''USD'' = None" "validateSupportedCurrency lib f ''JPY'' = None"
  by code_simp+

lemma demo_month_ok [simp]: "v_result (v_checks [(True, f, t)]) = None"
  by (simp add: v_result_def v_checks_def v_check_def v_new_def v_has_errors_def)

lemma demo_checks [simp]: "ValidateEDSSplit 50 30 20 = None" "period_checks (demo_period_req 1) 1000 = None"
  "period_checks (demo_period_req 2) 1000 = None" "prorata_checks demo_spread = None"
  by code_simp+

lemmas demo_stmts = pg_stmt_def pg_query_def pg_one_def with_uuid_def ParseUUID_def nil_if_no_rows_def Let_def
  demo_fin_def demo_pg_def demo_uuid_def pg_now_def gen_uuid_def find_first_def order_by_def apiR_def period_row_ok_def percents_ok_def

lemma demo_period_req_fields [simp]:
  "cp_year (demo_period_req m) = 2026" "cp_month (demo_period_req m) = m" "cp_budget (demo_period_req m) = Some 1000"
  "cp_cur (demo_period_req m) = ''USD''" "cp_ess (demo_period_req m) = 50" "cp_des (demo_period_req m) = 30" "cp_sav (demo_period_req m) = 20"
  by (simp_all add: demo_period_req_def)

lemma demo_spread_fields [simp]:
  "pr_name demo_spread = ''sofa''" "pr_amount demo_spread = 901" "pr_cur demo_spread = ''JPY''" "pr_type demo_spread = ''desires''"
  "pr_tag demo_spread = ''home''" "pr_date demo_spread = ''2026-01-15''" "pr_months demo_spread = 2" "pr_year demo_spread = 2026"
  "pr_month demo_spread = 1"
  by (simp_all add: demo_spread_def)

lemmas demo_ops = op_defs CreatePeriodWithProRata_def r_GetLatestPeriod_def q_GetLatestPeriod_def createMissedPeriods_def
  r_CreatePeriod_def q_CreatePeriod_def new_period_def apply_or_report_def applyPendingProRata_def
  r_GetPendingProRata_def q_GetPendingProRata_def demo_period_def

lemma demo_first_period:
  "CreatePeriodWithProRata demo_lib demo_pg (observed demo_xc) ''ann'' (demo_period_req 1) (demo_fin [] [] 0 0 0 [])
     = Some (Inr \<lparr>pp_period = demo_period 1 [], pp_applied = [], pp_auto = []\<rparr>, demo_fin [demo_period 1 []] [] 3 1 0 [])"
  by (simp add: demo_ops demo_stmts)

definition demo_schedule :: "string \<Rightarrow> schedule" where
  "demo_schedule status = schedule_for ''ann'' demo_spread ''u'' ''JPY'' ''USD'' demo_snapshot 450 2026 2 2
     \<lparr>sc_id := ''uu'', sc_status := status\<rparr>"

definition demo_input :: "int \<Rightarrow> installment_input" where
  "demo_input i = (if i = 1
     then first_installment ''ann'' demo_spread (demo_period 1 []) ''USD'' ''JPY'' ''u'' 451 demo_snapshot
     else installment_of demo_lib ''ann'' (period_ref_of (demo_period 2 ''uuu'') ''USD'') (demo_schedule pending))"

lemma demo_installments: "CalculateInstallments 901 2 = [451, 450]" "AdvanceMonth 2026 1 = (2026, 2)"
  by code_simp+

lemma demo_row_ok [simp]: "schedule_row_ok (demo_schedule pending)" "map_of (cs_rates demo_snapshot) ''USD'' = Some ''1''"
  by code_simp+

lemma demo_install [simp]:
  "xc_install (observed demo_xc) i (w, l) = (Inr \<lparr>ce_id = ''e'', ce_created = []\<rparr>, (w, l @ [i]))"
  by (simp add: observed_def demo_xc_def)

lemma demo_store:
  "r_CreateProRataSchedule demo_pg (schedule_for ''ann'' demo_spread ''u'' ''JPY'' ''USD'' demo_snapshot 450 2026 2 2)
      (demo_fin P [] 4 2 1 l) = (Inr (demo_schedule pending), demo_fin P [demo_schedule pending] 5 3 1 l)"
proof -
  have "schedule_for ''ann'' demo_spread ''u'' ''JPY'' ''USD'' demo_snapshot 450 2026 2 2
      \<lparr>sc_user := ''ann'', sc_group := ''u'', sc_tag := ''home'', sc_id := ''uu'', sc_status := pending, sc_created := no_time, sc_applied := None\<rparr>
      = demo_schedule pending"
    by (simp add: demo_schedule_def schedule_for_def)
  then show ?thesis
    by (simp add: r_CreateProRataSchedule_def q_CreateProRataSchedule_def demo_stmts op_defs schedule_for_def demo_row_ok
        numeral_2_eq_2)
qed

lemma demo_spread_run:
  "\<exists>resp. CreateProRataExpense demo_lib demo_pg (observed demo_xc) (observed_capture demo_capture) ''ann'' demo_spread
      (demo_fin [demo_period 1 []] [] 3 1 0 []) = (Inr resp, demo_fin [demo_period 1 []] [demo_schedule pending] 5 3 1 [demo_input 1])"
  unfolding CreateProRataExpense_def Let_def
  by (simp add: demo_ops demo_stmts GetCurrentPeriod_def r_GetCurrentPeriod_def q_GetCurrentPeriod_def
    resolveProRataTransactionCurrency_def new_uuid_def f_now_def observed_capture_def demo_capture_def beside_def in_world_def
    demo_installments demo_input_def demo_store [unfolded demo_fin_def demo_pg_def numeral_2_eq_2 One_nat_def])

lemma demo_no_missed: "computeMissedMonths 2026 1 2026 2 = Some []"
  by (simp add: computeMissedMonths_def missed_from.simps demo_installments reached_def)

lemma demo_apply:
  "applyOneProRataSchedule demo_lib demo_pg (observed demo_xc) ''ann'' (demo_schedule pending) ''USD''
      (period_ref_of (demo_period 2 ''uuu'') ''USD'') (demo_fin P [demo_schedule pending] 8 4 1 l)
    = (Inr (Some (demo_schedule applied)),
       demo_fin P [demo_schedule applied\<lparr>sc_applied := Some no_time\<rparr>] 9 4 1 (l @ [demo_input 2]))"
proof -
  have "sc_snap (demo_schedule st) = Some demo_snapshot" "sc_id (demo_schedule st) = ''uu''"
    "(demo_schedule pending)\<lparr>sc_status := st\<rparr> = demo_schedule st" for st
    by (simp_all add: demo_schedule_def schedule_for_def)
  then show ?thesis
    by (simp add: applyOneProRataSchedule_def in_world_def demo_row_ok r_MarkProRataApplied_def q_MarkProRataApplied_def demo_stmts
        op_defs update_rows_def demo_input_def)
qed

lemma demo_second_period:
  "\<exists>resp. CreatePeriodWithProRata demo_lib demo_pg (observed demo_xc) ''ann'' (demo_period_req 2)
      (demo_fin [demo_period 1 []] [demo_schedule pending] 5 3 1 [demo_input 1])
    = Some (Inr resp, demo_fin [demo_period 1 [], demo_period 2 ''uuu''] [demo_schedule applied\<lparr>sc_applied := Some no_time\<rparr>] 9 4 1
        [demo_input 1, demo_input 2])"
proof -
  have "sc_user (demo_schedule pending) = ''ann''" "sc_year (demo_schedule pending) = 2026" "sc_month (demo_schedule pending) = 2"
    "sc_status (demo_schedule pending) = pending"
    by (simp_all add: demo_schedule_def schedule_for_def)
  moreover have "replicate 3 CHR ''u'' = ''uuu''" by (simp add: numeral_3_eq_3)
  ultimately show ?thesis
    unfolding CreatePeriodWithProRata_def Let_def
    by (simp add: demo_ops demo_stmts demo_no_missed same_month_def
        demo_apply [unfolded demo_fin_def demo_pg_def demo_period_def One_nat_def])
qed

definition demo_end :: "unit observed_state" where
  "demo_end = demo_fin [demo_period 1 [], demo_period 2 ''uuu''] [demo_schedule applied\<lparr>sc_applied := Some no_time\<rparr>] 9 4 1
     [demo_input 1, demo_input 2]"

lemma demo_erase:
  "DeleteAllUserData demo_pg ''ann'' demo_end = (Inr (), demo_fin [] [] 16 4 1 [demo_input 1, demo_input 2])"
proof -
  have "sc_user (demo_schedule applied) = ''ann''" by (simp add: demo_schedule_def schedule_for_def)
  then show ?thesis
    by (simp add: demo_end_def DeleteAllUserData_def in_tx_def r_DeleteAllUserData_def q_DeleteAllUserProRataSchedules_def
        q_DeleteAllUserTags_def q_DeleteAllUserBudgetPeriods_def q_DeleteAllUserHealthScores_def
        q_DeleteAllUserDefaultSettings_def demo_stmts op_defs demo_period_def)
qed

abbreviation demo_service :: "unit observed_state \<Rightarrow> unit observed_state \<Rightarrow> bool" where
  "demo_service \<equiv> service_step demo_lib demo_pg (observed demo_xc) (observed_capture demo_capture) log_untouched"

abbreviation demo_fin_step :: "unit observed_state \<Rightarrow> unit observed_state \<Rightarrow> bool" where
  "demo_fin_step \<equiv> fin_step demo_lib demo_pg (observed demo_xc) (observed_capture demo_capture) log_untouched"

lemma demo_steps:
  "demo_service (demo_fin [] [] 0 0 0 []) (demo_fin [demo_period 1 []] [] 3 1 0 [])"
  "demo_service (demo_fin [demo_period 1 []] [] 3 1 0 []) (demo_fin [demo_period 1 []] [demo_schedule pending] 5 3 1 [demo_input 1])"
  "demo_service (demo_fin [demo_period 1 []] [demo_schedule pending] 5 3 1 [demo_input 1]) demo_end"
proof -
  show "demo_service (demo_fin [] [] 0 0 0 []) (demo_fin [demo_period 1 []] [] 3 1 0 [])"
    by (rule service_step.create_period [OF demo_first_period])
  show "demo_service (demo_fin [demo_period 1 []] [] 3 1 0 []) (demo_fin [demo_period 1 []] [demo_schedule pending] 5 3 1 [demo_input 1])"
    using demo_spread_run by (elim exE) (rule service_step.prorata)
  show "demo_service (demo_fin [demo_period 1 []] [demo_schedule pending] 5 3 1 [demo_input 1]) demo_end"
    using demo_second_period unfolding demo_end_def by (elim exE) (rule service_step.create_period)
qed

lemma demo_history: "demo_fin_step\<^sup>*\<^sup>* (demo_fin [] [] 0 0 0 []) demo_end"
  using demo_steps [THEN fin_step.service] by (meson converse_rtranclp_into_rtranclp rtranclp.rtrancl_refl)

lemma demo_env: "fin_env_ok demo_pg (demo_fin P S c u t l)"
  by (simp add: fin_env_ok_def demo_fin_def demo_pg_def)

lemma demo_start: "empty_tables (demo_fin [] [] 0 0 0 [])" "requests (demo_fin P S c u t l) = l" "inj (f_uuids (demo_fin P S c u t l))"
  using demo_uuid_inj by (simp_all add: empty_tables_def demo_fin_def requests_def)

section \<open>The theorems at it\<close>



theorem periods_and_schedules_persist_witness:
  "schedule_step (demo_schedule pending) (demo_schedule applied\<lparr>sc_applied := Some no_time\<rparr>)"
proof -
  let ?mid = "demo_fin [demo_period 1 []] [demo_schedule pending] 5 3 1 [demo_input 1]"
  have "tables_inv demo_pg ?mid"
    using demo_steps(1,2) empty_tables_inv [OF demo_start(1)] inv_tables.service_step_keeps by (metis pres_def)
  then have "fin_ok demo_pg ?mid" by (simp add: fin_ok_def demo_env) (simp add: demo_fin_def demo_pg_def)
  from periods_and_schedules_persist [OF r_into_rtranclp [of demo_service, OF demo_steps(3)] this]
  show ?thesis by (simp add: demo_end_def demo_fin_def)
qed


lemma demo_mid_ok: "fin_ok demo_pg (demo_fin [demo_period 1 []] [] 3 1 0 [])"
proof -
  have "tables_inv demo_pg (demo_fin [demo_period 1 []] [] 3 1 0 [])"
    using demo_steps(1) empty_tables_inv [OF demo_start(1)] inv_tables.service_step_keeps by (metis pres_def)
  then show ?thesis by (simp add: fin_ok_def demo_env) (simp add: demo_fin_def)
qed

theorem spread_is_complete_witness: "451 + sc_amount (demo_schedule pending) = 901"
proof -
  obtain resp where run: "CreateProRataExpense demo_lib demo_pg (observed demo_xc) (observed_capture demo_capture) ''ann'' demo_spread
      (demo_fin [demo_period 1 []] [] 3 1 0 []) = (Inr resp, demo_fin [demo_period 1 []] [demo_schedule pending] 5 3 1 [demo_input 1])"
    using demo_spread_run by blast
  have "in_amount (demo_input 1) = 451" by (simp add: demo_input_def first_installment_def)
  with spread_is_complete [OF run _ _ _ demo_mid_ok] show ?thesis
    by (simp add: is_i64_def is_i32_def demo_start(2)) (auto simp: demo_fin_def)
qed


end
