(* ===== verification/Finance_Health_Examples.thy ===== *)
theory Finance_Health_Examples
  imports Finance_Health_Store Finance_Examples
begin

text \<open>
  The theorems on stored scores at a concrete user whose period for February 2026 is looked at in
  1970 (the clock of the example), before it has begun, and again when money has been spent.
\<close>

definition health_fin :: "score_row list \<Rightarrow> nat \<Rightarrow> nat \<Rightarrow> unit fin_state" where
  "health_fin S calls ticks = \<lparr>f_periods = [demo_period 2 ''p''], f_tags = [], f_schedules = [], f_defaults = [], f_scores = S,
     f_scan = id, f_script = (\<lambda>_. Acked), f_calls = calls, f_dbnow = (\<lambda>_. no_time), f_uuids = demo_uuid,
     f_uuid_next = 0, f_clock = (\<lambda>_. \<lparr>t_unix = 0, t_nsec = 0, t_off = 0\<rparr>), f_ticks = ticks, f_world = ()\<rparr>"

definition spending :: "int \<Rightarrow> unit expense_client" where
  "spending a = \<lparr>xc_active = (\<lambda>_ _ _ w. (Inr [\<lparr>ed_id = ''e'', ed_amount = a, ed_cur = ''USD'', ed_type = ''desires'', ed_tag = [], ed_date = ''2026-02-03''\<rparr>], w)),
     xc_count = (\<lambda>_ _ w. (Inr 0, w)), xc_install = (\<lambda>i w. (Inr \<lparr>ce_id = ''e'', ce_created = []\<rparr>, w))\<rparr>"

definition exact_platform :: platform where
  "exact_platform w x = 0"

abbreviation feb_score :: "int \<Rightarrow> health_score" where
  "feb_score a \<equiv> ComputeHealthScore exact_platform (demo_period 2 ''p'')
     [\<lparr>ed_id = ''e'', ed_amount = a, ed_cur = ''USD'', ed_type = ''desires'', ed_tag = [], ed_date = ''2026-02-03''\<rparr>] [a] 2026 2 \<lparr>t_unix = 0, t_nsec = 0, t_off = 0\<rparr> ''USD''"

lemma feb_fields [simp]: "hs_year (feb_score a) = 2026" "hs_month (feb_score a) = 2" "hs_version (feb_score a) = 4"
  "hs_cur (feb_score a) = ''USD''" "\<not> hs_configure (feb_score a)" "0 \<le> hs_total (feb_score a)" "hs_total (feb_score a) \<le> 100"
proof -
  show "hs_year (feb_score a) = 2026" "hs_month (feb_score a) = 2" "hs_version (feb_score a) = 4"
    "hs_cur (feb_score a) = ''USD''" "\<not> hs_configure (feb_score a)"
    by (simp_all add: ComputeHealthScore_def Let_def FormulaVersion_def split: prod.split)
  obtain cs where cs: "hs_total (feb_score a) = sum_list (map hc_score cs)" "list_all component_ok cs" "sum_list (map hc_max cs) = 100"
    by (rule health_score_run)
  show "0 \<le> hs_total (feb_score a)" "hs_total (feb_score a) \<le> 100" using sum_scores_bounds [OF cs(2)] cs(1,3) by simp_all
qed

lemma before_february [simp]: "isProvisional 2026 2 \<lparr>t_unix = 0, t_nsec = 0, t_off = 0\<rparr> = False"
  "afterTarget 2026 2 2026 2 = False" "sum64 [5] = 5"
  by code_simp+

definition feb_row :: score_row where
  "feb_row = \<lparr>hr_user = ''ann'', hr_year = 2026, hr_month = 2, hr_total = hs_total (feb_score 5), hr_band = hs_band (feb_score 5),
     hr_score = feb_score 5, hr_version = 4, hr_computed = no_time\<rparr>"

lemmas health_stmts = op_defs pg_stmt_def pg_query_def pg_one_def with_uuid_def ParseUUID_def nil_if_no_rows_def Let_def
  health_fin_def demo_pg_def pg_now_def find_first_def order_by_def apiR_def demo_period_def GetHealthScore_def GetCurrentPeriod_def
  r_GetCurrentPeriod_def q_GetCurrentPeriod_def resolveHealthScore_def f_now_def r_GetHealthScore_def q_GetHealthScore_def

lemma feb_first:
  "GetHealthScore exact_platform demo_pg (spending 5) ''ann'' 2026 2 (health_fin [] 0 0) = (Inr (feb_score 5), health_fin [feb_row] 4 3)"
  using feb_fields [of 5]
  by (simp add: health_stmts computeHealthScore_def fetch_expenses_def in_world_def spending_def buildDesiresWindow_def r_ListPeriods_def
      q_ListPeriods_def desires_window_def sumDesires_def store_score_def r_UpsertHealthScore_def q_UpsertHealthScore_def score_row_ok_def
      feb_row_def FormulaVersion_def)

lemma feb_again:
  "GetHealthScore exact_platform demo_pg (spending 900) ''ann'' 2026 2 (health_fin [feb_row] 4 3) = (Inr (feb_score 5), health_fin [feb_row] 6 4)"
  using feb_fields [of 5] by (simp add: health_stmts feb_row_def FormulaVersion_def)


theorem dashboard_reads_and_scores_policy_witness:
  "\<exists>r st'. GetHealthScore exact_platform demo_pg (spending 900) ''ann'' 2026 2 (health_fin [feb_row] 4 3) = (r, st')
     \<and> f_scores st' = [feb_row]"
proof -
  let ?st = "health_fin [feb_row] 4 3"
  have "f_clock ?st = (\<lambda>_. \<lparr>t_unix = 0, t_nsec = 0, t_off = 0\<rparr>)" "f_scores ?st = [feb_row]" by (simp_all add: health_fin_def)
  moreover have "score_of_month ''ann'' 2026 2 [feb_row] = Some feb_row" by (simp add: score_of_month_def find_first_def feb_row_def)
  moreover have "hs_version (hr_score feb_row) = FormulaVersion" by (simp add: feb_row_def FormulaVersion_def)
  moreover obtain r st' where run: "GetHealthScore exact_platform demo_pg (spending 900) ''ann'' 2026 2 ?st = (r, st')" by (metis surj_pair)
  ultimately have "f_scores st' = [feb_row]"
    using dashboard_reads_and_scores_policy [OF run surjective_pairing surjective_pairing surjective_pairing surjective_pairing
      surjective_pairing _ refl, of "''ann''"] by (simp add: demo_pg_def)
  with run show ?thesis by blast
qed

end
