(* ===== verification/Http_Guards.thy ===== *)
theory Http_Guards
  imports Shared_Errors
begin

text \<open>
  What the HTTP handlers of the services share (\<^verbatim>\<open>services/httpx\<close>, \<^verbatim>\<open>services/apierr/respond.go\<close>):
  the request as the web framework hands it over, the response, the trusted user header, the
  binding of a body and the rendering of an error.

  Routing and the decoding of JSON are the framework's.  A request carries the values of its query
  parameters and path segments, and \<open>h_bound\<close>, what \<^verbatim>\<open>ShouldBindJSON\<close> makes of its body: the
  request struct, or the failed rules of the fields (none for a body that is not JSON).
\<close>

section \<open>Requests and responses\<close>

record 'b http_request =
  h_user :: string
  h_query :: "(string \<times> string) list"
  h_params :: "(string \<times> string) list"
  h_keys :: "string list option"
  h_bound :: "(string \<times> string) list + 'b"

datatype 'r http_response =
  Json int 'r
| NoBody int
| Problem int string string "(string \<times> string) list"
| NoAnswer

text \<open>\<open>NoAnswer\<close> is a handler that does not return.\<close>

type_synonym ('s, 'r) http_handler = "'s \<Rightarrow> 'r http_response \<times> 's"

definition query :: "'b http_request \<Rightarrow> string \<Rightarrow> string" where
  "query r k = (case map_of (h_query r) k of None \<Rightarrow> [] | Some v \<Rightarrow> v)"

text \<open>\<^verbatim>\<open>DefaultQuery\<close> uses the default only for a parameter that is absent.\<close>

definition default_query :: "'b http_request \<Rightarrow> string \<Rightarrow> string \<Rightarrow> string" where
  "default_query r k d = (case map_of (h_query r) k of None \<Rightarrow> d | Some v \<Rightarrow> v)"

definition param :: "'b http_request \<Rightarrow> string \<Rightarrow> string" where
  "param r k = (case map_of (h_params r) k of None \<Rightarrow> [] | Some v \<Rightarrow> v)"

section \<open>Numbers in queries\<close>

text \<open>\<^verbatim>\<open>strconv.ParseInt(s, 10, 32)\<close>\<close>

definition ParseInt32 :: "string \<Rightarrow> int option" where
  "ParseInt32 s =
     (let (neg, t) = (case s of c # cs \<Rightarrow> if c = CHR ''-'' then (True, cs) else if c = CHR ''+'' then (False, cs) else (False, s)
                              | [] \<Rightarrow> (False, s));
          n = (if neg then - digits_val t else digits_val t)
      in if t \<noteq> [] \<and> list_all is_digit t \<and> is_i32 n then Some n else None)"

lemma ParseInt32_range: "ParseInt32 s = Some n \<Longrightarrow> is_i32 n"
  by (auto simp: ParseInt32_def Let_def split: prod.splits if_splits)

section \<open>Guards\<close>

definition problem :: "goerr \<Rightarrow> 'r http_response" where
  "problem e = (case Respond e of (st, code, msg, flds) \<Rightarrow> Problem st code msg flds)"

definition reject :: "apierr \<Rightarrow> ('s, 'r) http_handler" where
  "reject e s = (problem (Api e), s)"

definition RequireUserID :: "'b http_request \<Rightarrow> (string \<Rightarrow> ('s, 'r) http_handler) \<Rightarrow> ('s, 'r) http_handler" where
  "RequireUserID r k = (if h_user r = [] then reject (Unauthorized ''Authentication required'') else k (h_user r))"

definition BindJSON :: "'b http_request \<Rightarrow> ('b \<Rightarrow> ('s, 'r) http_handler) \<Rightarrow> ('s, 'r) http_handler" where
  "BindJSON r k = (case h_bound r of Inl flds \<Rightarrow> reject (Validation ''Invalid request body'' flds) | Inr b \<Rightarrow> k b)"

text \<open>The end of every handler: the error response, or the status and the payload.\<close>

definition answer :: "int \<Rightarrow> ('s, goerr, 'a) op \<Rightarrow> ('s, 'a) http_handler" where
  "answer code m s = (case m s of (Inl e, s') \<Rightarrow> (problem e, s') | (Inr x, s') \<Rightarrow> (Json code x, s'))"

definition answer_empty :: "('s, goerr, unit) op \<Rightarrow> ('s, unit) http_handler" where
  "answer_empty m s = (case m s of (Inl e, s') \<Rightarrow> (problem e, s') | (Inr _, s') \<Rightarrow> (NoBody 204, s'))"

lemmas handler_defs = RequireUserID_def BindJSON_def answer_def answer_empty_def reject_def

section \<open>Well-typed errors and responses\<close>

text \<open>
  An error is well typed when the API error it carries, if it carries one, is a client or server
  error with a code.  A response is well typed when its status class agrees with its form.
\<close>

definition error_ok :: "goerr \<Rightarrow> bool" where
  "error_ok e = (case as_api e of None \<Rightarrow> True | Some a \<Rightarrow> 400 \<le> ae_status a \<and> ae_status a < 600 \<and> ae_code a \<noteq> [])"

definition response_ok :: "'r http_response \<Rightarrow> bool" where
  "response_ok r = (case r of Json c x \<Rightarrow> c = 200 \<or> c = 201 | NoBody c \<Rightarrow> c = 204
     | Problem c code msg flds \<Rightarrow> 400 \<le> c \<and> c < 600 \<and> code \<noteq> []
     | NoAnswer \<Rightarrow> False)"

definition errors_typed :: "('s, goerr, 'a) op \<Rightarrow> bool" where
  "errors_typed m \<longleftrightarrow> (\<forall>s e s'. m s = (Inl e, s') \<longrightarrow> error_ok e)"

definition handler_typed :: "('s, 'r) http_handler \<Rightarrow> bool" where
  "handler_typed h \<longleftrightarrow> (\<forall>s. response_ok (fst (h s)))"

lemma errors_typedD: "errors_typed m \<Longrightarrow> m s = (Inl e, s') \<Longrightarrow> error_ok e"
  unfolding errors_typed_def by blast

named_theorems typed "operations with well-typed errors"

lemma error_ok_api [simp]: "error_ok (Api a) \<longleftrightarrow> 400 \<le> ae_status a \<and> ae_status a < 600 \<and> ae_code a \<noteq> []"
  by (simp add: error_ok_def)

lemma error_ok_wrapped [simp]: "error_ok (Wrapped t e) = error_ok e"
  by (simp add: error_ok_def)

lemma error_ok_opaque [simp]: "error_ok (Opaque t)" "error_ok NoRows" "error_ok (UniqueViolation c)" "error_ok (GrpcStatus g t)"
  "error_ok Canceled" "error_ok DeadlineExceeded" "error_ok (SnapshotIntegrity i fs)"
  by (simp_all add: error_ok_def)

lemma typed_bindR [typed, intro]: "errors_typed m \<Longrightarrow> (\<And>x. errors_typed (k x)) \<Longrightarrow> errors_typed (bindR m k)"
  unfolding errors_typed_def bindR_Inl_iff by blast

lemma typed_wrapR: "errors_typed m \<Longrightarrow> (\<And>e. error_ok e \<Longrightarrow> error_ok (f e)) \<Longrightarrow> errors_typed (wrapR f m)"
  unfolding errors_typed_def by (auto simp: wrapR_Inl_iff)

lemma typed_wrapped [typed, intro]: "errors_typed m \<Longrightarrow> errors_typed (wrapR (Wrapped t) m)"
  by (rule typed_wrapR) simp_all

lemma typed_basic [typed, intro]:
  "errors_typed (retR x)" "errors_typed (getsR f)" "error_ok e \<Longrightarrow> errors_typed (failR e)"
  by (auto simp: errors_typed_def retR_def getsR_def failR_def)

lemma typed_lifted:
  "(\<And>e. v = Inl e \<Longrightarrow> error_ok e) \<Longrightarrow> errors_typed (liftR v)"
  "(\<And>e. c = Some e \<Longrightarrow> error_ok (Api e)) \<Longrightarrow> errors_typed (checkR (map_option Api c))"
  by (auto simp: errors_typed_def liftR_def checkR_def split: option.splits)

lemma v_result_typed: "v_result v = Some e \<Longrightarrow> error_ok (Api e)"
  by (auto simp: v_result_def apierr_defs split: if_splits)

lemma typed_validation [typed, intro]: "errors_typed (checkR (map_option Api (v_result v)))"
  by (rule typed_lifted) (rule v_result_typed)

lemma apierr_fields [simp]:
  "ae_status (NotFound m) = 404" "ae_status (Forbidden m) = 403" "ae_status (Unauthorized m) = 401"
  "ae_status (Internal m) = 500" "ae_status (Validation m fs) = 400" "ae_status (Conflict c m) = 409"
  "ae_code (NotFound m) \<noteq> []" "ae_code (Forbidden m) \<noteq> []" "ae_code (Unauthorized m) \<noteq> []"
  "ae_code (Internal m) \<noteq> []" "ae_code (Validation m fs) \<noteq> []" "ae_code (Conflict c m) = c"
  by (simp_all add: apierr_defs)

lemma typed_cases [typed, intro]:
  "errors_typed m1 \<Longrightarrow> errors_typed m2 \<Longrightarrow> errors_typed (if b then m1 else m2)"
  "errors_typed a \<Longrightarrow> (\<And>y. errors_typed (g y)) \<Longrightarrow> errors_typed (case x of None \<Rightarrow> a | Some y \<Rightarrow> g y)"
  "(\<And>a b. errors_typed (h a b)) \<Longrightarrow> errors_typed (case p of (a, b) \<Rightarrow> h a b)"
  "errors_typed n \<Longrightarrow> (\<And>y ys. errors_typed (l y ys)) \<Longrightarrow> errors_typed (case zs of [] \<Rightarrow> n | y # ys \<Rightarrow> l y ys)"
  by (auto split: option.split list.split prod.split)

lemma problem_ok: "error_ok e \<Longrightarrow> response_ok (problem e)"
  by (auto simp: problem_def Respond_def response_ok_def error_ok_def split: option.splits)

lemma answer_typed:
  assumes "errors_typed m" "c = 200 \<or> c = 201"
  shows "handler_typed (answer c m)"
  unfolding handler_typed_def
proof
  fix s
  show "response_ok (fst (answer c m s))"
  proof (cases "m s")
    case (Pair r s')
    then show ?thesis
    proof (cases r)
      case (Inl e)
      then have "error_ok e" using assms(1) Pair unfolding errors_typed_def by blast
      then show ?thesis using Pair Inl by (simp add: answer_def problem_ok)
    qed (use assms(2) in \<open>simp add: answer_def response_ok_def\<close>)
  qed
qed

lemma answer_empty_typed:
  assumes "errors_typed m"
  shows "handler_typed (answer_empty m)"
  unfolding handler_typed_def
proof
  fix s
  show "response_ok (fst (answer_empty m s))"
  proof (cases "m s")
    case (Pair r s')
    then show ?thesis
    proof (cases r)
      case (Inl e)
      then have "error_ok e" using assms Pair unfolding errors_typed_def by blast
      then show ?thesis using Pair Inl by (simp add: answer_empty_def problem_ok)
    qed (simp add: answer_empty_def response_ok_def)
  qed
qed

lemma reject_typed: "error_ok (Api e) \<Longrightarrow> handler_typed (reject e)"
  unfolding handler_typed_def reject_def by (auto intro: problem_ok)

lemma guards_typed:
  "(\<And>u. handler_typed (k u)) \<Longrightarrow> handler_typed (RequireUserID r k)"
  "(\<And>b. handler_typed (g b)) \<Longrightarrow> handler_typed (BindJSON r g)"
  by (auto simp: RequireUserID_def BindJSON_def intro!: reject_typed split: sum.split)

end
