(* ===== verification/Expense_Suggestions.thy ===== *)
theory Expense_Suggestions
  imports Expense_Service
begin

text \<open>
  The ranked suggestions of the expense service (\<^verbatim>\<open>expense/internal/service/suggestions.go\<close>): the
  active expenses grouped by name, their frequency and recency, the ranking and its pages.

  The groups are read from a Go map in an order the code does not determine; \<open>rank\<close> stands for it.
  It decides only which reading of the clock a group gets.
\<close>

record suggestion_request =
  sr_user :: string
  sr_page :: int
  sr_size :: int

record suggestion =
  sg_name :: string
  sg_amount :: int
  sg_cur :: string
  sg_type :: string
  sg_tag :: string
  sg_frequency :: int
  sg_last :: string
  sg_bucket :: string
  sg_score :: int

record suggestion_page =
  sl_data :: "suggestion list"
  sl_total :: int
  sl_page :: int
  sl_size :: int
  sl_more :: bool

record suggestion_group =
  gr_latest :: "suggestion_input option"
  gr_plain :: int
  gr_groups :: "string list"

definition maxSuggestionPageSize :: int where
  "maxSuggestionPageSize = 100"

definition isSuggestionInputNewer :: "suggestion_input \<Rightarrow> suggestion_input \<Rightarrow> bool" where
  "isSuggestionInputNewer candidate current =
     (if si_created candidate \<noteq> si_created current then si_created candidate > si_created current
      else si_id candidate > si_id current)"

definition day_ns :: int where
  "day_ns = 24 * 3600 * 1000000000"

definition recencyBucket :: "golib \<Rightarrow> string \<Rightarrow> gtime \<Rightarrow> string \<times> int" where
  "recencyBucket lib created now =
     (case parse_rfc3339 lib created of
        None \<Rightarrow> (''older'', 1)
      | Some used \<Rightarrow>
          (let elapsed = t_sub (t_utc now) (t_utc used)
           in if fmt_date (t_utc used) = fmt_date (t_utc now) then (''today'', 8)
              else if elapsed \<le> 7 * day_ns then (''last_7_days'', 4)
              else if elapsed \<le> 30 * day_ns then (''last_30_days'', 2)
              else (''older'', 1)))"

definition add_to_group :: "suggestion_input \<Rightarrow> suggestion_group \<Rightarrow> suggestion_group" where
  "add_to_group input g =
     (let g = (case gr_latest g of
                 None \<Rightarrow> g\<lparr>gr_latest := Some input\<rparr>
               | Some l \<Rightarrow> if isSuggestionInputNewer input l then g\<lparr>gr_latest := Some input\<rparr> else g)
      in if si_prorata input \<and> si_group input \<noteq> []
         then g\<lparr>gr_groups := List.insert (si_group input) (gr_groups g)\<rparr>
         else g\<lparr>gr_plain := i32 (gr_plain g + 1)\<rparr>)"

definition group_inputs :: "suggestion_input list \<Rightarrow> (string \<times> suggestion_group) list" where
  "group_inputs inputs =
     foldl (\<lambda>m i. alist_set (si_name i)
              (add_to_group i (case map_of m (si_name i) of None \<Rightarrow> \<lparr>gr_latest = None, gr_plain = 0, gr_groups = []\<rparr> | Some g \<Rightarrow> g)) m)
       [] inputs"

definition suggestion_of :: "golib \<Rightarrow> gtime \<Rightarrow> string \<Rightarrow> suggestion_group \<Rightarrow> suggestion_input \<Rightarrow> suggestion" where
  "suggestion_of lib now name g latest =
     (let frequency = i32 (gr_plain g + i32 (int (length (gr_groups g))));
          (bucket, weight) = recencyBucket lib (si_created latest) now
      in \<lparr>sg_name = name, sg_amount = si_amount latest, sg_cur = si_currency latest, sg_type = si_type latest,
          sg_tag = si_tag latest, sg_frequency = frequency, sg_last = si_created latest, sg_bucket = bucket,
          sg_score = i32 (frequency * weight)\<rparr>)"

text \<open>The comparison of the sort; the score, an \<^verbatim>\<open>int32\<close> converted to \<^verbatim>\<open>float64\<close>, is exact.\<close>

definition better_suggestion :: "suggestion \<Rightarrow> suggestion \<Rightarrow> bool" where
  "better_suggestion l r =
     (if sg_score l \<noteq> sg_score r then sg_score l > sg_score r
      else if sg_last l \<noteq> sg_last r then sg_last l > sg_last r
      else sg_name l \<le> sg_name r)"

fun suggestions_of :: "golib \<Rightarrow> (string \<times> suggestion_group) list \<Rightarrow> suggestion list exp_op" where
  "suggestions_of lib [] = retR []"
| "suggestions_of lib ((name, g) # gs) =
     bindR ex_now (\<lambda>now.
     bindR (suggestions_of lib gs) (\<lambda>rest.
     retR (case gr_latest g of None \<Rightarrow> rest | Some l \<Rightarrow> suggestion_of lib now name g l # rest)))"

definition aggregateExpenseSuggestions :: "golib \<Rightarrow> (string \<Rightarrow> nat) \<Rightarrow> suggestion_input list \<Rightarrow> suggestion list exp_op" where
  "aggregateExpenseSuggestions lib rank inputs =
     bindR (suggestions_of lib (order_by (\<lambda>a b. rank (fst a) \<le> rank (fst b)) (group_inputs inputs))) (\<lambda>ss.
     retR (order_by better_suggestion ss))"

text \<open>\<open>slice_panic\<close> stands for the run-time panic of a slice expression whose start is negative.\<close>

definition slice_panic :: goerr where
  "slice_panic = Opaque ''runtime error: slice bounds out of range''"

definition suggestion_slice :: "int \<Rightarrow> int \<Rightarrow> suggestion list \<Rightarrow> goerr + suggestion_page" where
  "suggestion_slice page psize ss =
     (let count = int (length ss);
          start = i32 (i32 (page - 1) * psize)
      in if start \<ge> count
         then Inr \<lparr>sl_data = [], sl_total = count, sl_page = page, sl_size = psize, sl_more = False\<rparr>
         else let stop = start + psize; stop = (if stop > count then count else stop)
              in if start < 0 then Inl slice_panic
                 else Inr \<lparr>sl_data = take (nat (stop - start)) (drop (nat start) ss), sl_total = count, sl_page = page,
                           sl_size = psize, sl_more = stop < count\<rparr>)"

definition GetExpenseSuggestions :: "golib \<Rightarrow> (string \<Rightarrow> nat) \<Rightarrow> suggestion_request \<Rightarrow> suggestion_page exp_op" where
  "GetExpenseSuggestions lib rank req =
     bindR (checkR (map_option Api (v_result (v_checks
       [(sr_user req \<noteq> [], ''userId'', ''user_id is required''),
        (sr_page req \<ge> 1, ''page'', ''page must be positive''),
        (sr_size req \<ge> 1 \<and> sr_size req \<le> maxSuggestionPageSize, ''pageSize'', ''pageSize must be between 1 and 100'')])))) (\<lambda>_.
     bindR (wrapR (Wrapped ''getting active expense suggestion inputs'') (repo_GetActiveExpenseSuggestionInputs (sr_user req))) (\<lambda>inputs.
     bindR (aggregateExpenseSuggestions lib rank inputs) (\<lambda>ss.
     liftR (suggestion_slice (sr_page req) (sr_size req) ss))))"

section \<open>Pages\<close>

lemma slice_within:
  assumes "1 \<le> page" "1 \<le> psize" "psize \<le> 100" "int (length ss) \<le> 2147483647" "(page - 1) * psize < int (length ss)"
  shows "suggestion_slice page psize ss = Inr \<lparr>sl_data = take (nat psize) (drop (nat ((page - 1) * psize)) ss),
      sl_total = int (length ss), sl_page = page, sl_size = psize, sl_more = page * psize < int (length ss)\<rparr>"
proof -
  let ?start = "(page - 1) * psize"
  have start: "0 \<le> ?start" using assms(1,2) by simp
  have "page - 1 \<le> ?start" using assms(1,2) mult_left_mono [of 1 psize "page - 1"] by simp
  then have "i32 (page - 1) = page - 1" using assms(1,4,5) by (intro i32_id) (simp add: is_i32_def)
  moreover have "i32 ?start = ?start" using assms(4,5) start by (intro i32_id) (simp add: is_i32_def)
  ultimately have st: "i32 (i32 (page - 1) * psize) = ?start" by simp
  have more: "?start + psize = page * psize" and width: "page * psize - ?start = psize" by (simp_all add: algebra_simps)
  have "take (nat (int (length ss) - ?start)) (drop (nat ?start) ss) = drop (nat ?start) ss"
    using start assms(5) by (intro take_all) (simp add: nat_diff_distrib)
  moreover have "take (nat psize) (drop (nat ?start) ss) = drop (nat ?start) ss" if "int (length ss) < ?start + psize"
  proof -
    have "length (drop (nat x) ss) \<le> nat psize" if "int (length ss) < x + psize" "0 \<le> x" for x using that by auto
    then show ?thesis using that start by (intro take_all) blast
  qed
  ultimately show ?thesis
    using start assms(2,5) unfolding suggestion_slice_def Let_def st by (auto simp: more width)
qed

lemma concat_slices: "concat (map (\<lambda>k. take n (drop (k * n) xs)) [0..<m]) = take (m * n) xs"
proof (induction m)
  case (Suc m)
  then show ?case by (simp add: take_add [symmetric] add.commute)
qed simp



end
