(* ===== verification/Expense_Handlers.thy ===== *)
theory Expense_Handlers
  imports Http_Guards Expense_Suggestions Expense_History Expense_Stream
begin

text \<open>
  The two surfaces of the expense service: the gRPC methods the other services call
  (\<^verbatim>\<open>expense/internal/handler/grpc.go\<close>) and the REST routes behind the gateway
  (\<^verbatim>\<open>expense/internal/handler/rest.go\<close>).  A gRPC method is the service operation with its errors
  turned into a status; a REST handler guards the request, runs the operation and renders its result.
\<close>

section \<open>The gRPC surface\<close>

definition mapServiceError :: "goerr \<Rightarrow> goerr" where
  "mapServiceError err =
     (case as_api err of
        None \<Rightarrow> GrpcStatus GInternal ''internal error''
      | Some a \<Rightarrow>
          if ae_code a = code_validation \<or> ae_code a = err_unsupported_currency then GrpcStatus GInvalidArgument (ae_msg a)
          else if ae_code a = code_not_found \<or> ae_code a = err_period_not_found then GrpcStatus GNotFound (ae_msg a)
          else if ae_code a = err_already_corrected then GrpcStatus GFailedPrecondition (ae_msg a)
          else if ae_code a = err_period_locked then GrpcStatus GPermissionDenied (ae_msg a)
          else if ae_code a = err_conversion_unavailable then GrpcStatus GUnavailable (ae_msg a)
          else if ae_code a = err_snapshot_currency then GrpcStatus GFailedPrecondition (ae_msg a)
          else GrpcStatus GInternal (ae_msg a))"

text \<open>The message of an expense is its row without the idempotency key.\<close>

definition expenseToProto :: "expense \<Rightarrow> expense" where
  "expenseToProto e = e\<lparr>x_key := []\<rparr>"

definition egrpc_CreateExpense :: "golib \<Rightarrow> period_client \<Rightarrow> fx_client \<Rightarrow> string \<Rightarrow> create_request \<Rightarrow> expense exp_op" where
  "egrpc_CreateExpense lib getctx fx user req =
     bindR (wrapR mapServiceError (CreateExpense lib getctx fx user req)) (\<lambda>e. retR (expenseToProto e))"

record installment_message =
  im_user :: string
  im_period :: "trusted_period option"
  im_name :: string
  im_amount :: int
  im_currency :: string
  im_type :: string
  im_tag :: string
  im_date :: string
  im_group :: string
  im_index :: int
  im_total :: int
  im_snapshot :: "captured_snapshot option"

definition no_period_context :: trusted_period where
  "no_period_context = \<lparr>tp_id = [], tp_user = [], tp_year = 0, tp_month = 0, tp_rcur = [], tp_source = []\<rparr>"

definition egrpc_CreateProRataInstallment :: "golib \<Rightarrow> fx_client \<Rightarrow> installment_message \<Rightarrow> expense exp_op" where
  "egrpc_CreateProRataInstallment lib fx req =
     bindR (wrapR mapServiceError (CreateProRataInstallment lib fx
       \<lparr>i_user = im_user req, i_period = (case im_period req of None \<Rightarrow> no_period_context | Some pc \<Rightarrow> pc),
        i_name = im_name req, i_amount = im_amount req, i_currency = im_currency req, i_type = im_type req,
        i_tag = im_tag req, i_date = im_date req, i_group = im_group req, i_index = im_index req,
        i_total = im_total req, i_snapshot = im_snapshot req\<rparr>)) (\<lambda>e. retR (expenseToProto e))"

definition egrpc_GetActiveExpensesForPeriod :: "list_request \<Rightarrow> list_response exp_op" where
  "egrpc_GetActiveExpensesForPeriod req =
     bindR (wrapR mapServiceError (GetActiveExpensesForPeriod req)) (\<lambda>r.
     retR (r\<lparr>lr_data := map expenseToProto (lr_data r)\<rparr>))"

definition egrpc_GetExpense :: "string \<Rightarrow> string \<Rightarrow> expense exp_op" where
  "egrpc_GetExpense user i = bindR (wrapR mapServiceError (GetExpense user i)) (\<lambda>e. retR (expenseToProto e))"

definition egrpc_CorrectExpense ::
    "golib \<Rightarrow> period_client \<Rightarrow> fx_client \<Rightarrow> string \<Rightarrow> string \<Rightarrow> correct_request \<Rightarrow> expense exp_op" where
  "egrpc_CorrectExpense lib getctx fx user i req =
     bindR (wrapR mapServiceError (CorrectExpense lib getctx fx user i req)) (\<lambda>e. retR (expenseToProto e))"

definition egrpc_CountExpensesByTag :: "string \<Rightarrow> string \<Rightarrow> int exp_op" where
  "egrpc_CountExpensesByTag user tag = wrapR mapServiceError (CountExpensesByTag user tag)"

definition egrpc_AnonymizeAllUserExpenses :: "string \<Rightarrow> unit exp_op" where
  "egrpc_AnonymizeAllUserExpenses user =
     (if user = [] then failR (GrpcStatus GInvalidArgument ''user_id is required'')
      else wrapR (\<lambda>_. GrpcStatus GInternal ''failed to anonymize expenses'') (AnonymizeAllUserExpenses user))"

text \<open>The status a stream ends with: API errors by their code, an ended context by its cause, others as they are.\<close>

fun context_code :: "goerr \<Rightarrow> (grpc_code \<times> string) option" where
  "context_code Canceled = Some (GCanceled, ''context canceled'')"
| "context_code DeadlineExceeded = Some (GDeadlineExceeded, ''context deadline exceeded'')"
| "context_code (Wrapped m e) = map_option (\<lambda>(c, t). (c, m @ '': '' @ t)) (context_code e)"
| "context_code _ = None"

definition stream_error :: "goerr \<Rightarrow> goerr" where
  "stream_error err =
     (if as_api err \<noteq> None then mapServiceError err
      else case context_code err of Some (c, t) \<Rightarrow> GrpcStatus c t | None \<Rightarrow> err)"

definition egrpc_StreamAllUserExpenses :: "string \<Rightarrow> int \<Rightarrow> exp_state \<Rightarrow> goerr + int \<times> stream_state" where
  "egrpc_StreamAllUserExpenses user psize st =
     (case StreamAllUserExpenses user psize st of Inl e \<Rightarrow> Inl (stream_error e) | Inr run \<Rightarrow> Inr run)"

definition stream_status :: "stream_state \<Rightarrow> goerr option option" where
  "stream_status s = map_option (map_option stream_error) (ss_ret s)"

section \<open>The REST surface\<close>

type_synonym 'r exp_handler = "(exp_state, 'r) http_handler"

definition rest_CreateExpense :: "golib \<Rightarrow> period_client \<Rightarrow> fx_client \<Rightarrow> create_request http_request \<Rightarrow> expense exp_handler" where
  "rest_CreateExpense lib getctx fx r =
     RequireUserID r (\<lambda>user. BindJSON r (\<lambda>req. answer 201 (CreateExpense lib getctx fx user req)))"

text \<open>A page or page size that is not a positive number falls back to its default.\<close>

definition positive_or :: "int \<Rightarrow> string \<Rightarrow> int" where
  "positive_or d s = (case ParseInt32 s of None \<Rightarrow> d | Some n \<Rightarrow> if n > 0 then n else d)"

definition rest_GetExpenses :: "unit http_request \<Rightarrow> list_response exp_handler" where
  "rest_GetExpenses r =
     RequireUserID r (\<lambda>user.
     if query r ''year'' = [] \<or> query r ''month'' = []
     then reject (Validation ''year and month query parameters are required'' [])
     else case ParseInt32 (query r ''year'') of
            None \<Rightarrow> reject (Validation ''year must be a valid integer'' [])
          | Some year \<Rightarrow>
              (case ParseInt32 (query r ''month'') of
                 None \<Rightarrow> reject (Validation ''month must be a valid integer'' [])
               | Some month \<Rightarrow>
                   answer 200 (GetActiveExpensesForPeriod
                     \<lparr>l_user = user, l_year = year, l_month = month, l_page = positive_or 1 (query r ''page''),
                      l_size = positive_or 50 (query r ''pageSize'')\<rparr>)))"

definition parsePositiveIntQuery :: "'b http_request \<Rightarrow> string \<Rightarrow> int \<Rightarrow> int option" where
  "parsePositiveIntQuery r k d =
     (if query r k = [] then Some d
      else case ParseInt32 (query r k) of None \<Rightarrow> None | Some n \<Rightarrow> if n < 1 then None else Some n)"

definition rest_GetExpenseSuggestions :: "golib \<Rightarrow> (string \<Rightarrow> nat) \<Rightarrow> unit http_request \<Rightarrow> suggestion_page exp_handler" where
  "rest_GetExpenseSuggestions lib rank r =
     RequireUserID r (\<lambda>user.
     case parsePositiveIntQuery r ''page'' 1 of
       None \<Rightarrow> reject (Validation ''page must be a positive integer'' [])
     | Some page \<Rightarrow>
         (case parsePositiveIntQuery r ''pageSize'' 50 of
            None \<Rightarrow> reject (Validation ''pageSize must be a positive integer no greater than 100'' [])
          | Some psize \<Rightarrow>
              if psize > 100 then reject (Validation ''pageSize must be a positive integer no greater than 100'' [])
              else answer 200 (GetExpenseSuggestions lib rank \<lparr>sr_user = user, sr_page = page, sr_size = psize\<rparr>)))"

definition rest_GetExpense :: "unit http_request \<Rightarrow> expense exp_handler" where
  "rest_GetExpense r = RequireUserID r (\<lambda>user. answer 200 (GetExpense user (param r ''id'')))"

definition rest_CorrectExpense :: "golib \<Rightarrow> period_client \<Rightarrow> fx_client \<Rightarrow> correct_request http_request \<Rightarrow> expense exp_handler" where
  "rest_CorrectExpense lib getctx fx r =
     RequireUserID r (\<lambda>user. BindJSON r (\<lambda>req. answer 201 (CorrectExpense lib getctx fx user (param r ''id'') req)))"

definition rest_DeleteExpense :: "unit http_request \<Rightarrow> unit exp_handler" where
  "rest_DeleteExpense r = RequireUserID r (\<lambda>user. answer_empty (DeleteExpense user (param r ''id'')))"

definition rest_GetCorrectionHistory :: "unit http_request \<Rightarrow> expense list option exp_handler" where
  "rest_GetCorrectionHistory r = RequireUserID r (\<lambda>user. answer 200 (GetCorrectionHistory user (param r ''id'')))"

definition rest_GetExpensesInProRataGroup :: "unit http_request \<Rightarrow> expense list exp_handler" where
  "rest_GetExpensesInProRataGroup r =
     RequireUserID r (\<lambda>user. answer 200 (GetExpensesInProRataGroup user (param r ''groupId'')))"

section \<open>Well-typed errors of the service\<close>

lemma typed_sql [typed, intro]: "errors_typed (sql_query f)" "errors_typed (sql_query_page g)" "errors_typed (sql_exec h)"
proof -
  show q: "errors_typed (sql_query f)" for f :: "exp_state \<Rightarrow> 'c"
    by (auto simp: errors_typed_def sql_query_def db_error_def Let_def split: outcome.splits)
  show "errors_typed (sql_query_page g)"
    unfolding sql_query_page_def by (intro typed_bindR q typed_cases typed_basic) (simp_all add: db_error_def)
  show "errors_typed (sql_exec h)"
    by (auto simp: errors_typed_def sql_exec_def db_error_def Let_def split: outcome.splits option.splits)
qed

lemma rows_typed: "map_rows rows = Inl e \<Longrightarrow> error_ok e" "first_row rows = Inl e \<Longrightarrow> error_ok e"
  by (induction rows) (auto simp: rowToExpense_def first_row_def split: if_splits sum.splits list.splits)

lemma typed_rows [typed, intro]: "errors_typed (liftR (map_rows rows))" "errors_typed (liftR (first_row rows))"
  by (intro typed_lifted rows_typed; assumption)+

lemma typed_checked: "error_ok e \<Longrightarrow> errors_typed (checkR (if b then Some e else None))"
  by (simp add: errors_typed_def checkR_def)

lemma typed_repo [typed, intro]:
  "errors_typed (repo_CreateExpense e)" "errors_typed (repo_GetActiveExpensesForPeriod u y m p n)"
  "errors_typed (repo_GetExpenseByID i u)" "errors_typed (repo_GetExpenseByIdempotencyKey u k)"
  "errors_typed (repo_DeactivateExpense i u)" "errors_typed (repo_CountExpensesByTag u t)"
  "errors_typed (repo_GetExpensesInProRataGroup g u)" "errors_typed (repo_AnonymizeAllUserExpenses u)"
  "errors_typed (repo_CorrectExpense o1 c)" "errors_typed (repo_GetActiveExpenseSuggestionInputs u)"
proof -
  show c: "errors_typed (repo_CreateExpense e)" for e
    unfolding repo_CreateExpense_def by (intro typed)
  show "errors_typed (repo_CorrectExpense o1 c)"
    unfolding repo_CorrectExpense_def by (intro typed c)
qed (simp_all only: repo_GetActiveExpensesForPeriod_def repo_GetExpenseByID_def repo_GetExpenseByIdempotencyKey_def
      repo_DeactivateExpense_def repo_CountExpensesByTag_def repo_GetExpensesInProRataGroup_def
      repo_AnonymizeAllUserExpenses_def repo_GetActiveExpenseSuggestionInputs_def Let_def, (intro typed)+)

lemma typed_walks [typed, intro]:
  "errors_typed (walk_back n u rt visited)" "errors_typed (walk_forward n u i visited chain)"
  by (induction n arbitrary: rt i visited chain) (auto intro!: typed)

section \<open>Well-typed responses\<close>

text \<open>
  What the handlers rely on: an API error of a client has a client or server status and a code.  The
  gRPC clients provide it when the remote side answers with statuses, as every gRPC server does.
\<close>

locale typed_clients =
  fixes getctx :: period_client and fx :: fx_client
  assumes typed_ctx [typed, intro]: "errors_typed (getctx u y m)"
    and typed_fx [typed, intro]: "errors_typed (fc_convert fx q)" "errors_typed (fc_with_snapshot fx q')"

definition statuses :: "(nat \<Rightarrow> 'q \<Rightarrow> goerr + 'a) \<Rightarrow> bool" where
  "statuses rpc \<longleftrightarrow> (\<forall>n q e. rpc n q = Inl e \<longrightarrow> as_api e = None)"

lemma statuses_typed: "statuses rpc \<Longrightarrow> errors_typed (rpc_call rpc q)"
  by (auto simp: statuses_def errors_typed_def rpc_call_def error_ok_def)

lemma check_expense_id_typed [typed, intro]: "errors_typed (check_expense_id i)"
  unfolding check_expense_id_def by (intro typed)

lemma typed_validators [typed, intro]:
  "errors_typed (checkR (map_option Api (validateCreateExpenseRequest req)))"
  "errors_typed (checkR (map_option Api (validateCorrectExpenseRequest req')))"
  "errors_typed (checkR (map_option Api (validateIdempotencyKey lib k)))"
  "errors_typed (checkR (map_option Api (validateReportingCurrency lib c)))"
  "errors_typed (checkR (map_option Api (validateProRataInstallmentRequest q)))"
  "errors_typed (checkR (map_option Api (validateTrustedPeriodContext u pc)))"
  "errors_typed (checkR (map_option Api (validateSnapshotCoverage s cs)))"
  by (rule typed_lifted; auto simp: validateCreateExpenseRequest_def validateCorrectExpenseRequest_def
      validateIdempotencyKey_def validateReportingCurrency_def validateProRataInstallmentRequest_def
      validateTrustedPeriodContext_def validateSnapshotCoverage_def Let_def apierr_defs
      dest: v_result_typed split: if_splits)+

lemma typed_currency [typed, intro]:
  "errors_typed (liftR (validateTransactionCurrency lib c))"
  "errors_typed (liftR (resolveCreateTransactionCurrency lib p req))"
  "errors_typed (liftR (resolveCorrectionTransactionCurrency lib o1 req'))"
  "errors_typed (liftR (buildProviderSnapshot lib a t r resp))"
  by (rule typed_lifted; auto simp: validateTransactionCurrency_def resolveCreateTransactionCurrency_def
      resolveCorrectionTransactionCurrency_def buildProviderSnapshot_def Let_def split: if_splits)+

lemma typed_environment [typed, intro]: "errors_typed ex_now" "errors_typed new_uuid"
  by (simp_all add: errors_typed_def ex_now_def new_uuid_def)

lemma fx_failure_typed [simp]: "error_ok e \<Longrightarrow> error_ok (handleFxConversionFailure t r e)"
  by (auto simp: handleFxConversionFailure_def error_ok_def split: option.splits)

lemma typed_reads:
  "errors_typed (GetActiveExpensesForPeriod req)" "errors_typed (GetExpense u i)" "errors_typed (GetExpensesInProRataGroup u g)"
  "errors_typed (GetCorrectionHistory u i)" "errors_typed (DeleteExpense u i)" "errors_typed (GetExpenseSuggestions lib rank sq)"
proof -
  have sugg: "errors_typed (suggestions_of lib gs)" for gs
    by (induction gs rule: suggestions_of.induct) (simp_all only: suggestions_of.simps, (intro typed; assumption)+)
  show "errors_typed (GetActiveExpensesForPeriod req)"
    unfolding GetActiveExpensesForPeriod_def Let_def by (intro typed)
  show "errors_typed (GetExpense u i)" unfolding GetExpense_def by (intro typed) simp
  show "errors_typed (GetExpensesInProRataGroup u g)" unfolding GetExpensesInProRataGroup_def by (intro typed)
  show "errors_typed (GetCorrectionHistory u i)"
    unfolding GetCorrectionHistory_def repo_GetCorrectionHistory_def by (intro typed) simp
  show "errors_typed (DeleteExpense u i)"
    unfolding DeleteExpense_def by (intro typed typed_lifted typed_checked) (simp_all add: period_locked_def)
  show "errors_typed (GetExpenseSuggestions lib rank sq)"
    unfolding GetExpenseSuggestions_def aggregateExpenseSuggestions_def
    by (intro typed sugg typed_lifted) (auto simp: suggestion_slice_def slice_panic_def Let_def split: if_splits)
qed

context typed_clients
begin

lemma typed_snapshot [typed, intro]: "errors_typed (resolveSnapshot lib fx a t r now)"
  unfolding resolveSnapshot_def by (intro typed typed_wrapR) simp

lemma typed_create: "errors_typed (CreateExpense lib getctx fx u req)"
  unfolding CreateExpense_def lookupIdempotentReplay_def Let_def by (intro typed)

lemma typed_correct: "errors_typed (CorrectExpense lib getctx fx u i req)"
  unfolding CorrectExpense_def Let_def by (intro typed typed_checked) (simp_all add: period_locked_def)

lemma typed_install: "errors_typed (CreateProRataInstallment lib fx req)"
  unfolding CreateProRataInstallment_def Let_def by (intro typed typed_wrapR) simp_all

lemma expense_handlers_typed:
  "handler_typed (rest_CreateExpense lib getctx fx rce)" "handler_typed (rest_CorrectExpense lib getctx fx rco)"
  unfolding rest_CreateExpense_def rest_CorrectExpense_def
  by (intro guards_typed answer_typed typed_create typed_correct; simp)+

end

lemma expense_reads_typed:
  "handler_typed (rest_GetExpenses r)" "handler_typed (rest_GetExpenseSuggestions lib rank r)"
  "handler_typed (rest_GetExpense r)" "handler_typed (rest_DeleteExpense r)" "handler_typed (rest_GetCorrectionHistory r)"
  "handler_typed (rest_GetExpensesInProRataGroup r)"
proof -
  show "handler_typed (rest_GetExpenses r)"
    unfolding rest_GetExpenses_def
    by (intro guards_typed) (auto intro!: reject_typed answer_typed typed_reads split: option.split)
  show "handler_typed (rest_GetExpenseSuggestions lib rank r)"
    unfolding rest_GetExpenseSuggestions_def
    by (intro guards_typed) (auto intro!: reject_typed answer_typed typed_reads split: option.split)
  show "handler_typed (rest_GetExpense r)" "handler_typed (rest_DeleteExpense r)" "handler_typed (rest_GetCorrectionHistory r)"
    "handler_typed (rest_GetExpensesInProRataGroup r)"
    unfolding rest_GetExpense_def rest_DeleteExpense_def rest_GetCorrectionHistory_def rest_GetExpensesInProRataGroup_def
    by (intro guards_typed answer_typed answer_empty_typed typed_reads; simp)+
qed

end
