(* ===== verification/Finance_Handlers.thy ===== *)
theory Finance_Handlers
  imports Http_Guards Finance_Frame Finance_Calendar Finance_Health
begin

text \<open>
  The two surfaces of the finance service: its gRPC methods
  (\<^verbatim>\<open>finance/internal/handler/grpc.go\<close>) and its REST routes
  (\<^verbatim>\<open>finance/internal/handler/rest.go\<close>).  The REST payloads are the service's results; the
  gRPC messages are the records below.
\<close>

section \<open>Messages\<close>

record defaults_message =
  dm_user :: string
  dm_budget :: int
  dm_ess :: int
  dm_des :: int
  dm_sav :: int
  dm_cur :: string

record period_message =
  pm_id :: string
  pm_user :: string
  pm_year :: int
  pm_month :: int
  pm_budget :: int
  pm_ess :: int
  pm_des :: int
  pm_sav :: int
  pm_created :: string
  pm_cur :: string

record tag_message =
  tm_id :: string
  tm_user :: string
  tm_name :: string
  tm_default :: bool
  tm_created :: string

record user_data_message =
  um_tags :: "tag_message list"
  um_periods :: "period_message list"
  um_defaults :: "defaults_message option"

definition defaults_message_of :: "default_settings \<Rightarrow> defaults_message" where
  "defaults_message_of d = \<lparr>dm_user = d_user d, dm_budget = d_budget d, dm_ess = d_ess d, dm_des = d_des d,
     dm_sav = d_sav d, dm_cur = d_cur d\<rparr>"

definition periodToProto :: "period \<Rightarrow> period_message" where
  "periodToProto p = \<lparr>pm_id = p_id p, pm_user = p_user p, pm_year = p_year p, pm_month = p_month p, pm_budget = p_budget p,
     pm_ess = p_ess p, pm_des = p_des p, pm_sav = p_sav p, pm_created = fmt_rfc3339 (p_created p), pm_cur = p_cur p\<rparr>"

text \<open>The tag of the tag methods carries no creation time; the one of the export does.\<close>

definition tag_message_of :: "tag \<Rightarrow> tag_message" where
  "tag_message_of t = \<lparr>tm_id = tg_id t, tm_user = tg_user t, tm_name = tg_name t, tm_default = tg_default t, tm_created = []\<rparr>"

definition exported_tag :: "tag \<Rightarrow> tag_message" where
  "exported_tag t = (tag_message_of t)\<lparr>tm_created := fmt_rfc3339 (tg_created t)\<rparr>"

section \<open>The gRPC surface\<close>

definition financeErrorStatus :: "goerr \<Rightarrow> goerr option" where
  "financeErrorStatus err =
     (case as_api err of
        None \<Rightarrow> None
      | Some a \<Rightarrow>
          if ae_code a = code_validation \<or> ae_code a = fe_unsupported_currency then Some (GrpcStatus GInvalidArgument (ae_msg a))
          else if ae_code a = code_not_found \<or> ae_code a = fe_period_not_found then Some (GrpcStatus GNotFound (ae_msg a))
          else if ae_code a = ''PERIOD_LOCKED'' then Some (GrpcStatus GPermissionDenied (ae_msg a))
          else if ae_code a = ''CONVERSION_UNAVAILABLE'' then Some (GrpcStatus GUnavailable (ae_msg a))
          else None)"

definition status_or_internal :: "string \<Rightarrow> goerr \<Rightarrow> goerr" where
  "status_or_internal text err = (case financeErrorStatus err of Some s \<Rightarrow> s | None \<Rightarrow> GrpcStatus GInternal text)"

text \<open>The methods with their own table of codes: the first entry whose code is the error's.\<close>

definition coded_status :: "(string \<times> grpc_code) list \<Rightarrow> string \<Rightarrow> goerr \<Rightarrow> goerr" where
  "coded_status table text err =
     (case as_api err of
        None \<Rightarrow> GrpcStatus GInternal text
      | Some a \<Rightarrow> (case map_of table (ae_code a) of Some c \<Rightarrow> GrpcStatus c (ae_msg a) | None \<Rightarrow> GrpcStatus GInternal text))"

definition any_api_status :: "grpc_code \<Rightarrow> string \<Rightarrow> goerr \<Rightarrow> goerr" where
  "any_api_status c text err = (case as_api err of Some a \<Rightarrow> GrpcStatus c (ae_msg a) | None \<Rightarrow> GrpcStatus GInternal text)"

definition replies :: "(goerr \<Rightarrow> goerr) \<Rightarrow> ('a \<Rightarrow> 'b) \<Rightarrow> ('w, 'a) fin_op \<Rightarrow> ('w, 'b) fin_op" where
  "replies status msg m = bindR (wrapR status m) (\<lambda>x. retR (msg x))"

definition fgrpc_ListSupportedCurrencies :: "(string \<times> string \<times> string \<times> nat) list" where
  "fgrpc_ListSupportedCurrencies = map (\<lambda>d. (cur_code d, cur_symbol d, cur_name d, cur_digits d)) supportedCurrencies"

definition fgrpc_GetDefaults :: "pglib \<Rightarrow> string \<Rightarrow> ('w, defaults_message) fin_op" where
  "fgrpc_GetDefaults pg u =
     replies (coded_status [(code_not_found, GNotFound)] ''failed to get defaults'') defaults_message_of (GetDefaults pg u)"

definition fgrpc_CompleteOnboarding :: "golib \<Rightarrow> pglib \<Rightarrow> string \<Rightarrow> onboarding_request \<Rightarrow> ('w, defaults_message) fin_op" where
  "fgrpc_CompleteOnboarding lib pg u req =
     replies (any_api_status GInvalidArgument ''failed to complete onboarding'') defaults_message_of (CompleteOnboarding lib pg u req)"

definition fgrpc_GetCurrentPeriod :: "pglib \<Rightarrow> string \<Rightarrow> int \<Rightarrow> int \<Rightarrow> ('w, period_message) fin_op" where
  "fgrpc_GetCurrentPeriod pg u y m =
     replies (status_or_internal ''failed to get current period'') periodToProto (GetCurrentPeriod pg u y m)"

text \<open>The request's budget is always present on the wire: an absent one is 0.\<close>

definition fgrpc_CreatePeriod :: "golib \<Rightarrow> pglib \<Rightarrow> 'w expense_client \<Rightarrow> string \<Rightarrow> create_period_request \<Rightarrow>
    'w fin_state \<Rightarrow> ((goerr + period_message) \<times> 'w fin_state) option" where
  "fgrpc_CreatePeriod lib pg xc u req st =
     (case CreatePeriodWithProRata lib pg xc u
             (req\<lparr>cp_budget := Some (case cp_budget req of None \<Rightarrow> 0 | Some b \<Rightarrow> b)\<rparr>) st of
        None \<Rightarrow> None
      | Some (Inl e, st') \<Rightarrow> Some (Inl (status_or_internal ''failed to create period'' e), st')
      | Some (Inr r, st') \<Rightarrow> Some (Inr (periodToProto (pp_period r)), st'))"

definition fgrpc_UpdatePeriod :: "pglib \<Rightarrow> string \<Rightarrow> string \<Rightarrow> update_period_request \<Rightarrow> ('w, period_message) fin_op" where
  "fgrpc_UpdatePeriod pg u i req =
     replies (status_or_internal ''failed to update period'') periodToProto (UpdatePeriod pg u i req)"

definition fgrpc_ListPeriods :: "pglib \<Rightarrow> string \<Rightarrow> ('w, period_message list \<times> int) fin_op" where
  "fgrpc_ListPeriods pg u =
     replies (\<lambda>_. GrpcStatus GInternal ''failed to list periods'')
       (\<lambda>ps. (map periodToProto ps, i32 (int (length ps)))) (ListPeriods pg u)"

definition fgrpc_GetPeriodContext :: "pglib \<Rightarrow> string \<Rightarrow> int \<Rightarrow> int \<Rightarrow> ('w, period_facts) fin_op" where
  "fgrpc_GetPeriodContext pg u y m =
     replies (status_or_internal ''failed to get period context'') (\<lambda>p. p) (GetPeriodContext pg u y m)"

definition fgrpc_ListTags :: "golib \<Rightarrow> pglib \<Rightarrow> string \<Rightarrow> ('w, tag_message list) fin_op" where
  "fgrpc_ListTags lib pg u =
     replies (any_api_status GInternal ''failed to list tags'') (map tag_message_of) (ListTags lib pg u)"

definition fgrpc_CreateTag :: "golib \<Rightarrow> pglib \<Rightarrow> string \<Rightarrow> string \<Rightarrow> ('w, tag_message) fin_op" where
  "fgrpc_CreateTag lib pg u nm =
     replies (coded_status [(code_validation, GInvalidArgument), (fe_duplicate_tag, GAlreadyExists)] ''failed to create tag'')
       tag_message_of (CreateTag lib pg u nm)"

definition fgrpc_UpdateTag :: "golib \<Rightarrow> pglib \<Rightarrow> string \<Rightarrow> string \<Rightarrow> string \<Rightarrow> ('w, tag_message) fin_op" where
  "fgrpc_UpdateTag lib pg u i nm =
     replies (coded_status [(code_validation, GInvalidArgument), (fe_duplicate_tag, GAlreadyExists), (code_not_found, GNotFound)]
         ''failed to update tag'') tag_message_of (UpdateTag lib pg u i nm)"

definition fgrpc_DeleteTag :: "pglib \<Rightarrow> 'w expense_client \<Rightarrow> string \<Rightarrow> string \<Rightarrow> ('w, unit) fin_op" where
  "fgrpc_DeleteTag pg xc u i =
     replies (coded_status [(code_not_found, GNotFound), (fe_default_tag, GPermissionDenied), (fe_tag_in_use, GFailedPrecondition)]
         ''failed to delete tag'') (\<lambda>x. x) (DeleteTag pg xc u i)"

definition fgrpc_GetAllUserData :: "pglib \<Rightarrow> string \<Rightarrow> ('w, user_data_message) fin_op" where
  "fgrpc_GetAllUserData pg u =
     (if u = [] then failR (GrpcStatus GInvalidArgument ''user_id is required'')
      else replies (\<lambda>_. GrpcStatus GInternal ''failed to get all user data'')
        (\<lambda>d. \<lparr>um_tags = map exported_tag (au_tags d), um_periods = map periodToProto (au_periods d),
              um_defaults = map_option defaults_message_of (au_defaults d)\<rparr>) (GetAllUserData pg u))"

definition fgrpc_CreateProRataExpense :: "golib \<Rightarrow> pglib \<Rightarrow> 'w expense_client \<Rightarrow> 'w capture_client \<Rightarrow> string \<Rightarrow>
    prorata_request \<Rightarrow> ('w, string) fin_op" where
  "fgrpc_CreateProRataExpense lib pg xc fx u req =
     replies (status_or_internal ''failed to create pro-rata expense'') (\<lambda>_. ''pro-rata schedule created'')
       (CreateProRataExpense lib pg xc fx u req)"

definition fgrpc_DeleteAllUserData :: "pglib \<Rightarrow> string \<Rightarrow> ('w, unit) fin_op" where
  "fgrpc_DeleteAllUserData pg u =
     (if u = [] then failR (GrpcStatus GInvalidArgument ''user_id is required'')
      else replies (\<lambda>_. GrpcStatus GInternal ''failed to delete user data'') (\<lambda>x. x) (DeleteAllUserData pg u))"

section \<open>The REST surface\<close>

type_synonym ('w, 'r) fin_handler = "('w fin_state, 'r) http_handler"

definition frest_CompleteOnboarding :: "golib \<Rightarrow> pglib \<Rightarrow> onboarding_request http_request \<Rightarrow> ('w, default_settings) fin_handler" where
  "frest_CompleteOnboarding lib pg r =
     RequireUserID r (\<lambda>u. BindJSON r (\<lambda>req. answer 200 (CompleteOnboarding lib pg u req)))"

definition frest_GetDefaults :: "pglib \<Rightarrow> unit http_request \<Rightarrow> ('w, default_settings) fin_handler" where
  "frest_GetDefaults pg r = RequireUserID r (\<lambda>u. answer 200 (GetDefaults pg u))"

definition frest_UpdateDefaults :: "golib \<Rightarrow> pglib \<Rightarrow> onboarding_request http_request \<Rightarrow> ('w, default_settings) fin_handler" where
  "frest_UpdateDefaults lib pg r =
     RequireUserID r (\<lambda>u. BindJSON r (\<lambda>req. answer 200 (UpdateDefaults lib pg u req)))"

definition frest_ListCurrencies :: "unit http_request \<Rightarrow> ('w, (string \<times> string \<times> string \<times> nat) list) fin_handler" where
  "frest_ListCurrencies r =
     RequireUserID r (\<lambda>_. answer 200 (retR fgrpc_ListSupportedCurrencies))"

text \<open>The year and month of a query, the same guard in the handlers for a month.\<close>

definition parsePeriodParams :: "'b http_request \<Rightarrow> (int \<Rightarrow> int \<Rightarrow> ('s, 'r) http_handler) \<Rightarrow> ('s, 'r) http_handler" where
  "parsePeriodParams r k =
     (if query r ''year'' = [] \<or> query r ''month'' = []
      then reject (Validation ''year and month query parameters are required'' [(''year'', ''required''), (''month'', ''required'')])
      else case ParseInt32 (query r ''year'') of
             None \<Rightarrow> reject (Validation ''year must be a valid integer'' [(''year'', ''must be a valid integer'')])
           | Some year \<Rightarrow>
               (case ParseInt32 (query r ''month'') of
                  None \<Rightarrow> reject (Validation ''month must be a valid integer'' [(''month'', ''must be a valid integer'')])
                | Some month \<Rightarrow> k year month))"

definition parseUserAndPeriodParams ::
    "'b http_request \<Rightarrow> (string \<Rightarrow> int \<Rightarrow> int \<Rightarrow> ('s, 'r) http_handler) \<Rightarrow> ('s, 'r) http_handler" where
  "parseUserAndPeriodParams r k = RequireUserID r (\<lambda>u. parsePeriodParams r (k u))"

definition frest_GetCurrentPeriod :: "pglib \<Rightarrow> unit http_request \<Rightarrow> ('w, period) fin_handler" where
  "frest_GetCurrentPeriod pg r =
     RequireUserID r (\<lambda>u. parsePeriodParams r (\<lambda>y m. answer 200 (GetCurrentPeriod pg u y m)))"

definition frest_CreatePeriod :: "golib \<Rightarrow> pglib \<Rightarrow> 'w expense_client \<Rightarrow> create_period_request http_request \<Rightarrow>
    ('w, create_period_response) fin_handler" where
  "frest_CreatePeriod lib pg xc r =
     RequireUserID r (\<lambda>u. BindJSON r (\<lambda>req st.
       case CreatePeriodWithProRata lib pg xc u req st of
         None \<Rightarrow> (NoAnswer, st)
       | Some run \<Rightarrow> answer 201 (\<lambda>_. run) st))"

definition frest_ListPeriods :: "pglib \<Rightarrow> unit http_request \<Rightarrow> ('w, period list) fin_handler" where
  "frest_ListPeriods pg r = RequireUserID r (\<lambda>u. answer 200 (ListPeriods pg u))"

definition immutableReportingCurrencyFields :: "'b http_request \<Rightarrow> (string \<times> string) list" where
  "immutableReportingCurrencyFields r =
     (case h_keys r of
        None \<Rightarrow> []
      | Some ks \<Rightarrow> map (\<lambda>f. (f, ''immutable'')) (filter (\<lambda>f. f \<in> set ks) [''reportingCurrencyCode'', ''reporting_currency_code'']))"

definition frest_UpdatePeriod :: "pglib \<Rightarrow> update_period_request http_request \<Rightarrow> ('w, period) fin_handler" where
  "frest_UpdatePeriod pg r =
     RequireUserID r (\<lambda>u.
     if immutableReportingCurrencyFields r \<noteq> []
     then reject \<lparr>ae_code = fe_currency_immutable, ae_msg = ''Reporting currency cannot be changed after period creation'',
                  ae_status = 400, ae_fields = immutableReportingCurrencyFields r\<rparr>
     else BindJSON r (\<lambda>req. answer 200 (UpdatePeriod pg u (param r ''id'') req)))"

definition frest_ListTags :: "golib \<Rightarrow> pglib \<Rightarrow> unit http_request \<Rightarrow> ('w, tag list) fin_handler" where
  "frest_ListTags lib pg r = RequireUserID r (\<lambda>u. answer 200 (ListTags lib pg u))"

definition frest_CreateTag :: "golib \<Rightarrow> pglib \<Rightarrow> string http_request \<Rightarrow> ('w, tag) fin_handler" where
  "frest_CreateTag lib pg r = RequireUserID r (\<lambda>u. BindJSON r (\<lambda>nm. answer 201 (CreateTag lib pg u nm)))"

definition frest_UpdateTag :: "golib \<Rightarrow> pglib \<Rightarrow> string http_request \<Rightarrow> ('w, tag) fin_handler" where
  "frest_UpdateTag lib pg r =
     RequireUserID r (\<lambda>u. BindJSON r (\<lambda>nm. answer 200 (UpdateTag lib pg u (param r ''id'') nm)))"

definition frest_DeleteTag :: "pglib \<Rightarrow> 'w expense_client \<Rightarrow> unit http_request \<Rightarrow> ('w, unit) fin_handler" where
  "frest_DeleteTag pg xc r = RequireUserID r (\<lambda>u. answer_empty (DeleteTag pg xc u (param r ''id'')))"

definition frest_GetPeriodSummary :: "pglib \<Rightarrow> 'w expense_client \<Rightarrow> unit http_request \<Rightarrow> ('w, period_summary) fin_handler" where
  "frest_GetPeriodSummary pg xc r = parseUserAndPeriodParams r (\<lambda>u y m. answer 200 (GetPeriodSummary pg xc u y m))"

definition frest_GetHealthScore :: "platform \<Rightarrow> pglib \<Rightarrow> 'w expense_client \<Rightarrow> unit http_request \<Rightarrow> ('w, health_score) fin_handler" where
  "frest_GetHealthScore cvt pg xc r = parseUserAndPeriodParams r (\<lambda>u y m. answer 200 (GetHealthScore cvt pg xc u y m))"

text \<open>
  A number of months that does not parse is 6.  \<^verbatim>\<open>ParseInt\<close> returns the nearest bound together with a
  range error; the assignment of 6 overrides it.
\<close>

definition frest_GetHealthScoreTrend ::
    "platform \<Rightarrow> pglib \<Rightarrow> 'w expense_client \<Rightarrow> unit http_request \<Rightarrow> ('w, trend_scalar list) fin_handler" where
  "frest_GetHealthScoreTrend cvt pg xc r = parseUserAndPeriodParams r (\<lambda>u y m.
     answer 200 (GetHealthScoreTrend cvt pg xc u y m
       (case ParseInt32 (default_query r ''months'' ''6'') of None \<Rightarrow> 6 | Some n \<Rightarrow> n)))"

definition frest_GetSpendingByTag ::
    "pglib \<Rightarrow> 'w expense_client \<Rightarrow> (string \<Rightarrow> nat) \<Rightarrow> unit http_request \<Rightarrow> ('w, tag_spending list) fin_handler" where
  "frest_GetSpendingByTag pg xc rank r = parseUserAndPeriodParams r (\<lambda>u y m. answer 200 (GetSpendingByTag pg xc rank u y m))"

definition frest_GetCumulativeSpend ::
    "platform \<Rightarrow> pglib \<Rightarrow> 'w expense_client \<Rightarrow> unit http_request \<Rightarrow> ('w, cumulative_point list) fin_handler" where
  "frest_GetCumulativeSpend cvt pg xc r = parseUserAndPeriodParams r (\<lambda>u y m. answer 200 (GetCumulativeSpend cvt pg xc u y m))"

definition frest_GetHistoricalComparison ::
    "pglib \<Rightarrow> 'w expense_client \<Rightarrow> unit http_request \<Rightarrow> ('w, historical_comparison) fin_handler" where
  "frest_GetHistoricalComparison pg xc r = parseUserAndPeriodParams r (\<lambda>u y m. answer 200 (GetHistoricalComparison pg xc u y m))"

definition frest_GetSpendingTrends ::
    "pglib \<Rightarrow> 'w expense_client \<Rightarrow> unit http_request \<Rightarrow> ('w, trend_point list) fin_handler" where
  "frest_GetSpendingTrends pg xc r = parseUserAndPeriodParams r (\<lambda>u y m.
     case ParseInt32 (default_query r ''months'' ''6'') of
       None \<Rightarrow> reject (Validation ''months must be between 1 and 12'' [(''months'', ''must be between 1 and 12'')])
     | Some n \<Rightarrow>
         if n < 1 \<or> n > 12
         then reject (Validation ''months must be between 1 and 12'' [(''months'', ''must be between 1 and 12'')])
         else answer 200 (GetSpendingTrends pg xc u y m n))"

definition frest_CreateProRataExpense :: "golib \<Rightarrow> pglib \<Rightarrow> 'w expense_client \<Rightarrow> 'w capture_client \<Rightarrow>
    prorata_request http_request \<Rightarrow> ('w, prorata_response) fin_handler" where
  "frest_CreateProRataExpense lib pg xc fx r =
     RequireUserID r (\<lambda>u. BindJSON r (\<lambda>req. answer 201 (CreateProRataExpense lib pg xc fx u req)))"

definition frest_GetUpcomingProRata :: "pglib \<Rightarrow> unit http_request \<Rightarrow> ('w, schedule list) fin_handler" where
  "frest_GetUpcomingProRata pg r = RequireUserID r (\<lambda>u. answer 200 (GetUpcomingProRata pg u))"

end
