(* ===== verification/Finance_Responses.thy ===== *)
theory Finance_Responses
  imports Finance_Handlers
begin

text \<open>
  Every error of the finance service is well typed when those of its clients are, so every REST
  response is; and every gRPC method fails with a status.
\<close>

section \<open>Statements and the repository\<close>

lemma typed_pg_stmt:
  assumes "\<And>st e. fst (f st) = Inl e \<Longrightarrow> error_ok e"
  shows "errors_typed (pg_stmt f)"
  unfolding errors_typed_def
proof (intro allI impI)
  fix st e st'
  assume "pg_stmt f st = (Inl e, st')"
  then have "e = pg_error \<or> fst (f (st\<lparr>f_calls := f_calls st + 1\<rparr>)) = Inl e"
    by (auto simp: pg_stmt_def Let_def split: outcome.splits)
  then show "error_ok e" using assms by (auto simp: pg_error_def)
qed

lemma typed_pg_reads [typed, intro]: "errors_typed (pg_query f)" "errors_typed (pg_one g)"
  unfolding pg_query_def pg_one_def by (rule typed_pg_stmt; auto split: option.splits)+

lemma typed_queries [typed, intro]:
  "errors_typed (q_UpsertDefaults d)" "errors_typed (q_CreateTag pg u nm b)" "errors_typed (q_UpdateTag pg nm i u)"
  "errors_typed (q_DeleteTag i u)" "errors_typed (q_CreatePeriod p)" "errors_typed (q_UpdatePeriod bud e1 d1 s1 i u)"
  "errors_typed (q_CreateProRataSchedule s)" "errors_typed (q_UpsertHealthScore row)"
  "errors_typed (q_DeleteAllUserProRataSchedules u)" "errors_typed (q_DeleteAllUserTags u)"
  "errors_typed (q_DeleteAllUserBudgetPeriods u)" "errors_typed (q_DeleteAllUserHealthScores u)"
  "errors_typed (q_DeleteAllUserDefaultSettings u)"
  unfolding q_UpsertDefaults_def q_CreateTag_def q_UpdateTag_def q_DeleteTag_def q_CreatePeriod_def q_UpdatePeriod_def
    q_CreateProRataSchedule_def q_UpsertHealthScore_def q_DeleteAllUserProRataSchedules_def q_DeleteAllUserTags_def
    q_DeleteAllUserBudgetPeriods_def q_DeleteAllUserHealthScores_def q_DeleteAllUserDefaultSettings_def
  by (rule typed_pg_stmt; auto simp: Let_def pg_check_def split: option.splits if_splits)+

lemma typed_reading_queries [typed, intro]:
  "errors_typed (q_GetDefaults u)" "errors_typed (q_GetTagByID i u)" "errors_typed (q_ListTags pg u)"
  "errors_typed (q_CountUserTags u)" "errors_typed (q_CountTagInProRata i u)" "errors_typed (q_GetCurrentPeriod u y m)"
  "errors_typed (q_GetPeriodByID i u)" "errors_typed (q_ListPeriods u)" "errors_typed (q_GetLatestPeriod u)"
  "errors_typed (q_GetUpcomingProRata u)" "errors_typed (q_GetHealthScore u y m)" "errors_typed (q_ListHealthScoreScalars u)"
  unfolding q_GetDefaults_def q_GetTagByID_def q_ListTags_def q_CountUserTags_def q_CountTagInProRata_def q_GetCurrentPeriod_def
    q_GetPeriodByID_def q_ListPeriods_def q_GetLatestPeriod_def q_GetUpcomingProRata_def q_GetHealthScore_def
    q_ListHealthScoreScalars_def
  by (rule typed_pg_reads)+

lemma typed_with_uuid [typed, intro]: "(\<And>u. errors_typed (k u)) \<Longrightarrow> errors_typed (with_uuid pg s k)"
  unfolding with_uuid_def
  by (intro typed_bindR typed_lifted) (auto simp: ParseUUID_def split: option.splits)

lemma typed_nil [typed, intro]: "errors_typed m \<Longrightarrow> errors_typed (nil_if_no_rows m)"
  unfolding errors_typed_def nil_if_no_rows_def by (auto split: prod.splits sum.splits if_splits)

lemma typed_finance_repo [typed, intro]:
  "errors_typed (r_UpsertDefaults pg d)" "errors_typed (r_GetDefaults pg u)" "errors_typed (r_CreateTag pg u nm b)"
  "errors_typed (r_GetTag pg i u)" "errors_typed (r_ListTags pg u)" "errors_typed (r_UpdateTag pg i u nm)"
  "errors_typed (r_DeleteTag pg i u)" "errors_typed (r_CountUserTags pg u)" "errors_typed (r_CountTagInProRata pg i u)"
  "errors_typed (r_GetCurrentPeriod pg u y m)" "errors_typed (r_CreatePeriod pg p)" "errors_typed (r_GetPeriodByID pg i u)"
  "errors_typed (r_UpdatePeriod pg p)" "errors_typed (r_ListPeriods pg u)" "errors_typed (r_GetLatestPeriod pg u)"
  "errors_typed (r_CreateProRataSchedule pg sc)" "errors_typed (r_GetUpcomingProRata pg u)"
  "errors_typed (r_GetHealthScore pg u y m)" "errors_typed (r_ListHealthScoreScalars pg u)" "errors_typed (r_DeleteAllUserData pg u)"
  unfolding r_UpsertDefaults_def r_GetDefaults_def r_CreateTag_def r_GetTag_def r_ListTags_def r_UpdateTag_def
    r_DeleteTag_def r_CountUserTags_def r_CountTagInProRata_def r_GetCurrentPeriod_def r_CreatePeriod_def
    r_GetPeriodByID_def r_UpdatePeriod_def r_ListPeriods_def r_GetLatestPeriod_def r_CreateProRataSchedule_def
    r_GetUpcomingProRata_def r_GetHealthScore_def r_ListHealthScoreScalars_def r_DeleteAllUserData_def
  by (intro typed)+

lemma typed_transaction [typed, intro]: "errors_typed body \<Longrightarrow> errors_typed (in_tx t1 t2 body)"
  unfolding errors_typed_def in_tx_def Let_def
  by (auto simp: wrapR_def pg_query_def pg_stmt_def pg_error_def Let_def split: prod.splits sum.splits outcome.splits)

section \<open>The service\<close>

lemma typed_api: "(\<And>a. v = Some a \<Longrightarrow> error_ok (Api a)) \<Longrightarrow> errors_typed (apiR v)"
  unfolding apiR_def by (rule typed_lifted)

lemma typed_finance_checks [typed, intro]:
  "errors_typed (apiR (v_result v))" "errors_typed (apiR (ValidateEDSSplit e1 d1 s1))" "errors_typed (apiR (budget_check b))"
  "errors_typed (apiR (validateSupportedCurrency lib fld c))" "errors_typed (apiR (validateTagName nm))"
  "errors_typed (apiR (prorata_checks pr))" "errors_typed (apiR (period_checks cp bud))"
  by (rule typed_api; auto simp: ValidateEDSSplit_def budget_check_def validateSupportedCurrency_def validateTagName_def
      prorata_checks_def period_checks_def Let_def dest: v_result_typed split: if_splits)+

lemma typed_clock [typed, intro]: "errors_typed f_now" "errors_typed new_uuid"
  by (simp_all add: errors_typed_def f_now_def new_uuid_def)

lemma typed_seed [typed, intro]: "errors_typed (seed_tags lib pg w u ns)"
  by (induction ns) (simp_all only: seed_tags.simps, (intro typed; assumption)+)

lemma typed_settings [typed, intro]:
  "errors_typed (CompleteOnboarding lib pg u req)" "errors_typed (GetDefaults pg u)" "errors_typed (UpdateDefaults lib pg u req)"
  "errors_typed (getPeriodCreationDefaults lib pg u)"
proof -
  show "errors_typed (CompleteOnboarding lib pg u req)" unfolding CompleteOnboarding_def Let_def by (intro typed)
  show "errors_typed (GetDefaults pg u)" unfolding GetDefaults_def by (intro typed) simp
  show "errors_typed (UpdateDefaults lib pg u req)" unfolding UpdateDefaults_def Let_def by (intro typed)
  show "errors_typed (getPeriodCreationDefaults lib pg u)" unfolding getPeriodCreationDefaults_def Let_def by (intro typed) simp
qed

lemma typed_period_ops [typed, intro]:
  "errors_typed (GetCurrentPeriod pg u y m)" "errors_typed (ListPeriods pg u)" "errors_typed (UpdatePeriod pg u i req)"
  "errors_typed (GetUpcomingProRata pg u)"
proof -
  show "errors_typed (GetCurrentPeriod pg u y m)"
    unfolding GetCurrentPeriod_def by (intro typed) (simp add: period_not_found_def)
  show "errors_typed (ListPeriods pg u)" unfolding ListPeriods_def by (intro typed)
  show "errors_typed (UpdatePeriod pg u i req)" unfolding UpdatePeriod_def by (intro typed) simp_all
  show "errors_typed (GetUpcomingProRata pg u)" unfolding GetUpcomingProRata_def by (intro typed)
qed

lemma typed_tag_write [typed, intro]: "errors_typed m \<Longrightarrow> errors_typed (tag_write lib w nm m)"
  unfolding tag_write_def by (rule typed_wrapR) (simp_all add: duplicateTagError_def)

lemma typed_tag_ops [typed, intro]:
  "errors_typed (ListTags lib pg u)" "errors_typed (CreateTag lib pg u nm)" "errors_typed (UpdateTag lib pg u i nm)"
proof -
  show "errors_typed (ListTags lib pg u)" unfolding ListTags_def by (intro typed)
  show "errors_typed (CreateTag lib pg u nm)" unfolding CreateTag_def Let_def by (intro typed)
  show "errors_typed (UpdateTag lib pg u i nm)" unfolding UpdateTag_def Let_def by (intro typed) simp
qed

lemma typed_in_world: "errors_typed m \<Longrightarrow> errors_typed (in_world m)"
  unfolding errors_typed_def in_world_def by (auto split: prod.splits)

lemma typed_schedules [typed, intro]: "errors_typed (create_schedules pg mk y m i as)"
  by (induction as arbitrary: y m i) (auto intro!: typed typed_wrapR)

lemma typed_each: "(\<And>x. errors_typed (f x)) \<Longrightarrow> errors_typed (eachR f xs)"
  by (induction xs) (auto intro!: typed)

locale typed_finance_clients =
  fixes xc :: "'w expense_client" and fx :: "'w capture_client"
  assumes typed_active: "errors_typed (xc_active xc u y m)" and typed_count: "errors_typed (xc_count xc u i)"
    and typed_install: "errors_typed (xc_install xc inp)"
    and typed_capture: "fx = Some capture \<Longrightarrow> errors_typed (capture cs t)"
begin

lemma typed_worlds [typed, intro]:
  "errors_typed (fetch_expenses xc w u y m)" "errors_typed (in_world (xc_count xc u i))" "errors_typed (in_world (xc_install xc inp))"
  unfolding fetch_expenses_def by (intro typed typed_in_world typed_active typed_count typed_install)+

lemma typed_delete_tag: "errors_typed (DeleteTag pg xc u i)"
  unfolding DeleteTag_def by (intro typed) (simp_all add: tag_in_use_def)

lemma typed_prorata: "errors_typed (CreateProRataExpense lib pg xc fx u req)"
proof -
  have tc: "errors_typed (liftR (map_sum Api id (resolveProRataTransactionCurrency lib p req)))" for p
    by (rule typed_lifted)
      (auto simp: resolveProRataTransactionCurrency_def validateSupportedCurrency_def Let_def split: option.splits if_splits)
  show ?thesis
  proof (cases fx)
    case None
    then show ?thesis
      unfolding CreateProRataExpense_def Let_def by (simp only: option.case) (intro typed tc; simp)
  next
    case (Some capture)
    have cap: "errors_typed (in_world (capture cs t))" for cs t by (rule typed_in_world) (rule typed_capture [OF Some])
    show ?thesis
      unfolding CreateProRataExpense_def Let_def Some by (simp only: option.case) (intro typed tc cap; simp)
  qed
qed

lemma typed_dashboard:
  "errors_typed (GetPeriodSummary pg xc u y m)" "errors_typed (GetSpendingByTag pg xc rank u y m)"
  "errors_typed (GetCumulativeSpend cvt pg xc u y m)" "errors_typed (GetSpendingTrends pg xc u y m n)"
  "errors_typed (GetHistoricalComparison pg xc u y m)"
proof -
  show "errors_typed (GetPeriodSummary pg xc u y m)" unfolding GetPeriodSummary_def by (intro typed)
  show "errors_typed (GetSpendingByTag pg xc rank u y m)" unfolding GetSpendingByTag_def Let_def by (intro typed)
  show "errors_typed (GetCumulativeSpend cvt pg xc u y m)" unfolding GetCumulativeSpend_def by (intro typed)
  show "errors_typed (GetSpendingTrends pg xc u y m n)"
    unfolding GetSpendingTrends_def Let_def trend_read_def by (intro typed typed_each)
  show "errors_typed (GetHistoricalComparison pg xc u y m)"
    unfolding GetHistoricalComparison_def computeHistoricalComparison_def getTotalSpentForPeriod_def Let_def
    by (intro typed typed_each) simp
qed

lemma typed_store [typed, intro]: "errors_typed (store_score pg u score)"
  by (simp add: errors_typed_def store_score_def)

lemma typed_resolve [typed, intro]: "errors_typed (resolveHealthScore cvt pg xc u p y m)"
  unfolding resolveHealthScore_def computeHealthScore_def buildDesiresWindow_def Let_def by (intro typed typed_each)

lemma typed_health: "errors_typed (GetHealthScore cvt pg xc u y m)" "errors_typed (GetHealthScoreTrend cvt pg xc u y m n)"
proof -
  show "errors_typed (GetHealthScore cvt pg xc u y m)" unfolding GetHealthScore_def by (intro typed)
  show "errors_typed (GetHealthScoreTrend cvt pg xc u y m n)"
    unfolding GetHealthScoreTrend_def score_trend_point_def Let_def by (intro typed typed_each)
qed

section \<open>Creating a period\<close>

lemma typed_apply_report [typed, intro]: "errors_typed (apply_or_report lib pg xc u p)"
  by (auto simp: errors_typed_def apply_or_report_def split: prod.splits sum.splits)

lemma typed_create_missed [typed, intro]: "errors_typed (create_missed lib pg xc u d yms)"
proof (induction yms)
  case (Cons ym yms)
  show ?case unfolding create_missed.simps by (intro typed Cons)
qed (simp only: create_missed.simps, intro typed)

lemma typed_missed:
  assumes "createMissedPeriods lib pg xc u latest ty tm = Some missed"
  shows "errors_typed missed"
proof (cases latest)
  case None
  with assms have "missed = retR ([], [])" by (simp add: createMissedPeriods_def)
  then show ?thesis by (simp only: typed_basic)
next
  case (Some l)
  have "errors_typed (retR ([], []))" "errors_typed (bindR (getPeriodCreationDefaults lib pg u) (\<lambda>d. create_missed lib pg xc u d ms))"
    for ms by (intro typed)+
  with Some assms show ?thesis
    by (auto simp: createMissedPeriods_def simp del: create_missed.simps split: option.splits list.splits)
qed

lemma create_period_error:
  assumes "CreatePeriodWithProRata lib pg xc u req st = Some (Inl e, st')"
  shows "error_ok e"
proof -
  have checks: "errors_typed (bindR (apiR (ValidateEDSSplit e1 d1 s1)) (\<lambda>_. bindR (apiR (period_checks req b)) (\<lambda>_.
      bindR (apiR (validateSupportedCurrency lib fld c)) (\<lambda>_. wrapR (Wrapped ''getting latest period'') (r_GetLatestPeriod pg u)))))"
    for e1 d1 s1 b fld c by (intro typed)
  have create: "errors_typed (bindR missed (\<lambda>(labels, applied1).
      bindR (wrapR (Wrapped ''creating period'') (r_CreatePeriod pg p)) (\<lambda>p.
      bindR (apply_or_report lib pg xc u p) (\<lambda>applied2.
      retR \<lparr>pp_period = p, pp_applied = applied1 @ applied2, pp_auto = labels\<rparr>))))"
    if "errors_typed missed" for missed p by (intro typed that)
  from assms show ?thesis
    unfolding CreatePeriodWithProRata_def Let_def
    by (auto split: prod.splits sum.splits option.splits
        dest: errors_typedD [OF checks] errors_typedD [OF create [OF typed_missed]])
qed

end

text \<open>Months a period can be stored with, except the last an \<^verbatim>\<open>int32\<close> year has.\<close>

definition stored_months :: "'w fin_state \<Rightarrow> bool" where
  "stored_months st \<longleftrightarrow> list_all (\<lambda>p. is_month (p_year p, p_month p) \<and> (p_year p, p_month p) \<noteq> (2147483647, 12)) (f_periods st)"

lemma latest_stored:
  assumes "r_GetLatestPeriod pg u st = (Inr (Some p), st')"
  shows "p \<in> set (f_periods st)"
proof -
  from assms obtain uid where "nil_if_no_rows (q_GetLatestPeriod uid) st = (Inr (Some p), st')"
    by (auto simp: r_GetLatestPeriod_def with_uuid_def op_iffs)
  then have "q_GetLatestPeriod uid st = (Inr p, st')"
    unfolding nil_if_no_rows_def by (auto split: prod.splits sum.splits if_splits)
  then obtain rest where "order_by period_desc (filter (\<lambda>p. p_user p = uid) (f_periods st)) = p # rest"
    by (auto simp: q_GetLatestPeriod_def pg_one_def pg_stmt_def Let_def split: outcome.splits option.splits list.splits)
  then have "p \<in> set (order_by period_desc (filter (\<lambda>p. p_user p = uid) (f_periods st)))"
    by (metis list.set_intros(1))
  then show ?thesis by simp
qed

text \<open>Creating a period always returns: the requested month is checked before the months are walked.\<close>

lemma create_period_returns:
  fixes st :: "'w fin_state"
  assumes "stored_months st" "is_i32 (cp_year req)"
  shows "CreatePeriodWithProRata lib pg xc u req st \<noteq> None"
proof -
  define b where "b = (case cp_budget req of None \<Rightarrow> 0 | Some b \<Rightarrow> b)"
  define checks :: "('w, period option) fin_op" where "checks = bindR (apiR (ValidateEDSSplit (cp_ess req) (cp_des req) (cp_sav req))) (\<lambda>_.
      bindR (apiR (period_checks req b)) (\<lambda>_.
      bindR (apiR (validateSupportedCurrency lib ''reportingCurrencyCode'' (normalizeCurrencyCode lib (cp_cur req)))) (\<lambda>_.
      wrapR (Wrapped ''getting latest period'') (r_GetLatestPeriod pg u))))"
  have "createMissedPeriods lib pg xc u latest (cp_year req) (cp_month req) \<noteq> None" if run: "checks st = (Inr latest, st1)" for latest st1
  proof (cases latest)
    case (Some l)
    from run have month: "1 \<le> cp_month req" "cp_month req \<le> 12" and q: "r_GetLatestPeriod pg u st = (Inr latest, st1)"
      by (auto simp: checks_def apiR_def op_iffs period_checks_def v_checks_None split: option.splits)
    from latest_stored q Some have "l \<in> set (f_periods st)" by blast
    with assms(1) have l: "is_month (p_year l, p_month l)" "(p_year l, p_month l) \<noteq> (2147483647, 12)"
      by (auto simp: stored_months_def list_all_iff)
    have "computeMissedMonths (p_year l) (p_month l) (cp_year req) (cp_month req)
        = Some (months_between (p_year l, p_month l) (cp_year req, cp_month req))"
      using l month assms(2) by (simp add: computeMissedMonths_def missed_from_between is_month_def)
    then show ?thesis by (simp add: createMissedPeriods_def Some split: list.splits)
  qed (simp add: createMissedPeriods_def)
  then show ?thesis
    unfolding CreatePeriodWithProRata_def Let_def b_def [symmetric] checks_def [symmetric]
    by (auto split: prod.splits sum.splits option.splits)
qed

section \<open>The handlers\<close>

lemma period_params_typed:
  "(\<And>y m. handler_typed (k y m)) \<Longrightarrow> handler_typed (parsePeriodParams r k)"
  by (auto simp: parsePeriodParams_def intro!: reject_typed split: option.split)

lemma user_period_typed:
  "(\<And>u y m. handler_typed (k u y m)) \<Longrightarrow> handler_typed (parseUserAndPeriodParams r k)"
  unfolding parseUserAndPeriodParams_def by (intro guards_typed period_params_typed)

lemmas handler_rules = guards_typed period_params_typed user_period_typed answer_typed answer_empty_typed

lemma settings_handlers_typed:
  "handler_typed (frest_CompleteOnboarding lib pg ronb)" "handler_typed (frest_GetDefaults pg r)"
  "handler_typed (frest_UpdateDefaults lib pg ronb)" "handler_typed (frest_ListCurrencies r)"
  "handler_typed (frest_GetCurrentPeriod pg r)" "handler_typed (frest_ListPeriods pg r)"
  "handler_typed (frest_ListTags lib pg r)" "handler_typed (frest_CreateTag lib pg rtag)"
  "handler_typed (frest_UpdateTag lib pg rtag)" "handler_typed (frest_GetUpcomingProRata pg r)"
  unfolding frest_CompleteOnboarding_def frest_GetDefaults_def frest_UpdateDefaults_def frest_ListCurrencies_def
    frest_GetCurrentPeriod_def frest_ListPeriods_def frest_ListTags_def frest_CreateTag_def frest_UpdateTag_def
    frest_GetUpcomingProRata_def
  by (intro handler_rules typed; simp)+

lemma update_period_typed: "handler_typed (frest_UpdatePeriod pg r)"
  unfolding frest_UpdatePeriod_def
  by (intro guards_typed) (auto intro!: reject_typed guards_typed answer_typed typed_period_ops)

context typed_finance_clients
begin

lemma client_handlers_typed:
  "handler_typed (frest_DeleteTag pg xc r)" "handler_typed (frest_GetPeriodSummary pg xc r)"
  "handler_typed (frest_GetHealthScore cvt pg xc r)" "handler_typed (frest_GetHealthScoreTrend cvt pg xc r)"
  "handler_typed (frest_GetSpendingByTag pg xc rank r)" "handler_typed (frest_GetCumulativeSpend cvt pg xc r)"
  "handler_typed (frest_GetHistoricalComparison pg xc r)" "handler_typed (frest_CreateProRataExpense lib pg xc fx rpro)"
  unfolding frest_DeleteTag_def frest_GetPeriodSummary_def frest_GetHealthScore_def frest_GetHealthScoreTrend_def
    frest_GetSpendingByTag_def frest_GetCumulativeSpend_def frest_GetHistoricalComparison_def frest_CreateProRataExpense_def
  by (intro handler_rules typed_delete_tag typed_dashboard typed_health typed_prorata; simp)+

lemma trends_typed: "handler_typed (frest_GetSpendingTrends pg xc r)"
  unfolding frest_GetSpendingTrends_def
  by (intro user_period_typed) (auto intro!: reject_typed answer_typed typed_dashboard split: option.split)

lemma create_period_typed:
  assumes "stored_months st" "list_all (\<lambda>req. is_i32 (cp_year req)) (case h_bound r of Inl _ \<Rightarrow> [] | Inr req \<Rightarrow> [req])"
  shows "response_ok (fst (frest_CreatePeriod lib pg xc r st))"
proof (cases "h_user r = []")
  case True
  then show ?thesis by (simp add: frest_CreatePeriod_def RequireUserID_def reject_def problem_ok)
next
  case user: False
  show ?thesis
  proof (cases "h_bound r")
    case (Inl flds)
    with user show ?thesis by (simp add: frest_CreatePeriod_def RequireUserID_def BindJSON_def reject_def problem_ok)
  next
    case (Inr req)
    with assms(2) have "is_i32 (cp_year req)" by simp
    from create_period_returns [OF assms(1) this] obtain res st'
      where run: "CreatePeriodWithProRata lib pg xc (h_user r) req st = Some (res, st')" by fast
    show ?thesis
    proof (cases res)
      case (Inl e)
      with run have "error_ok e" using create_period_error by blast
      with run Inl Inr user show ?thesis
        by (simp add: frest_CreatePeriod_def RequireUserID_def BindJSON_def answer_def problem_ok)
    next
      case (Inr x)
      with run \<open>h_bound r = Inr req\<close> user show ?thesis
        by (simp add: frest_CreatePeriod_def RequireUserID_def BindJSON_def answer_def response_ok_def)
    qed
  qed
qed

end

end
