(* ===== verification/Services_Wired.thy ===== *)
theory Services_Wired
  imports Expense_Handlers Finance_Responses Finance_Dashboard_Facts
begin

text \<open>
  The services connected: finance's clients of the expense and FX services
  (\<^verbatim>\<open>grpc_expense_client.go\<close>, \<^verbatim>\<open>fx_client.go\<close>) over the gRPC surfaces of those services, and the
  expense service's clients over finance and FX.  A call goes over a network that may refuse it, or
  lose the reply of a call that has run.
\<close>

section \<open>The network\<close>

record system =
  sy_expense :: exp_state
  sy_fx :: fx_state
  sy_net :: "nat \<Rightarrow> outcome"
  sy_sent :: nat

definition transport_error :: goerr where
  "transport_error = GrpcStatus GUnavailable ''transport is closing''"

definition to_expense :: "'a exp_op \<Rightarrow> (system, goerr, 'a) op" where
  "to_expense m w =
     (let w' = w\<lparr>sy_sent := sy_sent w + 1\<rparr>; (r, e) = m (sy_expense w)
      in case sy_net w (sy_sent w) of
           Acked \<Rightarrow> (r, w'\<lparr>sy_expense := e\<rparr>)
         | Refused \<Rightarrow> (Inl transport_error, w')
         | Lost \<Rightarrow> (Inl transport_error, w'\<lparr>sy_expense := e\<rparr>))"

definition to_fx :: "(fx_state, grpc_code \<times> string, 'a) op \<Rightarrow> (system, goerr, 'a) op" where
  "to_fx m w =
     (let w' = w\<lparr>sy_sent := sy_sent w + 1\<rparr>; (r, f) = m (sy_fx w)
      in case sy_net w (sy_sent w) of
           Acked \<Rightarrow> (status_error r, w'\<lparr>sy_fx := f\<rparr>)
         | Refused \<Rightarrow> (Inl transport_error, w')
         | Lost \<Rightarrow> (Inl transport_error, w'\<lparr>sy_fx := f\<rparr>))"

definition arrived :: "outcome \<Rightarrow> goerr + 'a \<Rightarrow> goerr + 'a" where
  "arrived o1 r = (case o1 of Acked \<Rightarrow> r | _ \<Rightarrow> Inl transport_error)"

section \<open>Finance's clients\<close>

record 'w expense_rpcs =
  er_active :: "list_request \<Rightarrow> ('w, goerr, list_response) op"
  er_count :: "string \<Rightarrow> string \<Rightarrow> ('w, goerr, int) op"
  er_install :: "installment_message \<Rightarrow> ('w, goerr, expense) op"

definition expense_view :: "expense \<Rightarrow> expense_data" where
  "expense_view e = \<lparr>ed_id = x_id e, ed_amount = x_ramount e, ed_cur = x_rcur e, ed_type = x_type e, ed_tag = x_tag e,
     ed_date = x_date e\<rparr>"

definition client_GetActiveExpensesForPeriod ::
    "'w expense_rpcs \<Rightarrow> string \<Rightarrow> int \<Rightarrow> int \<Rightarrow> ('w, goerr, expense_data list) op" where
  "client_GetActiveExpensesForPeriod rpcs u y m =
     bindR (wrapR (Wrapped ''gRPC GetActiveExpensesForPeriod'')
       (er_active rpcs \<lparr>l_user = u, l_year = y, l_month = m, l_page = 1, l_size = 10000\<rparr>)) (\<lambda>resp.
     retR (map expense_view (lr_data resp)))"

definition client_CountExpensesByTag :: "'w expense_rpcs \<Rightarrow> string \<Rightarrow> string \<Rightarrow> ('w, goerr, int) op" where
  "client_CountExpensesByTag rpcs u t = wrapR (Wrapped ''gRPC CountExpensesByTag'') (er_count rpcs u t)"

definition installment_message_of :: "installment_input \<Rightarrow> installment_message" where
  "installment_message_of q =
     \<lparr>im_user = in_user q,
      im_period = Some \<lparr>tp_id = pe_id (in_period q), tp_user = pe_user (in_period q), tp_year = pe_year (in_period q),
                        tp_month = pe_month (in_period q), tp_rcur = pe_rcur (in_period q), tp_source = pe_source (in_period q)\<rparr>,
      im_name = in_name q, im_amount = in_amount q, im_currency = in_cur q, im_type = in_type q, im_tag = in_tag q,
      im_date = in_date q, im_group = in_group q, im_index = in_index q, im_total = in_total q, im_snapshot = in_snap q\<rparr>"

definition client_CreateProRataInstallment :: "'w expense_rpcs \<Rightarrow> installment_input \<Rightarrow> ('w, goerr, created_expense) op" where
  "client_CreateProRataInstallment rpcs q =
     bindR (wrapR (Wrapped ''gRPC CreateProRataInstallment'') (er_install rpcs (installment_message_of q))) (\<lambda>e.
     retR \<lparr>ce_id = x_id e, ce_created = x_created e\<rparr>)"

definition GRPCExpenseClient :: "'w expense_rpcs \<Rightarrow> 'w expense_client" where
  "GRPCExpenseClient rpcs = \<lparr>xc_active = client_GetActiveExpensesForPeriod rpcs, xc_count = client_CountExpensesByTag rpcs,
     xc_install = client_CreateProRataInstallment rpcs\<rparr>"

definition fxCaptureUnavailableError :: apierr where
  "fxCaptureUnavailableError =
     \<lparr>ae_code = ''CONVERSION_UNAVAILABLE'',
      ae_msg = ''Conversion unavailable. Try again later, or enter the manually converted amount in the period currency.'',
      ae_status = 503, ae_fields = []\<rparr>"

definition client_CaptureRateSnapshot ::
    "(string list \<Rightarrow> string \<Rightarrow> ('w, goerr, captured_snapshot option) op)
     \<Rightarrow> string list \<Rightarrow> string \<Rightarrow> ('w, goerr, captured_snapshot option) op" where
  "client_CaptureRateSnapshot rpc currencies requested_at =
     wrapR (\<lambda>_. Api fxCaptureUnavailableError) (rpc currencies requested_at)"

section \<open>The connections\<close>

text \<open>
  The remote sides as the expense service sees them: finance and FX in whatever state the \<open>n\<close>-th
  call finds them.
\<close>

definition period_rpc :: "(nat \<Rightarrow> outcome) \<Rightarrow> pglib \<Rightarrow> (nat \<Rightarrow> 'w fin_state) \<Rightarrow> nat \<Rightarrow> string \<times> int \<times> int \<Rightarrow> goerr + period_context" where
  "period_rpc net pg fs n q = arrived (net n)
     (case q of (u, y, m) \<Rightarrow> map_sum id (\<lambda>p. \<lparr>pc_id = pf_id p, pc_user = pf_user p, pc_year = pf_year p, pc_month = pf_month p,
        pc_rcur = pf_cur p, pc_locked = pf_locked p\<rparr>) (fst (fgrpc_GetPeriodContext pg u y m (fs n))))"

definition convert_rpc :: "(nat \<Rightarrow> outcome) \<Rightarrow> golib \<Rightarrow> fetcher \<Rightarrow> int \<Rightarrow> (nat \<Rightarrow> fx_state) \<Rightarrow> nat \<Rightarrow> convert_request \<Rightarrow> goerr + convert_response" where
  "convert_rpc net lib fetch maxAge xs n q =
     arrived (net n) (status_error (fst (grpc_ConvertAmount lib fetch maxAge q (xs n))))"

definition snapshot_rpc :: "(nat \<Rightarrow> outcome) \<Rightarrow> golib \<Rightarrow> nat \<Rightarrow> convert_snap_request \<Rightarrow> goerr + convert_response" where
  "snapshot_rpc net lib n q = arrived (net n) (status_error
     (grpc_ConvertWithSnapshot lib (sq_amount q) (sq_source q) (sq_target q) (sq_requested_at q) (Some (sq_snapshot q))))"

definition expense_fx :: "(nat \<Rightarrow> outcome) \<Rightarrow> golib \<Rightarrow> fetcher \<Rightarrow> int \<Rightarrow> (nat \<Rightarrow> fx_state) \<Rightarrow> fx_client" where
  "expense_fx net lib fetch maxAge xs = GRPCFxClient (convert_rpc net lib fetch maxAge xs) (snapshot_rpc net lib)"

definition expense_periods :: "(nat \<Rightarrow> outcome) \<Rightarrow> pglib \<Rightarrow> (nat \<Rightarrow> 'w fin_state) \<Rightarrow> period_client" where
  "expense_periods net pg fs = GRPC_GetPeriodContext (period_rpc net pg fs)"

definition expense_server :: "golib \<Rightarrow> fx_client \<Rightarrow> system expense_rpcs" where
  "expense_server lib fx =
     \<lparr>er_active = (\<lambda>q. to_expense (egrpc_GetActiveExpensesForPeriod q)),
      er_count = (\<lambda>u t. to_expense (egrpc_CountExpensesByTag u t)),
      er_install = (\<lambda>q. to_expense (egrpc_CreateProRataInstallment lib fx q))\<rparr>"

definition finance_expenses :: "golib \<Rightarrow> fx_client \<Rightarrow> system expense_client" where
  "finance_expenses lib fx = GRPCExpenseClient (expense_server lib fx)"

definition finance_fx :: "golib \<Rightarrow> fetcher \<Rightarrow> int \<Rightarrow> system capture_client" where
  "finance_fx lib fetch maxAge = Some (client_CaptureRateSnapshot (\<lambda>cs t.
     bindR (to_fx (grpc_CaptureRateSnapshot lib fetch maxAge cs)) (\<lambda>r. retR (Some (sr_snapshot r)))))"

section \<open>Every error on the wire is a status\<close>

lemma api_free_transport [simp]: "as_api transport_error = None"
  by (simp add: transport_error_def)

lemma mapServiceError_status [simp]: "as_api (mapServiceError e) = None"
  by (simp add: mapServiceError_def split: option.split)

lemma status_or_internal_free [simp]: "as_api (status_or_internal t e) = None"
  by (auto simp: status_or_internal_def financeErrorStatus_def split: option.splits)

lemma status_error_free: "status_error r = Inl e \<Longrightarrow> as_api e = None"
  by (auto simp: status_error_def split: sum.splits)

lemma arrived_Inl: "arrived o1 r = Inl e \<Longrightarrow> e = transport_error \<or> r = Inl e"
  by (auto simp: arrived_def split: outcome.splits)

lemma wired_statuses:
  "statuses (period_rpc net pg fs)" "statuses (convert_rpc net lib fetch maxAge xs)" "statuses (snapshot_rpc net lib)"
  unfolding statuses_def period_rpc_def convert_rpc_def snapshot_rpc_def
  by (auto dest!: arrived_Inl simp: fgrpc_GetPeriodContext_def replies_def bindR_def wrapR_def retR_def
      split: sum.splits prod.splits dest: status_error_free)

lemma typed_to_expense: "(\<And>s e s'. m s = (Inl e, s') \<Longrightarrow> as_api e = None) \<Longrightarrow> errors_typed (to_expense m)"
  by (auto simp: errors_typed_def to_expense_def Let_def error_ok_def split: prod.splits outcome.splits)

lemma egrpc_statuses:
  "egrpc_GetActiveExpensesForPeriod q s = (Inl e, s') \<Longrightarrow> as_api e = None"
  "egrpc_CountExpensesByTag u t s = (Inl e, s') \<Longrightarrow> as_api e = None"
  "egrpc_CreateProRataInstallment lib fx im s = (Inl e, s') \<Longrightarrow> as_api e = None"
  unfolding egrpc_GetActiveExpensesForPeriod_def egrpc_CountExpensesByTag_def egrpc_CreateProRataInstallment_def
  by (auto simp: op_iffs)

interpretation wired_finance: typed_finance_clients "finance_expenses lib fx" "finance_fx lib fetch maxAge"
  for lib fx fetch maxAge
proof unfold_locales
  show "errors_typed (xc_active (finance_expenses lib fx) u y m)" for u y m
    by (auto simp: finance_expenses_def GRPCExpenseClient_def client_GetActiveExpensesForPeriod_def expense_server_def
        intro!: typed typed_to_expense dest: egrpc_statuses)
  show "errors_typed (xc_count (finance_expenses lib fx) u i)" for u i
    by (auto simp: finance_expenses_def GRPCExpenseClient_def client_CountExpensesByTag_def expense_server_def
        intro!: typed typed_to_expense dest: egrpc_statuses)
  show "errors_typed (xc_install (finance_expenses lib fx) q)" for q
    by (auto simp: finance_expenses_def GRPCExpenseClient_def client_CreateProRataInstallment_def expense_server_def
        intro!: typed typed_to_expense dest: egrpc_statuses)
  show "errors_typed (capture cs t)" if "finance_fx lib fetch maxAge = Some capture" for capture cs t
    using that by (auto simp: finance_fx_def client_CaptureRateSnapshot_def fxCaptureUnavailableError_def
        errors_typed_def wrapR_Inl_iff)
qed

lemma mapFxError_ok: "error_ok (Api (mapFxError e))"
  using mapFxError_status [of e]
  by (auto simp: mapFxError_def conversionUnavailableError_def split: option.split prod.split)

interpretation wired_expense: typed_clients "expense_periods net pg fs" "expense_fx net' lib fetch maxAge xs"
  for net pg fs net' lib fetch maxAge xs
proof unfold_locales
  show "errors_typed (expense_periods net pg fs u y m)" for u y m
    unfolding expense_periods_def GRPC_GetPeriodContext_def
    by (rule typed_wrapR, rule statuses_typed, rule wired_statuses) (auto simp: periodNotFoundError_def)
  show "errors_typed (fc_convert (expense_fx net' lib fetch maxAge xs) q)" for q
    unfolding expense_fx_def GRPCFxClient_def fx_client.simps GRPC_ConvertAmount_def
    by (intro typed typed_wrapR statuses_typed wired_statuses) (use mapFxError_ok in simp)
  show "errors_typed (fc_with_snapshot (expense_fx net' lib fetch maxAge xs) q)" for q
    unfolding expense_fx_def GRPCFxClient_def fx_client.simps GRPC_ConvertWithSnapshot_def
    by (intro typed typed_wrapR statuses_typed wired_statuses) (use mapFxError_ok in simp)
qed

end
