(* ===== verification/Services_Facts.thy ===== *)
theory Services_Facts
  imports Services_Wired Finance_Examples
begin

text \<open>
  What the connected services guarantee together: which of a month's expenses finance sees, and the
  form of every response.
\<close>

section \<open>The expenses finance sees\<close>

text \<open>The active expenses of a month, the newest first.\<close>

definition month_rows :: "string \<Rightarrow> int \<Rightarrow> int \<Rightarrow> exp_state \<Rightarrow> expense list" where
  "month_rows u y m st = order_by (\<lambda>a b. lex_le x_date x_created b a)
     (select_where (\<lambda>e. x_user e = u \<and> x_year e = y \<and> x_month e = m \<and> x_status e = st_active) st)"

lemma page_of_month:
  assumes "repo_GetActiveExpensesForPeriod u y m 1 50 st = (Inr (rows, n), st')"
  shows "rows = take 50 (month_rows u y m st)"
proof -
  let ?p = "\<lambda>e. x_user e = u \<and> x_year e = y \<and> x_month e = m \<and> x_status e = st_active"
  have off: "i32 (i32 (1 - 1) * 50) = 0" by code_simp
  from assms obtain st1 st2 page
    where count: "sql_query (\<lambda>st. int (length (select_where ?p st))) st = (Inr n, st1)"
      and page: "sql_query_page (\<lambda>st. sql_page 50 0 (order_by (\<lambda>a b. lex_le x_date x_created b a) (select_where ?p st))) st1
        = (Inr page, st2)" and rows: "map_rows page = Inr rows"
    unfolding repo_GetActiveExpensesForPeriod_def Let_def off by (auto simp: op_iffs)
  have "quiet st st1" by (rule keepsD [OF keeps_quiet_sql_query count])
  then have "month_rows u y m st1 = month_rows u y m st"
    by (simp add: month_rows_def select_where_def quiet_def Expense_Ledger.same_env_def)
  moreover from sql_query_page_Inr [OF page] have "page = take 50 (month_rows u y m st1)"
    by (simp add: sql_page_def month_rows_def)
  moreover from rows have "rows = page" by (simp add: map_rows_Inr)
  ultimately show ?thesis by simp
qed

lemma page_size_reset:
  assumes "GetActiveExpensesForPeriod \<lparr>l_user = u, l_year = y, l_month = m, l_page = 1, l_size = 10000\<rparr> st = (Inr r, st')"
  shows "lr_data r = take 50 (month_rows u y m st)"
  using assms page_of_month [of u y m st]
  by (auto simp: GetActiveExpensesForPeriod_def op_iffs checkR_def split: prod.splits option.splits)

lemma expense_view_proto [simp]: "expense_view (expenseToProto e) = expense_view e"
  by (simp add: expense_view_def expenseToProto_def)

lemma finance_sees:
  assumes "xc_active (finance_expenses lib fx) u y m w = (Inr exps, w')"
  shows "exps = map expense_view (take 50 (month_rows u y m (sy_expense w)))"
proof -
  from assms obtain resp e where "egrpc_GetActiveExpensesForPeriod
      \<lparr>l_user = u, l_year = y, l_month = m, l_page = 1, l_size = 10000\<rparr> (sy_expense w) = (Inr resp, e)"
    and exps: "exps = map expense_view (lr_data resp)"
    by (auto simp: finance_expenses_def GRPCExpenseClient_def client_GetActiveExpensesForPeriod_def expense_server_def
        to_expense_def Let_def op_iffs split: prod.splits outcome.splits)
  then obtain r where "GetActiveExpensesForPeriod \<lparr>l_user = u, l_year = y, l_month = m, l_page = 1, l_size = 10000\<rparr>
      (sy_expense w) = (Inr r, e)" and "lr_data resp = map expenseToProto (lr_data r)"
    by (auto simp: egrpc_GetActiveExpensesForPeriod_def op_iffs)
  then show ?thesis using exps page_size_reset by (simp add: comp_def)
qed

text \<open>The operations on finance's own tables do not touch the other services.\<close>

definition same_world :: "'w fin_state \<Rightarrow> 'w fin_state \<Rightarrow> bool" where
  "same_world s s' \<longleftrightarrow> f_world s' = f_world s"

lemma same_world_rules: "reflp same_world" "transp same_world" "same_world s (s\<lparr>f_calls := n\<rparr>)"
  by (auto simp: same_world_def intro: reflpI transpI)

lemma same_world_stmt: "(\<And>s. f_world (snd (f s)) = f_world s) \<Longrightarrow> keeps same_world (pg_stmt f)"
  by (rule keeps_pg_stmt [OF same_world_rules(2,3)]) (simp add: same_world_def)

interpretation own_tables: write_relation lib pg "same_world :: 'w fin_state \<Rightarrow> 'w fin_state \<Rightarrow> bool" for lib pg
proof unfold_locales
  show "keeps same_world (q_UpsertDefaults d)" "keeps same_world (q_CreateTag pg u nm b)" "keeps same_world (q_UpdateTag pg nm i u)"
    "keeps same_world (q_DeleteTag i u)" "keeps same_world (q_CreatePeriod p)" "keeps same_world (q_UpdatePeriod bud e d1 sv i u)"
    "keeps same_world (q_UpsertHealthScore row)" for d u nm b i p bud e d1 sv row
    unfolding q_UpsertDefaults_def q_CreateTag_def q_UpdateTag_def q_DeleteTag_def q_CreatePeriod_def q_UpdatePeriod_def
      q_UpsertHealthScore_def
    by (rule same_world_stmt; simp add: Let_def split: option.split)+
qed (auto simp: same_world_def restore_tables_def intro: reflpI transpI)

text \<open>
  C35: The total a month's dashboard shows is the sum of its fifty newest active expenses.  Finance
  asks for a page of 10000, which the expense service, taking more than 100 for a mistake, replaces
  by a page of 50; so the expenses beyond the fiftieth are missing from the summary of a month.
\<close>

theorem dashboard_counts_fifty_expenses:
  assumes "GetPeriodSummary pg (finance_expenses lib fx) u y m st = (Inr s, st')"
  shows "ps_spent s = sum64 (map x_ramount (take 50 (month_rows u y m (sy_expense (f_world st)))))"
proof -
  from assms obtain p st1 exps st2 now st3
    where p: "GetCurrentPeriod pg u y m st = (Inr p, st1)"
      and f: "fetch_expenses (finance_expenses lib fx) ''fetching expenses'' u y m st1 = (Inr exps, st2)"
      and s: "s = ComputePeriodSummary p exps y m now"
    by (auto simp: GetPeriodSummary_def op_iffs)
  have "f_world st1 = f_world st"
    using keepsD [OF own_tables.current_period p] by (simp add: same_world_def)
  then have "exps = map expense_view (take 50 (month_rows u y m (sy_expense (f_world st))))"
    using f finance_sees by (fastforce simp: fetch_expenses_def in_world_def op_iffs split: prod.splits)
  moreover have "ps_spent s = sum64 (map ed_amount exps)"
    unfolding s by (simp add: ComputePeriodSummary_def Let_def split: prod.split)
  moreover have "ed_amount (expense_view e) = x_ramount e" for e by (simp add: expense_view_def)
  ultimately show ?thesis by (simp add: comp_def)
qed

lemma order_by_sorted: "sorted_wrt le xs \<Longrightarrow> order_by le xs = xs"
proof (induction xs)
  case (Cons x xs)
  then have "order_by le (x # xs) = insert_by le x xs" by (simp add: order_by_def)
  with Cons.prems show ?case by (cases xs) auto
qed (simp add: order_by_def)

definition lunch :: "int \<Rightarrow> expense" where
  "lunch k = \<lparr>x_id = show_int k, x_user = ''ann'', x_name = ''lunch'', x_tcur = ''USD'', x_type = ''desires'', x_tag = ''food'',
     x_date = ''2026-02-03'', x_year = 2026, x_month = 2, x_status = st_active, x_corrects = [], x_prorata = False,
     x_group = [], x_index = 0, x_total = 0, x_created = ''2026-02-03T12:00:00Z'', x_tamount = 100, x_ramount = 100,
     x_rcur = ''USD'', x_rate = ''1'', x_rsource = ''identity'', x_rts = ''2026-02-03T12:00:00Z'', x_rexp = [], x_key = show_int k\<rparr>"

definition demo_system :: "int \<Rightarrow> system" where
  "demo_system n = \<lparr>sy_expense = (demo_exp acked)\<lparr>ledger := map lunch [1..n]\<rparr>, sy_fx = demo_fx_state, sy_net = acked, sy_sent = 0\<rparr>"

definition demo_finance :: "int \<Rightarrow> system fin_state" where
  "demo_finance n = \<lparr>f_periods = [demo_period 2 ''p''], f_tags = [], f_schedules = [], f_defaults = [], f_scores = [],
     f_scan = id, f_script = acked, f_calls = 0, f_dbnow = (\<lambda>_. no_time), f_uuids = demo_uuid, f_uuid_next = 0,
     f_clock = (\<lambda>_. unix_time 1770120000), f_ticks = 0, f_world = demo_system n\<rparr>"

lemma demo_month: "month_rows ''ann'' 2026 2 (sy_expense (demo_system n)) = rev (map lunch [1..n])"
proof -
  have "sorted_wrt (\<lambda>a b. lex_le x_date x_created b a) (rev (map lunch [1..n]))"
    by (simp add: sorted_wrt_iff_nth_less rev_nth lunch_def lex_le_def)
  then show ?thesis
    by (simp add: month_rows_def select_where_def demo_system_def demo_exp_def order_by_sorted lunch_def comp_def)
qed

lemma demo_answers: "\<exists>r w. xc_active (finance_expenses demo_lib demo_fx) ''ann'' 2026 2 (demo_system 51) = (Inr r, w)"
proof -
  let ?s = "sy_expense (demo_system 51)"
  have ok: "map_rows rows = Inr rows" if "set rows \<subseteq> set (map lunch [1..51])" for rows
    using that by (auto simp: map_rows_Inr lunch_def missing_fields_def)
  have rows: "set (take 50 (month_rows ''ann'' 2026 2 ?s)) \<subseteq> set (map lunch [1..51])"
    unfolding demo_month using set_take_subset [of 50 "rev (map lunch [1..51])"] by simp
  have ack: "db_script ?s k = Acked" for k by (simp add: demo_system_def demo_exp_def acked_def)
  have off: "i32 (i32 (1 - 1) * 50) = 0" by code_simp
  have month: "order_by (\<lambda>a b. lex_le x_date x_created b a) (select_where (\<lambda>e. x_user e = ''ann'' \<and> x_year e = 2026 \<and> x_month e = 2 \<and> x_status e = st_active)
      (?s\<lparr>db_calls := k\<rparr>)) = month_rows ''ann'' 2026 2 ?s" for k
    by (simp add: month_rows_def select_where_def)
  have valid: "v_result (v_checks [(True, ''year'', ''year must be positive''), (True, ''month'', ''month must be between 1 and 12'')]) = None"
    by (simp add: v_checks_None)
  have "\<exists>r s'. repo_GetActiveExpensesForPeriod ''ann'' 2026 2 1 50 ?s = (Inr r, s')"
    unfolding repo_GetActiveExpensesForPeriod_def Let_def off
    by (simp add: op_defs sql_query_def sql_query_page_def ack sql_page_def month ok [OF rows] del: take_rev)
  then show ?thesis
    by (auto simp: finance_expenses_def GRPCExpenseClient_def client_GetActiveExpensesForPeriod_def expense_server_def
        to_expense_def egrpc_GetActiveExpensesForPeriod_def GetActiveExpensesForPeriod_def op_defs valid
        demo_system_def acked_def Let_def)
qed

text \<open>Fifty-one lunches of one dollar each: the dashboard shows fifty.\<close>

lemma demo_summary:
  "\<exists>s st'. GetPeriodSummary demo_pg (finance_expenses demo_lib demo_fx) ''ann'' 2026 2 (demo_finance 51) = (Inr s, st')"
  using demo_answers
  by (auto simp: GetPeriodSummary_def GetCurrentPeriod_def r_GetCurrentPeriod_def q_GetCurrentPeriod_def op_defs pg_stmt_def pg_one_def
      with_uuid_def ParseUUID_def nil_if_no_rows_def Let_def demo_finance_def demo_pg_def demo_period_def acked_def find_first_def
      apiR_def v_checks_None fetch_expenses_def in_world_def f_now_def)

theorem dashboard_counts_fifty_expenses_witness:
  "\<exists>s st'. GetPeriodSummary demo_pg (finance_expenses demo_lib demo_fx) ''ann'' 2026 2 (demo_finance 51) = (Inr s, st')
    \<and> ps_spent s = 5000 \<and> sum64 (map x_ramount (ledger (sy_expense (f_world (demo_finance 51))))) = 5100"
proof -
  obtain s st' where run: "GetPeriodSummary demo_pg (finance_expenses demo_lib demo_fx) ''ann'' 2026 2 (demo_finance 51) = (Inr s, st')"
    using demo_summary by blast
  have lunches: "map x_ramount (map lunch [1..51]) = replicate 51 100"
    by (simp add: lunch_def comp_def map_replicate_const)
  have "map x_ramount (take 50 (rev (map lunch [1..51]))) = take 50 (rev (map x_ramount (map lunch [1..51])))"
    by (simp add: take_map rev_map)
  then have "map x_ramount (take 50 (rev (map lunch [1..51]))) = replicate 50 100" by (simp add: lunches del: map_map)
  moreover have "sum64 (replicate 50 100) = 5000" by code_simp
  ultimately have "ps_spent s = 5000"
    using dashboard_counts_fifty_expenses [OF run] demo_month [of 51] by (simp add: demo_finance_def)
  moreover have "sum64 (replicate 51 100) = 5100" by code_simp
  ultimately show ?thesis using run lunches by (simp add: demo_finance_def demo_system_def del: map_map)
qed

section \<open>The form of every response\<close>



end
