(* ===== verification/Auth_Store.thy ===== *)
theory Auth_Store
  imports Http_Guards Finance_Repo
begin

text \<open>
  The auth service's users and blacklist of refresh tokens
  (\<^verbatim>\<open>auth/internal/db\<close>, \<^verbatim>\<open>auth/internal/repository\<close>, the migrations' constraints), and the
  interfaces of the libraries it signs tokens and hashes passwords with.  Every statement and every
  reading of the clock is a tick; \<open>a_dbclock\<close> and \<open>a_clock\<close> are what the database's and the
  service's clocks show at a tick.
\<close>

section \<open>Tokens and passwords\<close>

text \<open>
  The claims of a token, with what a token does not carry empty: the same record for access tokens
  and refresh tokens, as both are decoded from the same JSON object.  Times are Unix seconds
  (\<^verbatim>\<open>NumericDate\<close>).
\<close>

record claims =
  cl_sub :: string
  cl_jti :: string
  cl_iat :: "int option"
  cl_exp :: "int option"
  cl_role :: string
  cl_username :: string
  cl_assumed :: string

text \<open>
  \<open>jl_sign\<close> signs claims with a secret; \<open>jl_parse\<close> is \<^verbatim>\<open>jwt.ParseWithClaims\<close> at a time, given the
  check of the signing method: the claims of a token that is well signed and not expired.
\<close>

record jwt_lib =
  jl_sign :: "string \<Rightarrow> claims \<Rightarrow> string option"
  jl_parse :: "string \<Rightarrow> gtime \<Rightarrow> string \<Rightarrow> claims option"

definition unexpired :: "gtime \<Rightarrow> claims \<Rightarrow> bool" where
  "unexpired now c = (case cl_exp c of None \<Rightarrow> True | Some e \<Rightarrow> t_unix now < e)"

text \<open>What the documentation of the library says of a token signed with the secret it is checked with.\<close>

definition jwt_ok :: "jwt_lib \<Rightarrow> bool" where
  "jwt_ok J \<longleftrightarrow> (\<forall>k c t now. jl_sign J k c = Some t \<longrightarrow> jl_parse J k now t = (if unexpired now c then Some c else None))"

text \<open>\<^verbatim>\<open>bcrypt\<close>: the hash depends on a random salt, here the number of the call.\<close>

record pw_lib =
  pw_hash :: "nat \<Rightarrow> string \<Rightarrow> string option"
  pw_check :: "string \<Rightarrow> string \<Rightarrow> bool"
  pw_classes :: "string \<Rightarrow> bool \<times> bool \<times> bool"

record auth_config =
  ac_secret :: string
  ac_access_ttl :: int
  ac_refresh_ttl :: int

section \<open>State\<close>

record user_row =
  u_id :: string
  u_name :: string
  u_email :: string
  u_hash :: string
  u_role :: string
  u_cur :: string
  u_onboarded :: bool
  u_revoked :: "gtime option"
  u_created :: gtime
  u_updated :: gtime

record black_row =
  bk_jti :: string
  bk_user :: string
  bk_expires :: gtime
  bk_revoked :: gtime

record auth_state =
  a_users :: "user_row list"
  a_black :: "black_row list"
  a_script :: "nat \<Rightarrow> outcome"
  a_ticks :: nat
  a_clock :: "nat \<Rightarrow> gtime"
  a_dbclock :: "nat \<Rightarrow> gtime"
  a_rowids :: "nat \<Rightarrow> string"
  a_rowid_next :: nat
  a_jtis :: "nat \<Rightarrow> string"
  a_jti_next :: nat

type_synonym 'a auth_op = "(auth_state, goerr, 'a) op"

definition au_stmt :: "(auth_state \<Rightarrow> (goerr + 'a) \<times> auth_state) \<Rightarrow> 'a auth_op" where
  "au_stmt f st =
     (let st' = st\<lparr>a_ticks := a_ticks st + 1\<rparr>
      in case a_script st (a_ticks st) of
           Acked \<Rightarrow> f st'
         | Refused \<Rightarrow> (Inl pg_error, st')
         | Lost \<Rightarrow> (Inl pg_error, snd (f st')))"

definition au_one :: "(auth_state \<Rightarrow> 'a option) \<Rightarrow> 'a auth_op" where
  "au_one f = au_stmt (\<lambda>st. (case f st of None \<Rightarrow> Inl NoRows | Some r \<Rightarrow> Inr r, st))"

definition au_now :: "auth_state \<Rightarrow> gtime" where
  "au_now st = a_dbclock st (a_ticks st)"

definition RoleUser :: string where "RoleUser = ''user''"
definition RoleAdmin :: string where "RoleAdmin = ''admin''"

definition user_row_ok :: "user_row \<Rightarrow> bool" where
  "user_row_ok u \<longleftrightarrow> rune_count (u_name u) \<le> 50 \<and> rune_count (u_email u) \<le> 255 \<and> rune_count (u_hash u) \<le> 255
     \<and> (u_role u = RoleUser \<or> u_role u = RoleAdmin) \<and> rune_count (u_cur u) \<le> 3"

definition pg_foreign_key :: goerr where
  "pg_foreign_key = Opaque ''foreign key''"

section \<open>Queries on users\<close>

text \<open>The unique constraint a row would violate, in the order of the table's indexes.\<close>

definition user_clash :: "user_row \<Rightarrow> user_row list \<Rightarrow> string option" where
  "user_clash row rows =
     (if u_id row \<in> u_id ` set rows then Some ''users_pkey''
      else if u_name row \<in> u_name ` set rows then Some ''users_username_key''
      else if u_email row \<in> u_email ` set rows then Some ''users_email_key''
      else None)"

definition qa_CreateUser :: "string \<Rightarrow> string \<Rightarrow> string \<Rightarrow> string \<Rightarrow> string \<Rightarrow> user_row auth_op" where
  "qa_CreateUser nm email hash role ccy = au_stmt (\<lambda>st.
     let row = \<lparr>u_id = a_rowids st (a_rowid_next st), u_name = nm, u_email = email, u_hash = hash, u_role = role, u_cur = ccy,
                u_onboarded = False, u_revoked = None, u_created = au_now st, u_updated = au_now st\<rparr>;
         st' = st\<lparr>a_rowid_next := a_rowid_next st + 1\<rparr>
     in if \<not> user_row_ok row then (Inl pg_check, st')
        else case user_clash row (a_users st) of
               Some c \<Rightarrow> (Inl (UniqueViolation c), st')
             | None \<Rightarrow> (Inr row, st'\<lparr>a_users := a_users st @ [row]\<rparr>))"

definition qa_GetUserByEmail :: "string \<Rightarrow> user_row auth_op" where
  "qa_GetUserByEmail email = au_one (\<lambda>st. find_first (\<lambda>u. u_email u = email) (a_users st))"

definition qa_GetUserByID :: "string \<Rightarrow> user_row auth_op" where
  "qa_GetUserByID i = au_one (\<lambda>st. find_first (\<lambda>u. u_id u = i) (a_users st))"

definition qa_GetUserByUsername :: "string \<Rightarrow> user_row auth_op" where
  "qa_GetUserByUsername nm = au_one (\<lambda>st. find_first (\<lambda>u. u_name u = nm) (a_users st))"

text \<open>\<^verbatim>\<open>UPDATE ... WHERE id = $n\<close>: the new row, checked against the constraints and the other rows.\<close>

definition qa_update :: "string \<Rightarrow> (gtime \<Rightarrow> user_row \<Rightarrow> user_row) \<Rightarrow> user_row auth_op" where
  "qa_update i f = au_stmt (\<lambda>st.
     case find_first (\<lambda>u. u_id u = i) (a_users st) of
       None \<Rightarrow> (Inl NoRows, st)
     | Some u \<Rightarrow>
         (let row = (f (au_now st) u)\<lparr>u_updated := au_now st\<rparr>
          in if \<not> user_row_ok row then (Inl pg_check, st)
             else case user_clash row (filter (\<lambda>r. u_id r \<noteq> i) (a_users st)) of
                    Some c \<Rightarrow> (Inl (UniqueViolation c), st)
                  | None \<Rightarrow> (Inr row, st\<lparr>a_users := update_rows (\<lambda>r. u_id r = i) (\<lambda>_. row) (a_users st)\<rparr>)))"

definition qa_CompleteOnboarding :: "string \<Rightarrow> string \<Rightarrow> user_row auth_op" where
  "qa_CompleteOnboarding ccy i = qa_update i (\<lambda>_ u. u\<lparr>u_onboarded := True, u_cur := ccy\<rparr>)"

definition qa_UpdateUser :: "string \<Rightarrow> string \<Rightarrow> string \<Rightarrow> string \<Rightarrow> user_row auth_op" where
  "qa_UpdateUser nm email ccy i = qa_update i (\<lambda>_ u. u\<lparr>u_name := nm, u_email := email, u_cur := ccy\<rparr>)"

text \<open>The statements run with \<^verbatim>\<open>Exec\<close> do not mind that there is no such user.\<close>

definition exec_update :: "user_row auth_op \<Rightarrow> unit auth_op" where
  "exec_update m st = (case m st of (Inl e, st') \<Rightarrow> (if IsNoRows e then Inr () else Inl e, st') | (Inr _, st') \<Rightarrow> (Inr (), st'))"

definition qa_UpdatePassword :: "string \<Rightarrow> string \<Rightarrow> unit auth_op" where
  "qa_UpdatePassword hash i = exec_update (qa_update i (\<lambda>_ u. u\<lparr>u_hash := hash\<rparr>))"

definition qa_RevokeAllUserTokens :: "string \<Rightarrow> unit auth_op" where
  "qa_RevokeAllUserTokens i = exec_update (qa_update i (\<lambda>now u. u\<lparr>u_revoked := Some now\<rparr>))"

definition qa_GetTokensRevokedAt :: "string \<Rightarrow> gtime option auth_op" where
  "qa_GetTokensRevokedAt i = au_one (\<lambda>st. map_option u_revoked (find_first (\<lambda>u. u_id u = i) (a_users st)))"

definition qa_ListAllUsers :: "user_row list auth_op" where
  "qa_ListAllUsers = au_stmt (\<lambda>st. (Inr (order_by (\<lambda>a b. \<not> t_before (u_created b) (u_created a)) (a_users st)), st))"

definition qa_DeleteUser :: "string \<Rightarrow> unit auth_op" where
  "qa_DeleteUser i = au_stmt (\<lambda>st.
     if \<exists>u\<in>set (a_users st). u_id u = i \<and> i \<in> bk_user ` set (a_black st) then (Inl pg_foreign_key, st)
     else (Inr (), st\<lparr>a_users := filter (\<lambda>u. u_id u \<noteq> i) (a_users st)\<rparr>))"

section \<open>Queries on the blacklist\<close>

text \<open>\<^verbatim>\<open>INSERT ... ON CONFLICT (jti) DO NOTHING\<close>: whether a row was inserted.\<close>

definition blacklist_insert :: "string \<Rightarrow> string \<Rightarrow> gtime \<Rightarrow> bool auth_op" where
  "blacklist_insert jti uid expires = au_stmt (\<lambda>st.
     if rune_count jti > 36 then (Inl pg_check, st)
     else if jti \<in> bk_jti ` set (a_black st) then (Inr False, st)
     else if uid \<notin> u_id ` set (a_users st) then (Inl pg_foreign_key, st)
     else (Inr True, st\<lparr>a_black := a_black st @ [\<lparr>bk_jti = jti, bk_user = uid, bk_expires = expires, bk_revoked = au_now st\<rparr>]\<rparr>))"

definition qa_CleanupExpiredBlacklist :: "unit auth_op" where
  "qa_CleanupExpiredBlacklist = au_stmt (\<lambda>st. (Inr (), st\<lparr>a_black := filter (\<lambda>b. \<not> t_before (bk_expires b) (au_now st)) (a_black st)\<rparr>))"

definition qa_DeleteRefreshTokenBlacklist :: "string \<Rightarrow> unit auth_op" where
  "qa_DeleteRefreshTokenBlacklist i = au_stmt (\<lambda>st. (Inr (), st\<lparr>a_black := filter (\<lambda>b. bk_user b \<noteq> i) (a_black st)\<rparr>))"

section \<open>The repositories\<close>

text \<open>
  As in the finance service, an identifier is parsed first and a missing row is \<open>None\<close>.  The
  repository's \<^verbatim>\<open>DuplicateError\<close> carries nothing but the constraint of the violation it replaces,
  and is the same value here.
\<close>

definition au_uuid :: "pglib \<Rightarrow> string \<Rightarrow> (string \<Rightarrow> 'a auth_op) \<Rightarrow> 'a auth_op" where
  "au_uuid pg s k = bindR (liftR (ParseUUID pg s)) k"

definition au_nil :: "'a auth_op \<Rightarrow> 'a option auth_op" where
  "au_nil m = (\<lambda>st. case m st of
     (Inl e, st') \<Rightarrow> if IsNoRows e then (Inr None, st') else (Inl e, st')
   | (Inr r, st') \<Rightarrow> (Inr (Some r), st'))"

definition ra_CreateUser :: "string \<Rightarrow> string \<Rightarrow> string \<Rightarrow> string \<Rightarrow> string \<Rightarrow> user_row auth_op" where
  "ra_CreateUser nm email hash role ccy = qa_CreateUser nm email hash role ccy"

definition ra_GetUserByEmail :: "string \<Rightarrow> user_row option auth_op" where
  "ra_GetUserByEmail email = au_nil (qa_GetUserByEmail email)"

definition ra_GetUserByID :: "pglib \<Rightarrow> string \<Rightarrow> user_row option auth_op" where
  "ra_GetUserByID pg i = au_uuid pg i (\<lambda>uid. au_nil (qa_GetUserByID uid))"

definition ra_GetUserByUsername :: "string \<Rightarrow> user_row option auth_op" where
  "ra_GetUserByUsername nm = au_nil (qa_GetUserByUsername nm)"

definition ra_CompleteOnboarding :: "pglib \<Rightarrow> string \<Rightarrow> string \<Rightarrow> user_row option auth_op" where
  "ra_CompleteOnboarding pg i ccy = au_uuid pg i (\<lambda>uid. au_nil (qa_CompleteOnboarding ccy uid))"

text \<open>The list carries the columns it selects; the others are the zero values.\<close>

definition listed_user :: "user_row \<Rightarrow> user_row" where
  "listed_user u = u\<lparr>u_hash := [], u_cur := [], u_onboarded := False, u_revoked := None,
     u_updated := \<lparr>t_unix = -62135596800, t_nsec = 0, t_off = 0\<rparr>\<rparr>"

definition ra_ListAllUsers :: "user_row list auth_op" where
  "ra_ListAllUsers = bindR qa_ListAllUsers (\<lambda>rows. retR (map listed_user rows))"

definition ra_UpdateUser :: "pglib \<Rightarrow> string \<Rightarrow> string \<Rightarrow> string \<Rightarrow> string \<Rightarrow> user_row option auth_op" where
  "ra_UpdateUser pg i nm email ccy = au_uuid pg i (\<lambda>uid. au_nil (qa_UpdateUser nm email ccy uid))"

definition ra_UpdatePassword :: "pglib \<Rightarrow> string \<Rightarrow> string \<Rightarrow> unit auth_op" where
  "ra_UpdatePassword pg i hash = au_uuid pg i (\<lambda>uid. qa_UpdatePassword hash uid)"

definition ra_RevokeAllUserTokens :: "pglib \<Rightarrow> string \<Rightarrow> unit auth_op" where
  "ra_RevokeAllUserTokens pg i = au_uuid pg i qa_RevokeAllUserTokens"

definition ra_GetTokensRevokedAt :: "pglib \<Rightarrow> string \<Rightarrow> gtime option auth_op" where
  "ra_GetTokensRevokedAt pg i = au_uuid pg i (\<lambda>uid.
     bindR (au_nil (qa_GetTokensRevokedAt uid)) (\<lambda>r. retR (case r of None \<Rightarrow> None | Some ts \<Rightarrow> ts)))"

definition ra_DeleteUser :: "pglib \<Rightarrow> string \<Rightarrow> unit auth_op" where
  "ra_DeleteUser pg i = au_uuid pg i qa_DeleteUser"

definition ra_ConsumeToken :: "pglib \<Rightarrow> string \<Rightarrow> string \<Rightarrow> gtime \<Rightarrow> bool auth_op" where
  "ra_ConsumeToken pg jti i expires = au_uuid pg i (\<lambda>uid. blacklist_insert jti uid expires)"

definition ra_BlacklistToken :: "pglib \<Rightarrow> string \<Rightarrow> string \<Rightarrow> gtime \<Rightarrow> unit auth_op" where
  "ra_BlacklistToken pg jti i expires = au_uuid pg i (\<lambda>uid. bindR (blacklist_insert jti uid expires) (\<lambda>_. retR ()))"

definition ra_CleanupExpired :: "unit auth_op" where
  "ra_CleanupExpired = qa_CleanupExpiredBlacklist"

definition ra_DeleteByUserID :: "pglib \<Rightarrow> string \<Rightarrow> unit auth_op" where
  "ra_DeleteByUserID pg i = au_uuid pg i qa_DeleteRefreshTokenBlacklist"

end
