(* ===== verification/Auth_Service.thy ===== *)
theory Auth_Service
  imports Auth_Store
begin

text \<open>
  The auth service (\<^verbatim>\<open>auth/internal/service\<close>): tokens (\<^verbatim>\<open>jwt.go\<close>), passwords
  (\<^verbatim>\<open>password.go\<close>), the operations on accounts and sessions (\<^verbatim>\<open>auth.go\<close>) and the
  periodic clean-up of the blacklist (\<^verbatim>\<open>cleanup.go\<close>).
\<close>

record register_request =
  rg_username :: string
  rg_email :: string
  rg_password :: string

record login_request =
  lg_email :: string
  lg_password :: string

record profile_request =
  pf_username :: string
  pf_email :: string
  pf_currency :: string

record password_request =
  pq_current :: string
  pq_new :: string

record token_pair =
  tk_access :: string
  tk_refresh :: string

record identity =
  id_user :: string
  id_role :: string
  id_username :: string
  id_assumed :: string

abbreviation ERR_DUPLICATE_EMAIL :: string where "ERR_DUPLICATE_EMAIL \<equiv> ''DUPLICATE_EMAIL''"
abbreviation ERR_DUPLICATE_USERNAME :: string where "ERR_DUPLICATE_USERNAME \<equiv> ''DUPLICATE_USERNAME''"
abbreviation ERR_INVALID_CREDENTIALS :: string where "ERR_INVALID_CREDENTIALS \<equiv> ''INVALID_CREDENTIALS''"
abbreviation ERR_WEAK_PASSWORD :: string where "ERR_WEAK_PASSWORD \<equiv> ''WEAK_PASSWORD''"

section \<open>Tokens\<close>

definition au_clock :: "gtime auth_op" where
  "au_clock st = (Inr (a_clock st (a_ticks st)), st\<lparr>a_ticks := a_ticks st + 1\<rparr>)"

definition new_jti :: "string auth_op" where
  "new_jti st = (Inr (a_jtis st (a_jti_next st)), st\<lparr>a_jti_next := a_jti_next st + 1\<rparr>)"

definition signing :: "string \<Rightarrow> string option \<Rightarrow> goerr + string" where
  "signing what r = (case r of None \<Rightarrow> Inl (Wrapped what (Opaque ''jwt'')) | Some t \<Rightarrow> Inr t)"

definition access_claims :: "auth_config \<Rightarrow> string \<Rightarrow> string \<Rightarrow> string \<Rightarrow> string \<Rightarrow> gtime \<Rightarrow> claims" where
  "access_claims cfg u role name by now = \<lparr>cl_sub = u, cl_jti = [], cl_iat = Some (t_unix now),
     cl_exp = Some (t_unix (t_add_ns now (ac_access_ttl cfg))), cl_role = role, cl_username = name, cl_assumed = by\<rparr>"

definition refresh_claims :: "auth_config \<Rightarrow> string \<Rightarrow> string \<Rightarrow> gtime \<Rightarrow> claims" where
  "refresh_claims cfg u jti now = \<lparr>cl_sub = u, cl_jti = jti, cl_iat = Some (t_unix now),
     cl_exp = Some (t_unix (t_add_ns now (ac_refresh_ttl cfg))), cl_role = [], cl_username = [], cl_assumed = []\<rparr>"

definition GenerateTokenPairWithAssumedBy ::
    "jwt_lib \<Rightarrow> auth_config \<Rightarrow> string \<Rightarrow> string \<Rightarrow> string \<Rightarrow> string \<Rightarrow> token_pair auth_op" where
  "GenerateTokenPairWithAssumedBy J cfg u role name by =
     bindR au_clock (\<lambda>now.
     bindR (liftR (signing ''signing access token'' (jl_sign J (ac_secret cfg) (access_claims cfg u role name by now)))) (\<lambda>acc.
     bindR new_jti (\<lambda>jti.
     bindR (liftR (signing ''signing refresh token'' (jl_sign J (ac_secret cfg) (refresh_claims cfg u jti now)))) (\<lambda>ref.
     retR \<lparr>tk_access = acc, tk_refresh = ref\<rparr>))))"

definition GenerateTokenPair :: "jwt_lib \<Rightarrow> auth_config \<Rightarrow> string \<Rightarrow> string \<Rightarrow> string \<Rightarrow> token_pair auth_op" where
  "GenerateTokenPair J cfg u role name = GenerateTokenPairWithAssumedBy J cfg u role name []"

text \<open>Both validations decode the token into the claims it carries; neither asks for its kind.\<close>

definition parse_token :: "jwt_lib \<Rightarrow> auth_config \<Rightarrow> string \<Rightarrow> claims auth_op" where
  "parse_token J cfg t = bindR au_clock (\<lambda>now.
     liftR (case jl_parse J (ac_secret cfg) now t of None \<Rightarrow> Inl (Opaque ''jwt'') | Some c \<Rightarrow> Inr c))"

definition ValidateAccessToken :: "jwt_lib \<Rightarrow> auth_config \<Rightarrow> string \<Rightarrow> claims auth_op" where
  "ValidateAccessToken J cfg t = parse_token J cfg t"

definition ValidateRefreshToken :: "jwt_lib \<Rightarrow> auth_config \<Rightarrow> string \<Rightarrow> claims auth_op" where
  "ValidateRefreshToken J cfg t = parse_token J cfg t"

section \<open>Passwords\<close>

definition hash_password :: "pw_lib \<Rightarrow> string \<Rightarrow> string auth_op" where
  "hash_password P pw = (\<lambda>st.
     ((case pw_hash P (a_ticks st) pw of None \<Rightarrow> Inl (Wrapped ''hashing password'' (Opaque ''bcrypt'')) | Some h \<Rightarrow> Inr h),
      st\<lparr>a_ticks := a_ticks st + 1\<rparr>))"

text \<open>The classes of the runes of a password: exact for ASCII, from the library for other text.\<close>

definition character_classes :: "pw_lib \<Rightarrow> string \<Rightarrow> bool \<times> bool \<times> bool" where
  "character_classes P pw =
     (if is_ascii pw
      then (list_ex (\<lambda>c. 65 \<le> byte c \<and> byte c \<le> 90) pw, list_ex (\<lambda>c. 97 \<le> byte c \<and> byte c \<le> 122) pw,
            list_ex (\<lambda>c. 48 \<le> byte c \<and> byte c \<le> 57) pw)
      else pw_classes P pw)"

definition weak_message :: string where
  "weak_message = ''password must be at least 8 characters with one uppercase letter, one lowercase letter, and one digit''"

definition ValidatePasswordStrength :: "pw_lib \<Rightarrow> string \<Rightarrow> string option" where
  "ValidatePasswordStrength P pw =
     (if length pw > 72 then Some ''password must not exceed 72 characters''
      else if length pw < 8 then Some weak_message
      else case character_classes P pw of (upper, lower, digit) \<Rightarrow>
             if \<not> upper \<or> \<not> lower \<or> \<not> digit then Some weak_message else None)"

definition strength_check :: "pw_lib \<Rightarrow> string \<Rightarrow> unit auth_op" where
  "strength_check P pw = checkR (map_option (\<lambda>m. Api \<lparr>ae_code = ERR_WEAK_PASSWORD, ae_msg = m, ae_status = 400, ae_fields = []\<rparr>)
     (ValidatePasswordStrength P pw))"

section \<open>Accounts\<close>

definition contains :: "string \<Rightarrow> string \<Rightarrow> bool" where
  "contains s t \<longleftrightarrow> list_ex (\<lambda>i. take (length t) (drop i s) = t) [0..<Suc (length s)]"

definition duplicate_email :: goerr where
  "duplicate_email = Api (Conflict ERR_DUPLICATE_EMAIL ''An account with this email already exists'')"

definition duplicate_username :: goerr where
  "duplicate_username = Api (Conflict ERR_DUPLICATE_USERNAME ''This username is already taken'')"

fun duplicate_constraint :: "goerr \<Rightarrow> string option" where
  "duplicate_constraint (UniqueViolation c) = Some c"
| "duplicate_constraint (Wrapped m e) = duplicate_constraint e"
| "duplicate_constraint (FxConversion e t r) = duplicate_constraint e"
| "duplicate_constraint _ = None"

definition user_write_error :: "string \<Rightarrow> goerr \<Rightarrow> goerr" where
  "user_write_error what e =
     (case duplicate_constraint e of
        Some c \<Rightarrow> if contains c ''email'' then duplicate_email else duplicate_username
      | None \<Rightarrow> Wrapped what e)"

text \<open>The checks for a duplicate email and username; a profile update ignores the user's own row.\<close>

definition unique_checks :: "string option \<Rightarrow> string \<Rightarrow> string \<Rightarrow> unit auth_op" where
  "unique_checks self email username =
     bindR (wrapR (Wrapped ''checking email uniqueness'') (ra_GetUserByEmail email)) (\<lambda>byEmail.
     bindR (checkR (case byEmail of None \<Rightarrow> None | Some u \<Rightarrow> if self = Some (u_id u) then None else Some duplicate_email)) (\<lambda>_.
     bindR (wrapR (Wrapped ''checking username uniqueness'') (ra_GetUserByUsername username)) (\<lambda>byName.
     checkR (case byName of None \<Rightarrow> None | Some u \<Rightarrow> if self = Some (u_id u) then None else Some duplicate_username))))"

definition with_tokens :: "jwt_lib \<Rightarrow> auth_config \<Rightarrow> string \<Rightarrow> string \<Rightarrow> user_row \<Rightarrow> (user_row \<times> token_pair) auth_op" where
  "with_tokens J cfg what by u =
     bindR (wrapR (Wrapped what) (GenerateTokenPairWithAssumedBy J cfg (u_id u) (u_role u) (u_name u) by)) (\<lambda>t. retR (u, t))"

definition Register :: "golib \<Rightarrow> jwt_lib \<Rightarrow> pw_lib \<Rightarrow> auth_config \<Rightarrow> register_request \<Rightarrow> (user_row \<times> token_pair) auth_op" where
  "Register lib J P cfg req =
     bindR (strength_check P (rg_password req)) (\<lambda>_.
     let email = to_lower lib (trim_space (rg_email req)); username = trim_space (rg_username req) in
     bindR (unique_checks None email username) (\<lambda>_.
     bindR (wrapR (Wrapped ''hashing password'') (hash_password P (rg_password req))) (\<lambda>h.
     bindR (wrapR (user_write_error ''creating user'') (ra_CreateUser username email h RoleUser ''USD'')) (\<lambda>u.
     with_tokens J cfg ''generating tokens'' [] u))))"

definition invalid_credentials :: "string \<Rightarrow> apierr" where
  "invalid_credentials msg = \<lparr>ae_code = ERR_INVALID_CREDENTIALS, ae_msg = msg, ae_status = 401, ae_fields = []\<rparr>"

definition Login :: "golib \<Rightarrow> jwt_lib \<Rightarrow> pw_lib \<Rightarrow> auth_config \<Rightarrow> login_request \<Rightarrow> (user_row \<times> token_pair) auth_op" where
  "Login lib J P cfg req =
     bindR (wrapR (Wrapped ''looking up user'') (ra_GetUserByEmail (to_lower lib (trim_space (lg_email req))))) (\<lambda>found.
     case found of
       None \<Rightarrow> failR (Api (invalid_credentials ''Invalid email or password''))
     | Some u \<Rightarrow>
         if \<not> pw_check P (lg_password req) (u_hash u) then failR (Api (invalid_credentials ''Invalid email or password''))
         else with_tokens J cfg ''generating tokens'' [] u)"

text \<open>A token issued before the second of the revocation is rejected.\<close>

definition revoked_since :: "gtime option \<Rightarrow> claims \<Rightarrow> bool" where
  "revoked_since revoked c = (case (revoked, cl_iat c) of (Some r, Some iat) \<Rightarrow> iat < t_unix r | _ \<Rightarrow> False)"

definition ValidateToken :: "jwt_lib \<Rightarrow> pglib \<Rightarrow> auth_config \<Rightarrow> string \<Rightarrow> identity auth_op" where
  "ValidateToken J pg cfg t =
     bindR (wrapR (\<lambda>_. Api (Unauthorized ''Please log in again'')) (ValidateAccessToken J cfg t)) (\<lambda>c.
     bindR (wrapR (\<lambda>_. Api (Unauthorized ''Unable to validate token'')) (ra_GetTokensRevokedAt pg (cl_sub c))) (\<lambda>revoked.
     if revoked_since revoked c then failR (Api (Unauthorized ''Token has been revoked. Please log in again.''))
     else retR \<lparr>id_user = cl_sub c, id_role = cl_role c, id_username = cl_username c, id_assumed = cl_assumed c\<rparr>))"

definition own_user :: "string \<Rightarrow> user_row option \<Rightarrow> user_row auth_op" where
  "own_user msg found = (case found of None \<Rightarrow> failR (Api (Unauthorized msg)) | Some u \<Rightarrow> retR u)"

definition GetUserByID :: "pglib \<Rightarrow> string \<Rightarrow> user_row auth_op" where
  "GetUserByID pg i = bindR (wrapR (Wrapped ''looking up user'') (ra_GetUserByID pg i)) (own_user ''User not found'')"

text \<open>The claims' expiry is a pointer the code follows; only a token without one could make it nil.\<close>

definition expiry_of :: "claims \<Rightarrow> goerr + gtime" where
  "expiry_of c = (case cl_exp c of None \<Rightarrow> Inl (Opaque ''runtime error: invalid memory address or nil pointer dereference'')
     | Some e \<Rightarrow> Inr \<lparr>t_unix = e, t_nsec = 0, t_off = 0\<rparr>)"

definition RefreshToken :: "jwt_lib \<Rightarrow> pglib \<Rightarrow> auth_config \<Rightarrow> string \<Rightarrow> (user_row \<times> token_pair) auth_op" where
  "RefreshToken J pg cfg t =
     bindR (wrapR (\<lambda>_. Api (Unauthorized ''Invalid or expired refresh token'')) (ValidateRefreshToken J cfg t)) (\<lambda>c.
     bindR (liftR (expiry_of c)) (\<lambda>expires.
     bindR (wrapR (Wrapped ''consuming refresh token'') (ra_ConsumeToken pg (cl_jti c) (cl_sub c) expires)) (\<lambda>consumed.
     if \<not> consumed then failR (Api (Unauthorized ''Refresh token has been revoked''))
     else bindR (wrapR (Wrapped ''looking up user for refresh'') (ra_GetUserByID pg (cl_sub c))) (\<lambda>found.
          bindR (own_user ''User not found'' found) (\<lambda>u.
          with_tokens J cfg ''generating tokens'' [] u)))))"

definition Logout :: "jwt_lib \<Rightarrow> pglib \<Rightarrow> auth_config \<Rightarrow> string \<Rightarrow> unit auth_op" where
  "Logout J pg cfg t st =
     (case ValidateRefreshToken J cfg t st of
        (Inl _, st') \<Rightarrow> (Inr (), st')
      | (Inr c, st') \<Rightarrow>
          bindR (liftR (expiry_of c)) (\<lambda>expires.
          wrapR (Wrapped ''blacklisting token on logout'') (ra_BlacklistToken pg (cl_jti c) (cl_sub c) expires)) st')"

definition auth_CompleteOnboarding :: "pglib \<Rightarrow> string \<Rightarrow> string \<Rightarrow> user_row auth_op" where
  "auth_CompleteOnboarding pg i ccy =
     bindR (wrapR (Wrapped ''completing onboarding'') (ra_CompleteOnboarding pg i ccy)) (own_user ''User not found'')"

definition UpdateProfile :: "golib \<Rightarrow> pglib \<Rightarrow> string \<Rightarrow> profile_request \<Rightarrow> user_row auth_op" where
  "UpdateProfile lib pg i req =
     (let email = to_lower lib (trim_space (pf_email req)); username = trim_space (pf_username req);
          currency = trim_space (pf_currency req) in
      bindR (unique_checks (Some i) email username) (\<lambda>_.
      bindR (wrapR (user_write_error ''updating user'') (ra_UpdateUser pg i username email currency)) (own_user ''User not found'')))"

definition ListUsers :: "user_row list auth_op" where
  "ListUsers = wrapR (Wrapped ''listing users'') ra_ListAllUsers"

definition AssumeIdentity :: "jwt_lib \<Rightarrow> pglib \<Rightarrow> auth_config \<Rightarrow> string \<Rightarrow> string \<Rightarrow> (user_row \<times> token_pair) auth_op" where
  "AssumeIdentity J pg cfg admin target =
     (if admin = target then failR (Api (Validation ''Cannot assume your own identity'' []))
      else bindR (wrapR (Wrapped ''looking up target user'') (ra_GetUserByID pg target)) (\<lambda>found.
           case found of
             None \<Rightarrow> failR (Api (NotFound ''Target user not found''))
           | Some u \<Rightarrow> with_tokens J cfg ''generating assumed tokens'' admin u))"

definition RestoreIdentity :: "jwt_lib \<Rightarrow> pglib \<Rightarrow> auth_config \<Rightarrow> string \<Rightarrow> (user_row \<times> token_pair) auth_op" where
  "RestoreIdentity J pg cfg by =
     (if by = [] then failR (Api (Validation ''No assumed identity to restore'' []))
      else bindR (wrapR (Wrapped ''looking up admin user'') (ra_GetUserByID pg by)) (\<lambda>found.
           case found of
             None \<Rightarrow> failR (Api (NotFound ''Admin user not found''))
           | Some u \<Rightarrow>
               if u_role u \<noteq> RoleAdmin
               then failR (Api \<lparr>ae_code = code_forbidden, ae_msg = ''Assumed-by user is not an admin'', ae_status = 403, ae_fields = []\<rparr>)
               else with_tokens J cfg ''generating admin tokens'' [] u))"

definition SeedAdmin :: "pw_lib \<Rightarrow> pglib \<Rightarrow> string \<Rightarrow> string \<Rightarrow> string \<Rightarrow> unit auth_op" where
  "SeedAdmin P pg username email password =
     bindR (wrapR (Wrapped ''checking existing admin'') (ra_GetUserByUsername username)) (\<lambda>found.
     case found of
       Some _ \<Rightarrow> retR ()
     | None \<Rightarrow>
         bindR (wrapR (Wrapped ''hashing admin password'') (hash_password P password)) (\<lambda>h.
         bindR (wrapR (Wrapped ''creating admin user'') (ra_CreateUser username email h RoleAdmin ''USD'')) (\<lambda>u.
         bindR (wrapR (Wrapped ''completing admin onboarding'') (ra_CompleteOnboarding pg (u_id u) ''USD'')) (\<lambda>_.
         retR ()))))"

definition ChangePassword :: "jwt_lib \<Rightarrow> pw_lib \<Rightarrow> pglib \<Rightarrow> auth_config \<Rightarrow> string \<Rightarrow> password_request \<Rightarrow> (user_row \<times> token_pair) auth_op" where
  "ChangePassword J P pg cfg i req =
     bindR (wrapR (Wrapped ''looking up user'') (ra_GetUserByID pg i)) (\<lambda>found.
     bindR (own_user ''User not found'' found) (\<lambda>u.
     if \<not> pw_check P (pq_current req) (u_hash u) then failR (Api (invalid_credentials ''Current password is incorrect''))
     else
       bindR (strength_check P (pq_new req)) (\<lambda>_.
       bindR (wrapR (Wrapped ''hashing new password'') (hash_password P (pq_new req))) (\<lambda>h.
       bindR (wrapR (Wrapped ''updating password'') (ra_UpdatePassword pg i h)) (\<lambda>_.
       bindR (wrapR (Wrapped ''revoking tokens'') (ra_RevokeAllUserTokens pg i)) (\<lambda>_.
       with_tokens J cfg ''generating tokens'' [] u))))))"

definition DeleteRefreshTokenBlacklist :: "pglib \<Rightarrow> string \<Rightarrow> unit auth_op" where
  "DeleteRefreshTokenBlacklist pg i = wrapR (Wrapped ''deleting refresh token blacklist'') (ra_DeleteByUserID pg i)"

definition DeleteUserRow :: "pglib \<Rightarrow> string \<Rightarrow> unit auth_op" where
  "DeleteUserRow pg i = wrapR (Wrapped ''deleting user row'') (ra_DeleteUser pg i)"

text \<open>One run of the clean-up: a failure is reported and the next tick of the timer tries again.\<close>

definition cleanup_run :: "unit auth_op" where
  "cleanup_run st = (Inr (), snd (ra_CleanupExpired st))"

end
