(* ===== verification/Auth_Handlers.thy ===== *)
theory Auth_Handlers
  imports Auth_Service
begin

text \<open>
  The two surfaces of the auth service: the gRPC methods the gateway and the data-rights service
  call (\<^verbatim>\<open>auth/internal/handler/grpc.go\<close>) and the REST routes
  (\<^verbatim>\<open>auth/internal/handler/rest.go\<close>), which carry the tokens in cookies.
\<close>

section \<open>Responses\<close>

record user_response =
  ur_id :: string
  ur_username :: string
  ur_email :: string
  ur_role :: string
  ur_currency :: string
  ur_onboarded :: bool
  ur_created :: string

definition ToResponse :: "user_row \<Rightarrow> user_response" where
  "ToResponse u = \<lparr>ur_id = u_id u, ur_username = u_name u, ur_email = u_email u, ur_role = u_role u, ur_currency = u_cur u,
     ur_onboarded = u_onboarded u, ur_created = fmt_rfc3339 (u_created u)\<rparr>"

record admin_user =
  ad_id :: string
  ad_username :: string
  ad_email :: string
  ad_role :: string
  ad_created :: string

text \<open>Every cookie is \<^verbatim>\<open>HttpOnly\<close> and \<^verbatim>\<open>SameSite=Strict\<close>; a negative age removes it.\<close>

record cookie =
  ck_name :: string
  ck_value :: string
  ck_age :: int
  ck_path :: string

type_synonym 'r auth_handler = "(auth_state, 'r) http_handler"
type_synonym 'r cookie_handler = "auth_state \<Rightarrow> ('r http_response \<times> cookie list) \<times> auth_state"

definition setAuthCookies :: "auth_config \<Rightarrow> token_pair \<Rightarrow> cookie list" where
  "setAuthCookies cfg t =
     [\<lparr>ck_name = ''gofin_access'', ck_value = tk_access t, ck_age = go_quo (ac_access_ttl cfg) 1000000000, ck_path = ''/''\<rparr>,
      \<lparr>ck_name = ''gofin_refresh'', ck_value = tk_refresh t, ck_age = go_quo (ac_refresh_ttl cfg) 1000000000, ck_path = ''/api/auth''\<rparr>]"

definition clearAuthCookies :: "cookie list" where
  "clearAuthCookies = [\<lparr>ck_name = ''gofin_access'', ck_value = [], ck_age = -1, ck_path = ''/''\<rparr>,
     \<lparr>ck_name = ''gofin_refresh'', ck_value = [], ck_age = -1, ck_path = ''/api/auth''\<rparr>]"

text \<open>A handler that sets no cookies, and one that answers with the user and the cookies of a token pair.\<close>

definition no_cookies :: "'r auth_handler \<Rightarrow> 'r cookie_handler" where
  "no_cookies h st = (case h st of (r, st') \<Rightarrow> ((r, []), st'))"

definition answer_tokens :: "auth_config \<Rightarrow> int \<Rightarrow> (user_row \<times> token_pair) auth_op \<Rightarrow> user_response cookie_handler" where
  "answer_tokens cfg code m st =
     (case m st of
        (Inl e, st') \<Rightarrow> ((problem e, []), st')
      | (Inr (u, t), st') \<Rightarrow> ((Json code (ToResponse u), setAuthCookies cfg t), st'))"

definition bind_body :: "'b http_request \<Rightarrow> ('b \<Rightarrow> 'r cookie_handler) \<Rightarrow> 'r cookie_handler" where
  "bind_body r k = (case h_bound r of Inl flds \<Rightarrow> no_cookies (reject (Validation ''Invalid request body'' flds)) | Inr b \<Rightarrow> k b)"

definition require_user :: "'b http_request \<Rightarrow> (string \<Rightarrow> 'r cookie_handler) \<Rightarrow> 'r cookie_handler" where
  "require_user r k =
     (if h_user r = [] then no_cookies (reject (Unauthorized ''Authentication required'')) else k (h_user r))"

section \<open>REST routes\<close>

definition arest_Register :: "golib \<Rightarrow> jwt_lib \<Rightarrow> pw_lib \<Rightarrow> auth_config \<Rightarrow> register_request http_request \<Rightarrow> user_response cookie_handler" where
  "arest_Register lib J P cfg r = bind_body r (\<lambda>req. answer_tokens cfg 201 (Register lib J P cfg req))"

definition arest_Login :: "golib \<Rightarrow> jwt_lib \<Rightarrow> pw_lib \<Rightarrow> auth_config \<Rightarrow> login_request http_request \<Rightarrow> user_response cookie_handler" where
  "arest_Login lib J P cfg r = bind_body r (\<lambda>req. answer_tokens cfg 200 (Login lib J P cfg req))"

definition answer_user :: "user_row auth_op \<Rightarrow> user_response auth_handler" where
  "answer_user m = answer 200 (bindR m (\<lambda>u. retR (ToResponse u)))"

definition arest_Me :: "pglib \<Rightarrow> unit http_request \<Rightarrow> user_response auth_handler" where
  "arest_Me pg r = RequireUserID r (\<lambda>i. answer_user (GetUserByID pg i))"

definition arest_CompleteOnboarding :: "pglib \<Rightarrow> string http_request \<Rightarrow> user_response auth_handler" where
  "arest_CompleteOnboarding pg r = RequireUserID r (\<lambda>i. BindJSON r (\<lambda>ccy. answer_user (auth_CompleteOnboarding pg i ccy)))"

text \<open>The refresh cookie of a request: absent, or its value.\<close>

definition arest_Refresh :: "jwt_lib \<Rightarrow> pglib \<Rightarrow> auth_config \<Rightarrow> string option \<Rightarrow> user_response cookie_handler" where
  "arest_Refresh J pg cfg sent =
     (case sent of
        None \<Rightarrow> no_cookies (reject (Unauthorized ''No refresh token provided''))
      | Some t \<Rightarrow>
          if t = [] then no_cookies (reject (Unauthorized ''No refresh token provided''))
          else answer_tokens cfg 200 (RefreshToken J pg cfg t))"

text \<open>Logging out always succeeds: a failure to blacklist the token is only reported.\<close>

definition arest_Logout :: "jwt_lib \<Rightarrow> pglib \<Rightarrow> auth_config \<Rightarrow> string option \<Rightarrow> unit cookie_handler" where
  "arest_Logout J pg cfg sent st =
     (let st' = (case sent of None \<Rightarrow> st | Some t \<Rightarrow> if t = [] then st else snd (Logout J pg cfg t st))
      in ((NoBody 204, clearAuthCookies), st'))"

definition arest_ListUsers :: "admin_user list auth_handler" where
  "arest_ListUsers = answer 200 (bindR ListUsers (\<lambda>us. retR (map (\<lambda>u. \<lparr>ad_id = u_id u, ad_username = u_name u,
     ad_email = u_email u, ad_role = u_role u, ad_created = fmt_rfc3339 (u_created u)\<rparr>) us)))"

definition arest_AssumeIdentity :: "jwt_lib \<Rightarrow> pglib \<Rightarrow> auth_config \<Rightarrow> string http_request \<Rightarrow> user_response cookie_handler" where
  "arest_AssumeIdentity J pg cfg r =
     require_user r (\<lambda>admin. bind_body r (\<lambda>target. answer_tokens cfg 200 (AssumeIdentity J pg cfg admin target)))"

definition arest_RestoreIdentity :: "jwt_lib \<Rightarrow> pglib \<Rightarrow> auth_config \<Rightarrow> string \<Rightarrow> user_response cookie_handler" where
  "arest_RestoreIdentity J pg cfg by =
     (if by = [] then no_cookies (reject (Validation ''No assumed identity to restore'' []))
      else answer_tokens cfg 200 (RestoreIdentity J pg cfg by))"

definition arest_UpdateProfile :: "golib \<Rightarrow> pglib \<Rightarrow> profile_request http_request \<Rightarrow> user_response auth_handler" where
  "arest_UpdateProfile lib pg r = RequireUserID r (\<lambda>i. BindJSON r (\<lambda>req. answer_user (UpdateProfile lib pg i req)))"

definition arest_ChangePassword ::
    "jwt_lib \<Rightarrow> pw_lib \<Rightarrow> pglib \<Rightarrow> auth_config \<Rightarrow> password_request http_request \<Rightarrow> user_response cookie_handler" where
  "arest_ChangePassword J P pg cfg r =
     require_user r (\<lambda>i. bind_body r (\<lambda>req. answer_tokens cfg 200 (ChangePassword J P pg cfg i req)))"

section \<open>gRPC methods\<close>

definition isMissingUser :: "goerr \<Rightarrow> bool" where
  "isMissingUser err = (case as_api err of None \<Rightarrow> False | Some a \<Rightarrow> ae_status a = 401)"

definition agrpc_ValidateToken :: "jwt_lib \<Rightarrow> pglib \<Rightarrow> auth_config \<Rightarrow> string \<Rightarrow> identity auth_op" where
  "agrpc_ValidateToken J pg cfg t =
     wrapR (\<lambda>_. GrpcStatus GUnauthenticated ''invalid or expired token'') (ValidateToken J pg cfg t)"

definition lookup_status :: "string \<Rightarrow> goerr \<Rightarrow> goerr" where
  "lookup_status text err = (if isMissingUser err then GrpcStatus GNotFound ''user not found'' else GrpcStatus GInternal text)"

definition agrpc_GetUser :: "pglib \<Rightarrow> string \<Rightarrow> user_response auth_op" where
  "agrpc_GetUser pg i =
     (if i = [] then failR (GrpcStatus GInvalidArgument ''user_id is required'')
      else bindR (wrapR (lookup_status ''failed to retrieve user'') (GetUserByID pg i)) (\<lambda>u. retR (ToResponse u)))"

definition agrpc_VerifyPassword :: "pw_lib \<Rightarrow> pglib \<Rightarrow> string \<Rightarrow> string \<Rightarrow> bool auth_op" where
  "agrpc_VerifyPassword P pg i password =
     (if i = [] then failR (GrpcStatus GInvalidArgument ''user_id is required'')
      else if password = [] then failR (GrpcStatus GInvalidArgument ''password is required'')
      else bindR (wrapR (lookup_status ''failed to look up user'') (GetUserByID pg i)) (\<lambda>u. retR (pw_check P password (u_hash u))))"

text \<open>The blacklist goes first, as its rows refer to the user.\<close>

definition agrpc_DeleteUserData :: "pglib \<Rightarrow> string \<Rightarrow> unit auth_op" where
  "agrpc_DeleteUserData pg i =
     (if i = [] then failR (GrpcStatus GInvalidArgument ''user_id is required'')
      else bindR (wrapR (\<lambda>_. GrpcStatus GInternal ''failed to delete refresh tokens'') (DeleteRefreshTokenBlacklist pg i)) (\<lambda>_.
           wrapR (\<lambda>_. GrpcStatus GInternal ''failed to delete user'') (DeleteUserRow pg i)))"

end
