(* ===== verification/Auth_Facts.thy ===== *)
theory Auth_Facts
  imports Auth_Handlers
begin

text \<open>
  Every request the auth service serves, and what all of them keep: as in the finance service, a
  relation the single statements keep is kept by every operation and by every sequence of requests.
\<close>

section \<open>Requests\<close>

datatype auth_request =
  RegisterReq register_request
| LoginReq login_request
| ValidateReq string
| UserReq string
| RefreshReq string
| LogoutReq string
| OnboardReq string string
| ProfileReq string profile_request
| ListReq
| AssumeReq string string
| RestoreReq string
| PasswordReq string password_request
| DeleteReq string
| SeedReq string string string
| CleanupReq

definition serve :: "golib \<Rightarrow> jwt_lib \<Rightarrow> pw_lib \<Rightarrow> pglib \<Rightarrow> auth_config \<Rightarrow> auth_request \<Rightarrow> auth_state \<Rightarrow> auth_state" where
  "serve lib J P pg cfg q s =
     (case q of
        RegisterReq r \<Rightarrow> snd (Register lib J P cfg r s)
      | LoginReq r \<Rightarrow> snd (Login lib J P cfg r s)
      | ValidateReq t \<Rightarrow> snd (agrpc_ValidateToken J pg cfg t s)
      | UserReq i \<Rightarrow> snd (GetUserByID pg i s)
      | RefreshReq t \<Rightarrow> snd (RefreshToken J pg cfg t s)
      | LogoutReq t \<Rightarrow> snd (Logout J pg cfg t s)
      | OnboardReq i c \<Rightarrow> snd (auth_CompleteOnboarding pg i c s)
      | ProfileReq i r \<Rightarrow> snd (UpdateProfile lib pg i r s)
      | ListReq \<Rightarrow> snd (ListUsers s)
      | AssumeReq a t \<Rightarrow> snd (AssumeIdentity J pg cfg a t s)
      | RestoreReq i \<Rightarrow> snd (RestoreIdentity J pg cfg i s)
      | PasswordReq i r \<Rightarrow> snd (ChangePassword J P pg cfg i r s)
      | DeleteReq i \<Rightarrow> snd (agrpc_DeleteUserData pg i s)
      | SeedReq n e p \<Rightarrow> snd (SeedAdmin P pg n e p s)
      | CleanupReq \<Rightarrow> snd (cleanup_run s))"

definition serve_all :: "golib \<Rightarrow> jwt_lib \<Rightarrow> pw_lib \<Rightarrow> pglib \<Rightarrow> auth_config \<Rightarrow> auth_request list \<Rightarrow> auth_state \<Rightarrow> auth_state" where
  "serve_all lib J P pg cfg qs s = foldl (\<lambda>s q. serve lib J P pg cfg q s) s qs"

text \<open>Requests that seed an administrator only if \<open>seeds\<close>, and erase only the users in \<open>erasable\<close>.\<close>

definition permitted :: "bool \<Rightarrow> (string \<Rightarrow> bool) \<Rightarrow> pglib \<Rightarrow> auth_request \<Rightarrow> bool" where
  "permitted seeds erasable pg q =
     (case q of SeedReq n e p \<Rightarrow> seeds | DeleteReq i \<Rightarrow> (case pg_uuid pg i of None \<Rightarrow> True | Some u \<Rightarrow> erasable u) | _ \<Rightarrow> True)"

section \<open>Relations every request keeps\<close>

lemma keeps_au_stmt:
  assumes "transp R" "\<And>s. R s (s\<lparr>a_ticks := a_ticks s + 1\<rparr>)" "\<And>s. R s (snd (f s))"
  shows "keeps R (au_stmt f)"
proof (rule keepsI)
  fix s r s'
  assume run: "au_stmt f s = (r, s')"
  let ?s = "s\<lparr>a_ticks := a_ticks s + 1\<rparr>"
  from run have "s' = ?s \<or> s' = snd (f ?s)" by (auto simp: au_stmt_def Let_def split: outcome.splits)
  then show "R s s'" using assms(2) [of s] assms(3) [of ?s] transpD [OF assms(1)] by metis
qed

lemma keeps_exec_update: "keeps R m \<Longrightarrow> keeps R (exec_update m)"
  by (auto simp: keeps_def exec_update_def split: prod.splits sum.splits) (metis snd_conv)+

text \<open>An update of one user, for a relation that allows the row it writes.\<close>

lemma keeps_qa_update:
  assumes "transp R" "reflp R" "\<And>s. R s (s\<lparr>a_ticks := a_ticks s + 1\<rparr>)"
    and writes: "\<And>s r row. \<lbrakk>find_first (\<lambda>u. u_id u = i) (a_users s) = Some r; row = (f (au_now s) r)\<lparr>u_updated := au_now s\<rparr>;
      user_row_ok row; user_clash row (filter (\<lambda>r. u_id r \<noteq> i) (a_users s)) = None\<rbrakk>
      \<Longrightarrow> R s (s\<lparr>a_users := update_rows (\<lambda>r. u_id r = i) (\<lambda>_. row) (a_users s)\<rparr>)"
  shows "keeps R (qa_update i f)"
  unfolding qa_update_def
  by (rule keeps_au_stmt [OF assms(1,3)]) (auto simp: Let_def reflpD [OF assms(2)] split: option.split intro: writes)

locale auth_relation =
  fixes R :: "auth_state \<Rightarrow> auth_state \<Rightarrow> bool" and seeds :: bool and erasable :: "string \<Rightarrow> bool"
  assumes R_refl: "reflp R" and R_trans: "transp R"
    and ticks: "a_ticks s \<le> n \<Longrightarrow> R s (s\<lparr>a_ticks := n\<rparr>)"
    and jtis: "R s (s\<lparr>a_jti_next := n\<rparr>)"
    and create: "keeps R (qa_CreateUser nm em h RoleUser c)"
    and onboard: "keeps R (qa_CompleteOnboarding c i)" and update: "keeps R (qa_UpdateUser nm em c i)"
    and password: "keeps R (qa_UpdatePassword h i)" and revoke: "keeps R (qa_RevokeAllUserTokens i)"
    and delete_user: "erasable i \<Longrightarrow> keeps R (qa_DeleteUser i)" and create_admin: "seeds \<Longrightarrow> keeps R (qa_CreateUser nm em h RoleAdmin c)"
    and erase: "erasable i \<Longrightarrow> keeps R (qa_DeleteRefreshTokenBlacklist i)"
    and insert: "keeps R (blacklist_insert jti uid ex)" and cleanup: "keeps R qa_CleanupExpiredBlacklist"
begin

lemmas basic = keeps_basic [OF R_refl]
lemmas seq = keeps_bindR [OF R_trans]

lemma stmt: "(\<And>s. R s (snd (f s))) \<Longrightarrow> keeps R (au_stmt f)"
  by (rule keeps_au_stmt [OF R_trans]) (auto intro: ticks)

lemma queries [intro]: "keeps R (au_one g)" "keeps R qa_ListAllUsers"
  unfolding au_one_def qa_ListAllUsers_def by (rule stmt, simp add: reflpD [OF R_refl])+

lemma uuid [intro]: "(\<And>u. keeps R (k u)) \<Longrightarrow> keeps R (au_uuid pg s k)"
  unfolding au_uuid_def by (rule seq) (auto intro: basic)

lemma nil [intro]: "keeps R m \<Longrightarrow> keeps R (au_nil m)"
  by (auto simp: keeps_def au_nil_def split: prod.splits sum.splits) (metis snd_conv)+

lemma clock [intro]: "keeps R au_clock"
  by (rule keepsI) (auto simp: au_clock_def intro: ticks)

lemma jti [intro]: "keeps R new_jti"
  by (rule keepsI) (auto simp: new_jti_def jtis)

lemma hashing [intro]: "keeps R (hash_password P pw)"
  by (rule keepsI) (auto simp: hash_password_def intro: ticks)

lemma repos [intro]:
  "keeps R (ra_GetUserByEmail em)" "keeps R (ra_GetUserByID pg i)" "keeps R (ra_GetUserByUsername nm)"
  "keeps R (ra_CompleteOnboarding pg i c)" "keeps R ra_ListAllUsers" "keeps R (ra_UpdateUser pg i nm em c)"
  "keeps R (ra_UpdatePassword pg i h)" "keeps R (ra_RevokeAllUserTokens pg i)" "keeps R (ra_GetTokensRevokedAt pg i)"
  "keeps R (ra_ConsumeToken pg j i ex)" "keeps R (ra_BlacklistToken pg j i ex)" "keeps R ra_CleanupExpired"
  "keeps R (ra_CreateUser nm em h RoleUser c)"
  unfolding ra_GetUserByEmail_def ra_GetUserByID_def ra_GetUserByUsername_def ra_CompleteOnboarding_def ra_ListAllUsers_def
    ra_UpdateUser_def ra_UpdatePassword_def ra_RevokeAllUserTokens_def ra_GetTokensRevokedAt_def ra_ConsumeToken_def
    ra_BlacklistToken_def ra_CleanupExpired_def ra_CreateUser_def qa_GetUserByEmail_def qa_GetUserByID_def
    qa_GetUserByUsername_def qa_GetTokensRevokedAt_def
  by (intro uuid nil queries seq basic create onboard update password revoke insert cleanup)+

lemma tokens [intro]: "keeps R (GenerateTokenPairWithAssumedBy J cfg u role nm by)" "keeps R (parse_token J cfg t)"
  unfolding GenerateTokenPairWithAssumedBy_def parse_token_def by (intro seq basic clock jti)+

lemma pair [intro]: "keeps R (with_tokens J cfg w by u)"
  unfolding with_tokens_def by (intro seq basic keeps_wrapR tokens)

lemma helpers [intro]: "keeps R (unique_checks self em nm)" "keeps R (own_user msg found)" "keeps R (strength_check P pw)"
  unfolding unique_checks_def own_user_def strength_check_def by (intro seq basic keeps_wrapR keeps_option repos)+

lemma operations:
  "keeps R (Register lib J P cfg rg)" "keeps R (Login lib J P cfg lg)" "keeps R (agrpc_ValidateToken J pg cfg t)"
  "keeps R (GetUserByID pg i)" "keeps R (RefreshToken J pg cfg t)" "keeps R (auth_CompleteOnboarding pg i c)"
  "keeps R (UpdateProfile lib pg i pr)" "keeps R ListUsers" "keeps R (AssumeIdentity J pg cfg a t)"
  "keeps R (RestoreIdentity J pg cfg i)" "keeps R (ChangePassword J P pg cfg i pq)"
  unfolding Register_def Login_def agrpc_ValidateToken_def ValidateToken_def ValidateAccessToken_def GetUserByID_def
    RefreshToken_def ValidateRefreshToken_def auth_CompleteOnboarding_def UpdateProfile_def ListUsers_def AssumeIdentity_def
    RestoreIdentity_def ChangePassword_def Let_def
  by (intro seq basic keeps_wrapR keeps_option keeps_if repos tokens pair helpers hashing)+

lemma logout: "keeps R (Logout J pg cfg t)"
proof (rule keepsI)
  fix s r s'
  assume run: "Logout J pg cfg t s = (r, s')"
  obtain c1 s1 where v: "ValidateRefreshToken J cfg t s = (c1, s1)" by (metis surj_pair)
  then have "R s s1" using keepsD [OF tokens(2)] by (simp add: ValidateRefreshToken_def)
  moreover have "keeps R (bindR (liftR (expiry_of c)) (\<lambda>ex. wrapR (Wrapped w) (ra_BlacklistToken pg (cl_jti c) (cl_sub c) ex)))" for c w
    by (intro seq basic keeps_wrapR repos)
  ultimately show "R s s'"
    using run v by (auto simp: Logout_def split: sum.splits dest: keepsD intro: transpD [OF R_trans])
qed

lemma cleaning: "keeps R cleanup_run"
  using repos(12) by (simp add: keeps_def cleanup_run_def)

lemma seeding: "seeds \<Longrightarrow> keeps R (SeedAdmin P pg nm em pw)"
  unfolding SeedAdmin_def ra_CreateUser_def by (intro seq basic keeps_wrapR keeps_option repos hashing create_admin)

lemma deletion:
  assumes "case pg_uuid pg i of None \<Rightarrow> True | Some u \<Rightarrow> erasable u"
  shows "keeps R (agrpc_DeleteUserData pg i)"
proof -
  have "keeps R (ra_DeleteByUserID pg i) \<and> keeps R (ra_DeleteUser pg i)"
  proof (cases "pg_uuid pg i")
    case None
    then have "ra_DeleteByUserID pg i = failR (Wrapped ''parsing UUID'' (Opaque ''invalid UUID''))"
      "ra_DeleteUser pg i = failR (Wrapped ''parsing UUID'' (Opaque ''invalid UUID''))"
      by (auto simp: ra_DeleteByUserID_def ra_DeleteUser_def au_uuid_def ParseUUID_def bindR_def liftR_def failR_def)
    then show ?thesis by (simp only: basic)
  next
    case (Some u)
    then have "ra_DeleteByUserID pg i = qa_DeleteRefreshTokenBlacklist u" "ra_DeleteUser pg i = qa_DeleteUser u"
      by (auto simp: ra_DeleteByUserID_def ra_DeleteUser_def au_uuid_def ParseUUID_def bindR_def liftR_def)
    with Some assms show ?thesis by (simp add: erase delete_user)
  qed
  then show ?thesis
    unfolding agrpc_DeleteUserData_def DeleteRefreshTokenBlacklist_def DeleteUserRow_def
    by (intro keeps_if basic seq keeps_wrapR) auto
qed

lemma served: "permitted seeds erasable pg q \<Longrightarrow> R s (serve lib J P pg cfg q s)"
  using operations logout cleaning seeding deletion
  by (auto simp: permitted_def serve_def keeps_def split: auth_request.splits)

lemma all_served: "list_all (permitted seeds erasable pg) qs \<Longrightarrow> R s (serve_all lib J P pg cfg qs s)"
  unfolding serve_all_def
proof (induction qs arbitrary: s)
  case Nil
  show ?case using R_refl by (simp add: reflpD)
next
  case (Cons q qs)
  from Cons.prems have "R s (serve lib J P pg cfg q s)" by (intro served [of pg]) simp
  moreover from Cons.prems have "R (serve lib J P pg cfg q s) (foldl (\<lambda>s q. serve lib J P pg cfg q s) (serve lib J P pg cfg q s) qs)"
    by (intro Cons.IH) simp
  ultimately show ?case by (simp only: foldl_Cons) (rule transpD [OF R_trans])
qed

end

end
