(* ===== verification/Auth_Tokens.thy ===== *)
theory Auth_Tokens
  imports Auth_Facts
begin

text \<open>
  Tokens over time: a refresh token is exchanged once, an access token issued before a password
  change stays rejected, and what the exchange does not look at.
\<close>

section \<open>The library of tokens and the clocks\<close>

text \<open>
  What the documentation of the library says of a token it accepts: its claims are those it was
  signed with whenever it is read, and it has not expired.
\<close>

definition jwt_checks :: "jwt_lib \<Rightarrow> bool" where
  "jwt_checks J \<longleftrightarrow> (\<forall>k now t c. jl_parse J k now t = Some c \<longrightarrow> unexpired now c
     \<and> (\<forall>now' c'. jl_parse J k now' t = Some c' \<longrightarrow> c' = c))"

text \<open>The database's clock does not run ahead of the service's, nor backwards.\<close>

definition clocks_ok :: "auth_state \<Rightarrow> bool" where
  "clocks_ok s \<longleftrightarrow> (\<forall>n m. n \<le> m \<longrightarrow> t_unix (a_dbclock s n) \<le> t_unix (a_clock s m) \<and> t_unix (a_dbclock s n) \<le> t_unix (a_dbclock s m))"

definition same_clocks :: "auth_state \<Rightarrow> auth_state \<Rightarrow> bool" where
  "same_clocks s s' \<longleftrightarrow> a_clock s' = a_clock s \<and> a_dbclock s' = a_dbclock s \<and> a_ticks s \<le> a_ticks s'"

section \<open>Spent tokens\<close>

text \<open>
  A token is spent when its identifier is on the blacklist with its expiry, or when the database has
  already seen a time at which it has expired: only then is the row removed.
\<close>

definition spent :: "string \<Rightarrow> string \<Rightarrow> int \<Rightarrow> auth_state \<Rightarrow> bool" where
  "spent u jti e s \<longleftrightarrow>
     (\<exists>b\<in>set (a_black s). bk_jti b = jti \<and> bk_user b = u \<and> bk_expires b = \<lparr>t_unix = e, t_nsec = 0, t_off = 0\<rparr>)
     \<or> (\<exists>n\<le>a_ticks s. e \<le> t_unix (a_dbclock s n))"

definition stays_spent :: "string \<Rightarrow> string \<Rightarrow> int \<Rightarrow> auth_state \<Rightarrow> auth_state \<Rightarrow> bool" where
  "stays_spent u jti e s s' \<longleftrightarrow> same_clocks s s' \<and> (spent u jti e s \<longrightarrow> spent u jti e s')"

lemma stays_spent_basic: "reflp (stays_spent u jti e)" "transp (stays_spent u jti e)"
  unfolding stays_spent_def same_clocks_def reflp_def transp_def by (simp, force)

text \<open>A statement that keeps the rows of the token until it has expired.\<close>

lemma stays_spent_same:
  assumes "same_clocks s s'" and "set (a_black s) \<subseteq> set (a_black s')"
  shows "stays_spent u jti e s s'"
  using assms unfolding stays_spent_def same_clocks_def spent_def by (metis (no_types, lifting) le_trans subsetD)

lemma spent_stmt:
  assumes "\<And>s. stays_spent u jti e s (snd (f s))"
  shows "keeps (stays_spent u jti e) (au_stmt f)"
  by (rule keeps_au_stmt [OF stays_spent_basic(2)]) (auto intro: stays_spent_same assms simp: same_clocks_def)

lemma spent_same_stmt:
  assumes "\<And>s. same_clocks s (snd (f s)) \<and> set (a_black s) \<subseteq> set (a_black (snd (f s)))"
  shows "keeps (stays_spent u jti e) (au_stmt f)"
  by (rule spent_stmt) (rule stays_spent_same; simp add: assms)

lemma spent_cleanup:
  assumes "spent u jti e s"
  shows "spent u jti e (s\<lparr>a_black := filter (\<lambda>b. \<not> t_before (bk_expires b) (au_now s)) (a_black s)\<rparr>)"
proof (cases "e \<le> t_unix (au_now s)")
  case True
  then show ?thesis by (auto simp: spent_def au_now_def)
next
  case False
  then have "\<not> t_before \<lparr>t_unix = e, t_nsec = 0, t_off = 0\<rparr> (au_now s)" by (simp add: t_before_def)
  with assms show ?thesis by (auto simp: spent_def)
qed

interpretation spending: auth_relation "stays_spent u jti e" True "\<lambda>i. i \<noteq> u" for u jti e
proof
  show "reflp (stays_spent u jti e)" "transp (stays_spent u jti e)" by (rule stays_spent_basic)+
  show "stays_spent u jti e s (s\<lparr>a_ticks := n\<rparr>)" if "a_ticks s \<le> n" for s n
    by (rule stays_spent_same) (use that in \<open>simp_all add: same_clocks_def\<close>)
  show "stays_spent u jti e s (s\<lparr>a_jti_next := n\<rparr>)" for s n
    by (rule stays_spent_same) (simp_all add: same_clocks_def)
  have create: "keeps (stays_spent u jti e) (qa_CreateUser nm em h role c)" for nm em h role c
    unfolding qa_CreateUser_def
    by (rule spent_same_stmt) (auto simp: same_clocks_def Let_def split: option.split)
  then show "keeps (stays_spent u jti e) (qa_CreateUser nm em h RoleUser c)"
    "True \<Longrightarrow> keeps (stays_spent u jti e) (qa_CreateUser nm em h RoleAdmin c)" for nm em h c by simp_all
  have "keeps (stays_spent u jti e) (qa_update i f)" for i f
    by (rule keeps_qa_update [OF stays_spent_basic(2,1)]) (auto intro!: stays_spent_same simp: same_clocks_def)
  then show "keeps (stays_spent u jti e) (qa_CompleteOnboarding c i)" "keeps (stays_spent u jti e) (qa_UpdateUser nm em c i)"
    "keeps (stays_spent u jti e) (qa_UpdatePassword h i)" "keeps (stays_spent u jti e) (qa_RevokeAllUserTokens i)" for c i nm em h
    unfolding qa_CompleteOnboarding_def qa_UpdateUser_def qa_UpdatePassword_def qa_RevokeAllUserTokens_def
    by (auto intro: keeps_exec_update)
  show "keeps (stays_spent u jti e) (qa_DeleteUser i)" for i
    unfolding qa_DeleteUser_def by (rule spent_same_stmt) (auto simp: same_clocks_def)
  show "keeps (stays_spent u jti e) (qa_DeleteRefreshTokenBlacklist i)" if "i \<noteq> u" for i
    unfolding qa_DeleteRefreshTokenBlacklist_def
    by (rule spent_stmt) (use that in \<open>auto simp: stays_spent_def same_clocks_def spent_def\<close>)
  show "keeps (stays_spent u jti e) (blacklist_insert j uid ex)" for j uid ex
    unfolding blacklist_insert_def by (rule spent_same_stmt) (auto simp: same_clocks_def)
  show "keeps (stays_spent u jti e) qa_CleanupExpiredBlacklist"
    unfolding qa_CleanupExpiredBlacklist_def
    by (rule spent_stmt) (simp add: stays_spent_def same_clocks_def spent_cleanup)
qed

section \<open>One exchange\<close>

lemma au_uuid_Inr: "au_uuid pg i k s = (Inr x, s') \<longleftrightarrow> (\<exists>u. pg_uuid pg i = Some u \<and> k u s = (Inr x, s'))"
  by (auto simp: au_uuid_def ParseUUID_def bindR_def liftR_def split: option.split)

lemma au_stmt_Inr: "au_stmt f s = (Inr x, s') \<Longrightarrow> f (s\<lparr>a_ticks := a_ticks s + 1\<rparr>) = (Inr x, s')"
  by (auto simp: au_stmt_def Let_def split: outcome.splits)

lemma parse_token_Inr:
  "parse_token J cfg t s = (Inr c, s') \<longleftrightarrow>
     jl_parse J (ac_secret cfg) (a_clock s (a_ticks s)) t = Some c \<and> s' = s\<lparr>a_ticks := a_ticks s + 1\<rparr>"
  by (auto simp: parse_token_def au_clock_def bindR_def liftR_def split: option.split)

lemma blacklisted:
  assumes "blacklist_insert jti u ex s = (Inr b, s')"
  shows "b \<longleftrightarrow> jti \<notin> bk_jti ` set (a_black s)" and "b \<Longrightarrow> \<exists>r\<in>set (a_black s'). bk_jti r = jti \<and> bk_user r = u \<and> bk_expires r = ex"
  using au_stmt_Inr [OF assms [unfolded blacklist_insert_def]] by (auto split: if_splits)

lemma refresh_steps:
  assumes "RefreshToken J pg cfg t s = (Inr x, s')"
  obtains c e u s1 s2 where "jl_parse J (ac_secret cfg) (a_clock s (a_ticks s)) t = Some c" "cl_exp c = Some e"
    "pg_uuid pg (cl_sub c) = Some u" "s1 = s\<lparr>a_ticks := a_ticks s + 1\<rparr>"
    "blacklist_insert (cl_jti c) u \<lparr>t_unix = e, t_nsec = 0, t_off = 0\<rparr> s1 = (Inr True, s2)"
    "\<forall>u' j e'. stays_spent u' j e' s2 s'" "u_id (fst x) = u"
proof -
  from assms obtain c e s1 s2 s3 found r where
    parse: "parse_token J cfg t s = (Inr c, s1)" and e: "expiry_of c = Inr e"
    and ins: "ra_ConsumeToken pg (cl_jti c) (cl_sub c) e s1 = (Inr True, s2)"
    and row: "ra_GetUserByID pg (cl_sub c) s2 = (Inr (Some r), s3)"
    and rest: "with_tokens J cfg ''generating tokens'' [] r s3 = (Inr x, s')"
    by (auto simp: RefreshToken_def ValidateRefreshToken_def op_iffs own_user_def split: if_splits option.splits)
  from ins obtain u where u: "pg_uuid pg (cl_sub c) = Some u" "blacklist_insert (cl_jti c) u e s1 = (Inr True, s2)"
    by (auto simp: ra_ConsumeToken_def au_uuid_Inr)
  from row u(1) have "find_first (\<lambda>w. u_id w = u) (a_users s2) = Some r"
    by (auto simp: ra_GetUserByID_def au_uuid_Inr au_nil_def qa_GetUserByID_def au_one_def au_stmt_def Let_def
      split: prod.splits sum.splits if_splits outcome.splits option.splits)
  then have "u_id r = u" by (auto dest: find_first_Some)
  moreover from rest have "fst x = r" by (auto simp: with_tokens_def op_iffs)
  moreover have "\<forall>u' j e'. stays_spent u' j e' s2 s'"
    using keepsD [OF spending.repos(2) row] keepsD [OF spending.pair rest] transpD [OF stays_spent_basic(2)] by blast
  moreover obtain n where "cl_exp c = Some n" "e = \<lparr>t_unix = n, t_nsec = 0, t_off = 0\<rparr>"
    using e by (auto simp: expiry_of_def split: option.splits)
  ultimately show ?thesis using parse u by (intro that) (auto simp: parse_token_Inr)
qed

text \<open>
  C6: once a refresh token has been exchanged it is never exchanged again, whatever requests the
  service serves in between (as long as the account is not erased): not by a second refresh, not
  after the clean-up of the blacklist, not after an acknowledgement was lost.
\<close>

theorem refresh_token_single_use:
  assumes "jwt_checks J" "clocks_ok s"
    and "RefreshToken J pg cfg t s = (Inr x, s1)"
    and "list_all (permitted True (\<lambda>i. i \<noteq> u_id (fst x)) pg) qs"
  shows "\<nexists>y s3. RefreshToken J pg cfg t (serve_all lib J P pg cfg qs s1) = (Inr y, s3)"
proof
  let ?s = "serve_all lib J P pg cfg qs s1"
  assume "\<exists>y s3. RefreshToken J pg cfg t ?s = (Inr y, s3)"
  then obtain y s3 where again: "RefreshToken J pg cfg t ?s = (Inr y, s3)" by blast
  from refresh_steps [OF again] obtain c' s1' s2' where
    c': "jl_parse J (ac_secret cfg) (a_clock ?s (a_ticks ?s)) t = Some c'" "s1' = ?s\<lparr>a_ticks := a_ticks ?s + 1\<rparr>"
    and ins': "\<exists>u e. blacklist_insert (cl_jti c') u e s1' = (Inr True, s2')" by metis
  show False
  proof (rule refresh_steps [OF assms(3)])
    fix c e u sa sb
    assume c: "jl_parse J (ac_secret cfg) (a_clock s (a_ticks s)) t = Some c" "cl_exp c = Some e"
      and sa: "sa = s\<lparr>a_ticks := a_ticks s + 1\<rparr>"
      and ins: "blacklist_insert (cl_jti c) u \<lparr>t_unix = e, t_nsec = 0, t_off = 0\<rparr> sa = (Inr True, sb)"
      and rest: "\<forall>u' j e'. stays_spent u' j e' sb s1" and u: "u_id (fst x) = u"
    from assms(1) c c' have same: "c' = c" and "unexpired (a_clock ?s (a_ticks ?s)) c'" by (auto simp: jwt_checks_def)
    then have live: "t_unix (a_clock ?s (a_ticks ?s)) < e" by (simp add: unexpired_def c(2))
    from blacklisted(2) [OF ins] have "spent u (cl_jti c) e sb" by (auto simp: spent_def)
    with rest u spending.all_served [OF assms(4), of "cl_jti c" e s1 lib J P cfg]
    have "spent u (cl_jti c) e ?s" and clocks: "same_clocks sb ?s" by (auto simp: stays_spent_def same_clocks_def)
    moreover have "same_clocks sa sb" using keepsD [OF spending.insert ins] by (simp add: stays_spent_def)
    then have "same_clocks s sb" using sa by (simp add: same_clocks_def)
    moreover have "cl_jti c \<notin> bk_jti ` set (a_black ?s)"
      using ins' blacklisted(1) c'(2) same by fastforce
    ultimately have "\<exists>n\<le>a_ticks ?s. e \<le> t_unix (a_dbclock ?s n)" and "clocks_ok ?s"
      using assms(2) by (auto simp: spent_def same_clocks_def clocks_ok_def image_iff)
    with live show False unfolding clocks_ok_def by fastforce
  qed
qed

definition demo_claims :: claims where
  "demo_claims = \<lparr>cl_sub = ''u1'', cl_jti = ''j1'', cl_iat = Some 50, cl_exp = Some 200, cl_role = [], cl_username = [], cl_assumed = []\<rparr>"

definition demo_jwt :: jwt_lib where
  "demo_jwt = \<lparr>jl_sign = (\<lambda>k c. Some ''new''),
     jl_parse = (\<lambda>k now t. if t = ''old'' \<and> unexpired now demo_claims then Some demo_claims else None)\<rparr>"

definition demo_auth_pg :: pglib where
  "demo_auth_pg = \<lparr>pg_uuid = Some, pg_lower = id, pg_collate = (\<lambda>a b. True)\<rparr>"

definition demo_auth_cfg :: auth_config where
  "demo_auth_cfg = \<lparr>ac_secret = ''k'', ac_access_ttl = 900000000000, ac_refresh_ttl = 604800000000000\<rparr>"

definition demo_time :: gtime where
  "demo_time = \<lparr>t_unix = 100, t_nsec = 0, t_off = 0\<rparr>"

definition demo_auth :: auth_state where
  "demo_auth = \<lparr>a_users = [\<lparr>u_id = ''u1'', u_name = ''ann'', u_email = ''a@b'', u_hash = ''h'', u_role = ''user'', u_cur = ''USD'',
       u_onboarded = True, u_revoked = None, u_created = demo_time, u_updated = demo_time\<rparr>],
     a_black = [], a_script = (\<lambda>_. Acked), a_ticks = 0, a_clock = (\<lambda>_. demo_time), a_dbclock = (\<lambda>_. demo_time),
     a_rowids = (\<lambda>_. ''r''), a_rowid_next = 0, a_jtis = (\<lambda>_. ''j2''), a_jti_next = 0\<rparr>"

definition demo_auth_lib :: golib where
  "demo_auth_lib = \<lparr>upper_slow = id, lower_slow = id, quote_slow = id, rat_slow = (\<lambda>_. None), rfc3339_slow = (\<lambda>_. None),
     uuid_parses = (\<lambda>_. True)\<rparr>"

definition demo_pw :: pw_lib where
  "demo_pw = \<lparr>pw_hash = (\<lambda>n pw. Some pw), pw_check = (=), pw_classes = (\<lambda>_. (False, False, False))\<rparr>"

lemma demo_ok: "jwt_checks demo_jwt" "clocks_ok demo_auth"
  by (auto simp: jwt_checks_def demo_jwt_def clocks_ok_def demo_auth_def split: if_splits)

lemma demo_refresh:
  "case fst (RefreshToken demo_jwt demo_auth_pg demo_auth_cfg ''old'' demo_auth) of Inl _ \<Rightarrow> False | Inr x \<Rightarrow> u_id (fst x) = ''u1''"
  by code_simp

lemma refresh_token_single_use_witness:
  "\<exists>x s1. RefreshToken demo_jwt demo_auth_pg demo_auth_cfg ''old'' demo_auth = (Inr x, s1)
     \<and> (\<nexists>y s3. RefreshToken demo_jwt demo_auth_pg demo_auth_cfg ''old''
          (serve_all demo_auth_lib demo_jwt demo_pw demo_auth_pg demo_auth_cfg [CleanupReq, DeleteReq ''u2'', RefreshReq ''old''] s1) = (Inr y, s3))"
proof -
  obtain x s1 where run: "RefreshToken demo_jwt demo_auth_pg demo_auth_cfg ''old'' demo_auth = (Inr x, s1)" "u_id (fst x) = ''u1''"
    using demo_refresh by (auto split: sum.splits) (metis eq_fst_iff)
  have "list_all (permitted True (\<lambda>i. i \<noteq> u_id (fst x)) demo_auth_pg) [CleanupReq, DeleteReq ''u2'', RefreshReq ''old'']"
    by (simp add: permitted_def demo_auth_pg_def run(2))
  from refresh_token_single_use [OF demo_ok run(1) this] run(1) show ?thesis by blast
qed

section \<open>Tokens from before a password change\<close>

text \<open>The user's tokens are revoked up to a second that the database's clock has reached.\<close>

definition rows_barred :: "string \<Rightarrow> int \<Rightarrow> user_row list \<Rightarrow> bool" where
  "rows_barred u sec us \<longleftrightarrow> u \<in> u_id ` set us \<and> (\<forall>r\<in>set us. u_id r = u \<longrightarrow> (\<exists>ts. u_revoked r = Some ts \<and> sec \<le> t_unix ts))"

definition barred :: "string \<Rightarrow> int \<Rightarrow> auth_state \<Rightarrow> bool" where
  "barred u sec s \<longleftrightarrow> clocks_ok s \<and> sec \<le> t_unix (a_dbclock s (a_ticks s)) \<and> rows_barred u sec (a_users s)"

definition stays_barred :: "string \<Rightarrow> int \<Rightarrow> auth_state \<Rightarrow> auth_state \<Rightarrow> bool" where
  "stays_barred u sec s s' \<longleftrightarrow> same_clocks s s' \<and> (barred u sec s \<longrightarrow> barred u sec s')"

lemma stays_barred_basic: "reflp (stays_barred u sec)" "transp (stays_barred u sec)"
  unfolding stays_barred_def same_clocks_def reflp_def transp_def by (simp, force)

lemma barred_step:
  assumes "same_clocks s s'" "barred u sec s \<Longrightarrow> rows_barred u sec (a_users s')"
  shows "stays_barred u sec s s'"
  using assms unfolding stays_barred_def barred_def same_clocks_def clocks_ok_def by (metis order_trans)

lemma barred_stmt:
  assumes "\<And>s. same_clocks s (snd (f s)) \<and> (barred u sec s \<longrightarrow> rows_barred u sec (a_users (snd (f s))))"
  shows "keeps (stays_barred u sec) (au_stmt f)"
proof (rule keeps_au_stmt [OF stays_barred_basic(2)])
  show "stays_barred u sec s (s\<lparr>a_ticks := a_ticks s + 1\<rparr>)" for s
    by (rule barred_step) (simp_all add: same_clocks_def barred_def)
  show "stays_barred u sec s (snd (f s))" for s
    by (rule barred_step) (use assms [of s] in simp_all)
qed

lemma rows_barred_update:
  assumes "rows_barred u sec us" "find_first (\<lambda>r. u_id r = i) us = Some r" "u_id row = i"
    and "u_revoked row = u_revoked r \<or> (\<exists>ts. u_revoked row = Some ts \<and> sec \<le> t_unix ts)"
  shows "rows_barred u sec (update_rows (\<lambda>r. u_id r = i) (\<lambda>_. row) us)"
proof -
  from find_first_Some [OF assms(2)] have "r \<in> set us" "u_id r = i" by simp_all
  with assms show ?thesis
    by (auto simp: rows_barred_def set_update_rows image_iff)
qed

lemma barred_update:
  assumes "\<And>now r. u_id (f now r) = u_id r" "\<And>now r. u_revoked (f now r) = u_revoked r \<or> u_revoked (f now r) = Some now"
  shows "keeps (stays_barred u sec) (qa_update i f)"
proof (rule keeps_qa_update [OF stays_barred_basic(2,1)])
  show "stays_barred u sec s (s\<lparr>a_ticks := a_ticks s + 1\<rparr>)" for s
    by (rule barred_step) (simp_all add: same_clocks_def barred_def)
  fix s r row
  assume r: "find_first (\<lambda>u. u_id u = i) (a_users s) = Some r" and row: "row = (f (au_now s) r)\<lparr>u_updated := au_now s\<rparr>"
  from r have i: "u_id r = i" by (auto dest: find_first_Some)
  have "rows_barred u sec (update_rows (\<lambda>r. u_id r = i) (\<lambda>_. row) (a_users s))" if "barred u sec s"
    using that assms(1) [of "au_now s" r] assms(2) [of "au_now s" r] i row
    by (intro rows_barred_update [OF _ r]) (auto simp: barred_def au_now_def)
  then show "stays_barred u sec s (s\<lparr>a_users := update_rows (\<lambda>r. u_id r = i) (\<lambda>_. row) (a_users s)\<rparr>)"
    by (intro barred_step) (simp_all add: same_clocks_def)
qed

interpretation barring: auth_relation "stays_barred u sec" True "\<lambda>i. i \<noteq> u" for u sec
proof
  show "reflp (stays_barred u sec)" "transp (stays_barred u sec)" by (rule stays_barred_basic)+
  show "stays_barred u sec s (s\<lparr>a_ticks := n\<rparr>)" if "a_ticks s \<le> n" for s n
    by (rule barred_step) (use that in \<open>simp_all add: same_clocks_def barred_def\<close>)
  show "stays_barred u sec s (s\<lparr>a_jti_next := n\<rparr>)" for s n
    by (rule barred_step) (simp_all add: same_clocks_def barred_def)
  have create: "keeps (stays_barred u sec) (qa_CreateUser nm em h role c)" for nm em h role c
    unfolding qa_CreateUser_def
    by (rule barred_stmt) (auto simp: same_clocks_def barred_def rows_barred_def user_clash_def Let_def split: option.split)
  then show "keeps (stays_barred u sec) (qa_CreateUser nm em h RoleUser c)"
    "True \<Longrightarrow> keeps (stays_barred u sec) (qa_CreateUser nm em h RoleAdmin c)" for nm em h c by simp_all
  show "keeps (stays_barred u sec) (qa_CompleteOnboarding c i)" "keeps (stays_barred u sec) (qa_UpdateUser nm em c i)"
    "keeps (stays_barred u sec) (qa_UpdatePassword h i)" "keeps (stays_barred u sec) (qa_RevokeAllUserTokens i)" for c i nm em h
    unfolding qa_CompleteOnboarding_def qa_UpdateUser_def qa_UpdatePassword_def qa_RevokeAllUserTokens_def
    by (intro keeps_exec_update barred_update; simp)+
  show "keeps (stays_barred u sec) (qa_DeleteUser i)" if "i \<noteq> u" for i
    unfolding qa_DeleteUser_def
    by (rule barred_stmt) (use that in \<open>auto simp: same_clocks_def barred_def rows_barred_def\<close>)
  show "keeps (stays_barred u sec) (qa_DeleteRefreshTokenBlacklist i)" for i
    unfolding qa_DeleteRefreshTokenBlacklist_def by (rule barred_stmt) (auto simp: same_clocks_def barred_def)
  show "keeps (stays_barred u sec) (blacklist_insert j uid ex)" for j uid ex
    unfolding blacklist_insert_def by (rule barred_stmt) (auto simp: same_clocks_def barred_def)
  show "keeps (stays_barred u sec) qa_CleanupExpiredBlacklist"
    unfolding qa_CleanupExpiredBlacklist_def by (rule barred_stmt) (auto simp: same_clocks_def barred_def)
qed

lemma exec_update_Inr:
  assumes "exec_update (qa_update i f) s = (Inr (), s')" and "i \<in> u_id ` set (a_users s)"
  shows "\<exists>r. find_first (\<lambda>u. u_id u = i) (a_users s) = Some r
    \<and> s' = s\<lparr>a_ticks := a_ticks s + 1, a_users := update_rows (\<lambda>u. u_id u = i)
        (\<lambda>_. (f (a_dbclock s (a_ticks s + 1)) r)\<lparr>u_updated := a_dbclock s (a_ticks s + 1)\<rparr>) (a_users s)\<rparr>"
proof -
  from assms(2) obtain r where r: "find_first (\<lambda>u. u_id u = i) (a_users s) = Some r"
    by (cases "find_first (\<lambda>u. u_id u = i) (a_users s)") (auto simp: find_first_None)
  with assms(1) show ?thesis
    by (auto simp: exec_update_def qa_update_def au_stmt_def au_now_def Let_def pg_error_def pg_check_def
      split: outcome.splits prod.splits sum.splits if_splits option.splits)
qed

lemma changed_password_bars:
  assumes "ChangePassword J P pg cfg i req s = (Inr x, s')" "clocks_ok s" "pg_uuid pg i = Some u"
  shows "barred u (t_unix (a_dbclock s (a_ticks s))) s'"
proof -
  let ?sec = "t_unix (a_dbclock s (a_ticks s))"
  from assms(1) obtain r s1 s2 h s3 s4 where found: "ra_GetUserByID pg i s = (Inr (Some r), s1)"
    and hash: "hash_password P (pq_new req) s1 = (Inr h, s2)" and upd: "ra_UpdatePassword pg i h s2 = (Inr (), s3)"
    and rev: "ra_RevokeAllUserTokens pg i s3 = (Inr (), s4)" and rest: "with_tokens J cfg ''generating tokens'' [] r s4 = (Inr x, s')"
    by (auto simp: ChangePassword_def op_iffs own_user_def strength_check_def split: if_splits option.splits)
  from found assms(3) have "find_first (\<lambda>w. u_id w = u) (a_users s1) = Some r \<and> same_clocks s s1"
    by (auto simp: ra_GetUserByID_def au_uuid_Inr au_nil_def qa_GetUserByID_def au_one_def au_stmt_def Let_def same_clocks_def
      split: prod.splits sum.splits if_splits outcome.splits option.splits)
  then have u1: "u \<in> u_id ` set (a_users s1)" and t1: "same_clocks s s1" by (auto dest: find_first_Some)
  from hash have s2: "a_users s2 = a_users s1" "same_clocks s1 s2" by (auto simp: hash_password_def same_clocks_def)
  from upd assms(3) have "exec_update (qa_update u (\<lambda>_ w. w\<lparr>u_hash := h\<rparr>)) s2 = (Inr (), s3)"
    by (simp add: ra_UpdatePassword_def au_uuid_Inr qa_UpdatePassword_def)
  from exec_update_Inr [OF this] u1 s2(1) obtain v row where v: "find_first (\<lambda>w. u_id w = u) (a_users s2) = Some v"
    and row: "u_id row = u_id v"
    and s3: "s3 = s2\<lparr>a_ticks := a_ticks s2 + 1, a_users := update_rows (\<lambda>w. u_id w = u) (\<lambda>_. row) (a_users s2)\<rparr>"
    by (metis user_row.select_convs(1) user_row.surjective user_row.update_convs(4,10))
  from find_first_Some [OF v] row have u3: "u \<in> u_id ` set (a_users s3)" and t3: "same_clocks s2 s3"
    by (auto simp: s3 set_update_rows image_Un same_clocks_def)
  from rev assms(3) have "exec_update (qa_update u (\<lambda>now w. w\<lparr>u_revoked := Some now\<rparr>)) s3 = (Inr (), s4)"
    by (simp add: ra_RevokeAllUserTokens_def au_uuid_Inr qa_RevokeAllUserTokens_def)
  from exec_update_Inr [OF this u3] obtain w where w: "find_first (\<lambda>r. u_id r = u) (a_users s3) = Some w"
    and s4: "s4 = s3\<lparr>a_ticks := a_ticks s3 + 1, a_users := update_rows (\<lambda>r. u_id r = u)
      (\<lambda>_. w\<lparr>u_revoked := Some (a_dbclock s3 (a_ticks s3 + 1)), u_updated := a_dbclock s3 (a_ticks s3 + 1)\<rparr>) (a_users s3)\<rparr>"
    by auto
  have t: "same_clocks s s3" using t1 s2(2) t3 by (auto simp: same_clocks_def)
  with assms(2) have "?sec \<le> t_unix (a_dbclock s3 (a_ticks s3 + 1))" "clocks_ok s4"
    unfolding s4 same_clocks_def clocks_ok_def by simp_all
  moreover from this(1) find_first_Some [OF w] have "rows_barred u ?sec (a_users s4)"
    by (auto simp: s4 rows_barred_def set_update_rows image_Un image_image image_constant_conv)
  ultimately have "barred u ?sec s4" by (simp add: barred_def s4)
  with keepsD [OF barring.pair rest] show ?thesis by (simp add: stays_barred_def)
qed

lemma barred_token_rejected:
  assumes "jwt_checks J" "barred u sec s" "jl_parse J (ac_secret cfg) now t = Some c" "pg_uuid pg (cl_sub c) = Some u"
    and "cl_iat c = Some iat" "iat < sec"
  shows "\<nexists>y s'. ValidateToken J pg cfg t s = (Inr y, s')"
proof
  assume "\<exists>y s'. ValidateToken J pg cfg t s = (Inr y, s')"
  then obtain y s' c' revoked s1 s2 where c': "parse_token J cfg t s = (Inr c', s1)"
    and revoked: "ra_GetTokensRevokedAt pg (cl_sub c') s1 = (Inr revoked, s2)" and ok: "\<not> revoked_since revoked c'"
    by (auto simp: ValidateToken_def ValidateAccessToken_def op_iffs split: if_splits)
  from assms(1,3) c' have c: "c' = c" "s1 = s\<lparr>a_ticks := a_ticks s + 1\<rparr>" by (auto simp: parse_token_Inr jwt_checks_def)
  from assms(2) obtain r where r: "find_first (\<lambda>w. u_id w = u) (a_users s) = Some r"
    by (cases "find_first (\<lambda>w. u_id w = u) (a_users s)") (auto simp: barred_def rows_barred_def find_first_None)
  with assms(2) obtain ts where "u_revoked r = Some ts" "sec \<le> t_unix ts"
    by (auto simp: barred_def rows_barred_def dest: find_first_Some)
  moreover from revoked r assms(4) have "revoked = u_revoked r"
    by (auto simp: ra_GetTokensRevokedAt_def au_uuid_Inr c op_iffs au_nil_def qa_GetTokensRevokedAt_def au_one_def au_stmt_def
      Let_def retR_def pg_error_def split: prod.splits sum.splits if_splits outcome.splits option.splits)
  ultimately show False using ok assms(5,6) by (simp add: c(1) revoked_since_def)
qed

text \<open>
  C16: after a user has changed the password, an access token issued to them before the second of the
  change is rejected, whatever requests the service has served since (as long as the account is not
  erased: of an erased user every token is accepted until it expires).
\<close>

theorem password_change_ends_access:
  assumes "jwt_checks J" "clocks_ok s" "pg_uuid pg i = Some u"
    and "ChangePassword J P pg cfg i req s = (Inr x, s1)"
    and "jl_parse J (ac_secret cfg) now t = Some c" "pg_uuid pg (cl_sub c) = Some u"
    and "cl_iat c = Some iat" "iat < t_unix (a_dbclock s (a_ticks s))"
    and "list_all (permitted True (\<lambda>i. i \<noteq> u) pg) qs"
  shows "\<nexists>y s2. ValidateToken J pg cfg t (serve_all lib J P pg cfg qs s1) = (Inr y, s2)"
proof -
  let ?sec = "t_unix (a_dbclock s (a_ticks s))"
  from changed_password_bars [OF assms(4,2,3)] have "barred u ?sec s1" .
  with barring.all_served [OF assms(9), of ?sec s1 lib J P cfg] have "barred u ?sec (serve_all lib J P pg cfg qs s1)"
    by (simp add: stays_barred_def)
  from barred_token_rejected [OF assms(1) this assms(5,6,7,8)] show ?thesis .
qed

lemma demo_change:
  "isl (fst (ChangePassword demo_jwt demo_pw demo_auth_pg demo_auth_cfg ''u1'' \<lparr>pq_current = ''h'', pq_new = ''Secret123''\<rparr> demo_auth)) = False"
  by code_simp

lemma password_change_ends_access_witness:
  "\<exists>x s1. ChangePassword demo_jwt demo_pw demo_auth_pg demo_auth_cfg ''u1'' \<lparr>pq_current = ''h'', pq_new = ''Secret123''\<rparr> demo_auth = (Inr x, s1)
     \<and> (\<nexists>y s2. ValidateToken demo_jwt demo_auth_pg demo_auth_cfg ''old''
          (serve_all demo_auth_lib demo_jwt demo_pw demo_auth_pg demo_auth_cfg [OnboardReq ''u1'' ''EUR'', DeleteReq ''u2''] s1) = (Inr y, s2))"
proof -
  obtain x s1 where run: "ChangePassword demo_jwt demo_pw demo_auth_pg demo_auth_cfg ''u1'' \<lparr>pq_current = ''h'', pq_new = ''Secret123''\<rparr> demo_auth
      = (Inr x, s1)"
    using demo_change by (cases "ChangePassword demo_jwt demo_pw demo_auth_pg demo_auth_cfg ''u1'' \<lparr>pq_current = ''h'', pq_new = ''Secret123''\<rparr> demo_auth")
      (rename_tac a b, case_tac a, auto)
  have u: "pg_uuid demo_auth_pg ''u1'' = Some ''u1''" "pg_uuid demo_auth_pg (cl_sub demo_claims) = Some ''u1''"
    by (simp_all add: demo_auth_pg_def demo_claims_def)
  have t: "jl_parse demo_jwt (ac_secret demo_auth_cfg) demo_time ''old'' = Some demo_claims"
    by (simp add: demo_jwt_def demo_claims_def unexpired_def demo_time_def)
  have iat: "cl_iat demo_claims = Some 50" "50 < t_unix (a_dbclock demo_auth (a_ticks demo_auth))"
    by (simp_all add: demo_claims_def demo_auth_def demo_time_def)
  have "list_all (permitted True (\<lambda>i. i \<noteq> ''u1'') demo_auth_pg) [OnboardReq ''u1'' ''EUR'', DeleteReq ''u2'']"
    by (simp add: permitted_def demo_auth_pg_def)
  from password_change_ends_access [OF demo_ok u(1) run t u(2) iat this] run show ?thesis by blast
qed

section \<open>What the exchange does not look at\<close>

text \<open>
  C38: a token is exchanged for a new pair whenever it is well signed and unexpired, its user exists
  and its identifier is not on the blacklist, and the database answers: whatever its role claim,
  so an access token is exchanged as well, and whenever the user's tokens were revoked, so a refresh
  token from before a password change still opens a new session.
\<close>

theorem refresh_exchanges_any_live_token:
  assumes "jl_parse J (ac_secret cfg) (a_clock s (a_ticks s)) t = Some c" "cl_exp c = Some e"
    and "pg_uuid pg (cl_sub c) = Some u" "find_first (\<lambda>r. u_id r = u) (a_users s) = Some r"
    and "rune_count (cl_jti c) \<le> 36" "cl_jti c \<notin> bk_jti ` set (a_black s)"
    and "a_script s (a_ticks s + 1) = Acked" "a_script s (a_ticks s + 2) = Acked"
    and "\<forall>k cl. jl_sign J k cl \<noteq> None"
  shows "\<exists>p s'. RefreshToken J pg cfg t s = (Inr (r, p), s')"
proof -
  have u: "u \<in> u_id ` set (a_users s)" using assms(4) by (auto dest: find_first_Some)
  have sign: "\<exists>tok. signing w (jl_sign J k cl) = Inr tok" for w k cl
    using assms(9) by (auto simp: signing_def split: option.split)
  have pair: "\<exists>p s'. with_tokens J cfg ''generating tokens'' [] r s2 = (Inr (r, p), s')" for s2
  proof -
    obtain a where a: "signing ''signing access token'' (jl_sign J (ac_secret cfg)
        (access_claims cfg (u_id r) (u_role r) (u_name r) [] (a_clock s2 (a_ticks s2)))) = Inr a" using sign by blast
    obtain b where b: "signing ''signing refresh token'' (jl_sign J (ac_secret cfg)
        (refresh_claims cfg (u_id r) (a_jtis s2 (a_jti_next s2)) (a_clock s2 (a_ticks s2)))) = Inr b" using sign by blast
    show ?thesis
      by (simp add: with_tokens_def GenerateTokenPairWithAssumedBy_def bindR_def wrapR_def retR_def liftR_def au_clock_def new_jti_def a b)
  qed
  show ?thesis
    using assms(1-8) u pair
    by (simp add: RefreshToken_def ValidateRefreshToken_def parse_token_def au_clock_def bindR_def wrapR_def liftR_def expiry_of_def
      ra_ConsumeToken_def au_uuid_def ParseUUID_def blacklist_insert_def au_stmt_def Let_def ra_GetUserByID_def au_nil_def
      qa_GetUserByID_def au_one_def own_user_def retR_def)
qed

definition demo_revoked :: auth_state where
  "demo_revoked = demo_auth\<lparr>a_users := map (\<lambda>u. u\<lparr>u_revoked := Some demo_time\<rparr>) (a_users demo_auth)\<rparr>"

lemma refresh_exchanges_any_live_token_witness:
  "\<exists>r p s'. RefreshToken demo_jwt demo_auth_pg demo_auth_cfg ''old'' demo_revoked = (Inr (r, p), s')
     \<and> u_revoked r = Some demo_time \<and> revoked_since (u_revoked r) demo_claims"
proof -
  obtain r where r: "find_first (\<lambda>r. u_id r = ''u1'') (a_users demo_revoked) = Some r" "u_revoked r = Some demo_time"
    by (simp add: demo_revoked_def demo_auth_def find_first_def)
  have t: "jl_parse demo_jwt (ac_secret demo_auth_cfg) (a_clock demo_revoked (a_ticks demo_revoked)) ''old'' = Some demo_claims"
    by (simp add: demo_jwt_def demo_claims_def unexpired_def demo_revoked_def demo_auth_def demo_time_def)
  have "\<exists>p s'. RefreshToken demo_jwt demo_auth_pg demo_auth_cfg ''old'' demo_revoked = (Inr (r, p), s')"
  proof (rule refresh_exchanges_any_live_token [OF t _ _ r(1)])
    show "cl_exp demo_claims = Some 200" "pg_uuid demo_auth_pg (cl_sub demo_claims) = Some ''u1''" "rune_count (cl_jti demo_claims) \<le> 36"
      by (simp_all add: demo_claims_def demo_auth_pg_def) code_simp
    show "cl_jti demo_claims \<notin> bk_jti ` set (a_black demo_revoked)" "a_script demo_revoked (a_ticks demo_revoked + 1) = Acked"
      "a_script demo_revoked (a_ticks demo_revoked + 2) = Acked" "\<forall>k cl. jl_sign demo_jwt k cl \<noteq> None"
      by (simp_all add: demo_revoked_def demo_auth_def demo_jwt_def)
  qed
  moreover have "revoked_since (u_revoked r) demo_claims" by (simp add: r(2) revoked_since_def demo_claims_def demo_time_def)
  ultimately show ?thesis using r(2) by blast
qed

end
