(* ===== verification/Auth_Tables.thy ===== *)
theory Auth_Tables
  imports Auth_Tokens
begin

text \<open>
  The soundness of the auth service's tables, and who is an administrator: every request keeps the
  users' keys distinct and each blacklisted token at a user, and only seeding makes an administrator.
\<close>

section \<open>Sound tables\<close>

definition auth_inv :: "auth_state \<Rightarrow> bool" where
  "auth_inv s \<longleftrightarrow> distinct (map u_id (a_users s)) \<and> distinct (map u_name (a_users s)) \<and> distinct (map u_email (a_users s))
     \<and> list_all user_row_ok (a_users s) \<and> distinct (map bk_jti (a_black s)) \<and> bk_user ` set (a_black s) \<subseteq> u_id ` set (a_users s)"

definition admins :: "auth_state \<Rightarrow> string set" where
  "admins s = u_id ` {u \<in> set (a_users s). u_role u = RoleAdmin}"

text \<open>The tables stay sound, and unless an administrator is seeded nobody becomes one.\<close>

definition sound_step :: "bool \<Rightarrow> auth_state \<Rightarrow> auth_state \<Rightarrow> bool" where
  "sound_step seeds s s' \<longleftrightarrow> (auth_inv s \<longrightarrow> auth_inv s') \<and> (seeds \<or> admins s' \<subseteq> admins s)"

lemma sound_trans: "transp (sound_step b)"
  unfolding sound_step_def transp_def by blast

lemma sound_basic: "reflp (sound_step b)" "sound_step b s (s\<lparr>a_ticks := n\<rparr>)" "sound_step b s (s\<lparr>a_jti_next := n\<rparr>)"
  by (auto simp: sound_step_def auth_inv_def admins_def reflp_def)

lemma sound_stmt: "(\<And>s. sound_step b s (snd (f s))) \<Longrightarrow> keeps (sound_step b) (au_stmt f)"
  by (rule keeps_au_stmt [OF sound_trans]) (auto intro: sound_basic)

lemma update_rows_none: "\<forall>x\<in>set xs. \<not> p x \<Longrightarrow> update_rows p f xs = xs"
  by (induction xs) (auto simp: update_rows_def)

lemma update_at:
  assumes "distinct (map u_id us)" "find_first (\<lambda>u. u_id u = i) us = Some u"
  shows "\<exists>ys zs. us = ys @ u # zs \<and> update_rows (\<lambda>u. u_id u = i) (\<lambda>_. row) us = ys @ row # zs
    \<and> filter (\<lambda>u. u_id u \<noteq> i) us = ys @ zs"
proof -
  from find_first_Some [OF assms(2)] have "u \<in> set us" and i: "u_id u = i" by simp_all
  from split_list [OF this(1)] obtain ys zs where us: "us = ys @ u # zs" by blast
  from assms(1) i have ys: "\<forall>x\<in>set ys. u_id x \<noteq> i" and zs: "\<forall>x\<in>set zs. u_id x \<noteq> i" unfolding us by (auto simp: image_iff)
  have "update_rows (\<lambda>u. u_id u = i) (\<lambda>_. row) us = ys @ row # zs"
    using update_rows_none [OF ys] update_rows_none [OF zs] i by (simp add: us update_rows_def)
  moreover have "filter (\<lambda>u. u_id u \<noteq> i) us = ys @ zs"
    using ys zs i by (simp add: us)
  ultimately show ?thesis using us by blast
qed

lemma sound_update:
  assumes f: "\<And>now u. u_id (f now u) = u_id u" "\<And>now u. u_role (f now u) = u_role u"
  shows "keeps (sound_step b) (qa_update i f)"
proof (rule keeps_qa_update [OF sound_trans sound_basic(1,2)])
  fix s u row
  assume u: "find_first (\<lambda>u. u_id u = i) (a_users s) = Some u" and "row = (f (au_now s) u)\<lparr>u_updated := au_now s\<rparr>"
    and ok: "user_row_ok row" and clash: "user_clash row (filter (\<lambda>r. u_id r \<noteq> i) (a_users s)) = None"
  then have same: "u_id row = u_id u" "u_role row = u_role u" using f by simp_all
  from u have i: "u \<in> set (a_users s)" "u_id u = i" by (auto dest: find_first_Some)
  let ?s' = "s\<lparr>a_users := update_rows (\<lambda>r. u_id r = i) (\<lambda>_. row) (a_users s)\<rparr>"
  have "admins ?s' \<subseteq> admins s"
    using i same by (auto simp: admins_def set_update_rows image_iff)
  moreover have "auth_inv ?s'" if inv: "auth_inv s"
  proof -
    from inv have "distinct (map u_id (a_users s))" by (simp add: auth_inv_def)
    from update_at [OF this u] obtain ys zs where
      at: "a_users s = ys @ u # zs" "update_rows (\<lambda>u. u_id u = i) (\<lambda>_. row) (a_users s) = ys @ row # zs"
        "filter (\<lambda>u. u_id u \<noteq> i) (a_users s) = ys @ zs" by blast
    have new: "g row \<notin> g ` set ys \<and> g row \<notin> g ` set zs" if "g = u_id \<or> g = u_name \<or> g = u_email" for g
      using clash that by (auto simp: user_clash_def at(3) image_Un split: if_splits)
    from inv have "auth_inv (s\<lparr>a_users := ys @ row # zs\<rparr>)"
      using ok same new [of u_id] new [of u_name] new [of u_email] by (simp add: auth_inv_def at(1))
    then show ?thesis by (simp only: at(2))
  qed
  ultimately show "sound_step b s ?s'" by (simp add: sound_step_def)
qed

lemma sound_create:
  assumes "b \<or> role \<noteq> RoleAdmin"
  shows "keeps (sound_step b) (qa_CreateUser nm em h role c)"
  unfolding qa_CreateUser_def
  by (rule sound_stmt) (use assms in \<open>auto simp: Let_def sound_step_def auth_inv_def admins_def user_clash_def split: option.splits if_splits\<close>)

lemma sound_delete:
  "sound_step b s (snd (if \<exists>u\<in>set (a_users s). u_id u = i \<and> i \<in> bk_user ` set (a_black s) then (Inl pg_foreign_key, s)
     else (Inr (), s\<lparr>a_users := filter (\<lambda>u. u_id u \<noteq> i) (a_users s)\<rparr>)))"
proof (cases "\<exists>u\<in>set (a_users s). u_id u = i \<and> i \<in> bk_user ` set (a_black s)")
  case True
  then show ?thesis using reflpD [OF sound_basic(1)] by simp
next
  case other: False
  have "auth_inv (s\<lparr>a_users := filter (\<lambda>u. u_id u \<noteq> i) (a_users s)\<rparr>)" if inv: "auth_inv s"
  proof -
    from inv have black: "bk_user ` set (a_black s) \<subseteq> u_id ` set (a_users s)" by (simp add: auth_inv_def)
    have "bk_user ` set (a_black s) \<subseteq> u_id ` {u \<in> set (a_users s). u_id u \<noteq> i}"
    proof
      fix y
      assume y: "y \<in> bk_user ` set (a_black s)"
      with black obtain u where "u \<in> set (a_users s)" "y = u_id u" by auto
      moreover from this y other have "u_id u \<noteq> i" by auto
      ultimately show "y \<in> u_id ` {u \<in> set (a_users s). u_id u \<noteq> i}" by simp
    qed
    with inv show ?thesis by (simp add: auth_inv_def list_all_iff distinct_map_filter_rows)
  qed
  moreover have "admins (s\<lparr>a_users := filter (\<lambda>u. u_id u \<noteq> i) (a_users s)\<rparr>) \<subseteq> admins s" by (auto simp: admins_def)
  ultimately show ?thesis unfolding if_not_P [OF other] snd_conv sound_step_def by blast
qed

interpretation sound: auth_relation "sound_step b" b "\<lambda>_. True" for b
proof
  show "reflp (sound_step b)" "transp (sound_step b)" by (rule sound_basic sound_trans)+
  show "sound_step b s (s\<lparr>a_ticks := n\<rparr>)" "sound_step b s (s\<lparr>a_jti_next := n\<rparr>)" for s n by (rule sound_basic)+
  show "keeps (sound_step b) (qa_CreateUser nm em h RoleUser c)" for nm em h c
    by (rule sound_create) (simp add: RoleUser_def RoleAdmin_def)
  show "b \<Longrightarrow> keeps (sound_step b) (qa_CreateUser nm em h RoleAdmin c)" for nm em h c
    by (rule sound_create) simp
  show "keeps (sound_step b) (qa_CompleteOnboarding c i)" "keeps (sound_step b) (qa_UpdateUser nm em c i)"
    "keeps (sound_step b) (qa_UpdatePassword h i)" "keeps (sound_step b) (qa_RevokeAllUserTokens i)" for c i nm em h
    unfolding qa_CompleteOnboarding_def qa_UpdateUser_def qa_UpdatePassword_def qa_RevokeAllUserTokens_def
    by (intro keeps_exec_update sound_update; simp)+
  show "keeps (sound_step b) (qa_DeleteUser i)" for i
    unfolding qa_DeleteUser_def by (rule sound_stmt) (rule sound_delete)
  show "keeps (sound_step b) (qa_DeleteRefreshTokenBlacklist i)" for i
    unfolding qa_DeleteRefreshTokenBlacklist_def
    by (rule sound_stmt) (auto simp: sound_step_def auth_inv_def admins_def distinct_map_filter_rows)
  show "keeps (sound_step b) (blacklist_insert jti uid ex)" for jti uid ex
    unfolding blacklist_insert_def
    by (rule sound_stmt) (auto simp: sound_step_def auth_inv_def admins_def)
  show "keeps (sound_step b) qa_CleanupExpiredBlacklist"
    unfolding qa_CleanupExpiredBlacklist_def
    by (rule sound_stmt) (auto simp: sound_step_def auth_inv_def admins_def distinct_map_filter_rows)
qed

text \<open>
  C17: after any requests the users' identifiers, names and emails are still distinct, every row obeys
  the table's limits and every blacklisted token belongs to a user; and when none of the requests
  seeds an administrator, nobody is an administrator who was not one before.
\<close>

theorem auth_tables_sound:
  assumes "auth_inv s" and "list_all (permitted seeds (\<lambda>_. True) pg) qs"
  shows "auth_inv (serve_all lib J P pg cfg qs s) \<and> (\<not> seeds \<longrightarrow> admins (serve_all lib J P pg cfg qs s) \<subseteq> admins s)"
  using assms(1) sound.all_served [OF assms(2), of s lib J P cfg] by (auto simp: sound_step_def)

lemma auth_tables_sound_witness:
  "auth_inv demo_auth \<and> auth_inv (serve_all demo_auth_lib demo_jwt demo_pw demo_auth_pg demo_auth_cfg
       [OnboardReq ''u1'' ''EUR'', DeleteReq ''u1''] demo_auth)
     \<and> admins (serve_all demo_auth_lib demo_jwt demo_pw demo_auth_pg demo_auth_cfg [OnboardReq ''u1'' ''EUR'', DeleteReq ''u1''] demo_auth) = {}"
proof -
  have inv: "auth_inv demo_auth"
    by (simp add: auth_inv_def demo_auth_def user_row_ok_def RoleUser_def RoleAdmin_def) code_simp
  have none: "admins demo_auth = {}" by (simp add: admins_def demo_auth_def RoleAdmin_def)
  have "list_all (permitted False (\<lambda>_. True) demo_auth_pg) [OnboardReq ''u1'' ''EUR'', DeleteReq ''u1'']"
    by (simp add: permitted_def demo_auth_pg_def)
  from auth_tables_sound [OF inv this] none show ?thesis using inv by auto
qed

end
