(* ===== verification/Rights_Store.thy ===== *)
theory Rights_Store
  imports Auth_Handlers
begin

text \<open>
  The jobs of the data-rights service (\<^verbatim>\<open>datarights/internal/model/job.go\<close>), their two tables
  and the repositories over them (\<^verbatim>\<open>datarights/internal/repository\<close>, the migrations'
  constraints).  As in the other services every statement is a tick of a script that may refuse it
  or lose its reply.  \<open>dr_world\<close> is what the jobs act on: the other services and the mail.
\<close>

section \<open>Jobs\<close>

abbreviation StatusPending :: string where "StatusPending \<equiv> ''pending''"
abbreviation StatusRunning :: string where "StatusRunning \<equiv> ''running''"
abbreviation StatusCompleted :: string where "StatusCompleted \<equiv> ''completed''"
abbreviation StatusFailed :: string where "StatusFailed \<equiv> ''failed''"

record export_job =
  ej_id :: string
  ej_user :: string
  ej_status :: string
  ej_error :: "string option"
  ej_size :: "int option"
  ej_created :: gtime
  ej_completed :: "gtime option"
  ej_updated :: gtime

record deletion_job =
  dj_id :: string
  dj_user :: string
  dj_admin :: string
  dj_status :: string
  dj_error :: "string option"
  dj_created :: gtime
  dj_completed :: "gtime option"
  dj_updated :: gtime

text \<open>
  \<open>dr_export_queue\<close> and \<open>dr_deletion_queue\<close> are the jobs submitted to the two pools of workers and
  not yet run, an export with the address it goes to.  \<open>dr_deadline\<close> tells of a tick whether the
  time a job may take has passed.
\<close>

record 'w rights_state =
  dr_exports :: "export_job list"
  dr_deletions :: "deletion_job list"
  dr_script :: "nat \<Rightarrow> outcome"
  dr_ticks :: nat
  dr_clock :: "nat \<Rightarrow> gtime"
  dr_dbclock :: "nat \<Rightarrow> gtime"
  dr_ids :: "nat \<Rightarrow> string"
  dr_id_next :: nat
  dr_deadline :: "nat \<Rightarrow> bool"
  dr_export_queue :: "(string \<times> string \<times> string) list"
  dr_deletion_queue :: "(string \<times> string) list"
  dr_world :: 'w

type_synonym ('w, 'a) rights_op = "('w rights_state, goerr, 'a) op"

section \<open>Statements\<close>

definition dr_stmt :: "('w rights_state \<Rightarrow> (goerr + 'a) \<times> 'w rights_state) \<Rightarrow> ('w, 'a) rights_op" where
  "dr_stmt f st =
     (let st' = st\<lparr>dr_ticks := dr_ticks st + 1\<rparr>
      in case dr_script st (dr_ticks st) of
           Acked \<Rightarrow> f st'
         | Refused \<Rightarrow> (Inl pg_error, st')
         | Lost \<Rightarrow> (Inl pg_error, snd (f st')))"

definition dr_read :: "('w rights_state \<Rightarrow> 'a) \<Rightarrow> ('w, 'a) rights_op" where
  "dr_read f = dr_stmt (\<lambda>st. (Inr (f st), st))"

definition dr_now :: "'w rights_state \<Rightarrow> gtime" where
  "dr_now st = dr_dbclock st (dr_ticks st)"

text \<open>
  An identifier is encoded for its \<^verbatim>\<open>UUID\<close> column by the driver, whose reading of it is a
  parameter: the canonical text, or an error before anything is sent.
\<close>

type_synonym uuid_codec = "string \<Rightarrow> string option"

definition dr_uuid :: "uuid_codec \<Rightarrow> string \<Rightarrow> (string \<Rightarrow> ('w, 'a) rights_op) \<Rightarrow> ('w, 'a) rights_op" where
  "dr_uuid ju s k = (case ju s of None \<Rightarrow> failR (Opaque ''cannot encode uuid'') | Some u \<Rightarrow> k u)"

text \<open>A \<^verbatim>\<open>TEXT\<close> value is well-formed UTF-8 without the zero byte.\<close>

function utf8_valid :: "string \<Rightarrow> bool" where
  "utf8_valid s =
     (if s = [] then True else (byte (hd s) < 128 \<or> 1 < rune_size s) \<and> utf8_valid (drop (rune_size s) s))"
  by auto
termination by (relation "measure length") (auto simp: rune_size_pos)

declare utf8_valid.simps [simp del]

definition text_ok :: "string \<Rightarrow> bool" where
  "text_ok s \<longleftrightarrow> CHR 0x00 \<notin> set s \<and> utf8_valid s"

definition in_progress :: "string \<Rightarrow> bool" where
  "in_progress status \<longleftrightarrow> status = StatusPending \<or> status = StatusRunning"

definition newest_first :: "('r \<Rightarrow> gtime) \<Rightarrow> 'r list \<Rightarrow> 'r list" where
  "newest_first created rows = order_by (\<lambda>a b. \<not> t_before (created a) (created b)) rows"

section \<open>The repository of export jobs\<close>

definition xr_CreateJob :: "uuid_codec \<Rightarrow> string \<Rightarrow> ('w, export_job) rights_op" where
  "xr_CreateJob ju u = wrapR (Wrapped ''creating export job'') (dr_uuid ju u (\<lambda>uid. dr_stmt (\<lambda>st.
     let row = \<lparr>ej_id = dr_ids st (dr_id_next st), ej_user = uid, ej_status = StatusPending, ej_error = None, ej_size = None,
                ej_created = dr_now st, ej_completed = None, ej_updated = dr_now st\<rparr>;
         st' = st\<lparr>dr_id_next := dr_id_next st + 1\<rparr>
     in if ej_id row \<in> ej_id ` set (dr_exports st) then (Inl (UniqueViolation ''export_jobs_pkey''), st')
        else (Inr row, st'\<lparr>dr_exports := dr_exports st @ [row]\<rparr>))))"

definition xr_GetJob :: "uuid_codec \<Rightarrow> string \<Rightarrow> ('w, export_job option) rights_op" where
  "xr_GetJob ju i = wrapR (Wrapped ''getting export job'') (dr_uuid ju i (\<lambda>jid.
     dr_read (\<lambda>st. find_first (\<lambda>j. ej_id j = jid) (dr_exports st))))"

text \<open>Of several rows \<^verbatim>\<open>LIMIT 1\<close> without an order returns the first of the table.\<close>

definition xr_GetInProgressJob :: "uuid_codec \<Rightarrow> string \<Rightarrow> ('w, export_job option) rights_op" where
  "xr_GetInProgressJob ju u = wrapR (Wrapped ''getting in-progress job'') (dr_uuid ju u (\<lambda>uid.
     dr_read (\<lambda>st. find_first (\<lambda>j. ej_user j = uid \<and> in_progress (ej_status j)) (dr_exports st))))"

definition xr_GetLatestNonFailedJob :: "uuid_codec \<Rightarrow> string \<Rightarrow> ('w, export_job option) rights_op" where
  "xr_GetLatestNonFailedJob ju u = wrapR (Wrapped ''getting latest non-failed job'') (dr_uuid ju u (\<lambda>uid.
     dr_read (\<lambda>st. find_first (\<lambda>_. True)
       (newest_first ej_created (filter (\<lambda>j. ej_user j = uid \<and> ej_status j \<noteq> StatusFailed) (dr_exports st))))))"

text \<open>The offset is computed in 64 bits; PostgreSQL refuses a negative one.\<close>

definition xr_ListJobsByUser :: "uuid_codec \<Rightarrow> string \<Rightarrow> int \<Rightarrow> int \<Rightarrow> ('w, export_job list \<times> int) rights_op" where
  "xr_ListJobsByUser ju u page psize =
     bindR (wrapR (Wrapped ''counting export jobs'') (dr_uuid ju u (\<lambda>uid.
       dr_read (\<lambda>st. int (length (filter (\<lambda>j. ej_user j = uid) (dr_exports st))))))) (\<lambda>count.
     let offset = i64 (i64 (page - 1) * psize) in
     bindR (wrapR (Wrapped ''listing export jobs'') (dr_uuid ju u (\<lambda>uid. dr_stmt (\<lambda>st.
       if offset < 0 then (Inl (Opaque ''OFFSET must not be negative''), st)
       else (Inr (take (nat psize) (drop (nat offset)
               (newest_first ej_created (filter (\<lambda>j. ej_user j = uid) (dr_exports st))))), st))))) (\<lambda>jobs.
     retR (jobs, count)))"

definition update_export :: "uuid_codec \<Rightarrow> string \<Rightarrow> string \<Rightarrow> (gtime \<Rightarrow> export_job \<Rightarrow> export_job) \<Rightarrow> ('w, unit) rights_op" where
  "update_export ju what i f = wrapR (Wrapped what) (dr_uuid ju i (\<lambda>jid. dr_stmt (\<lambda>st.
     (Inr (), st\<lparr>dr_exports := update_rows (\<lambda>j. ej_id j = jid) (f (dr_now st)) (dr_exports st)\<rparr>))))"

definition xr_UpdateStatus :: "uuid_codec \<Rightarrow> string \<Rightarrow> string \<Rightarrow> ('w, unit) rights_op" where
  "xr_UpdateStatus ju i status =
     update_export ju ''updating job status'' i (\<lambda>now j. j\<lparr>ej_status := status, ej_updated := now\<rparr>)"

definition xr_CompleteJob :: "uuid_codec \<Rightarrow> string \<Rightarrow> int \<Rightarrow> ('w, unit) rights_op" where
  "xr_CompleteJob ju i bytes =
     update_export ju ''completing job'' i (\<lambda>now j. j\<lparr>ej_status := StatusCompleted, ej_size := Some bytes,
       ej_completed := Some now, ej_updated := now\<rparr>)"

definition xr_FailJob :: "uuid_codec \<Rightarrow> string \<Rightarrow> string \<Rightarrow> ('w, unit) rights_op" where
  "xr_FailJob ju i msg =
     (if \<not> text_ok msg then wrapR (Wrapped ''failing job'') (dr_uuid ju i (\<lambda>_. dr_stmt (\<lambda>st. (Inl pg_check, st))))
      else update_export ju ''failing job'' i (\<lambda>now j. j\<lparr>ej_status := StatusFailed, ej_error := Some msg,
             ej_completed := Some now, ej_updated := now\<rparr>))"

definition xr_GetNonTerminalJobs :: "('w, (string \<times> string) list) rights_op" where
  "xr_GetNonTerminalJobs = wrapR (Wrapped ''querying non-terminal jobs'')
     (dr_read (\<lambda>st. map (\<lambda>j. (ej_id j, ej_user j)) (filter (\<lambda>j. in_progress (ej_status j)) (dr_exports st))))"

section \<open>The repository of deletion jobs\<close>

definition dl_CreateJob :: "uuid_codec \<Rightarrow> string \<Rightarrow> string \<Rightarrow> ('w, deletion_job) rights_op" where
  "dl_CreateJob ju u admin = wrapR (Wrapped ''creating deletion job'') (dr_uuid ju u (\<lambda>uid. dr_uuid ju admin (\<lambda>aid. dr_stmt (\<lambda>st.
     let row = \<lparr>dj_id = dr_ids st (dr_id_next st), dj_user = uid, dj_admin = aid, dj_status = StatusPending, dj_error = None,
                dj_created = dr_now st, dj_completed = None, dj_updated = dr_now st\<rparr>;
         st' = st\<lparr>dr_id_next := dr_id_next st + 1\<rparr>
     in if dj_id row \<in> dj_id ` set (dr_deletions st) then (Inl (UniqueViolation ''deletion_jobs_pkey''), st')
        else (Inr row, st'\<lparr>dr_deletions := dr_deletions st @ [row]\<rparr>)))))"

definition dl_GetJob :: "uuid_codec \<Rightarrow> string \<Rightarrow> ('w, deletion_job option) rights_op" where
  "dl_GetJob ju i = wrapR (Wrapped ''getting deletion job'') (dr_uuid ju i (\<lambda>jid.
     dr_read (\<lambda>st. find_first (\<lambda>j. dj_id j = jid) (dr_deletions st))))"

definition dl_GetInProgressJob :: "uuid_codec \<Rightarrow> string \<Rightarrow> ('w, deletion_job option) rights_op" where
  "dl_GetInProgressJob ju u = wrapR (Wrapped ''getting in-progress deletion job'') (dr_uuid ju u (\<lambda>uid.
     dr_read (\<lambda>st. find_first (\<lambda>j. dj_user j = uid \<and> in_progress (dj_status j)) (dr_deletions st))))"

definition update_deletion :: "uuid_codec \<Rightarrow> string \<Rightarrow> string \<Rightarrow> (gtime \<Rightarrow> deletion_job \<Rightarrow> deletion_job) \<Rightarrow> ('w, unit) rights_op" where
  "update_deletion ju what i f = wrapR (Wrapped what) (dr_uuid ju i (\<lambda>jid. dr_stmt (\<lambda>st.
     (Inr (), st\<lparr>dr_deletions := update_rows (\<lambda>j. dj_id j = jid) (f (dr_now st)) (dr_deletions st)\<rparr>))))"

definition dl_UpdateStatus :: "uuid_codec \<Rightarrow> string \<Rightarrow> string \<Rightarrow> ('w, unit) rights_op" where
  "dl_UpdateStatus ju i status =
     update_deletion ju ''updating deletion job status'' i (\<lambda>now j. j\<lparr>dj_status := status, dj_updated := now\<rparr>)"

definition dl_CompleteJob :: "uuid_codec \<Rightarrow> string \<Rightarrow> ('w, unit) rights_op" where
  "dl_CompleteJob ju i =
     update_deletion ju ''completing deletion job'' i (\<lambda>now j. j\<lparr>dj_status := StatusCompleted,
       dj_completed := Some now, dj_updated := now\<rparr>)"

definition dl_FailJob :: "uuid_codec \<Rightarrow> string \<Rightarrow> string \<Rightarrow> ('w, unit) rights_op" where
  "dl_FailJob ju i msg =
     (if \<not> text_ok msg then wrapR (Wrapped ''failing deletion job'') (dr_uuid ju i (\<lambda>_. dr_stmt (\<lambda>st. (Inl pg_check, st))))
      else update_deletion ju ''failing deletion job'' i (\<lambda>now j. j\<lparr>dj_status := StatusFailed, dj_error := Some msg,
             dj_completed := Some now, dj_updated := now\<rparr>))"

definition dl_GetNonTerminalJobs :: "('w, (string \<times> string) list) rights_op" where
  "dl_GetNonTerminalJobs = wrapR (Wrapped ''querying non-terminal deletion jobs'')
     (dr_read (\<lambda>st. map (\<lambda>j. (dj_id j, dj_user j)) (filter (\<lambda>j. in_progress (dj_status j)) (dr_deletions st))))"

end
