(* ===== verification/Rights_Jobs.thy ===== *)
theory Rights_Jobs
  imports Rights_Store
begin

text \<open>
  The worker that takes a job through its states (\<^verbatim>\<open>datarights/internal/jobrunner/pool.go\<close>),
  the erasure of a user by the services in turn (\<^verbatim>\<open>datarights/internal/deletion\<close>) and the
  service that accepts erasures (\<^verbatim>\<open>datarights/internal/service/deletion.go\<close>).
\<close>

section \<open>The worker\<close>

text \<open>What a job's strategy ends with: its result, a reported failure, or a panic.\<close>

datatype job_failure = Reported string | Panicked

definition panicFailureReason :: string where
  "panicFailureReason = ''Job failed unexpectedly''"

type_synonym ('w, 'r) strategy = "'w rights_state \<Rightarrow> (job_failure + 'r) \<times> 'w rights_state"

text \<open>
  \<^verbatim>\<open>Pool.run\<close> once it has a slot: a job that cannot be marked running is left as it is, the
  errors of the last two writes are only reported.
\<close>

definition pool_run :: "('w, unit) rights_op \<Rightarrow> ('w, 'r) strategy \<Rightarrow> (string \<Rightarrow> ('w, unit) rights_op)
    \<Rightarrow> ('r \<Rightarrow> ('w, unit) rights_op) \<Rightarrow> 'w rights_state \<Rightarrow> 'w rights_state" where
  "pool_run mark execute on_failure on_success st =
     (case mark st of
        (Inl _, st1) \<Rightarrow> st1
      | (Inr _, st1) \<Rightarrow>
          (case execute st1 of
             (Inl (Reported reason), st2) \<Rightarrow> snd (on_failure reason st2)
           | (Inl Panicked, st2) \<Rightarrow> snd (on_failure panicFailureReason st2)
           | (Inr r, st2) \<Rightarrow> snd (on_success r st2)))"

section \<open>The erasure of a user\<close>

text \<open>A provider erases its service's data; it answers with the text of its error, if it fails.\<close>

record 'w deletion_provider =
  dp_name :: string
  dp_delete :: "string \<Rightarrow> 'w \<Rightarrow> string option \<times> 'w"

definition maxRetries :: nat where
  "maxRetries = 3"

definition context_error :: string where
  "context_error = ''context deadline exceeded''"

text \<open>
  \<^verbatim>\<open>executeProvider\<close> from an attempt on, with the attempts that are left: between two attempts it
  waits, unless the job's time has passed.
\<close>

fun attempts_from :: "'w deletion_provider \<Rightarrow> string \<Rightarrow> nat \<Rightarrow> nat \<Rightarrow> string \<Rightarrow> 'w rights_state
    \<Rightarrow> (nat \<times> string option) \<times> 'w rights_state" where
  "attempts_from p u 0 attempt lastErr st = ((maxRetries, Some lastErr), st)"
| "attempts_from p u (Suc left) attempt lastErr st =
     (case dp_delete p u (dr_world st) of
        (None, w) \<Rightarrow> ((attempt, None), st\<lparr>dr_world := w\<rparr>)
      | (Some e, w) \<Rightarrow>
          (let st1 = st\<lparr>dr_world := w\<rparr>
           in if attempt < maxRetries
              then (let st2 = st1\<lparr>dr_ticks := dr_ticks st1 + 1\<rparr>
                    in if dr_deadline st1 (dr_ticks st1) then ((attempt, Some context_error), st2)
                       else attempts_from p u left (attempt + 1) e st2)
              else attempts_from p u left (attempt + 1) e st1))"

definition executeProvider :: "'w deletion_provider \<Rightarrow> string \<Rightarrow> 'w rights_state \<Rightarrow> (nat \<times> string option) \<times> 'w rights_state" where
  "executeProvider p u st = attempts_from p u maxRetries 1 [] st"

fun execute_deletion :: "'w deletion_provider list \<Rightarrow> string \<Rightarrow> ('w, unit) strategy" where
  "execute_deletion [] u st = (Inr (), st)"
| "execute_deletion (p # ps) u st =
     (case executeProvider p u st of
        ((n, Some e), st1) \<Rightarrow>
          (Inl (Reported (''provider '' @ dp_name p @ '' failed after '' @ show_int (int n) @ '' attempts: '' @ e)), st1)
      | ((n, None), st1) \<Rightarrow> execute_deletion ps u st1)"

text \<open>A submitted job waits until a worker takes it; \<open>run_deletion n\<close> runs the \<open>n\<close>-th that waits.\<close>

definition submit_deletion :: "string \<Rightarrow> string \<Rightarrow> 'w rights_state \<Rightarrow> 'w rights_state" where
  "submit_deletion i u st = st\<lparr>dr_deletion_queue := dr_deletion_queue st @ [(i, u)]\<rparr>"

definition run_deletion_job :: "uuid_codec \<Rightarrow> 'w deletion_provider list \<Rightarrow> string \<Rightarrow> string \<Rightarrow> 'w rights_state \<Rightarrow> 'w rights_state" where
  "run_deletion_job ju ps i u =
     pool_run (dl_UpdateStatus ju i StatusRunning) (execute_deletion ps u) (dl_FailJob ju i) (\<lambda>_. dl_CompleteJob ju i)"

definition without_nth :: "nat \<Rightarrow> 'a list \<Rightarrow> 'a list" where
  "without_nth n xs = take n xs @ drop (Suc n) xs"

definition run_deletion :: "uuid_codec \<Rightarrow> 'w deletion_provider list \<Rightarrow> nat \<Rightarrow> 'w rights_state \<Rightarrow> 'w rights_state" where
  "run_deletion ju ps n st =
     (if length (dr_deletion_queue st) \<le> n then st
      else (case dr_deletion_queue st ! n of (i, u) \<Rightarrow>
              run_deletion_job ju ps i u (st\<lparr>dr_deletion_queue := without_nth n (dr_deletion_queue st)\<rparr>)))"

section \<open>Accepting an erasure\<close>

record 'w auth_client =
  ac_verify :: "string \<Rightarrow> string \<Rightarrow> ('w, goerr, bool) op"
  ac_user :: "string \<Rightarrow> ('w, goerr, user_response) op"

definition call :: "('w, goerr, 'a) op \<Rightarrow> ('w, 'a) rights_op" where
  "call m st = (case m (dr_world st) of (r, w) \<Rightarrow> (r, st\<lparr>dr_world := w\<rparr>))"

definition service_unavailable :: apierr where
  "service_unavailable = \<lparr>ae_code = ''SERVICE_UNAVAILABLE'', ae_msg = ''Auth service unavailable'', ae_status = 503, ae_fields = []\<rparr>"

definition auth_failure :: "string \<Rightarrow> goerr \<Rightarrow> goerr" where
  "auth_failure what e = (case e of GrpcStatus GUnavailable m \<Rightarrow> Api service_unavailable | _ \<Rightarrow> Wrapped what e)"

definition verifyPassword :: "'w auth_client \<Rightarrow> string \<Rightarrow> string \<Rightarrow> ('w, unit) rights_op" where
  "verifyPassword ac admin password =
     bindR (wrapR (auth_failure ''verifying password'') (call (ac_verify ac admin password))) (\<lambda>valid.
     if \<not> valid then failR (Api (invalid_credentials ''Invalid credentials'')) else retR ())"

definition isProtectedUsername :: "string list \<Rightarrow> string \<Rightarrow> bool" where
  "isProtectedUsername protected username = list_ex (\<lambda>name. username = name) protected"

definition checkProtectedUsername :: "'w auth_client \<Rightarrow> string list \<Rightarrow> string \<Rightarrow> ('w, unit) rights_op" where
  "checkProtectedUsername ac protected u =
     bindR (wrapR (auth_failure ''fetching user for protected check'') (call (ac_user ac u))) (\<lambda>resp.
     if isProtectedUsername protected (ur_username resp)
     then failR (Api \<lparr>ae_code = ''PROTECTED_USER'', ae_msg = ''Cannot delete a protected user account'', ae_status = 403, ae_fields = []\<rparr>)
     else retR ())"

definition checkExportConflict :: "uuid_codec \<Rightarrow> string \<Rightarrow> ('w, unit) rights_op" where
  "checkExportConflict ju u =
     bindR (wrapR (Wrapped ''checking export conflict'') (xr_GetInProgressJob ju u)) (\<lambda>job.
     case job of
       Some _ \<Rightarrow> failR (Api (Conflict ''EXPORT_CONFLICT'' ''Cannot delete user while data export is in progress''))
     | None \<Rightarrow> retR ())"

definition then_submit :: "('w rights_state \<Rightarrow> 'w rights_state) \<Rightarrow> 'a \<Rightarrow> ('w, 'a) rights_op" where
  "then_submit f x st = (Inr x, f st)"

text \<open>The job, and whether it was already in progress.  The job is submitted with the user as asked for.\<close>

definition CreateDeletionJob :: "uuid_codec \<Rightarrow> 'w auth_client \<Rightarrow> string list \<Rightarrow> string \<Rightarrow> string \<Rightarrow> string
    \<Rightarrow> ('w, deletion_job \<times> bool) rights_op" where
  "CreateDeletionJob ju ac protected u admin password =
     bindR (verifyPassword ac admin password) (\<lambda>_.
     if u = admin then failR (Api (Validation ''Cannot delete your own account'' []))
     else
       bindR (checkProtectedUsername ac protected u) (\<lambda>_.
       bindR (checkExportConflict ju u) (\<lambda>_.
       bindR (wrapR (Wrapped ''checking in-progress deletion job'') (dl_GetInProgressJob ju u)) (\<lambda>existing.
       case existing of
         Some job \<Rightarrow> retR (job, True)
       | None \<Rightarrow>
           bindR (wrapR (Wrapped ''creating deletion job'') (dl_CreateJob ju u admin)) (\<lambda>job.
           then_submit (submit_deletion (dj_id job) u) (job, False))))))"

definition GetDeletionJob :: "uuid_codec \<Rightarrow> string \<Rightarrow> ('w, deletion_job) rights_op" where
  "GetDeletionJob ju i =
     bindR (wrapR (Wrapped ''getting deletion job'') (dl_GetJob ju i)) (\<lambda>job.
     case job of None \<Rightarrow> failR (Api (NotFound ''Deletion job not found'')) | Some j \<Rightarrow> retR j)"

text \<open>At the start of the process the jobs in progress are submitted again; the queues begin empty.\<close>

definition recover_deletions :: "'w rights_state \<Rightarrow> 'w rights_state" where
  "recover_deletions st =
     (case dl_GetNonTerminalJobs (st\<lparr>dr_deletion_queue := []\<rparr>) of
        (Inl _, st') \<Rightarrow> st'
      | (Inr jobs, st') \<Rightarrow> foldl (\<lambda>s (i, u). submit_deletion i u s) st' jobs)"

end
