(* ===== verification/Rights_Export.thy ===== *)
theory Rights_Export
  imports Rights_Jobs Finance_Handlers Expense_Handlers
begin

text \<open>
  The export of a user's data: the rows of the five files
  (\<^verbatim>\<open>datarights/internal/engine/providers\<close>), their text (\<^verbatim>\<open>encoding/csv\<close>), the engine that
  collects, packs and mails them (\<^verbatim>\<open>datarights/internal/engine\<close>) and the service that accepts
  exports (\<^verbatim>\<open>datarights/internal/service/export.go\<close>).
\<close>

section \<open>Fields\<close>

text \<open>In 64 bits: negating the least amount leaves it negative.\<close>

definition formatMinorUnitsWithDigits :: "int \<Rightarrow> nat \<Rightarrow> string" where
  "formatMinorUnitsWithDigits amount digits =
     (if digits = 0 then show_int amount
      else let factor = 10 ^ digits;
               negative = amount < 0;
               a = (if negative then i64 (- amount) else amount);
               whole = go_quo a factor;
               fraction = show_int (go_rem a factor);
               result = show_int whole @ ''.'' @ pad_zeros digits fraction
           in if negative then ''-'' @ result else result)"

definition formatMinorUnits :: "int \<Rightarrow> string \<Rightarrow> goerr + string" where
  "formatMinorUnits amount code =
     (case currency_get code of
        None \<Rightarrow> Inl (Opaque ''unsupported currency'')
      | Some d \<Rightarrow> Inr (formatMinorUnitsWithDigits amount (cur_digits d)))"

definition formatBool :: "bool \<Rightarrow> string" where
  "formatBool b = (if b then ''true'' else ''false'')"

definition BuildTagMap :: "user_data_message \<Rightarrow> string \<Rightarrow> string option" where
  "BuildTagMap d = map_of (rev (map (\<lambda>t. (tm_id t, tm_name t)) (um_tags d)))"

definition resolveTagName :: "string \<Rightarrow> (string \<Rightarrow> string option) \<Rightarrow> string" where
  "resolveTagName tag m = (if tag = [] then [] else case m tag of Some name \<Rightarrow> name | None \<Rightarrow> ''Unknown'')"

definition formatOptionalInt :: "int \<Rightarrow> bool \<Rightarrow> string" where
  "formatOptionalInt value condition = (if \<not> condition then [] else show_int value)"

definition periodCurrencyKey :: "int \<Rightarrow> int \<Rightarrow> string" where
  "periodCurrencyKey year month = show_int year @ '':'' @ show_int month"

definition BuildPeriodCurrencyMap :: "user_data_message \<Rightarrow> string \<Rightarrow> string option" where
  "BuildPeriodCurrencyMap d = map_of (rev (map (\<lambda>p. (periodCurrencyKey (pm_year p) (pm_month p), pm_cur p)) (um_periods d)))"

section \<open>Files\<close>

record csv_file =
  cf_name :: string
  cf_headers :: "string list"
  cf_rows :: "string list list"

definition profile_headers :: "string list" where
  "profile_headers = [''username'', ''email'', ''currency'', ''role'', ''account_created_at'']"

definition profile_rows :: "user_response \<Rightarrow> string list list" where
  "profile_rows r = [[ur_username r, ur_email r, ur_currency r, ur_role r, ur_created r]]"

definition tags_headers :: "string list" where
  "tags_headers = [''id'', ''name'', ''is_default'', ''created_at'']"

definition tags_rows :: "user_data_message \<Rightarrow> string list list" where
  "tags_rows d = map (\<lambda>t. [tm_id t, tm_name t, formatBool (tm_default t), tm_created t]) (um_tags d)"

definition budget_headers :: "string list" where
  "budget_headers = [''id'', ''year'', ''month'', ''budget_amount'', ''reporting_currency'', ''essentials_percent'',
     ''desires_percent'', ''savings_percent'', ''created_at'']"

fun budget_rows :: "period_message list \<Rightarrow> goerr + string list list" where
  "budget_rows [] = Inr []"
| "budget_rows (p # ps) =
     (case formatMinorUnits (pm_budget p) (pm_cur p) of
        Inl e \<Rightarrow> Inl (Wrapped ''period budget amount'' e)
      | Inr budgetAmount \<Rightarrow>
          (case budget_rows ps of
             Inl e \<Rightarrow> Inl e
           | Inr rows \<Rightarrow>
               Inr ([pm_id p, show_int (pm_year p), show_int (pm_month p), budgetAmount, pm_cur p, show_int (pm_ess p),
                     show_int (pm_des p), show_int (pm_sav p), pm_created p] # rows)))"

definition settings_headers :: "string list" where
  "settings_headers = [''budget_amount'', ''essentials_percent'', ''desires_percent'', ''savings_percent'', ''currency'']"

text \<open>Settings in a currency that is no longer supported are written with two digits.\<close>

definition settings_rows :: "user_data_message \<Rightarrow> string list list" where
  "settings_rows d =
     (case um_defaults d of
        None \<Rightarrow> []
      | Some s \<Rightarrow>
          (let budgetAmount = (case formatMinorUnits (dm_budget s) (dm_cur s) of
                 Inl _ \<Rightarrow> formatMinorUnitsWithDigits (dm_budget s) 2 | Inr t \<Rightarrow> t)
           in [[budgetAmount, show_int (dm_ess s), show_int (dm_des s), show_int (dm_sav s), dm_cur s]]))"

section \<open>The rows of the expenses\<close>

definition expenses_headers :: "string list" where
  "expenses_headers = [''id'', ''name'', ''transaction_amount'', ''transaction_currency'', ''reporting_amount'',
     ''reporting_currency'', ''exchange_rate'', ''exchange_rate_source'', ''exchange_rate_timestamp'', ''expense_type'',
     ''tag_name'', ''expense_date'', ''period_year'', ''period_month'', ''status'', ''corrects_id'', ''is_pro_rata'',
     ''pro_rata_group'', ''pro_rata_index'', ''pro_rata_total'', ''created_at'']"

record expense_snapshot =
  es_tamount :: int
  es_tcur :: string
  es_ramount :: int
  es_rcur :: string
  es_rate :: string
  es_source :: string
  es_ts :: string

definition resolvePeriodCurrency :: "(string \<Rightarrow> string option) \<Rightarrow> expense \<Rightarrow> string" where
  "resolvePeriodCurrency m e =
     (case m (periodCurrencyKey (x_year e) (x_month e)) of Some c \<Rightarrow> c | None \<Rightarrow> x_rcur e)"

definition resolve_snapshot :: "(string \<Rightarrow> string option) \<Rightarrow> expense \<Rightarrow> goerr + expense_snapshot" where
  "resolve_snapshot m e =
     (if x_rsource e = src_identity \<or> x_rsource e = src_open_rates
      then if x_tamount e = 0 \<or> x_tcur e = [] \<or> x_ramount e = 0 \<or> x_rcur e = [] \<or> x_rate e = [] \<or> x_rts e = []
           then Inl (Opaque ''incomplete money snapshot'')
           else Inr \<lparr>es_tamount = x_tamount e, es_tcur = x_tcur e, es_ramount = x_ramount e, es_rcur = x_rcur e,
                     es_rate = x_rate e, es_source = x_rsource e, es_ts = x_rts e\<rparr>
      else if x_rsource e = src_migration
      then let ccy = resolvePeriodCurrency m e
           in if ccy = [] then Inl (Opaque ''no resolvable period reporting currency'')
              else Inr \<lparr>es_tamount = x_tamount e, es_tcur = ccy, es_ramount = x_ramount e, es_rcur = ccy,
                        es_rate = ''1'', es_source = src_identity, es_ts = x_rts e\<rparr>
      else Inl (Opaque ''invalid exchange_rate_source''))"

definition formatRow :: "(string \<Rightarrow> string option) \<Rightarrow> (string \<Rightarrow> string option) \<Rightarrow> expense \<Rightarrow> goerr + string list" where
  "formatRow tags periods e =
     (case resolve_snapshot periods e of
        Inl err \<Rightarrow> Inl err
      | Inr s \<Rightarrow>
          (case formatMinorUnits (es_tamount s) (es_tcur s) of
             Inl err \<Rightarrow> Inl (Wrapped ''transaction amount'' err)
           | Inr tamount \<Rightarrow>
               (case formatMinorUnits (es_ramount s) (es_rcur s) of
                  Inl err \<Rightarrow> Inl (Wrapped ''reporting amount'' err)
                | Inr ramount \<Rightarrow>
                    Inr [x_id e, x_name e, tamount, es_tcur s, ramount, es_rcur s, es_rate s, es_source s, es_ts s, x_type e,
                         resolveTagName (x_tag e) tags, x_date e, show_int (x_year e), show_int (x_month e), x_status e,
                         x_corrects e, formatBool (x_prorata e), x_group e, formatOptionalInt (x_index e) (x_prorata e),
                         formatOptionalInt (x_total e) (x_prorata e), x_created e])))"

text \<open>The stream as it arrives: the expenses sent before its end, and the error it ended with.\<close>

fun streamExpenses :: "(expense \<Rightarrow> goerr + string list) \<Rightarrow> expense list \<Rightarrow> goerr option \<Rightarrow> goerr + string list list" where
  "streamExpenses fmt [] None = Inr []"
| "streamExpenses fmt [] (Some e) = Inl e"
| "streamExpenses fmt (x # xs) ended =
     (case fmt x of
        Inl e \<Rightarrow> Inl e
      | Inr row \<Rightarrow> (case streamExpenses fmt xs ended of Inl e \<Rightarrow> Inl e | Inr rows \<Rightarrow> Inr (row # rows)))"

section \<open>The text of a file\<close>

text \<open>\<^verbatim>\<open>csv.Writer\<close> with its defaults: when a field is quoted, and how.\<close>

definition fieldNeedsQuotes :: "string \<Rightarrow> bool" where
  "fieldNeedsQuotes f \<longleftrightarrow>
     f \<noteq> [] \<and> (f = [CHR 0x5C, CHR 0x2E] \<or> list_ex (\<lambda>c. c = CHR 0x0A \<or> c = CHR 0x0D \<or> c = CHR 0x22 \<or> c = CHR 0x2C) f
       \<or> list_ex (\<lambda>w. has_prefix w f) space_seqs)"

definition csv_field :: "string \<Rightarrow> string" where
  "csv_field f =
     (if \<not> fieldNeedsQuotes f then f
      else [CHR 0x22] @ concat (map (\<lambda>c. if c = CHR 0x22 then [c, c] else [c]) f) @ [CHR 0x22])"

fun csv_fields :: "string list \<Rightarrow> string" where
  "csv_fields [] = []"
| "csv_fields [f] = csv_field f"
| "csv_fields (f # g # fs) = csv_field f @ [CHR 0x2C] @ csv_fields (g # fs)"

definition csv_record :: "string list \<Rightarrow> string" where
  "csv_record fs = csv_fields fs @ [CHR 0x0A]"

definition csv_text :: "csv_file \<Rightarrow> string" where
  "csv_text f = concat (map csv_record (cf_headers f # cf_rows f))"

text \<open>
  The archive: the files by name with their text.  Its bytes are the standard library's packing of
  them, of which only the length is used: the parameter \<open>packed\<close>.
\<close>

type_synonym archive = "(string \<times> string) list"

definition BuildZIP :: "csv_file list \<Rightarrow> archive" where
  "BuildZIP fs = map (\<lambda>f. (cf_name f, csv_text f)) fs"

section \<open>The engine\<close>

record 'w export_clients =
  ec_finance :: "string \<Rightarrow> ('w, goerr, user_data_message) op"
  ec_profile :: "string \<Rightarrow> ('w, goerr, user_response) op"
  ec_stream :: "string \<Rightarrow> int \<Rightarrow> 'w \<Rightarrow> (expense list \<times> goerr option) \<times> 'w"
  ec_mail :: "string \<Rightarrow> archive \<Rightarrow> 'w \<Rightarrow> string option \<times> 'w"

definition expensesPageSize :: int where
  "expensesPageSize = 100"

text \<open>
  What the five providers collect, each by its name.  They run concurrently and only read; the model
  reads in the order of the archive.
\<close>

definition collect_all :: "'w export_clients \<Rightarrow> user_data_message \<Rightarrow> string \<Rightarrow> 'w
    \<Rightarrow> (string \<times> string list \<times> (goerr + string list list)) list \<times> 'w" where
  "collect_all cl d u w =
     (case ec_profile cl u w of (prof, w1) \<Rightarrow>
      case ec_stream cl u expensesPageSize w1 of ((sent, ended), w2) \<Rightarrow>
        ([(''profile'', profile_headers, map_sum (Wrapped ''fetching user profile'') profile_rows prof),
          (''expenses'', expenses_headers,
             map_sum (Wrapped ''fetching expenses'') id
               (streamExpenses (formatRow (BuildTagMap d) (BuildPeriodCurrencyMap d)) sent ended)),
          (''tags'', tags_headers, Inr (tags_rows d)),
          (''budget_periods'', budget_headers, budget_rows (um_periods d)),
          (''default_settings'', settings_headers, Inr (settings_rows d))], w2))"

definition failed_providers :: "(string \<times> string list \<times> (goerr + string list list)) list \<Rightarrow> string list" where
  "failed_providers rs = map fst (filter (\<lambda>(n, h, r). isl r) rs)"

definition files_of :: "(string \<times> string list \<times> (goerr + string list list)) list \<Rightarrow> csv_file list" where
  "files_of rs = map (\<lambda>(n, h, r). \<lparr>cf_name = n @ ''.csv'', cf_headers = h, cf_rows = (case r of Inl _ \<Rightarrow> [] | Inr rows \<Rightarrow> rows)\<rparr>) rs"

definition after_last_colon :: "string \<Rightarrow> string" where
  "after_last_colon msg =
     (case filter (\<lambda>i. take 2 (drop i msg) = '': '') [0..<length msg] of [] \<Rightarrow> msg | is \<Rightarrow> drop (last is + 2) msg)"

text \<open>At most 100 bytes, wherever that cuts.\<close>

definition sanitizeError :: "string \<Rightarrow> string" where
  "sanitizeError text = (let msg = after_last_colon text in if length msg > 100 then take 100 msg else msg)"

definition timed_out :: "string \<Rightarrow> 'w rights_state \<Rightarrow> (job_failure + 'r) \<times> 'w rights_state" where
  "timed_out reason st =
     (Inl (Reported (if dr_deadline st (dr_ticks st) then ''Export timed out'' else reason)), st\<lparr>dr_ticks := dr_ticks st + 1\<rparr>)"

text \<open>
  \<^verbatim>\<open>runExport\<close>: of several failed providers the one that fails first is named, here the choice
  \<open>pick\<close> among them.
\<close>

definition runExport :: "'w export_clients \<Rightarrow> (archive \<Rightarrow> int) \<Rightarrow> nat \<Rightarrow> string \<Rightarrow> string \<Rightarrow> ('w, int) strategy" where
  "runExport cl packed pick u email st =
     (case ec_finance cl u (dr_world st) of
        (Inl e, w) \<Rightarrow> timed_out ''Failed to fetch export data'' (st\<lparr>dr_world := w\<rparr>)
      | (Inr d, w) \<Rightarrow>
          (case collect_all cl d u w of (rs, w1) \<Rightarrow>
             let st1 = st\<lparr>dr_world := w1\<rparr>; bad = failed_providers rs in
             if bad \<noteq> [] then timed_out (''Failed to collect '' @ bad ! (pick mod length bad) @ '' data'') st1
             else let z = BuildZIP (files_of rs) in
               (case ec_mail cl email z w1 of
                  (Some e, w2) \<Rightarrow> (Inl (Reported (''Email delivery failed: '' @ sanitizeError e)), st1\<lparr>dr_world := w2\<rparr>)
                | (None, w2) \<Rightarrow> (Inr (packed z), st1\<lparr>dr_world := w2\<rparr>))))"

definition submit_export :: "string \<Rightarrow> string \<Rightarrow> string \<Rightarrow> 'w rights_state \<Rightarrow> 'w rights_state" where
  "submit_export i u email st = st\<lparr>dr_export_queue := dr_export_queue st @ [(i, u, email)]\<rparr>"

definition run_export_job :: "uuid_codec \<Rightarrow> 'w export_clients \<Rightarrow> (archive \<Rightarrow> int) \<Rightarrow> nat \<Rightarrow> string \<Rightarrow> string \<Rightarrow> string
    \<Rightarrow> 'w rights_state \<Rightarrow> 'w rights_state" where
  "run_export_job ju cl packed pick i u email =
     pool_run (xr_UpdateStatus ju i StatusRunning) (runExport cl packed pick u email) (xr_FailJob ju i) (xr_CompleteJob ju i)"

definition run_export :: "uuid_codec \<Rightarrow> 'w export_clients \<Rightarrow> (archive \<Rightarrow> int) \<Rightarrow> nat \<Rightarrow> nat \<Rightarrow> 'w rights_state \<Rightarrow> 'w rights_state" where
  "run_export ju cl packed pick n st =
     (if length (dr_export_queue st) \<le> n then st
      else (case dr_export_queue st ! n of (i, u, email) \<Rightarrow>
              run_export_job ju cl packed pick i u email (st\<lparr>dr_export_queue := without_nth n (dr_export_queue st)\<rparr>)))"

section \<open>Accepting an export\<close>

text \<open>30 days, in nanoseconds.\<close>

definition RateLimitWindow :: int where
  "RateLimitWindow = 30 * 24 * 3600 * 1000000000"

text \<open>A refusal for the rate limit carries the time from which a request is accepted again.\<close>

datatype export_outcome = Created export_job | Existing export_job | RateLimited gtime

definition service_now :: "('w, gtime) rights_op" where
  "service_now st = (Inr (dr_clock st (dr_ticks st)), st\<lparr>dr_ticks := dr_ticks st + 1\<rparr>)"

definition ResolveEmail :: "'w export_clients \<Rightarrow> string \<Rightarrow> ('w, string) rights_op" where
  "ResolveEmail cl u =
     bindR (wrapR (Wrapped ''resolving user email'') (call (ec_profile cl u))) (\<lambda>resp.
     if ur_email resp = [] then failR (Opaque ''user has no email address'') else retR (ur_email resp))"

text \<open>An export whose address cannot be found out is submitted all the same, without one.\<close>

definition resolve_and_submit :: "'w export_clients \<Rightarrow> string \<Rightarrow> string \<Rightarrow> 'w rights_state \<Rightarrow> 'w rights_state" where
  "resolve_and_submit cl i u st =
     (case ResolveEmail cl u st of (r, st') \<Rightarrow> submit_export i u (case r of Inl _ \<Rightarrow> [] | Inr email \<Rightarrow> email) st')"

definition CreateExportJob :: "uuid_codec \<Rightarrow> 'w export_clients \<Rightarrow> string \<Rightarrow> ('w, export_outcome) rights_op" where
  "CreateExportJob ju cl u =
     bindR (wrapR (Wrapped ''checking in-progress job'') (xr_GetInProgressJob ju u)) (\<lambda>existing.
     case existing of
       Some job \<Rightarrow> retR (Existing job)
     | None \<Rightarrow>
         bindR (wrapR (Wrapped ''checking rate limit'') (xr_GetLatestNonFailedJob ju u)) (\<lambda>latest.
         bindR (case latest of
                  None \<Rightarrow> retR None
                | Some j \<Rightarrow>
                    (let retryAfter = t_add_ns (ej_created j) RateLimitWindow in
                     bindR service_now (\<lambda>now. retR (if t_before now retryAfter then Some retryAfter else None)))) (\<lambda>limited.
         case limited of
           Some t \<Rightarrow> retR (RateLimited t)
         | None \<Rightarrow>
             bindR (wrapR (Wrapped ''creating job'') (xr_CreateJob ju u)) (\<lambda>job.
             then_submit (resolve_and_submit cl (ej_id job) u) (Created job)))))"

definition GetExportJob :: "uuid_codec \<Rightarrow> string \<Rightarrow> string \<Rightarrow> ('w, export_job) rights_op" where
  "GetExportJob ju i u =
     bindR (wrapR (Wrapped ''getting job'') (xr_GetJob ju i)) (\<lambda>job.
     case job of
       None \<Rightarrow> failR (Api (NotFound ''Export job not found''))
     | Some j \<Rightarrow> if ej_user j \<noteq> u then failR (Api (NotFound ''Export job not found'')) else retR j)"

record job_page =
  jp_data :: "export_job list"
  jp_total :: int
  jp_page :: int
  jp_size :: int
  jp_more :: bool

definition ListExportJobs :: "uuid_codec \<Rightarrow> string \<Rightarrow> int \<Rightarrow> int \<Rightarrow> ('w, job_page) rights_op" where
  "ListExportJobs ju u page psize =
     (let page = (if page < 1 then 1 else page);
          psize = (if psize < 1 then 10 else psize);
          psize = (if psize > 50 then 50 else psize) in
      bindR (wrapR (Wrapped ''listing jobs'') (xr_ListJobsByUser ju u page psize)) (\<lambda>(jobs, count).
      retR \<lparr>jp_data = jobs, jp_total = count, jp_page = page, jp_size = psize, jp_more = i64 (page * psize) < count\<rparr>))"

definition recover_exports :: "'w export_clients \<Rightarrow> 'w rights_state \<Rightarrow> 'w rights_state" where
  "recover_exports cl st =
     (case xr_GetNonTerminalJobs (st\<lparr>dr_export_queue := []\<rparr>) of
        (Inl _, st') \<Rightarrow> st'
      | (Inr jobs, st') \<Rightarrow> foldl (\<lambda>s (i, u). resolve_and_submit cl i u s) st' jobs)"

end
