(* ===== verification/Rights_Handlers.thy ===== *)
theory Rights_Handlers
  imports Rights_Export Services_Wired
begin

text \<open>
  The REST routes of the data-rights service (\<^verbatim>\<open>datarights/internal/handler\<close>) and the
  service connected to the others as \<^verbatim>\<open>datarights/cmd/main.go\<close> connects it.
\<close>

section \<open>REST routes\<close>

record deletion_response =
  xj_id :: string
  xj_user :: string
  xj_status :: string
  xj_error :: "string option"
  xj_created :: gtime
  xj_completed :: "gtime option"

definition deletion_response_of :: "deletion_job \<Rightarrow> deletion_response" where
  "deletion_response_of j = \<lparr>xj_id = dj_id j, xj_user = dj_user j, xj_status = dj_status j, xj_error = dj_error j,
     xj_created = dj_created j, xj_completed = dj_completed j\<rparr>"

record deletion_request =
  dq_user :: string
  dq_password :: string

definition drest_CreateDeletion :: "uuid_codec \<Rightarrow> 'w auth_client \<Rightarrow> string list \<Rightarrow> deletion_request http_request
    \<Rightarrow> ('w rights_state, deletion_response) http_handler" where
  "drest_CreateDeletion ju ac protected r =
     RequireUserID r (\<lambda>admin. BindJSON r (\<lambda>req st.
       case CreateDeletionJob ju ac protected (dq_user req) admin (dq_password req) st of
         (Inl e, st') \<Rightarrow> (problem e, st')
       | (Inr (job, existing), st') \<Rightarrow> (Json (if existing then 200 else 202) (deletion_response_of job), st')))"

definition drest_GetDeletion :: "uuid_codec \<Rightarrow> unit http_request \<Rightarrow> ('w rights_state, deletion_response) http_handler" where
  "drest_GetDeletion ju r =
     RequireUserID r (\<lambda>_. answer 200 (bindR (GetDeletionJob ju (param r ''id'')) (\<lambda>j. retR (deletion_response_of j))))"

text \<open>A refusal for the rate limit also carries the time in the header \<^verbatim>\<open>Retry-After\<close>.\<close>

definition drest_CreateExport :: "uuid_codec \<Rightarrow> 'w export_clients \<Rightarrow> unit http_request
    \<Rightarrow> 'w rights_state \<Rightarrow> (export_job http_response \<times> gtime option) \<times> 'w rights_state" where
  "drest_CreateExport ju cl r st =
     (if h_user r = [] then ((problem (Api (Unauthorized ''Authentication required'')), None), st)
      else case CreateExportJob ju cl (h_user r) st of
             (Inl e, st') \<Rightarrow> ((problem e, None), st')
           | (Inr (RateLimited t), st') \<Rightarrow>
               ((problem (Api \<lparr>ae_code = ''RATE_LIMITED'',
                   ae_msg = ''Export limit reached. You can request another export after '' @ fmt_date t @ ''.'',
                   ae_status = 429, ae_fields = []\<rparr>), Some t), st')
           | (Inr (Existing job), st') \<Rightarrow> ((Json 200 job, None), st')
           | (Inr (Created job), st') \<Rightarrow> ((Json 202 job, None), st'))"

text \<open>\<^verbatim>\<open>strconv.Atoi\<close>\<close>

definition Atoi :: "string \<Rightarrow> int option" where
  "Atoi s =
     (let (neg, t) = (case s of c # cs \<Rightarrow> if c = CHR ''-'' then (True, cs) else if c = CHR ''+'' then (False, cs) else (False, s)
                              | [] \<Rightarrow> (False, s));
          n = (if neg then - digits_val t else digits_val t)
      in if t \<noteq> [] \<and> list_all is_digit t \<and> is_i64 n then Some n else None)"

definition positive_query :: "'b http_request \<Rightarrow> string \<Rightarrow> int \<Rightarrow> int" where
  "positive_query r k d =
     (if query r k = [] then d else case Atoi (query r k) of None \<Rightarrow> d | Some n \<Rightarrow> if n > 0 then n else d)"

definition drest_ListExports :: "uuid_codec \<Rightarrow> unit http_request \<Rightarrow> ('w rights_state, job_page) http_handler" where
  "drest_ListExports ju r =
     RequireUserID r (\<lambda>u. answer 200 (ListExportJobs ju u (positive_query r ''page'' 1) (positive_query r ''pageSize'' 10)))"

definition drest_GetExport :: "uuid_codec \<Rightarrow> unit http_request \<Rightarrow> ('w rights_state, export_job) http_handler" where
  "drest_GetExport ju r = RequireUserID r (\<lambda>u. answer 200 (GetExportJob ju (param r ''id'') u))"

section \<open>The connected services\<close>

text \<open>
  The services a job acts on, over a network that may refuse a call or lose its reply, and the
  mails that were sent.
\<close>

record 'x platform =
  pl_finance :: "'x fin_state"
  pl_expense :: exp_state
  pl_auth :: auth_state
  pl_net :: "nat \<Rightarrow> outcome"
  pl_sent :: nat

definition over_net :: "('x platform \<Rightarrow> 's) \<Rightarrow> ('s \<Rightarrow> 'x platform \<Rightarrow> 'x platform) \<Rightarrow> ('s, goerr, 'a) op \<Rightarrow> ('x platform, goerr, 'a) op" where
  "over_net get put m w =
     (let w' = w\<lparr>pl_sent := pl_sent w + 1\<rparr>; (r, s) = m (get w)
      in case pl_net w (pl_sent w) of
           Acked \<Rightarrow> (r, put s w')
         | Refused \<Rightarrow> (Inl transport_error, w')
         | Lost \<Rightarrow> (Inl transport_error, put s w'))"

definition to_finance :: "('x fin_state, goerr, 'a) op \<Rightarrow> ('x platform, goerr, 'a) op" where
  "to_finance = over_net pl_finance (\<lambda>s. pl_finance_update (\<lambda>_. s))"

definition to_ledger :: "'a exp_op \<Rightarrow> ('x platform, goerr, 'a) op" where
  "to_ledger = over_net pl_expense (\<lambda>s. pl_expense_update (\<lambda>_. s))"

definition to_auth :: "'a auth_op \<Rightarrow> ('x platform, goerr, 'a) op" where
  "to_auth = over_net pl_auth (\<lambda>s. pl_auth_update (\<lambda>_. s))"

definition grpc_code_name :: "grpc_code \<Rightarrow> string" where
  "grpc_code_name c =
     (case c of GCanceled \<Rightarrow> ''Canceled'' | GUnknown \<Rightarrow> ''Unknown'' | GInvalidArgument \<Rightarrow> ''InvalidArgument''
      | GDeadlineExceeded \<Rightarrow> ''DeadlineExceeded'' | GNotFound \<Rightarrow> ''NotFound'' | GAlreadyExists \<Rightarrow> ''AlreadyExists''
      | GPermissionDenied \<Rightarrow> ''PermissionDenied'' | GFailedPrecondition \<Rightarrow> ''FailedPrecondition'' | GAborted \<Rightarrow> ''Aborted''
      | GInternal \<Rightarrow> ''Internal'' | GUnavailable \<Rightarrow> ''Unavailable'' | GUnauthenticated \<Rightarrow> ''Unauthenticated'')"

text \<open>An error without a status reaches the caller as \<^verbatim>\<open>Unknown\<close>.\<close>

definition grpc_text :: "goerr \<Rightarrow> string" where
  "grpc_text e = (case e of GrpcStatus c m \<Rightarrow> ''rpc error: code = '' @ grpc_code_name c @ '' desc = '' @ m
     | _ \<Rightarrow> ''rpc error: code = Unknown'')"

definition provider_of :: "string \<Rightarrow> (string \<Rightarrow> ('w, goerr, unit) op) \<Rightarrow> 'w deletion_provider" where
  "provider_of name m = \<lparr>dp_name = name,
     dp_delete = (\<lambda>u w. case m u w of (Inl e, w') \<Rightarrow> (Some (grpc_text e), w') | (Inr _, w') \<Rightarrow> (None, w'))\<rparr>"

text \<open>The order of the registration is the order of the erasure.\<close>

definition deletion_registry :: "pglib \<Rightarrow> 'x platform deletion_provider list" where
  "deletion_registry pg =
     [provider_of ''finance'' (\<lambda>u. to_finance (fgrpc_DeleteAllUserData pg u)),
      provider_of ''expense'' (\<lambda>u. to_ledger (egrpc_AnonymizeAllUserExpenses u)),
      provider_of ''auth'' (\<lambda>u. to_auth (agrpc_DeleteUserData pg u))]"

definition platform_auth :: "pw_lib \<Rightarrow> pglib \<Rightarrow> 'x platform auth_client" where
  "platform_auth P pg = \<lparr>ac_verify = (\<lambda>u password. to_auth (agrpc_VerifyPassword P pg u password)),
     ac_user = (\<lambda>u. to_auth (agrpc_GetUser pg u))\<rparr>"

text \<open>
  The clients of an export.  What the stream of the expenses delivers is one of the runs of
  \<^verbatim>\<open>StreamAllUserExpenses\<close>: the parameter \<open>stream\<close>; \<open>mail\<close> is the mail service.
\<close>

definition platform_export :: "pglib \<Rightarrow> (string \<Rightarrow> int \<Rightarrow> exp_state \<Rightarrow> expense list \<times> goerr option)
    \<Rightarrow> (string \<Rightarrow> archive \<Rightarrow> 'x platform \<Rightarrow> string option \<times> 'x platform) \<Rightarrow> 'x platform export_clients" where
  "platform_export pg stream mail = \<lparr>ec_finance = (\<lambda>u. to_finance (fgrpc_GetAllUserData pg u)),
     ec_profile = (\<lambda>u. to_auth (agrpc_GetUser pg u)),
     ec_stream = (\<lambda>u n w. (stream u n (pl_expense w), w)), ec_mail = mail\<rparr>"

section \<open>Requests and runs\<close>

text \<open>What happens to the service, in the order it happens; a run of a job is one event.\<close>

datatype rights_event =
  ExportRequest string
| DeletionRequest string string string
| ExportRun nat nat
| DeletionRun nat
| Restart

record 'w rights_env =
  re_uuid :: uuid_codec
  re_export :: "'w export_clients"
  re_auth :: "'w auth_client"
  re_protected :: "string list"
  re_providers :: "'w deletion_provider list"
  re_packed :: "archive \<Rightarrow> int"

definition handle :: "'w rights_env \<Rightarrow> rights_event \<Rightarrow> 'w rights_state \<Rightarrow> 'w rights_state" where
  "handle env ev st =
     (case ev of
        ExportRequest u \<Rightarrow> snd (CreateExportJob (re_uuid env) (re_export env) u st)
      | DeletionRequest u admin password \<Rightarrow>
          snd (CreateDeletionJob (re_uuid env) (re_auth env) (re_protected env) u admin password st)
      | ExportRun pick n \<Rightarrow> run_export (re_uuid env) (re_export env) (re_packed env) pick n st
      | DeletionRun n \<Rightarrow> run_deletion (re_uuid env) (re_providers env) n st
      | Restart \<Rightarrow> recover_deletions (recover_exports (re_export env) st))"

definition handle_all :: "'w rights_env \<Rightarrow> rights_event list \<Rightarrow> 'w rights_state \<Rightarrow> 'w rights_state" where
  "handle_all env evs st = foldl (\<lambda>s ev. handle env ev s) st evs"

end
