(* ===== verification/Rights_Erasure.thy ===== *)
theory Rights_Erasure
  imports Rights_Handlers Finance_Steps
begin

text \<open>
  What an erasure achieves across the services: a job is marked completed only after every service
  has erased the user.
\<close>

section \<open>Attempts\<close>

lemma attempts_world:
  assumes R: "reflp R" "transp R" "\<And>w. R w (snd (dp_delete p u w))"
    and run: "attempts_from p u left a l st = ((n, r), st')"
  shows "R (dr_world st) (dr_world st') \<and> dr_deletions st' = dr_deletions st
    \<and> (r = None \<longrightarrow> (\<exists>w. R (dr_world st) w \<and> dp_delete p u w = (None, dr_world st')))"
  using run
proof (induction left arbitrary: a l st)
  case 0
  then show ?case using R(1) by (auto simp: reflpD)
next
  case (Suc left)
  obtain e w where d: "dp_delete p u (dr_world st) = (e, w)" by (metis surj_pair)
  then have w: "R (dr_world st) w" using R(3) [of "dr_world st"] by simp
  show ?case
  proof (cases e)
    case None
    with Suc.prems d have "st' = st\<lparr>dr_world := w\<rparr>" by simp
    moreover have "R (dr_world st) (dr_world st) \<and> dp_delete p u (dr_world st) = (None, w)"
      using d None reflpD [OF R(1)] by simp
    ultimately show ?thesis using w by (intro conjI impI exI [of _ "dr_world st"]) simp_all
  next
    case (Some x)
    let ?st1 = "st\<lparr>dr_world := w\<rparr>" and ?st2 = "st\<lparr>dr_world := w, dr_ticks := dr_ticks st + 1\<rparr>"
    have step: "attempts_from p u (Suc left) a l st =
        (if a < maxRetries then if dr_deadline st (dr_ticks st) then ((a, Some context_error), ?st2)
           else attempts_from p u left (a + 1) x ?st2 else attempts_from p u left (a + 1) x ?st1)"
      by (simp add: d Some)
    from Suc.prems consider "((n, r), st') = ((a, Some context_error), ?st2)"
      | "attempts_from p u left (a + 1) x ?st2 = ((n, r), st')" | "attempts_from p u left (a + 1) x ?st1 = ((n, r), st')"
      unfolding step by (metis (full_types))
    then show ?thesis
    proof cases
      case 1
      with w show ?thesis by simp
    next
      case 2
      from Suc.IH [OF this] have ih: "R w (dr_world st')" "dr_deletions st' = dr_deletions st"
        "r = None \<longrightarrow> (\<exists>v. R w v \<and> dp_delete p u v = (None, dr_world st'))" by simp_all
      with transpD [OF R(2) w] show ?thesis by blast
    next
      case 3
      from Suc.IH [OF this] have ih: "R w (dr_world st')" "dr_deletions st' = dr_deletions st"
        "r = None \<longrightarrow> (\<exists>v. R w v \<and> dp_delete p u v = (None, dr_world st'))" by simp_all
      with transpD [OF R(2) w] show ?thesis by blast
    qed
  qed
qed

lemma attempts_tables: "dr_deletions (snd (attempts_from p u left a l st)) = dr_deletions st"
  using attempts_world [of "\<lambda>_ _. True" p u left a l st] by (metis (full_types) prod.exhaust_sel reflpI transpI)

lemma execute_tables: "dr_deletions (snd (execute_deletion ps u st)) = dr_deletions st"
proof (induction ps arbitrary: st)
  case (Cons p ps)
  obtain n r st1 where e: "executeProvider p u st = ((n, r), st1)" by (metis surj_pair)
  then have "dr_deletions st1 = dr_deletions st"
    using attempts_tables [of p u maxRetries 1 "[]" st] by (simp add: executeProvider_def)
  with e Cons.IH [of st1] show ?case by (cases r) simp_all
qed simp

lemma execute_Cons:
  assumes "execute_deletion (p # ps) u st = (Inr (), st')"
  obtains n st1 where "attempts_from p u maxRetries 1 [] st = ((n, None), st1)" "execute_deletion ps u st1 = (Inr (), st')"
  using assms by (auto simp: executeProvider_def split: prod.splits option.splits)

section \<open>The services one by one\<close>

lemma over_net_Inr:
  assumes "over_net get put m w = (Inr x, w')"
  shows "\<exists>s. m (get w) = (Inr x, s) \<and> w' = put s (w\<lparr>pl_sent := pl_sent w + 1\<rparr>)"
  using assms by (auto simp: over_net_def Let_def split: prod.splits outcome.splits)

lemma over_net_world: "\<exists>s. snd (over_net get put m w) = w\<lparr>pl_sent := pl_sent w + 1\<rparr> \<or> snd (over_net get put m w) = put s (w\<lparr>pl_sent := pl_sent w + 1\<rparr>)"
  by (auto simp: over_net_def Let_def split: prod.splits outcome.splits)

lemma provider_None:
  "dp_delete (provider_of name m) u w = (None, w') \<longleftrightarrow> m u w = (Inr (), w')"
  by (auto simp: provider_of_def split: prod.splits sum.splits)

lemma provider_world: "snd (dp_delete (provider_of name m) u w) = snd (m u w)"
  by (auto simp: provider_of_def split: prod.splits sum.splits)

text \<open>What each service promises of a call that succeeded.\<close>

definition finance_erased :: "string \<Rightarrow> 'x fin_state \<Rightarrow> bool" where
  "finance_erased uid s \<longleftrightarrow> (\<forall>p\<in>set (f_periods s). p_user p \<noteq> uid) \<and> (\<forall>t\<in>set (f_tags s). tg_user t \<noteq> uid)
     \<and> (\<forall>x\<in>set (f_schedules s). sc_user x \<noteq> uid) \<and> (\<forall>d\<in>set (f_defaults s). d_user d \<noteq> uid)
     \<and> (\<forall>r\<in>set (f_scores s). hr_user r \<noteq> uid)"

definition expense_erased :: "string \<Rightarrow> exp_state \<Rightarrow> bool" where
  "expense_erased u s \<longleftrightarrow> (\<forall>e\<in>set (ledger s). x_user e = u \<longrightarrow> redact e = e)"

definition auth_erased :: "string \<Rightarrow> auth_state \<Rightarrow> bool" where
  "auth_erased uid s \<longleftrightarrow> (\<forall>r\<in>set (a_users s). u_id r \<noteq> uid) \<and> (\<forall>b\<in>set (a_black s). bk_user b \<noteq> uid)"

lemma finance_success:
  assumes "fgrpc_DeleteAllUserData pg u s = (Inr (), s')"
  shows "\<exists>uid. pg_uuid pg u = Some uid \<and> finance_erased uid s'"
proof -
  from assms have run: "DeleteAllUserData pg u s = (Inr (), s')"
    by (auto simp: fgrpc_DeleteAllUserData_def replies_def op_iffs failR_def retR_def split: if_splits)
  then show ?thesis by (cases rule: DeleteAllUserData_cases) (auto simp: erased_def finance_erased_def)
qed

lemma redact_redact: "redact (redact e) = redact e"
  by (simp add: redact_def)

lemma expense_success:
  assumes "egrpc_AnonymizeAllUserExpenses u s = (Inr (), s')"
  shows "expense_erased u s'"
proof -
  from assms have "AnonymizeAllUserExpenses u s = (Inr (), s')"
    by (auto simp: egrpc_AnonymizeAllUserExpenses_def op_iffs failR_def split: if_splits)
  from AnonymizeAllUserExpenses_run [OF this] show ?thesis by (auto simp: expense_erased_def redact_redact)
qed

lemma auth_success:
  assumes "agrpc_DeleteUserData pg u s = (Inr (), s')" "pg_uuid pg u = Some uid"
  shows "auth_erased uid s'"
proof -
  from assms obtain s1 where "qa_DeleteRefreshTokenBlacklist uid s = (Inr (), s1)" "qa_DeleteUser uid s1 = (Inr (), s')"
    by (auto simp: agrpc_DeleteUserData_def DeleteRefreshTokenBlacklist_def DeleteUserRow_def ra_DeleteByUserID_def ra_DeleteUser_def
      au_uuid_def ParseUUID_def op_iffs failR_def split: if_splits)
  then show ?thesis
    by (auto simp: qa_DeleteRefreshTokenBlacklist_def qa_DeleteUser_def au_stmt_def Let_def auth_erased_def
      split: outcome.splits if_splits)
qed

text \<open>A provider leaves the other services alone.\<close>

definition same_finance :: "'x platform \<Rightarrow> 'x platform \<Rightarrow> bool" where
  "same_finance w w' \<longleftrightarrow> pl_finance w' = pl_finance w"

definition same_ledger :: "'x platform \<Rightarrow> 'x platform \<Rightarrow> bool" where
  "same_ledger w w' \<longleftrightarrow> same_finance w w' \<and> pl_expense w' = pl_expense w"

lemma same_basic: "reflp same_finance" "transp same_finance" "reflp same_ledger" "transp same_ledger"
  by (auto simp: reflp_def transp_def same_finance_def same_ledger_def)

lemma expense_provider_world: "same_finance w (snd (dp_delete (provider_of name (\<lambda>u. to_ledger (m u))) u w))"
  using over_net_world [of pl_expense "\<lambda>s. pl_expense_update (\<lambda>_. s)" "m u" w]
  by (auto simp: provider_world to_ledger_def same_finance_def)

lemma auth_provider_world: "same_ledger w (snd (dp_delete (provider_of name (\<lambda>u. to_auth (m u))) u w))"
  using over_net_world [of pl_auth "\<lambda>s. pl_auth_update (\<lambda>_. s)" "m u" w]
  by (auto simp: provider_world to_auth_def same_finance_def same_ledger_def)

lemma erasure_success:
  assumes run: "execute_deletion (deletion_registry pg) u st = (Inr (), st')"
  shows "\<exists>uid. pg_uuid pg u = Some uid \<and> finance_erased uid (pl_finance (dr_world st'))
    \<and> expense_erased u (pl_expense (dr_world st')) \<and> auth_erased uid (pl_auth (dr_world st'))"
proof -
  let ?p = "provider_of ''finance'' (\<lambda>u. to_finance (fgrpc_DeleteAllUserData pg u))"
    and ?q = "provider_of ''expense'' (\<lambda>u. to_ledger (egrpc_AnonymizeAllUserExpenses u))"
    and ?a = "provider_of ''auth'' (\<lambda>u. to_auth (agrpc_DeleteUserData pg u))"
  from run obtain n1 s1 where f: "attempts_from ?p u maxRetries 1 [] st = ((n1, None), s1)"
    and run1: "execute_deletion [?q, ?a] u s1 = (Inr (), st')"
    unfolding deletion_registry_def by (rule execute_Cons)
  from run1 obtain n2 s2 where e: "attempts_from ?q u maxRetries 1 [] s1 = ((n2, None), s2)"
    and run2: "execute_deletion [?a] u s2 = (Inr (), st')"
    by (rule execute_Cons)
  from run2 obtain n3 s3 where a: "attempts_from ?a u maxRetries 1 [] s2 = ((n3, None), s3)" and s3: "s3 = st'"
    by (rule execute_Cons) simp
  from attempts_world [of "\<lambda>_ _. True", OF _ _ _ f] obtain w where "to_finance (fgrpc_DeleteAllUserData pg u) w = (Inr (), dr_world s1)"
    by (auto simp: provider_None reflp_def transp_def)
  then obtain s where "fgrpc_DeleteAllUserData pg u (pl_finance w) = (Inr (), s)" "pl_finance (dr_world s1) = s"
    by (auto simp: to_finance_def dest!: over_net_Inr)
  with finance_success obtain uid where uid: "pg_uuid pg u = Some uid" "finance_erased uid (pl_finance (dr_world s1))" by blast
  from attempts_world [OF same_basic(1,2) expense_provider_world e] obtain w where fin: "same_finance (dr_world s1) (dr_world s2)"
    and "to_ledger (egrpc_AnonymizeAllUserExpenses u) w = (Inr (), dr_world s2)" by (auto simp: provider_None)
  then obtain s where "egrpc_AnonymizeAllUserExpenses u (pl_expense w) = (Inr (), s)" "pl_expense (dr_world s2) = s"
    by (auto simp: to_ledger_def dest!: over_net_Inr)
  with expense_success have exp: "expense_erased u (pl_expense (dr_world s2))" by blast
  from attempts_world [OF same_basic(3,4) auth_provider_world a] obtain w where rest: "same_ledger (dr_world s2) (dr_world s3)"
    and "to_auth (agrpc_DeleteUserData pg u) w = (Inr (), dr_world s3)" by (auto simp: provider_None)
  then obtain s where "agrpc_DeleteUserData pg u (pl_auth w) = (Inr (), s)" "pl_auth (dr_world s3) = s"
    by (auto simp: to_auth_def dest!: over_net_Inr)
  with auth_success [OF _ uid(1)] have "auth_erased uid (pl_auth (dr_world s3))" by blast
  with uid fin exp rest s3 show ?thesis by (auto simp: same_finance_def same_ledger_def)
qed

section \<open>A completed job\<close>

lemma dr_stmt_state:
  "\<exists>s. snd (dr_stmt f st) = s \<and> (s = st\<lparr>dr_ticks := dr_ticks st + 1\<rparr> \<or> s = snd (f (st\<lparr>dr_ticks := dr_ticks st + 1\<rparr>)))"
  by (auto simp: dr_stmt_def Let_def split: outcome.split)

lemma update_deletion_state:
  assumes "update_deletion ju what i f st = (r, st')"
  shows "dr_world st' = dr_world st \<and> dr_deletion_queue st' = dr_deletion_queue st
    \<and> (dr_deletions st' = dr_deletions st
       \<or> (\<exists>jid now. ju i = Some jid \<and> dr_deletions st' = update_rows (\<lambda>j. dj_id j = jid) (f now) (dr_deletions st)))
    \<and> (r = Inr () \<longrightarrow> (\<exists>jid now. ju i = Some jid \<and> dr_deletions st' = update_rows (\<lambda>j. dj_id j = jid) (f now) (dr_deletions st)))"
  using assms
  by (auto simp: update_deletion_def dr_uuid_def dr_stmt_def wrapR_def failR_def Let_def split: option.splits outcome.splits sum.splits prod.splits)

lemma fail_state:
  assumes "j \<in> set (dr_deletions (snd (dl_FailJob ju i msg st)))"
  shows "j \<in> set (dr_deletions st) \<or> dj_status j = StatusFailed"
proof (cases "text_ok msg")
  case True
  obtain r st' where run: "dl_FailJob ju i msg st = (r, st')" by (metis surj_pair)
  with True have "update_deletion ju ''failing deletion job'' i (\<lambda>now j. j\<lparr>dj_status := StatusFailed, dj_error := Some msg,
      dj_completed := Some now, dj_updated := now\<rparr>) st = (r, st')" by (simp add: dl_FailJob_def)
  from update_deletion_state [OF this] assms run show ?thesis by (auto simp: set_update_rows)
next
  case False
  with assms show ?thesis
    by (auto simp: dl_FailJob_def wrapR_def dr_uuid_def dr_stmt_def failR_def Let_def split: option.splits outcome.splits sum.splits prod.splits)
qed

text \<open>
  C4: when a deletion job that was not completed is marked completed, every service has erased the
  user: finance has no row of them, the auth service neither the account nor a blacklisted token,
  and the expense ledger carries the identifier the job ran with on redacted rows only.  The
  expense service takes that identifier literally, the other two in its canonical form.
\<close>

theorem completed_deletion_erases_everywhere:
  assumes "ju i = Some jid" and "\<forall>j\<in>set (dr_deletions st). dj_id j = jid \<longrightarrow> dj_status j \<noteq> StatusCompleted"
    and "\<exists>j\<in>set (dr_deletions (run_deletion_job ju (deletion_registry pg) i u st)). dj_id j = jid \<and> dj_status j = StatusCompleted"
  shows "\<exists>uid. pg_uuid pg u = Some uid
    \<and> finance_erased uid (pl_finance (dr_world (run_deletion_job ju (deletion_registry pg) i u st)))
    \<and> expense_erased u (pl_expense (dr_world (run_deletion_job ju (deletion_registry pg) i u st)))
    \<and> auth_erased uid (pl_auth (dr_world (run_deletion_job ju (deletion_registry pg) i u st)))"
proof -
  define not_done :: "'a platform rights_state \<Rightarrow> bool" where
    "not_done = (\<lambda>s. \<forall>j\<in>set (dr_deletions s). dj_id j = jid \<longrightarrow> dj_status j \<noteq> StatusCompleted)"
  let ?st' = "run_deletion_job ju (deletion_registry pg) i u st"
  obtain r1 s1 where m: "dl_UpdateStatus ju i StatusRunning st = (r1, s1)" by (metis surj_pair)
  have n1: "not_done s1"
    using update_deletion_state [OF m [unfolded dl_UpdateStatus_def]] assms(2) by (auto simp: not_done_def set_update_rows)
  obtain r2 s2 where x: "execute_deletion (deletion_registry pg) u s1 = (r2, s2)" by (metis surj_pair)
  have n2: "not_done s2" using n1 execute_tables [of "deletion_registry pg" u s1] x by (simp add: not_done_def)
  have n3: "not_done (snd (dl_FailJob ju i msg s2))" for msg
    unfolding not_done_def
  proof (intro ballI impI)
    fix j
    assume "j \<in> set (dr_deletions (snd (dl_FailJob ju i msg s2)))" "dj_id j = jid"
    with n2 fail_state [OF this(1)] show "dj_status j \<noteq> StatusCompleted" by (auto simp: not_done_def)
  qed
  have "\<not> not_done ?st'" using assms(3) by (auto simp: not_done_def)
  then obtain ok where r: "r1 = Inr ok" "r2 = Inr ()" and st': "?st' = snd (dl_CompleteJob ju i s2)"
    using n1 n3 by (cases r1; cases r2) (auto simp: run_deletion_job_def pool_run_def m x split: job_failure.splits)
  from erasure_success [of pg u s1 s2] x r(2) have "\<exists>uid. pg_uuid pg u = Some uid \<and> finance_erased uid (pl_finance (dr_world s2))
    \<and> expense_erased u (pl_expense (dr_world s2)) \<and> auth_erased uid (pl_auth (dr_world s2))" by simp
  moreover have "dr_world ?st' = dr_world s2"
    unfolding st' dl_CompleteJob_def by (rule conjunct1 [OF update_deletion_state [OF prod.collapse [symmetric]]])
  ultimately show ?thesis by simp
qed

end
