(* ===== verification/Rights_Facts.thy ===== *)
theory Rights_Facts
  imports Rights_Handlers
begin

text \<open>
  The life of a job: it is submitted at most once at a time, only while it is in progress, and once
  it has finished its row never changes.
\<close>

section \<open>Sound queues\<close>

definition rights_inv :: "uuid_codec \<Rightarrow> 'w rights_state \<Rightarrow> bool" where
  "rights_inv ju st \<longleftrightarrow>
     (\<forall>n. ju (dr_ids st n) = Some (dr_ids st n))
     \<and> distinct (map dj_id (dr_deletions st)) \<and> (\<forall>i\<in>dj_id ` set (dr_deletions st). ju i = Some i)
     \<and> distinct (map ej_id (dr_exports st)) \<and> (\<forall>i\<in>ej_id ` set (dr_exports st). ju i = Some i)
     \<and> distinct (map fst (dr_deletion_queue st)) \<and> distinct (map fst (dr_export_queue st))
     \<and> (\<forall>i\<in>fst ` set (dr_deletion_queue st). \<exists>j\<in>set (dr_deletions st). dj_id j = i \<and> in_progress (dj_status j))
     \<and> (\<forall>i\<in>fst ` set (dr_export_queue st). \<exists>j\<in>set (dr_exports st). ej_id j = i \<and> in_progress (ej_status j))"

text \<open>The jobs that have finished keep their rows.\<close>

definition finals_kept :: "'w rights_state \<Rightarrow> 'w rights_state \<Rightarrow> bool" where
  "finals_kept st st' \<longleftrightarrow>
     (\<forall>j\<in>set (dr_deletions st). \<not> in_progress (dj_status j) \<longrightarrow> j \<in> set (dr_deletions st'))
     \<and> (\<forall>j\<in>set (dr_exports st). \<not> in_progress (ej_status j) \<longrightarrow> j \<in> set (dr_exports st'))"

lemma finals_kept_trans: "finals_kept a b \<Longrightarrow> finals_kept b c \<Longrightarrow> finals_kept a c"
  unfolding finals_kept_def by blast

section \<open>Operations that touch few rows\<close>

text \<open>\<open>framed D E\<close>: only rows of the deletion jobs \<open>D\<close> and the export jobs \<open>E\<close> change; queues do not.\<close>

definition framed :: "string set \<Rightarrow> string set \<Rightarrow> 'w rights_state \<Rightarrow> 'w rights_state \<Rightarrow> bool" where
  "framed D E st st' \<longleftrightarrow> dr_ids st' = dr_ids st
     \<and> dr_deletion_queue st' = dr_deletion_queue st \<and> dr_export_queue st' = dr_export_queue st
     \<and> map dj_id (dr_deletions st') = map dj_id (dr_deletions st) \<and> map ej_id (dr_exports st') = map ej_id (dr_exports st)
     \<and> (\<forall>j\<in>set (dr_deletions st). dj_id j \<notin> D \<longrightarrow> j \<in> set (dr_deletions st'))
     \<and> (\<forall>j\<in>set (dr_exports st). ej_id j \<notin> E \<longrightarrow> j \<in> set (dr_exports st'))"

lemma framed_basic: "reflp (framed D E)" "transp (framed D E)"
  unfolding framed_def reflp_def transp_def by (simp, metis)

lemma framed_same:
  "dr_ids s = dr_ids st \<Longrightarrow> dr_deletion_queue s = dr_deletion_queue st \<Longrightarrow> dr_export_queue s = dr_export_queue st
   \<Longrightarrow> dr_deletions s = dr_deletions st \<Longrightarrow> dr_exports s = dr_exports st \<Longrightarrow> framed D E st s"
  by (simp add: framed_def)

lemma set_ids: "map g xs = map g ys \<Longrightarrow> g ` set xs = g ` set ys"
  by (metis set_map)

lemma framed_inv:
  assumes "rights_inv ju st" "framed D E st st'"
    and "D \<inter> fst ` set (dr_deletion_queue st) = {}" "E \<inter> fst ` set (dr_export_queue st) = {}"
  shows "rights_inv ju st'"
proof -
  note f = assms(2) [unfolded framed_def]
  have ids: "dj_id ` set (dr_deletions st') = dj_id ` set (dr_deletions st)" "ej_id ` set (dr_exports st') = ej_id ` set (dr_exports st)"
    using f by (auto intro!: set_ids simp del: set_map)
  have dels: "\<exists>j\<in>set (dr_deletions st'). dj_id j = i \<and> in_progress (dj_status j)" if "i \<in> fst ` set (dr_deletion_queue st)" for i
  proof -
    from assms(1) that obtain j where "j \<in> set (dr_deletions st)" "dj_id j = i" "in_progress (dj_status j)"
      unfolding rights_inv_def by blast
    moreover from that assms(3) have "i \<notin> D" by blast
    ultimately show ?thesis using f by blast
  qed
  have exps: "\<exists>j\<in>set (dr_exports st'). ej_id j = i \<and> in_progress (ej_status j)" if "i \<in> fst ` set (dr_export_queue st)" for i
  proof -
    from assms(1) that obtain j where "j \<in> set (dr_exports st)" "ej_id j = i" "in_progress (ej_status j)"
      unfolding rights_inv_def by blast
    moreover from that assms(4) have "i \<notin> E" by blast
    ultimately show ?thesis using f by blast
  qed
  from assms(1) f ids dels exps show ?thesis unfolding rights_inv_def by simp
qed

lemma keeps_dr_stmt:
  assumes "\<And>st. framed D E st (snd (f st))"
  shows "keeps (framed D E) (dr_stmt f)"
proof (rule keepsI)
  fix st r st'
  assume run: "dr_stmt f st = (r, st')"
  let ?s = "st\<lparr>dr_ticks := dr_ticks st + 1\<rparr>"
  have "framed D E st ?s" by (rule framed_same) simp_all
  moreover from run have "st' = ?s \<or> st' = snd (f ?s)" by (auto simp: dr_stmt_def Let_def split: outcome.splits)
  ultimately show "framed D E st st'" using assms [of ?s] transpD [OF framed_basic(2)] by metis
qed

lemma framed_refl [intro, simp]: "framed D E st st"
  by (rule framed_same) simp_all

lemmas frame_seq = keeps_bindR [OF framed_basic(2)]
lemmas frame_basic = keeps_basic [OF framed_basic(1)]

lemma frame_reads [intro]: "keeps (framed D E) (dr_read f)" "keeps (framed D E) service_now" "keeps (framed D E) (call m)"
  unfolding dr_read_def
  by (rule keeps_dr_stmt, simp)
    (auto intro!: keepsI framed_same simp: service_now_def call_def split: prod.splits)

lemma frame_uuid [intro]: "(\<And>u. keeps (framed D E) (k u)) \<Longrightarrow> keeps (framed D E) (dr_uuid ju s k)"
  unfolding dr_uuid_def by (cases "ju s") (simp_all add: frame_basic)

lemma framed_update_rows:
  "\<forall>j. dj_id (f j) = dj_id j \<Longrightarrow> framed {i} E st (st\<lparr>dr_deletions := update_rows (\<lambda>j. dj_id j = i) f (dr_deletions st)\<rparr>)"
  "\<forall>j. ej_id (g j) = ej_id j \<Longrightarrow> framed D {i} st (st\<lparr>dr_exports := update_rows (\<lambda>j. ej_id j = i) g (dr_exports st)\<rparr>)"
  by (auto simp: framed_def map_update_rows set_update_rows)

lemma frame_update:
  assumes "ju i = Some i"
  shows "\<forall>now j. dj_id (f now j) = dj_id j \<Longrightarrow> keeps (framed {i} E) (update_deletion ju w i f)"
    and "\<forall>now j. ej_id (g now j) = ej_id j \<Longrightarrow> keeps (framed D {i}) (update_export ju w i g)"
  unfolding update_deletion_def update_export_def dr_uuid_def assms option.case
  by (intro keeps_wrapR keeps_dr_stmt; simp add: framed_update_rows)+

lemma frame_states:
  assumes "ju i = Some i"
  shows "keeps (framed {i} E) (dl_UpdateStatus ju i s)" "keeps (framed {i} E) (dl_CompleteJob ju i)" "keeps (framed {i} E) (dl_FailJob ju i m)"
    and "keeps (framed D {i}) (xr_UpdateStatus ju i s)" "keeps (framed D {i}) (xr_CompleteJob ju i n)" "keeps (framed D {i}) (xr_FailJob ju i m)"
  unfolding dl_UpdateStatus_def dl_CompleteJob_def dl_FailJob_def xr_UpdateStatus_def xr_CompleteJob_def xr_FailJob_def
  by (intro keeps_if keeps_wrapR frame_uuid keeps_dr_stmt frame_update [where ju = ju and i = i, OF assms] framed_refl; simp)+

section \<open>Runs\<close>

lemma pool_run_keeps:
  assumes R: "transp R" and "keeps R begins" "\<And>st. R st (snd (work st))" "\<And>m. keeps R (f m)" "\<And>r. keeps R (c r)"
  shows "R st (pool_run begins work f c st)"
proof -
  obtain r1 s1 where m: "begins st = (r1, s1)" by (metis surj_pair)
  obtain r2 s2 where x: "work s1 = (r2, s2)" by (metis surj_pair)
  have 1: "R st s1" using assms(2) m by (metis keepsD)
  have 2: "R st s2" using 1 assms(3) [of s1] x transpD [OF R] by (metis snd_conv)
  have 3: "R st (snd (f m s2))" "R st (snd (c r s2))" for m r
    using 2 assms(4) [of m] assms(5) [of r] transpD [OF R] unfolding keeps_def by blast+
  from 1 3 show ?thesis
    by (auto simp: pool_run_def m x split: sum.splits job_failure.splits)
qed

lemma framed_attempts: "framed D E st (snd (attempts_from p u n a l st))"
proof (induction n arbitrary: a l st)
  case (Suc n)
  obtain e w where d: "dp_delete p u (dr_world st) = (e, w)" by (metis surj_pair)
  show ?case
  proof (cases e)
    case None
    then show ?thesis by (simp add: d framed_same)
  next
    case (Some x)
    let ?st1 = "st\<lparr>dr_world := w\<rparr>" and ?st2 = "st\<lparr>dr_world := w, dr_ticks := dr_ticks st + 1\<rparr>"
    have step: "attempts_from p u (Suc n) a l st =
        (if a < maxRetries then if dr_deadline st (dr_ticks st) then ((a, Some context_error), ?st2)
           else attempts_from p u n (a + 1) x ?st2 else attempts_from p u n (a + 1) x ?st1)"
      by (simp add: d Some)
    have "framed D E st ?st1" "framed D E st ?st2" by (rule framed_same; simp)+
    then show ?thesis unfolding step using transpD [OF framed_basic(2) _ Suc.IH] by simp
  qed
qed simp

lemma framed_execute: "framed D E st (snd (execute_deletion ps u st))"
proof (induction ps arbitrary: st)
  case (Cons p ps)
  obtain n r s where e: "executeProvider p u st = ((n, r), s)" by (metis surj_pair)
  then have "framed D E st s" using framed_attempts [of D E st p u maxRetries 1 "[]"] by (simp add: executeProvider_def)
  with e Cons.IH [of s] show ?case using transpD [OF framed_basic(2)] by (cases r) auto
qed simp

lemma framed_timed_out: "framed D E st (snd (timed_out m (st\<lparr>dr_world := w\<rparr>)))"
  by (rule framed_same) (simp_all add: timed_out_def)

lemma framed_runExport: "framed D E st (snd (runExport cl packed pick u email st))"
proof (cases "ec_finance cl u (dr_world st)")
  case (Pair r w)
  show ?thesis
  proof (cases r)
    case (Inl e)
    then show ?thesis by (simp add: runExport_def Pair framed_timed_out)
  next
    case (Inr d)
    obtain rs w1 where c: "collect_all cl d u w = (rs, w1)" by (metis surj_pair)
    obtain x w2 where m: "ec_mail cl email (BuildZIP (files_of rs)) w1 = (x, w2)" by (metis surj_pair)
    show ?thesis
      unfolding runExport_def Pair prod.case Inr sum.case c Let_def m
      by (cases x) (simp_all add: framed_timed_out framed_same)
  qed
qed

lemma framed_jobs:
  assumes "ju i = Some i"
  shows "framed {i} {} st (run_deletion_job ju ps i u st)" "framed {} {i} st (run_export_job ju cl packed pick i u email st)"
proof -
  note states = frame_states [where ju = ju and i = i, OF assms]
  show "framed {i} {} st (run_deletion_job ju ps i u st)"
    unfolding run_deletion_job_def
    by (rule pool_run_keeps [OF framed_basic(2) states(1) framed_execute states(3) states(2)])
  show "framed {} {i} st (run_export_job ju cl packed pick i u email st)"
    unfolding run_export_job_def
    by (rule pool_run_keeps [OF framed_basic(2) states(4) framed_runExport states(6) states(5)])
qed

section \<open>Requests, runs and restarts\<close>

text \<open>An event that keeps the queues sound and the finished jobs.\<close>

definition sound_event :: "uuid_codec \<Rightarrow> 'w rights_state \<Rightarrow> 'w rights_state \<Rightarrow> bool" where
  "sound_event ju st st' \<longleftrightarrow> (rights_inv ju st \<longrightarrow> rights_inv ju st' \<and> finals_kept st st')"

lemma jobs_kept_trans: "sound_event ju a b \<Longrightarrow> sound_event ju b c \<Longrightarrow> sound_event ju a c"
  unfolding sound_event_def using finals_kept_trans by blast

lemma framed_sound: "framed {} {} st st' \<Longrightarrow> sound_event ju st st'"
  using framed_inv [of ju st "{}" "{}" st'] unfolding sound_event_def finals_kept_def framed_def by blast

lemma not_final:
  assumes "distinct (map key rows)" "j \<in> set rows" "key j = i" "p j" "x \<in> set rows" "\<not> p x"
  shows "key x \<noteq> i"
  using assms by (metis distinct_map inj_on_def)

lemma without_nth: "n < length xs \<Longrightarrow> distinct (map f xs) \<Longrightarrow>
    set (without_nth n xs) \<subseteq> set xs \<and> distinct (map f (without_nth n xs)) \<and> f (xs ! n) \<notin> f ` set (without_nth n xs)"
  unfolding without_nth_def
  by (subst (asm) id_take_nth_drop [of n xs], assumption) (auto dest: in_set_takeD in_set_dropD)

lemma dequeue_deletion:
  assumes "rights_inv ju st" "n < length (dr_deletion_queue st)" "dr_deletion_queue st ! n = (i, u)"
  defines "s \<equiv> st\<lparr>dr_deletion_queue := without_nth n (dr_deletion_queue st)\<rparr>"
  shows "rights_inv ju s" "i \<notin> fst ` set (dr_deletion_queue s)" "ju i = Some i"
    and "\<forall>x\<in>set (dr_deletions st). \<not> in_progress (dj_status x) \<longrightarrow> dj_id x \<noteq> i"
proof -
  from assms(1) have d: "distinct (map fst (dr_deletion_queue st))" by (simp add: rights_inv_def)
  note w = without_nth [OF assms(2) d]
  from assms(3) w show "i \<notin> fst ` set (dr_deletion_queue s)" by (simp add: s_def)
  from assms(1) w show "rights_inv ju s" unfolding rights_inv_def s_def by (simp, blast)
  from assms(2,3) have "i \<in> fst ` set (dr_deletion_queue st)" by (metis fst_conv image_eqI nth_mem)
  with assms(1) obtain j where j: "j \<in> set (dr_deletions st)" "dj_id j = i" "in_progress (dj_status j)"
    unfolding rights_inv_def by blast
  with assms(1) show "ju i = Some i" unfolding rights_inv_def by blast
  from assms(1) have "distinct (map dj_id (dr_deletions st))" by (simp add: rights_inv_def)
  with j show "\<forall>x\<in>set (dr_deletions st). \<not> in_progress (dj_status x) \<longrightarrow> dj_id x \<noteq> i"
    using not_final [where key = dj_id and p = "\<lambda>j. in_progress (dj_status j)"] by blast
qed

lemma dequeue_export:
  assumes "rights_inv ju st" "n < length (dr_export_queue st)" "dr_export_queue st ! n = (i, u, email)"
  defines "s \<equiv> st\<lparr>dr_export_queue := without_nth n (dr_export_queue st)\<rparr>"
  shows "rights_inv ju s" "i \<notin> fst ` set (dr_export_queue s)" "ju i = Some i"
    and "\<forall>x\<in>set (dr_exports st). \<not> in_progress (ej_status x) \<longrightarrow> ej_id x \<noteq> i"
proof -
  from assms(1) have d: "distinct (map fst (dr_export_queue st))" by (simp add: rights_inv_def)
  note w = without_nth [OF assms(2) d]
  from assms(3) w show "i \<notin> fst ` set (dr_export_queue s)" by (simp add: s_def)
  from assms(1) w show "rights_inv ju s" unfolding rights_inv_def s_def by (simp, blast)
  from assms(2,3) have "i \<in> fst ` set (dr_export_queue st)" by (metis fst_conv image_eqI nth_mem)
  with assms(1) obtain j where j: "j \<in> set (dr_exports st)" "ej_id j = i" "in_progress (ej_status j)"
    unfolding rights_inv_def by blast
  with assms(1) show "ju i = Some i" unfolding rights_inv_def by blast
  from assms(1) have "distinct (map ej_id (dr_exports st))" by (simp add: rights_inv_def)
  with j show "\<forall>x\<in>set (dr_exports st). \<not> in_progress (ej_status x) \<longrightarrow> ej_id x \<noteq> i"
    using not_final [where key = ej_id and p = "\<lambda>j. in_progress (ej_status j)"] by blast
qed

lemma sound_runs: "sound_event ju st (run_deletion ju ps n st)" "sound_event ju st (run_export ju cl packed pick n st)"
proof -
  show "sound_event ju st (run_deletion ju ps n st)"
  proof (cases "length (dr_deletion_queue st) \<le> n")
    case False
    obtain i u where q: "dr_deletion_queue st ! n = (i, u)" by (metis surj_pair)
    let ?s = "st\<lparr>dr_deletion_queue := without_nth n (dr_deletion_queue st)\<rparr>"
    have "rights_inv ju (run_deletion_job ju ps i u ?s) \<and> finals_kept st (run_deletion_job ju ps i u ?s)" if inv: "rights_inv ju st"
    proof -
      note d = dequeue_deletion [OF inv _ q]
      from d(3) False have frame: "framed {i} {} ?s (run_deletion_job ju ps i u ?s)" by (intro framed_jobs) simp
      have "rights_inv ju (run_deletion_job ju ps i u ?s)" by (rule framed_inv [OF d(1) frame]) (use d(2) False in simp_all)
      with frame d(4) False show ?thesis by (auto simp: finals_kept_def framed_def)
    qed
    with False q show ?thesis by (simp add: run_deletion_def sound_event_def)
  qed (simp add: run_deletion_def framed_sound)
  show "sound_event ju st (run_export ju cl packed pick n st)"
  proof (cases "length (dr_export_queue st) \<le> n")
    case False
    obtain i u e where q: "dr_export_queue st ! n = (i, u, e)" by (metis surj_pair)
    let ?s = "st\<lparr>dr_export_queue := without_nth n (dr_export_queue st)\<rparr>"
    have "rights_inv ju (run_export_job ju cl packed pick i u e ?s) \<and> finals_kept st (run_export_job ju cl packed pick i u e ?s)"
      if inv: "rights_inv ju st"
    proof -
      note d = dequeue_export [OF inv _ q]
      from d(3) False have frame: "framed {} {i} ?s (run_export_job ju cl packed pick i u e ?s)" by (intro framed_jobs) simp
      have "rights_inv ju (run_export_job ju cl packed pick i u e ?s)" by (rule framed_inv [OF d(1) frame]) (use d(2) False in simp_all)
      with frame d(4) False show ?thesis by (auto simp: finals_kept_def framed_def)
    qed
    with False q show ?thesis by (simp add: run_export_def sound_event_def)
  qed (simp add: run_export_def framed_sound)
qed

text \<open>Accepting a job: the row is new, and it is submitted only after it was written.\<close>

definition adds_deletion :: "deletion_job \<Rightarrow> 'w rights_state \<Rightarrow> 'w rights_state \<Rightarrow> bool" where
  "adds_deletion row st st' \<longleftrightarrow> dr_deletions st' = dr_deletions st @ [row] \<and> dr_exports st' = dr_exports st \<and> dr_ids st' = dr_ids st
     \<and> dr_deletion_queue st' = dr_deletion_queue st \<and> dr_export_queue st' = dr_export_queue st
     \<and> dj_id row \<notin> dj_id ` set (dr_deletions st) \<and> (\<exists>n. dj_id row = dr_ids st n) \<and> dj_status row = StatusPending"

definition adds_export :: "export_job \<Rightarrow> 'w rights_state \<Rightarrow> 'w rights_state \<Rightarrow> bool" where
  "adds_export row st st' \<longleftrightarrow> dr_exports st' = dr_exports st @ [row] \<and> dr_deletions st' = dr_deletions st \<and> dr_ids st' = dr_ids st
     \<and> dr_deletion_queue st' = dr_deletion_queue st \<and> dr_export_queue st' = dr_export_queue st
     \<and> ej_id row \<notin> ej_id ` set (dr_exports st) \<and> (\<exists>n. ej_id row = dr_ids st n) \<and> ej_status row = StatusPending"

lemma dr_stmt_cases:
  assumes "dr_stmt f st = (r, st')"
  obtains "isl r" "st' = st\<lparr>dr_ticks := dr_ticks st + 1\<rparr>"
  | "st' = snd (f (st\<lparr>dr_ticks := dr_ticks st + 1\<rparr>))" "isl r \<or> r = fst (f (st\<lparr>dr_ticks := dr_ticks st + 1\<rparr>))"
  using assms by (auto simp: dr_stmt_def Let_def split: outcome.splits)

lemma dl_CreateJob_cases:
  assumes "dl_CreateJob ju u admin st = (r, st')"
  shows "isl r \<and> framed {} {} st st' \<or> (\<exists>row. adds_deletion row st st' \<and> (isl r \<or> r = Inr row))"
proof -
  obtain r0 where run: "dr_uuid ju u (\<lambda>uid. dr_uuid ju admin (\<lambda>aid. dr_stmt (\<lambda>st.
     let row = \<lparr>dj_id = dr_ids st (dr_id_next st), dj_user = uid, dj_admin = aid, dj_status = StatusPending, dj_error = None,
                dj_created = dr_now st, dj_completed = None, dj_updated = dr_now st\<rparr>;
         st' = st\<lparr>dr_id_next := dr_id_next st + 1\<rparr>
     in if dj_id row \<in> dj_id ` set (dr_deletions st) then (Inl (UniqueViolation ''deletion_jobs_pkey''), st')
        else (Inr row, st'\<lparr>dr_deletions := dr_deletions st @ [row]\<rparr>)))) st = (r0, st')" and r: "isl r = isl r0" "isl r0 \<or> r = r0"
    using assms unfolding dl_CreateJob_def wrapR_def by (auto split: prod.splits sum.splits)
  show ?thesis
  proof (cases "ju u = None \<or> ju admin = None")
    case True
    with run r show ?thesis by (auto simp: dr_uuid_def failR_def split: option.splits)
  next
    case False
    then obtain uid aid where "ju u = Some uid" "ju admin = Some aid" by auto
    note run' = run [unfolded dr_uuid_def this option.case]
    show ?thesis
      using run' by (rule dr_stmt_cases) (use r in \<open>auto simp: Let_def adds_deletion_def framed_def split: if_splits\<close>)
  qed
qed

lemma xr_CreateJob_cases:
  assumes "xr_CreateJob ju u st = (r, st')"
  shows "isl r \<and> framed {} {} st st' \<or> (\<exists>row. adds_export row st st' \<and> (isl r \<or> r = Inr row))"
proof -
  obtain r0 where run: "dr_uuid ju u (\<lambda>uid. dr_stmt (\<lambda>st.
     let row = \<lparr>ej_id = dr_ids st (dr_id_next st), ej_user = uid, ej_status = StatusPending, ej_error = None, ej_size = None,
                ej_created = dr_now st, ej_completed = None, ej_updated = dr_now st\<rparr>;
         st' = st\<lparr>dr_id_next := dr_id_next st + 1\<rparr>
     in if ej_id row \<in> ej_id ` set (dr_exports st) then (Inl (UniqueViolation ''export_jobs_pkey''), st')
        else (Inr row, st'\<lparr>dr_exports := dr_exports st @ [row]\<rparr>))) st = (r0, st')" and r: "isl r = isl r0" "isl r0 \<or> r = r0"
    using assms unfolding xr_CreateJob_def wrapR_def by (auto split: prod.splits sum.splits)
  show ?thesis
  proof (cases "ju u")
    case None
    with run r show ?thesis by (auto simp: dr_uuid_def failR_def)
  next
    case (Some uid)
    note run' = run [unfolded dr_uuid_def this option.case]
    show ?thesis
      using run' by (rule dr_stmt_cases) (use r in \<open>auto simp: Let_def adds_export_def framed_def split: if_splits\<close>)
  qed
qed

lemma queue_absent:
  assumes "\<forall>i\<in>fst ` set q. \<exists>j\<in>set rows. key j = i \<and> p j" "k \<notin> key ` set rows"
  shows "k \<notin> fst ` set q"
  using assms by (metis image_eqI)

lemma adds_deletion_sound:
  assumes "adds_deletion row st st'"
  shows "sound_event ju st st'" and "rights_inv ju st \<Longrightarrow> row \<in> set (dr_deletions st') \<and> in_progress (dj_status row)
    \<and> dj_id row \<notin> fst ` set (dr_deletion_queue st')"
proof -
  note a = assms [unfolded adds_deletion_def]
  show "sound_event ju st st'"
    using a unfolding sound_event_def rights_inv_def finals_kept_def by (auto simp: image_Un)
  assume "rights_inv ju st"
  then have "dj_id row \<notin> fst ` set (dr_deletion_queue st)"
    using a queue_absent [where key = dj_id and rows = "dr_deletions st" and p = "\<lambda>j. in_progress (dj_status j)"
      and q = "dr_deletion_queue st" and k = "dj_id row"] unfolding rights_inv_def by simp
  with a show "row \<in> set (dr_deletions st') \<and> in_progress (dj_status row) \<and> dj_id row \<notin> fst ` set (dr_deletion_queue st')"
    by (simp add: in_progress_def)
qed

lemma adds_export_sound:
  assumes "adds_export row st st'"
  shows "sound_event ju st st'" and "rights_inv ju st \<Longrightarrow> row \<in> set (dr_exports st') \<and> in_progress (ej_status row)
    \<and> ej_id row \<notin> fst ` set (dr_export_queue st')"
proof -
  note a = assms [unfolded adds_export_def]
  show "sound_event ju st st'"
    using a unfolding sound_event_def rights_inv_def finals_kept_def by (auto simp: image_Un)
  assume "rights_inv ju st"
  then have "ej_id row \<notin> fst ` set (dr_export_queue st)"
    using a queue_absent [where key = ej_id and rows = "dr_exports st" and p = "\<lambda>j. in_progress (ej_status j)"
      and q = "dr_export_queue st" and k = "ej_id row"] unfolding rights_inv_def by simp
  with a show "row \<in> set (dr_exports st') \<and> in_progress (ej_status row) \<and> ej_id row \<notin> fst ` set (dr_export_queue st')"
    by (simp add: in_progress_def)
qed

lemma submit_sound:
  "rights_inv ju st \<Longrightarrow> j \<in> set (dr_deletions st) \<and> in_progress (dj_status j) \<and> dj_id j \<notin> fst ` set (dr_deletion_queue st)
   \<Longrightarrow> rights_inv ju (submit_deletion (dj_id j) u st)"
  "rights_inv ju st \<Longrightarrow> x \<in> set (dr_exports st) \<and> in_progress (ej_status x) \<and> ej_id x \<notin> fst ` set (dr_export_queue st)
   \<Longrightarrow> rights_inv ju (submit_export (ej_id x) u email st)"
  unfolding rights_inv_def submit_deletion_def submit_export_def by auto

lemma submit_rows [simp]:
  "dr_deletions (submit_deletion i u st) = dr_deletions st" "dr_exports (submit_deletion i u st) = dr_exports st"
  "dr_deletions (submit_export i u e st) = dr_deletions st" "dr_exports (submit_export i u e st) = dr_exports st"
  by (simp_all add: submit_deletion_def submit_export_def)

lemma sound_basic_events: "reflp (sound_event ju)" "transp (sound_event ju)"
  using jobs_kept_trans by (auto simp: reflp_def transp_def sound_event_def finals_kept_def)

lemma frame_keeps: "keeps (framed {} {}) m \<Longrightarrow> keeps (sound_event ju) m"
  unfolding keeps_def using framed_sound by blast

lemma framed_resolve: "framed D E st (snd (ResolveEmail cl u st))"
proof -
  have "keeps (framed D E) (ResolveEmail cl u)"
    unfolding ResolveEmail_def by (intro frame_seq keeps_wrapR frame_reads keeps_if frame_basic)
  then show ?thesis by (simp add: keeps_def)
qed

lemma resolve_and_submit_sound:
  assumes "rights_inv ju st" "x \<in> set (dr_exports st)" "in_progress (ej_status x)" "ej_id x \<notin> fst ` set (dr_export_queue st)"
  shows "rights_inv ju (resolve_and_submit cl (ej_id x) u st) \<and> finals_kept st (resolve_and_submit cl (ej_id x) u st)"
proof -
  obtain r s where e: "ResolveEmail cl u st = (r, s)" by (metis surj_pair)
  then have f: "framed {} {} st s" using framed_resolve by (metis snd_conv)
  have "rights_inv ju s" by (rule framed_inv [OF assms(1) f]) simp_all
  moreover from f assms have "x \<in> set (dr_exports s) \<and> in_progress (ej_status x) \<and> ej_id x \<notin> fst ` set (dr_export_queue s)"
    by (simp add: framed_def)
  ultimately have "rights_inv ju (submit_export (ej_id x) u email s)" for email by (rule submit_sound(2))
  moreover from f have "finals_kept st (submit_export (ej_id x) u email s)" for email by (simp add: finals_kept_def framed_def)
  ultimately show ?thesis by (simp add: resolve_and_submit_def e)
qed

lemma accept_deletion:
  "keeps (sound_event ju) (bindR (wrapR f (dl_CreateJob ju u admin)) (\<lambda>job. then_submit (submit_deletion (dj_id job) u) (job, False)))"
proof (rule keepsI)
  fix st r st'
  assume run: "bindR (wrapR f (dl_CreateJob ju u admin)) (\<lambda>job. then_submit (submit_deletion (dj_id job) u) (job, False)) st = (r, st')"
  obtain r1 s1 where c: "dl_CreateJob ju u admin st = (r1, s1)" by (metis surj_pair)
  have st': "st' = (case r1 of Inl _ \<Rightarrow> s1 | Inr job \<Rightarrow> submit_deletion (dj_id job) u s1)"
    using run c by (auto simp: bindR_def wrapR_def then_submit_def split: sum.splits)
  show "sound_event ju st st'"
    using dl_CreateJob_cases [OF c]
  proof (elim disjE conjE exE)
    assume "isl r1" "framed {} {} st s1"
    with st' show ?thesis by (auto simp: isl_def intro: framed_sound)
  next
    fix row
    assume row: "adds_deletion row st s1" and "isl r1"
    with st' adds_deletion_sound(1) [OF row] show ?thesis by (auto simp: isl_def)
  next
    fix row
    assume row: "adds_deletion row st s1" and "r1 = Inr row"
    with st' have st': "st' = submit_deletion (dj_id row) u s1" by simp
    have "rights_inv ju st' \<and> finals_kept st st'" if inv: "rights_inv ju st"
    proof -
      from adds_deletion_sound(1) [OF row, of ju] inv have "rights_inv ju s1" "finals_kept st s1" by (simp_all add: sound_event_def)
      with submit_sound(1) [OF _ adds_deletion_sound(2) [OF row inv]] st' show ?thesis by (simp add: finals_kept_def)
    qed
    then show ?thesis by (simp add: sound_event_def)
  qed
qed

lemma accept_export:
  "keeps (sound_event ju) (bindR (wrapR f (xr_CreateJob ju u)) (\<lambda>job. then_submit (resolve_and_submit cl (ej_id job) u) (Created job)))"
proof (rule keepsI)
  fix st r st'
  assume run: "bindR (wrapR f (xr_CreateJob ju u)) (\<lambda>job. then_submit (resolve_and_submit cl (ej_id job) u) (Created job)) st = (r, st')"
  obtain r1 s1 where c: "xr_CreateJob ju u st = (r1, s1)" by (metis surj_pair)
  have st': "st' = (case r1 of Inl _ \<Rightarrow> s1 | Inr job \<Rightarrow> resolve_and_submit cl (ej_id job) u s1)"
    using run c by (auto simp: bindR_def wrapR_def then_submit_def split: sum.splits)
  show "sound_event ju st st'"
    using xr_CreateJob_cases [OF c]
  proof (elim disjE conjE exE)
    assume "isl r1" "framed {} {} st s1"
    with st' show ?thesis by (auto simp: isl_def intro: framed_sound)
  next
    fix row
    assume row: "adds_export row st s1" and "isl r1"
    with st' adds_export_sound(1) [OF row] show ?thesis by (auto simp: isl_def)
  next
    fix row
    assume row: "adds_export row st s1" and "r1 = Inr row"
    with st' have st': "st' = resolve_and_submit cl (ej_id row) u s1" by simp
    have "rights_inv ju st' \<and> finals_kept st st'" if inv: "rights_inv ju st"
    proof -
      from adds_export_sound(1) [OF row, of ju] inv have s1: "rights_inv ju s1" "finals_kept st s1" by (simp_all add: sound_event_def)
      from adds_export_sound(2) [OF row inv] resolve_and_submit_sound [OF s1(1), of row cl u] s1(2) st' show ?thesis
        using finals_kept_trans by blast
    qed
    then show ?thesis by (simp add: sound_event_def)
  qed
qed

lemma sound_requests:
  "keeps (sound_event ju) (CreateDeletionJob ju ac protected u admin password)" "keeps (sound_event ju) (CreateExportJob ju cl u)"
proof -
  note reads = frame_reads frame_uuid frame_seq frame_basic keeps_wrapR keeps_if keeps_option
  have "keeps (framed {} {}) (verifyPassword ac admin password)" "keeps (framed {} {}) (checkProtectedUsername ac protected u)"
    "keeps (framed {} {}) (checkExportConflict ju u)" "keeps (framed {} {}) (dl_GetInProgressJob ju u)"
    "keeps (framed {} {}) (xr_GetInProgressJob ju u)" "keeps (framed {} {}) (xr_GetLatestNonFailedJob ju u)"
    unfolding verifyPassword_def checkProtectedUsername_def checkExportConflict_def dl_GetInProgressJob_def xr_GetInProgressJob_def
      xr_GetLatestNonFailedJob_def
    by (intro reads)+
  note quiet = this [THEN frame_keeps]
  note seq = keeps_bindR [OF sound_basic_events(2)] keeps_basic [OF sound_basic_events(1)]
  show "keeps (sound_event ju) (CreateDeletionJob ju ac protected u admin password)"
    unfolding CreateDeletionJob_def by (intro seq keeps_if keeps_option keeps_wrapR accept_deletion quiet)
  show "keeps (sound_event ju) (CreateExportJob ju cl u)"
    unfolding CreateExportJob_def Let_def
    by (intro seq keeps_if keeps_option keeps_wrapR accept_export quiet frame_keeps [OF frame_reads(2)])
qed

text \<open>A restart: the queues begin empty and receive the jobs in progress, each once.\<close>

lemma foldl_submit_deletion:
  "foldl (\<lambda>s (i, u). submit_deletion i u s) st jobs = st\<lparr>dr_deletion_queue := dr_deletion_queue st @ jobs\<rparr>"
  by (induction jobs arbitrary: st) (auto simp: submit_deletion_def)

lemma recover_deletions_sound: "sound_event ju st (recover_deletions st)"
proof -
  let ?s = "st\<lparr>dr_deletion_queue := []\<rparr>"
  obtain r s1 where q: "dl_GetNonTerminalJobs ?s = (r, s1)" by (metis surj_pair)
  then have s1: "s1 = ?s\<lparr>dr_ticks := dr_ticks st + 1\<rparr>"
    and r: "isl r \<or> r = Inr (map (\<lambda>j. (dj_id j, dj_user j)) (filter (\<lambda>j. in_progress (dj_status j)) (dr_deletions st)))"
    by (auto simp: dl_GetNonTerminalJobs_def wrapR_def dr_read_def dr_stmt_def Let_def split: outcome.splits)
  have "rights_inv ju (recover_deletions st)" if "rights_inv ju st"
    using that r
    by (auto simp: recover_deletions_def q foldl_submit_deletion s1 rights_inv_def isl_def comp_def distinct_map_filter) fastforce+
  moreover have "finals_kept st (recover_deletions st)"
    using r by (auto simp: recover_deletions_def q foldl_submit_deletion s1 finals_kept_def isl_def)
  ultimately show ?thesis by (simp add: sound_event_def)
qed

lemma resolve_all_sound:
  assumes "rights_inv ju st" "\<forall>(i, u)\<in>set jobs. i \<notin> fst ` set (dr_export_queue st) \<and> (\<exists>x\<in>set (dr_exports st). ej_id x = i \<and> in_progress (ej_status x))"
    and "distinct (map fst jobs)"
  shows "rights_inv ju (foldl (\<lambda>s (i, u). resolve_and_submit cl i u s) st jobs)
    \<and> finals_kept st (foldl (\<lambda>s (i, u). resolve_and_submit cl i u s) st jobs)"
  using assms
proof (induction jobs arbitrary: st)
  case Nil
  then show ?case by (simp add: finals_kept_def)
next
  case (Cons q jobs)
  obtain i u where q: "q = (i, u)" by (metis surj_pair)
  from Cons.prems(2) q obtain x where x: "x \<in> set (dr_exports st)" "ej_id x = i" "in_progress (ej_status x)"
    and i: "i \<notin> fst ` set (dr_export_queue st)" by auto
  let ?s = "resolve_and_submit cl i u st"
  from resolve_and_submit_sound [OF Cons.prems(1) x(1,3), of cl u] x(2) i
  have s: "rights_inv ju ?s" "finals_kept st ?s" by simp_all
  obtain r s1 where e: "ResolveEmail cl u st = (r, s1)" by (metis surj_pair)
  then have f: "framed {} {} st s1" using framed_resolve by (metis snd_conv)
  have "\<forall>(k, v)\<in>set jobs. k \<notin> fst ` set (dr_export_queue ?s) \<and> (\<exists>x\<in>set (dr_exports ?s). ej_id x = k \<and> in_progress (ej_status x))"
  proof (clarify, intro conjI)
    fix k v
    assume kv: "(k, v) \<in> set jobs"
    with Cons.prems(2) have k: "k \<notin> fst ` set (dr_export_queue st)" "\<exists>x\<in>set (dr_exports st). ej_id x = k \<and> in_progress (ej_status x)" by auto
    from Cons.prems(3) q kv have "k \<noteq> i" by force
    with k(1) f show "k \<notin> fst ` set (dr_export_queue ?s)"
      by (auto simp: resolve_and_submit_def e submit_export_def framed_def)
    from k(2) f show "\<exists>x\<in>set (dr_exports ?s). ej_id x = k \<and> in_progress (ej_status x)"
      by (auto simp: resolve_and_submit_def e framed_def)
  qed
  with Cons.IH [OF s(1)] Cons.prems(3) s(2) finals_kept_trans show ?case by (simp add: q) blast
qed

lemma recover_exports_sound: "sound_event ju st (recover_exports cl st)"
proof -
  let ?s = "st\<lparr>dr_export_queue := []\<rparr>"
  obtain r s1 where q: "xr_GetNonTerminalJobs ?s = (r, s1)" by (metis surj_pair)
  then have s1: "s1 = ?s\<lparr>dr_ticks := dr_ticks st + 1\<rparr>"
    and r: "isl r \<or> r = Inr (map (\<lambda>j. (ej_id j, ej_user j)) (filter (\<lambda>j. in_progress (ej_status j)) (dr_exports st)))"
    by (auto simp: xr_GetNonTerminalJobs_def wrapR_def dr_read_def dr_stmt_def Let_def split: outcome.splits)
  have "rights_inv ju (recover_exports cl st) \<and> finals_kept st (recover_exports cl st)" if inv: "rights_inv ju st"
  proof -
    from inv have i1: "rights_inv ju s1" by (simp add: s1 rights_inv_def)
    have same: "finals_kept st s1" by (simp add: s1 finals_kept_def)
    from r show ?thesis
    proof
      assume "isl r"
      with q i1 same show ?thesis by (auto simp: recover_exports_def isl_def)
    next
      let ?jobs = "map (\<lambda>j. (ej_id j, ej_user j)) (filter (\<lambda>j. in_progress (ej_status j)) (dr_exports st))"
      assume "r = Inr ?jobs"
      moreover have "distinct (map fst ?jobs)" using inv by (simp add: rights_inv_def comp_def distinct_map_filter)
      moreover have "\<forall>(i, u)\<in>set ?jobs. i \<notin> fst ` set (dr_export_queue s1) \<and> (\<exists>x\<in>set (dr_exports s1). ej_id x = i \<and> in_progress (ej_status x))"
        by (auto simp: s1)
      ultimately show ?thesis using resolve_all_sound [OF i1, of ?jobs cl] q same finals_kept_trans
        by (simp add: recover_exports_def) blast
    qed
  qed
  then show ?thesis by (simp add: sound_event_def)
qed

lemma sound_handle: "sound_event (re_uuid env) st (handle env ev st)"
proof (cases ev)
  case (ExportRequest u)
  with sound_requests(2) [of "re_uuid env" "re_export env" u] show ?thesis by (simp add: handle_def keeps_def)
next
  case (DeletionRequest u admin password)
  with sound_requests(1) [of "re_uuid env" "re_auth env" "re_protected env" u admin password] show ?thesis
    by (simp add: handle_def keeps_def)
next
  case Restart
  with jobs_kept_trans [OF recover_exports_sound recover_deletions_sound] show ?thesis by (simp add: handle_def)
qed (simp_all add: handle_def sound_runs)

text \<open>
  C24: whatever happens to the data-rights service, the jobs waiting to be run are in progress and no
  job waits twice, and a job that has completed or failed keeps its row unchanged.
\<close>

theorem finished_jobs_are_final:
  assumes "rights_inv (re_uuid env) st"
  shows "rights_inv (re_uuid env) (handle_all env evs st) \<and> finals_kept st (handle_all env evs st)"
  using assms unfolding handle_all_def
proof (induction evs arbitrary: st)
  case Nil
  then show ?case by (simp add: finals_kept_def)
next
  case (Cons ev evs)
  from sound_handle [of env st ev] Cons.prems have "rights_inv (re_uuid env) (handle env ev st)" "finals_kept st (handle env ev st)"
    by (simp_all add: sound_event_def)
  with Cons.IH finals_kept_trans show ?case by (simp only: foldl_Cons) blast
qed

section \<open>The files of an export\<close>

lemma formatRow_width: "formatRow tags periods e = Inr row \<Longrightarrow> length row = length expenses_headers"
  by (auto simp: formatRow_def expenses_headers_def split: sum.splits)

lemma streamExpenses_width:
  "streamExpenses (formatRow tags periods) es ended = Inr rows \<Longrightarrow> \<forall>row\<in>set rows. length row = length expenses_headers"
  by (induction "formatRow tags periods" es ended arbitrary: rows rule: streamExpenses.induct)
    (auto split: sum.splits dest: formatRow_width)

lemma budget_rows_width: "budget_rows ps = Inr rows \<Longrightarrow> \<forall>row\<in>set rows. length row = length budget_headers"
  by (induction ps arbitrary: rows) (auto simp: budget_headers_def split: sum.splits)

lemma map_sum_Inr: "Inr y = map_sum f g r \<longleftrightarrow> (\<exists>x. r = Inr x \<and> y = g x)"
  by (cases r) auto

lemma collected_width:
  assumes "collect_all cl d u w = (rs, w')" "(n, h, Inr rows) \<in> set rs" "row \<in> set rows"
  shows "length row = length h"
proof -
  obtain prof w1 sent ended where "ec_profile cl u w = (prof, w1)" "ec_stream cl u expensesPageSize w1 = ((sent, ended), w')"
    using assms(1) by (auto simp: collect_all_def split: prod.splits)
  with assms(1) have rs: "rs = [(''profile'', profile_headers, map_sum (Wrapped ''fetching user profile'') profile_rows prof),
      (''expenses'', expenses_headers, map_sum (Wrapped ''fetching expenses'') id
         (streamExpenses (formatRow (BuildTagMap d) (BuildPeriodCurrencyMap d)) sent ended)),
      (''tags'', tags_headers, Inr (tags_rows d)), (''budget_periods'', budget_headers, budget_rows (um_periods d)),
      (''default_settings'', settings_headers, Inr (settings_rows d))]"
    by (simp add: collect_all_def)
  have tags: "row \<in> set (tags_rows d) \<Longrightarrow> length row = length tags_headers"
    by (auto simp: tags_rows_def tags_headers_def)
  have settings: "row \<in> set (settings_rows d) \<Longrightarrow> length row = length settings_headers"
    by (auto simp: settings_rows_def settings_headers_def Let_def split: option.splits)
  have profile: "row \<in> set (profile_rows p) \<Longrightarrow> length row = length profile_headers" for p
    by (simp add: profile_rows_def profile_headers_def)
  show ?thesis
    using assms(2,3) tags settings profile
    by (auto simp: rs map_sum_Inr dest: streamExpenses_width budget_rows_width [OF sym])
qed

text \<open>Every file of an archive is rectangular: each of its rows has a field for each heading.\<close>

lemma exported_files_rectangular:
  assumes "collect_all cl d u w = (rs, w')" "failed_providers rs = []" "f \<in> set (files_of rs)" "row \<in> set (cf_rows f)"
  shows "length row = length (cf_headers f)"
proof -
  from assms(3,4) obtain n h r where "(n, h, r) \<in> set rs" "cf_headers f = h" "row \<in> set (case r of Inl _ \<Rightarrow> [] | Inr rows \<Rightarrow> rows)"
    by (auto simp: files_of_def)
  then show ?thesis using collected_width [OF assms(1)] by (auto split: sum.splits)
qed

end
