(* ===== verification/Rights_Examples.thy ===== *)
theory Rights_Examples
  imports Rights_Erasure Rights_Facts Auth_Tables Services_Facts
begin

text \<open>Concrete runs of the data-rights service.\<close>

section \<open>An erasure\<close>

text \<open>Two users in every service; the first call is made but its reply is lost, so it is made again.\<close>

definition demo_platform :: "system platform" where
  "demo_platform = \<lparr>pl_finance = (demo_finance 0)\<lparr>f_periods := [(demo_period 2 ''p'')\<lparr>p_user := ''u1''\<rparr>, demo_period 3 ''q'']\<rparr>,
     pl_expense = (demo_exp (\<lambda>_. Acked))\<lparr>ledger := [(lunch 1)\<lparr>x_user := ''u1''\<rparr>, lunch 2]\<rparr>,
     pl_auth = demo_auth, pl_net = (\<lambda>n. if n = 0 then Lost else Acked), pl_sent = 0\<rparr>"

definition demo_job :: deletion_job where
  "demo_job = \<lparr>dj_id = ''d1'', dj_user = ''u1'', dj_admin = ''u0'', dj_status = StatusPending, dj_error = None,
     dj_created = demo_time, dj_completed = None, dj_updated = demo_time\<rparr>"

definition demo_rights :: "system platform rights_state" where
  "demo_rights = \<lparr>dr_exports = [], dr_deletions = [demo_job], dr_script = (\<lambda>_. Acked), dr_ticks = 0, dr_clock = (\<lambda>_. demo_time),
     dr_dbclock = (\<lambda>_. demo_time), dr_ids = (\<lambda>n. ''d'' @ show_int (int n + 2)), dr_id_next = 0, dr_deadline = (\<lambda>_. False),
     dr_export_queue = [], dr_deletion_queue = [(''d1'', ''u1'')], dr_world = demo_platform\<rparr>"

lemma demo_erasure_completes:
  "list_ex (\<lambda>j. dj_id j = ''d1'' \<and> dj_status j = StatusCompleted)
     (dr_deletions (run_deletion_job Some (deletion_registry demo_auth_pg) ''d1'' ''u1'' demo_rights))"
  by code_simp

lemma completed_deletion_erases_everywhere_witness:
  "\<exists>uid. pg_uuid demo_auth_pg ''u1'' = Some uid
    \<and> finance_erased uid (pl_finance (dr_world (run_deletion_job Some (deletion_registry demo_auth_pg) ''d1'' ''u1'' demo_rights)))
    \<and> expense_erased ''u1'' (pl_expense (dr_world (run_deletion_job Some (deletion_registry demo_auth_pg) ''d1'' ''u1'' demo_rights)))
    \<and> auth_erased uid (pl_auth (dr_world (run_deletion_job Some (deletion_registry demo_auth_pg) ''d1'' ''u1'' demo_rights)))"
proof (rule completed_deletion_erases_everywhere [where jid = "''d1''"])
  show "Some ''d1'' = Some ''d1''" by simp
  show "\<forall>j\<in>set (dr_deletions demo_rights). dj_id j = ''d1'' \<longrightarrow> dj_status j \<noteq> StatusCompleted"
    by (simp add: demo_rights_def demo_job_def)
  show "\<exists>j\<in>set (dr_deletions (run_deletion_job Some (deletion_registry demo_auth_pg) ''d1'' ''u1'' demo_rights)).
      dj_id j = ''d1'' \<and> dj_status j = StatusCompleted"
    using demo_erasure_completes by (simp add: list_ex_iff)
qed

section \<open>Events\<close>

definition demo_env :: "system platform rights_env" where
  "demo_env = \<lparr>re_uuid = Some, re_export = platform_export demo_auth_pg (\<lambda>u n s. ([], None)) (\<lambda>a z w. (None, w)),
     re_auth = platform_auth demo_pw demo_auth_pg, re_protected = [''admin''],
     re_providers = deletion_registry demo_auth_pg, re_packed = (\<lambda>z. int (length z))\<rparr>"

lemma finished_jobs_are_final_witness:
  "rights_inv Some demo_rights
     \<and> rights_inv Some (handle_all demo_env [DeletionRun 0, ExportRequest ''u2'', Restart, ExportRun 0 0] demo_rights)
     \<and> finals_kept demo_rights (handle_all demo_env [DeletionRun 0, ExportRequest ''u2'', Restart, ExportRun 0 0] demo_rights)"
proof -
  have inv: "rights_inv (re_uuid demo_env) demo_rights"
    by (simp add: rights_inv_def demo_env_def demo_rights_def demo_job_def in_progress_def)
  have "re_uuid demo_env = Some" by (simp add: demo_env_def)
  with finished_jobs_are_final [OF inv, of "[DeletionRun 0, ExportRequest ''u2'', Restart, ExportRun 0 0]"] inv show ?thesis by simp
qed

section \<open>Another spelling of an identifier\<close>

text \<open>
  Identifiers are compared as texts, but every service that parses them takes any spelling.  An
  administrator who asks to erase the own account in capitals is not refused, and when that job is
  completed the account is gone while the expenses of the user are untouched.
\<close>

definition lower_uuid :: uuid_codec where
  "lower_uuid s = Some (map lower_byte s)"

definition lower_pg :: pglib where
  "lower_pg = demo_auth_pg\<lparr>pg_uuid := lower_uuid\<rparr>"

definition spelled_rights :: "system platform rights_state" where
  "spelled_rights = demo_rights\<lparr>dr_deletions := [], dr_deletion_queue := [],
     dr_world := demo_platform\<lparr>pl_net := (\<lambda>_. Acked)\<rparr>\<rparr>"

definition spelled_after :: "system platform rights_state" where
  "spelled_after = run_deletion lower_uuid (deletion_registry lower_pg) 0
     (snd (CreateDeletionJob lower_uuid (platform_auth demo_pw lower_pg) [''admin''] ''U1'' ''u1'' ''h'' spelled_rights))"

lemma self_deletion_by_other_spelling:
  "list_all (\<lambda>j. dj_user j = dj_admin j \<and> dj_status j = StatusCompleted) (dr_deletions spelled_after)
     \<and> length (dr_deletions spelled_after) = 1 \<and> a_users (pl_auth (dr_world spelled_after)) = []
     \<and> list_ex (\<lambda>e. x_user e = ''u1'' \<and> x_name e = ''lunch'') (ledger (pl_expense (dr_world spelled_after)))"
  by code_simp

end
