(* ===== verification/Gateway_Access.thy ===== *)
theory Gateway_Access
  imports Auth_Tokens "HOL-Library.List_Lexorder" "HOL-Library.Char_ord"
begin

text \<open>
  The routes the gateway exposes and who may reach them (\<^verbatim>\<open>services/access\<close>), and the gateway that
  enforces it (\<^verbatim>\<open>gateway/internal/access/control.go\<close>, \<^verbatim>\<open>gateway/cmd/grpc_validator.go\<close>) and
  forwards to the services (\<^verbatim>\<open>gateway/internal/router\<close>, \<^verbatim>\<open>gateway/internal/readiness\<close>).
\<close>

section \<open>Routes and levels\<close>

datatype level = Public | Authenticated | Personal | Admin | Deny

fun level_name :: "level \<Rightarrow> string" where
  "level_name Public = ''Public''"
| "level_name Authenticated = ''Authenticated''"
| "level_name Personal = ''Personal''"
| "level_name Admin = ''Admin''"
| "level_name Deny = ''Deny''"

datatype route = Route (rt_id: string) (rt_service: string) (rt_method: string) (rt_path: string) (rt_access: level)

definition route_registry :: "route list" where
  "route_registry = [
    Route ''auth.register'' ''auth'' ''POST'' ''/api/auth/register'' Public,
    Route ''auth.login'' ''auth'' ''POST'' ''/api/auth/login'' Public,
    Route ''auth.refresh'' ''auth'' ''POST'' ''/api/auth/refresh'' Public,
    Route ''auth.logout'' ''auth'' ''POST'' ''/api/auth/logout'' Authenticated,
    Route ''auth.me.get'' ''auth'' ''GET'' ''/api/auth/me'' Authenticated,
    Route ''auth.me.update'' ''auth'' ''PUT'' ''/api/auth/me'' Authenticated,
    Route ''auth.me.password'' ''auth'' ''POST'' ''/api/auth/me/password'' Authenticated,
    Route ''auth.onboarding_complete'' ''auth'' ''POST'' ''/api/auth/onboarding-complete'' Personal,
    Route ''auth.assume'' ''auth'' ''POST'' ''/api/auth/assume'' Admin,
    Route ''auth.restore'' ''auth'' ''POST'' ''/api/auth/restore'' Authenticated,
    Route ''admin.users.list'' ''auth'' ''GET'' ''/api/admin/users'' Admin,
    Route ''finance.onboarding'' ''finance'' ''POST'' ''/api/finance/onboarding'' Personal,
    Route ''finance.defaults.get'' ''finance'' ''GET'' ''/api/finance/defaults'' Personal,
    Route ''finance.currencies.list'' ''finance'' ''GET'' ''/api/finance/currencies'' Authenticated,
    Route ''finance.defaults.update'' ''finance'' ''PUT'' ''/api/finance/defaults'' Personal,
    Route ''finance.periods.current'' ''finance'' ''GET'' ''/api/finance/periods/current'' Personal,
    Route ''finance.periods.list'' ''finance'' ''GET'' ''/api/finance/periods'' Personal,
    Route ''finance.periods.create'' ''finance'' ''POST'' ''/api/finance/periods'' Personal,
    Route ''finance.periods.update'' ''finance'' ''PUT'' ''/api/finance/periods/:id'' Personal,
    Route ''finance.tags.list'' ''finance'' ''GET'' ''/api/finance/tags'' Personal,
    Route ''finance.tags.create'' ''finance'' ''POST'' ''/api/finance/tags'' Personal,
    Route ''finance.tags.update'' ''finance'' ''PUT'' ''/api/finance/tags/:id'' Personal,
    Route ''finance.tags.delete'' ''finance'' ''DELETE'' ''/api/finance/tags/:id'' Personal,
    Route ''finance.summary'' ''finance'' ''GET'' ''/api/finance/summary'' Personal,
    Route ''finance.spending.by_tag'' ''finance'' ''GET'' ''/api/finance/spending/by-tag'' Personal,
    Route ''finance.spending.cumulative'' ''finance'' ''GET'' ''/api/finance/spending/cumulative'' Personal,
    Route ''finance.spending.comparison'' ''finance'' ''GET'' ''/api/finance/spending/comparison'' Personal,
    Route ''finance.spending.trends'' ''finance'' ''GET'' ''/api/finance/spending/trends'' Personal,
    Route ''finance.prorata.create'' ''finance'' ''POST'' ''/api/finance/prorata'' Personal,
    Route ''finance.prorata.upcoming'' ''finance'' ''GET'' ''/api/finance/prorata/upcoming'' Personal,
    Route ''finance.health_score'' ''finance'' ''GET'' ''/api/finance/health-score'' Personal,
    Route ''finance.health_score.trend'' ''finance'' ''GET'' ''/api/finance/health-score/trend'' Personal,
    Route ''expense.create'' ''expense'' ''POST'' ''/api/expenses'' Personal,
    Route ''expense.list'' ''expense'' ''GET'' ''/api/expenses'' Personal,
    Route ''expense.suggestions'' ''expense'' ''GET'' ''/api/expenses/suggestions'' Personal,
    Route ''expense.prorata.group'' ''expense'' ''GET'' ''/api/expenses/prorata/:groupId'' Personal,
    Route ''expense.get'' ''expense'' ''GET'' ''/api/expenses/:id'' Personal,
    Route ''expense.correct'' ''expense'' ''POST'' ''/api/expenses/:id/correct'' Personal,
    Route ''expense.delete'' ''expense'' ''DELETE'' ''/api/expenses/:id'' Personal,
    Route ''expense.history'' ''expense'' ''GET'' ''/api/expenses/:id/history'' Personal,
    Route ''datarights.exports.create'' ''datarights'' ''POST'' ''/api/datarights/exports'' Personal,
    Route ''datarights.exports.list'' ''datarights'' ''GET'' ''/api/datarights/exports'' Personal,
    Route ''datarights.exports.get'' ''datarights'' ''GET'' ''/api/datarights/exports/:id'' Personal,
    Route ''datarights.deletions.create'' ''datarights'' ''POST'' ''/api/datarights/deletions'' Admin,
    Route ''datarights.deletions.get'' ''datarights'' ''GET'' ''/api/datarights/deletions/:id'' Admin]"

definition RoutesFor :: "string \<Rightarrow> route list" where
  "RoutesFor service = filter (\<lambda>r. rt_service r = service) route_registry"

definition RouteID :: "string \<Rightarrow> string \<Rightarrow> string" where
  "RouteID verb pattern =
     (case find_first (\<lambda>r. rt_method r = verb \<and> rt_path r = pattern) route_registry of None \<Rightarrow> [] | Some r \<Rightarrow> rt_id r)"

section \<open>The resolver\<close>

text \<open>\<^verbatim>\<open>strings.Split(s, "/")\<close>: never the empty list.\<close>

fun split_slash :: "string \<Rightarrow> string list" where
  "split_slash [] = [[]]"
| "split_slash (c # cs) = (if c = CHR ''/'' then [] # split_slash cs
     else case split_slash cs of [] \<Rightarrow> [[c]] | w # ws \<Rightarrow> (c # w) # ws)"

definition segmentClass :: "string \<Rightarrow> nat" where
  "segmentClass seg = (if has_prefix ''*'' seg then 0 else if has_prefix '':'' seg then 1 else 2)"

fun segments_match :: "string list \<Rightarrow> string list \<Rightarrow> bool" where
  "segments_match [] path = (path = [])"
| "segments_match (seg # rest) path =
     (if has_prefix ''*'' seg then path \<noteq> []
      else case path of
             [] \<Rightarrow> False
           | p # ps \<Rightarrow>
               if has_prefix '':'' seg then p \<noteq> [] \<and> segments_match rest ps
               else seg = p \<and> segments_match rest ps)"

definition matchPattern :: "string \<Rightarrow> string \<Rightarrow> bool" where
  "matchPattern pattern path = segments_match (split_slash pattern) (split_slash path)"

fun outranks :: "string list \<Rightarrow> string list \<Rightarrow> bool" where
  "outranks (a # as) (b # bs) =
     (if segmentClass a \<noteq> segmentClass b then segmentClass a > segmentClass b else outranks as bs)"
| "outranks as bs = (length as > length bs)"

definition moreSpecific :: "string \<Rightarrow> string \<Rightarrow> bool" where
  "moreSpecific a b = outranks (split_slash a) (split_slash b)"

definition better_route :: "string \<Rightarrow> string \<Rightarrow> route option \<Rightarrow> route \<Rightarrow> route option" where
  "better_route verb path best entry =
     (if rt_method entry \<noteq> verb \<or> \<not> matchPattern (rt_path entry) path then best
      else case best of
             None \<Rightarrow> Some entry
           | Some b \<Rightarrow> if moreSpecific (rt_path entry) (rt_path b) then Some entry else best)"

definition Resolve :: "string \<Rightarrow> string \<Rightarrow> level" where
  "Resolve verb path = (case foldl (better_route verb path) None route_registry of None \<Rightarrow> Deny | Some r \<Rightarrow> rt_access r)"

definition GatewayResolve :: "string \<Rightarrow> string \<Rightarrow> level" where
  "GatewayResolve verb path =
     (if path = ''/health'' \<or> path = ''/metrics'' \<or> path = ''/readyz'' then Public else Resolve verb path)"

section \<open>Registration\<close>

text \<open>A service binds its handlers by the identifiers of its routes; a route without a handler panics (\<open>None\<close>).\<close>

fun bind_routes :: "(string \<Rightarrow> 'h option) \<Rightarrow> route list \<Rightarrow> (string \<times> string \<times> 'h) list option" where
  "bind_routes handlers [] = Some []"
| "bind_routes handlers (r # rs) =
     (case handlers (rt_id r) of
        None \<Rightarrow> None
      | Some h \<Rightarrow> map_option (\<lambda>bound. (rt_method r, rt_path r, h) # bound) (bind_routes handlers rs))"

definition BindRoutes :: "string \<Rightarrow> (string \<Rightarrow> 'h option) \<Rightarrow> (string \<times> string \<times> 'h) list option" where
  "BindRoutes service handlers = bind_routes handlers (RoutesFor service)"

definition route_names :: "(string \<times> string) list \<Rightarrow> string list" where
  "route_names rs = sort (map (\<lambda>(verb, path). verb @ '' '' @ path) rs)"

fun join_comma :: "string list \<Rightarrow> string" where
  "join_comma [] = []"
| "join_comma [w] = w"
| "join_comma (w # ws) = w @ '', '' @ join_comma ws"

definition VerifyRegistration :: "golib \<Rightarrow> string \<Rightarrow> (string \<times> string) list \<Rightarrow> string option" where
  "VerifyRegistration lib service registered =
     (let want = map (\<lambda>r. (rt_method r, rt_path r)) (RoutesFor service);
          extra = route_names (filter (\<lambda>r. has_prefix ''/api/'' (snd r) \<and> r \<notin> set want) registered);
          missing = route_names (filter (\<lambda>r. r \<notin> set registered) want)
      in if extra = [] \<and> missing = [] then None
         else Some (''service '' @ go_quote lib service @ '' routes diverge from the services/access Registry''
           @ (if extra = [] then []
              else CHR 0x0A # ''  registered but not in the Registry (add an entry with an Access level, or remove the route): '' @ join_comma extra)
           @ (if missing = [] then []
              else CHR 0x0A # ''  in the Registry but not registered (bind a handler by ID): '' @ join_comma missing)))"

section \<open>Access control\<close>

text \<open>
  A request as the framework hands it to the middleware: its headers in the order they came, under
  the names the standard library gives them, and the access cookie.
\<close>

record gw_request =
  gr_method :: string
  gr_path :: string
  gr_headers :: "(string \<times> string) list"
  gr_cookie :: "string option"

text \<open>\<^verbatim>\<open>http.Header\<close> files a header under its canonical name: the first letter and every letter after a
  hyphen in upper case, the others in lower case.\<close>

fun canonical_from :: "bool \<Rightarrow> string \<Rightarrow> string" where
  "canonical_from up [] = []"
| "canonical_from up (c # cs) = (if up then upper_byte c else lower_byte c) # canonical_from (c = CHR ''-'') cs"

definition canonical :: "string \<Rightarrow> string" where
  "canonical k = canonical_from True k"

definition header_del :: "string \<Rightarrow> (string \<times> string) list \<Rightarrow> (string \<times> string) list" where
  "header_del k hs = filter (\<lambda>h. fst h \<noteq> canonical k) hs"

definition header_set :: "string \<Rightarrow> string \<Rightarrow> (string \<times> string) list \<Rightarrow> (string \<times> string) list" where
  "header_set k v hs = header_del k hs @ [(canonical k, v)]"

definition header_values :: "string \<Rightarrow> (string \<times> string) list \<Rightarrow> string list" where
  "header_values k hs = map snd (filter (\<lambda>h. fst h = canonical k) hs)"

abbreviation headerUserID :: string where "headerUserID \<equiv> ''X-User-ID''"
abbreviation headerUserRole :: string where "headerUserRole \<equiv> ''X-User-Role''"
abbreviation headerAssumedBy :: string where "headerAssumedBy \<equiv> ''X-Assumed-By''"

definition roleUser :: string where "roleUser = ''user''"
definition roleAdmin :: string where "roleAdmin = ''admin''"

record validation =
  tv_user :: string
  tv_role :: string
  tv_assumed :: string

definition stripIdentityHeaders :: "gw_request \<Rightarrow> gw_request" where
  "stripIdentityHeaders r =
     r\<lparr>gr_headers := header_del headerAssumedBy (header_del headerUserRole (header_del headerUserID (gr_headers r)))\<rparr>"

definition setIdentityHeaders :: "validation \<Rightarrow> gw_request \<Rightarrow> gw_request" where
  "setIdentityHeaders v r =
     (let hs = header_set headerUserRole (tv_role v) (header_set headerUserID (tv_user v) (gr_headers r))
      in r\<lparr>gr_headers := (if tv_assumed v = [] then hs else header_set headerAssumedBy (tv_assumed v) hs)\<rparr>)"

fun is_deadline :: "goerr \<Rightarrow> bool" where
  "is_deadline DeadlineExceeded = True"
| "is_deadline (Wrapped m e) = is_deadline e"
| "is_deadline (FxConversion e t r) = is_deadline e"
| "is_deadline _ = False"

definition isValidationTimeout :: "goerr \<Rightarrow> bool" where
  "isValidationTimeout err \<longleftrightarrow> is_deadline err \<or> map_option fst (as_grpc err) = Some GDeadlineExceeded"

datatype gw_outcome = Passed gw_request | Aborted "unit http_response"

definition abortUnauthorized :: "string \<Rightarrow> gw_outcome" where
  "abortUnauthorized msg = Aborted (problem (Api (Unauthorized msg)))"

definition abortUnavailable :: gw_outcome where
  "abortUnavailable = Aborted (problem (Api \<lparr>ae_code = ''SERVICE_UNAVAILABLE'',
     ae_msg = ''Authentication service unavailable'', ae_status = 503, ae_fields = []\<rparr>))"

definition writeForbidden :: gw_outcome where
  "writeForbidden = Aborted (problem (Api \<lparr>ae_code = code_forbidden, ae_msg = ''Access denied'', ae_status = 403, ae_fields = []\<rparr>))"

definition role_check :: "level \<Rightarrow> validation \<Rightarrow> bool" where
  "role_check lv v = (case lv of Personal \<Rightarrow> tv_role v = roleUser | Admin \<Rightarrow> tv_role v = roleAdmin | Authenticated \<Rightarrow> True | _ \<Rightarrow> False)"

definition AccessControl :: "(string \<Rightarrow> ('w, goerr, validation) op) \<Rightarrow> (string \<Rightarrow> string \<Rightarrow> level)
    \<Rightarrow> gw_request \<Rightarrow> 'w \<Rightarrow> gw_outcome \<times> 'w" where
  "AccessControl validate resolve r0 w =
     (let r = stripIdentityHeaders r0; lv = resolve (gr_method r) (gr_path r)
      in if lv = Public then (Passed r, w)
         else if lv = Deny then (writeForbidden, w)
         else case gr_cookie r of
                None \<Rightarrow> (abortUnauthorized ''Authentication required'', w)
              | Some t \<Rightarrow>
                  if t = [] then (abortUnauthorized ''Authentication required'', w)
                  else case validate t w of
                         (Inl e, w') \<Rightarrow>
                           (if isValidationTimeout e then abortUnavailable else abortUnauthorized ''Invalid or expired token'', w')
                       | (Inr v, w') \<Rightarrow>
                           (if role_check lv v then Passed (setIdentityHeaders v r) else writeForbidden, w'))"

text \<open>The validator of the gateway: a call to the auth service that is bounded by a time.\<close>

definition GRPCTokenValidator :: "(string \<Rightarrow> ('w, goerr, identity) op) \<Rightarrow> string \<Rightarrow> ('w, goerr, validation) op" where
  "GRPCTokenValidator client t =
     bindR (wrapR (Wrapped ''auth service validation failed'') (client t)) (\<lambda>i.
     retR \<lparr>tv_user = id_user i, tv_role = id_role i, tv_assumed = id_assumed i\<rparr>)"

text \<open>
  The auth service behind the network: a call may be refused, or run and miss the deadline of the
  caller.
\<close>

record gateway_state =
  gs_auth :: auth_state
  gs_net :: "nat \<Rightarrow> outcome"
  gs_sent :: nat

definition validate_rpc :: "jwt_lib \<Rightarrow> pglib \<Rightarrow> auth_config \<Rightarrow> string \<Rightarrow> (gateway_state, goerr, identity) op" where
  "validate_rpc J pg cfg t w =
     (let w' = w\<lparr>gs_sent := gs_sent w + 1\<rparr>; (r, a) = agrpc_ValidateToken J pg cfg t (gs_auth w)
      in case gs_net w (gs_sent w) of
           Acked \<Rightarrow> (r, w'\<lparr>gs_auth := a\<rparr>)
         | Refused \<Rightarrow> (Inl (GrpcStatus GUnavailable ''transport is closing''), w')
         | Lost \<Rightarrow> (Inl (GrpcStatus GDeadlineExceeded ''context deadline exceeded''), w'\<lparr>gs_auth := a\<rparr>))"

section \<open>Routing\<close>

datatype proxy_prefix = Prefix (pp_prefix: string) (pp_service: string)

definition proxyPrefixes :: "proxy_prefix list" where
  "proxyPrefixes =
     [Prefix ''/api/auth'' ''auth'', Prefix ''/api/admin'' ''auth'', Prefix ''/api/expenses'' ''expense'',
      Prefix ''/api/finance'' ''finance'', Prefix ''/api/datarights'' ''datarights'']"

definition Prefixes :: "proxy_prefix list" where
  "Prefixes = proxyPrefixes"

text \<open>The group of a prefix takes the prefix itself and everything below it.\<close>

definition proxied_to :: "proxy_prefix list \<Rightarrow> string \<Rightarrow> string option" where
  "proxied_to ps path = map_option pp_service
     (find_first (\<lambda>p. path = pp_prefix p \<or> has_prefix (pp_prefix p @ ''/'') path) ps)"

text \<open>
  What becomes of a request: it reaches a service, the gateway's own endpoint, or nothing, and
  otherwise the middleware has answered.
\<close>

datatype gw_result = Reaches string gw_request | OwnEndpoint string | NoRoute | Answered "unit http_response"

definition gw_dispatch :: "gw_request \<Rightarrow> gw_result" where
  "gw_dispatch r =
     (if gr_method r = ''GET'' \<and> gr_path r \<in> {''/health'', ''/metrics'', ''/readyz''} then OwnEndpoint (gr_path r)
      else case proxied_to Prefixes (gr_path r) of None \<Rightarrow> NoRoute | Some service \<Rightarrow> Reaches service r)"

definition gateway :: "(string \<Rightarrow> ('w, goerr, identity) op) \<Rightarrow> gw_request \<Rightarrow> 'w \<Rightarrow> gw_result \<times> 'w" where
  "gateway client r w =
     (case AccessControl (GRPCTokenValidator client) GatewayResolve r w of
        (Aborted p, w') \<Rightarrow> (Answered p, w')
      | (Passed r', w') \<Rightarrow> (gw_dispatch r', w'))"

section \<open>Readiness\<close>

text \<open>What a probe of \<^verbatim>\<open>/health\<close> brings: the status of the response, or no response in time.\<close>

definition probe_status :: "int option \<Rightarrow> string \<times> bool" where
  "probe_status response =
     (case response of
        None \<Rightarrow> (''unreachable'', False)
      | Some code \<Rightarrow> if code = 200 then (''ok'', True) else (''status_'' @ show_int code, False))"

definition readiness_check :: "(string \<Rightarrow> int option) \<Rightarrow> string list \<Rightarrow> bool \<times> (string \<times> string) list" where
  "readiness_check respond services =
     (list_all (\<lambda>s. snd (probe_status (respond s))) services, map (\<lambda>s. (s, fst (probe_status (respond s)))) services)"

definition readiness_handler :: "(string \<Rightarrow> int option) \<Rightarrow> string list \<Rightarrow> int \<times> (string \<times> string) list" where
  "readiness_handler respond services =
     (case readiness_check respond services of (healthy, statuses) \<Rightarrow> if healthy then (200, []) else (503, statuses))"

end
