(* ===== verification/Gateway_Facts.thy ===== *)
theory Gateway_Facts
  imports Gateway_Access
begin

text \<open>
  The resolver agrees with the registry wherever patterns overlap, and a request that the gateway
  lets through carries the identity the auth service vouches for, with the role its route asks for.
\<close>

section \<open>Splitting paths\<close>

fun join_slash :: "string list \<Rightarrow> string" where
  "join_slash [] = []"
| "join_slash [w] = w"
| "join_slash (w # v # ws) = w @ CHR ''/'' # join_slash (v # ws)"

lemma split_slash_Cons: "\<exists>w ws. split_slash s = w # ws"
  by (induction s) (auto split: list.split)

lemma join_split: "join_slash (split_slash s) = s"
proof (induction s)
  case (Cons c cs)
  obtain w ws where "split_slash cs = w # ws" using split_slash_Cons by blast
  with Cons show ?case by (cases ws) auto
qed simp

section \<open>Patterns that overlap\<close>

fun may_overlap :: "string list \<Rightarrow> string list \<Rightarrow> bool" where
  "may_overlap [] [] = True"
| "may_overlap (a # as) (b # bs) =
     (has_prefix ''*'' a \<or> has_prefix ''*'' b \<or> (has_prefix '':'' a \<or> has_prefix '':'' b \<or> a = b) \<and> may_overlap as bs)"
| "may_overlap _ _ = False"

lemma both_match_overlap: "segments_match as path \<Longrightarrow> segments_match bs path \<Longrightarrow> may_overlap as bs"
proof (induction as bs arbitrary: path rule: may_overlap.induct)
  case (2 a as b bs)
  show ?case
  proof (cases "has_prefix ''*'' a \<or> has_prefix ''*'' b")
    case True
    then show ?thesis by auto
  next
    case False
    with "2.prems" obtain p ps where "path = p # ps" "segments_match as ps" "segments_match bs ps"
        "has_prefix '':'' a \<or> has_prefix '':'' b \<or> a = b"
      by (auto split: list.splits if_splits)
    with "2.IH" False show ?thesis by simp
  qed
qed (auto split: if_splits list.splits)

definition levels_agree :: "route list \<Rightarrow> bool" where
  "levels_agree rs \<longleftrightarrow> list_all (\<lambda>(r, s). list_all (\<lambda>(r', s').
     rt_access r = rt_access r' \<or> rt_method r \<noteq> rt_method r' \<or> \<not> may_overlap s s') (map (\<lambda>r. (r, split_slash (rt_path r))) rs))
     (map (\<lambda>r. (r, split_slash (rt_path r))) rs)"

lemma registry_levels_agree: "levels_agree route_registry"
  by code_simp

lemma levels_agreeD:
  assumes "levels_agree rs" "r \<in> set rs" "r' \<in> set rs" "rt_method r = rt_method r'"
    and "matchPattern (rt_path r) path" "matchPattern (rt_path r') path"
  shows "rt_access r = rt_access r'"
  using assms both_match_overlap by (fastforce simp: levels_agree_def list_all_iff matchPattern_def)

lemma three_segments:
  obtains "ws = []" | a where "ws = [a]" | a b where "ws = [a, b]" | a b c rest where "ws = a # b # c # rest"
  by (metis list.exhaust)

definition prefixes_agree :: "route list \<Rightarrow> bool" where
  "prefixes_agree rs \<longleftrightarrow> list_all (\<lambda>r. case split_slash (rt_path r) of
     a # b # c # _ \<Rightarrow> a = [] \<and> b = ''api'' \<and> \<not> has_prefix ''*'' c \<and> \<not> has_prefix '':'' c
       \<and> (c, rt_service r) \<in> {(''auth'', ''auth''), (''admin'', ''auth''), (''expenses'', ''expense''), (''finance'', ''finance''),
            (''datarights'', ''datarights'')}
   | _ \<Rightarrow> False) rs"

lemma registry_prefixes_agree: "prefixes_agree route_registry"
  by code_simp

lemma below_prefix:
  assumes "split_slash path = [] # ''api'' # c # rest"
    and "(c, svc) \<in> {(''auth'', ''auth''), (''admin'', ''auth''), (''expenses'', ''expense''), (''finance'', ''finance''),
            (''datarights'', ''datarights'')}"
  shows "proxied_to Prefixes path = Some svc"
proof -
  have path: "path = ''/api/'' @ c @ (if rest = [] then [] else CHR ''/'' # join_slash rest)"
    using join_split [of path] assms(1) by (cases rest) simp_all
  show ?thesis
    using assms(2) unfolding path
    by (cases "rest = []"; elim insertE emptyE;
      simp add: proxied_to_def Prefixes_def proxyPrefixes_def find_first_def has_prefix_def)
qed

lemma matched_prefix:
  assumes "prefixes_agree rs" "r \<in> set rs" "matchPattern (rt_path r) path"
  shows "proxied_to Prefixes path = Some (rt_service r)"
proof -
  from assms(1,2) obtain c as where pat: "split_slash (rt_path r) = [] # ''api'' # c # as" "\<not> has_prefix ''*'' c" "\<not> has_prefix '':'' c"
    and c: "(c, rt_service r) \<in> {(''auth'', ''auth''), (''admin'', ''auth''), (''expenses'', ''expense''), (''finance'', ''finance''),
            (''datarights'', ''datarights'')}"
    by (cases "split_slash (rt_path r)" rule: three_segments) (auto simp: prefixes_agree_def list_all_iff)
  have "\<not> has_prefix ''*'' [] \<and> \<not> has_prefix '':'' [] \<and> \<not> has_prefix ''*'' ''api'' \<and> \<not> has_prefix '':'' ''api''"
    by (simp add: has_prefix_def)
  with assms(3) pat obtain rest where "split_slash path = [] # ''api'' # c # rest"
    by (auto simp: matchPattern_def split: list.splits if_splits)
  from below_prefix [OF this c] show ?thesis .
qed

lemma best_route:
  "(case foldl (better_route verb path) b rs of
      None \<Rightarrow> b = None \<and> (\<forall>r\<in>set rs. rt_method r = verb \<longrightarrow> \<not> matchPattern (rt_path r) path)
    | Some r \<Rightarrow> b = Some r \<or> r \<in> set rs \<and> rt_method r = verb \<and> matchPattern (rt_path r) path)"
proof (induction rs arbitrary: b)
  case (Cons r rs)
  from Cons [of "better_route verb path b r"] show ?case
    by (auto simp: better_route_def split: option.splits if_splits)
qed (simp split: option.split)

lemma resolved:
  "(Resolve verb path = Deny \<longrightarrow> (\<forall>r\<in>set route_registry. rt_method r = verb \<longrightarrow> \<not> matchPattern (rt_path r) path \<or> rt_access r = Deny))
   \<and> (Resolve verb path \<noteq> Deny \<longrightarrow>
        (\<exists>r\<in>set route_registry. rt_method r = verb \<and> matchPattern (rt_path r) path \<and> Resolve verb path = rt_access r))"
proof (cases "foldl (better_route verb path) None route_registry")
  case None
  with best_route [where verb = verb and path = path and b = None and rs = route_registry]
  have "Resolve verb path = Deny" "\<forall>r\<in>set route_registry. rt_method r = verb \<longrightarrow> \<not> matchPattern (rt_path r) path"
    by (simp_all add: Resolve_def)
  then show ?thesis by blast
next
  case (Some s)
  with best_route [where verb = verb and path = path and b = None and rs = route_registry]
  have s: "s \<in> set route_registry" "rt_method s = verb" "matchPattern (rt_path s) path" "Resolve verb path = rt_access s"
    by (simp_all add: Resolve_def)
  have "rt_access r = Resolve verb path" if "r \<in> set route_registry" "rt_method r = verb" "matchPattern (rt_path r) path" for r
    using levels_agreeD [OF registry_levels_agree that(1) s(1)] that s by metis
  with s show ?thesis by metis
qed

lemma resolved_own:
  assumes "r \<in> set route_registry" "matchPattern (rt_path r) path"
  shows "Resolve (rt_method r) path = rt_access r"
proof (cases "Resolve (rt_method r) path = Deny")
  case True
  with resolved [of "rt_method r" path] assms show ?thesis by metis
next
  case False
  with resolved [of "rt_method r" path] obtain s where s: "s \<in> set route_registry" "rt_method s = rt_method r"
      "matchPattern (rt_path s) path" "Resolve (rt_method r) path = rt_access s" by metis
  with levels_agreeD [OF registry_levels_agree assms(1) s(1) _ assms(2) s(3)] show ?thesis by metis
qed

text \<open>
  C23: a request that a registered route matches is classified with the level that route declares,
  whichever of the overlapping patterns the router would prefer, and is forwarded to the service that
  registers the route; a request that no route of its method matches is denied.
\<close>

theorem routes_keep_their_level:
  "(\<forall>r. r \<in> set route_registry \<and> matchPattern (rt_path r) path
      \<longrightarrow> Resolve (rt_method r) path = rt_access r \<and> proxied_to Prefixes path = Some (rt_service r))
   \<and> (Resolve verb path \<noteq> Deny \<longrightarrow> (\<exists>r. r \<in> set route_registry \<and> rt_method r = verb \<and> matchPattern (rt_path r) path))"
proof (intro conjI allI impI)
  fix r
  assume r: "r \<in> set route_registry \<and> matchPattern (rt_path r) path"
  show "proxied_to Prefixes path = Some (rt_service r)"
    using matched_prefix [OF registry_prefixes_agree] r by blast
  show "Resolve (rt_method r) path = rt_access r"
    using resolved_own r by blast
next
  assume "Resolve verb path \<noteq> Deny"
  then show "\<exists>r. r \<in> set route_registry \<and> rt_method r = verb \<and> matchPattern (rt_path r) path"
    using resolved [of verb path] by metis
qed

lemma routes_keep_their_level_witness:
  "Resolve ''PUT'' ''/api/finance/tags/42'' = Personal \<and> proxied_to Prefixes ''/api/finance/tags/42'' = Some ''finance''
   \<and> (\<exists>r. r \<in> set route_registry \<and> rt_method r = ''PUT'' \<and> matchPattern (rt_path r) ''/api/finance/tags/42'')"
proof -
  let ?r = "Route ''finance.tags.update'' ''finance'' ''PUT'' ''/api/finance/tags/:id'' Personal"
  have "?r \<in> set route_registry" by (simp add: route_registry_def)
  moreover have "matchPattern (rt_path ?r) ''/api/finance/tags/42''" by code_simp
  ultimately have "Resolve (rt_method ?r) ''/api/finance/tags/42'' = rt_access ?r
      \<and> proxied_to Prefixes ''/api/finance/tags/42'' = Some (rt_service ?r)"
    using routes_keep_their_level [of "''/api/finance/tags/42''" "''PUT''"] by blast
  then have "Resolve ''PUT'' ''/api/finance/tags/42'' = Personal" "proxied_to Prefixes ''/api/finance/tags/42'' = Some ''finance''"
    by simp_all
  moreover from this(1) have "\<exists>r. r \<in> set route_registry \<and> rt_method r = ''PUT'' \<and> matchPattern (rt_path r) ''/api/finance/tags/42''"
    using routes_keep_their_level [of "''/api/finance/tags/42''" "''PUT''"] by simp
  ultimately show ?thesis by blast
qed

section \<open>Headers\<close>

lemma header_names [simp]:
  "canonical headerUserID = ''X-User-Id''" "canonical headerUserRole = ''X-User-Role''" "canonical headerAssumedBy = ''X-Assumed-By''"
  by code_simp+

lemma header_values_del [simp]:
  "header_values k (header_del k' hs) = (if canonical k = canonical k' then [] else header_values k hs)"
  by (auto simp: header_values_def header_del_def filter_empty_conv intro!: arg_cong [of _ _ "map snd"] filter_cong)

lemma header_values_set [simp]:
  "header_values k (header_set k' v hs) = (if canonical k = canonical k' then [v] else header_values k hs)"
proof -
  have "header_values k (header_set k' v hs) = header_values k (header_del k' hs) @ (if canonical k = canonical k' then [v] else [])"
    by (simp add: header_set_def header_values_def)
  then show ?thesis by simp
qed

definition identity_headers :: "gw_request \<Rightarrow> string list \<times> string list \<times> string list" where
  "identity_headers r =
     (header_values headerUserID (gr_headers r), header_values headerUserRole (gr_headers r), header_values headerAssumedBy (gr_headers r))"

lemma identity_stripped [simp]: "identity_headers (stripIdentityHeaders r) = ([], [], [])"
  by (simp add: identity_headers_def stripIdentityHeaders_def)

lemma identity_set [simp]:
  "identity_headers (setIdentityHeaders v (stripIdentityHeaders r))
     = ([tv_user v], [tv_role v], if tv_assumed v = [] then [] else [tv_assumed v])"
  by (simp add: identity_headers_def stripIdentityHeaders_def setIdentityHeaders_def Let_def)

lemma request_kept [simp]:
  "gr_method (stripIdentityHeaders r) = gr_method r" "gr_path (stripIdentityHeaders r) = gr_path r"
  "gr_cookie (stripIdentityHeaders r) = gr_cookie r" "gr_method (setIdentityHeaders v r) = gr_method r"
  "gr_path (setIdentityHeaders v r) = gr_path r" "gr_cookie (setIdentityHeaders v r) = gr_cookie r"
  by (simp_all add: stripIdentityHeaders_def setIdentityHeaders_def Let_def)

lemma role_check_iff:
  "role_check lv v \<longleftrightarrow> tv_role v = ''user'' \<and> lv = Personal \<or> tv_role v = ''admin'' \<and> lv = Admin \<or> lv = Authenticated"
  by (cases lv) (simp_all add: role_check_def roleUser_def roleAdmin_def)

section \<open>The validator of tokens\<close>

text \<open>What the middleware needs of the service that validates tokens: what it accepts, it vouches for.\<close>

locale token_validator =
  fixes validate :: "string \<Rightarrow> ('w, goerr, validation) op"
    and vouched :: "string \<Rightarrow> validation \<Rightarrow> 'w \<Rightarrow> bool"
  assumes vouches: "validate t w = (Inr v, w') \<Longrightarrow> vouched t v w"
begin

lemma passed:
  assumes "AccessControl validate resolve r w = (Passed r', w')"
  shows "resolve (gr_method r) (gr_path r) = Public \<and> r' = stripIdentityHeaders r
    \<or> (\<exists>t v. gr_cookie r = Some t \<and> vouched t v w \<and> role_check (resolve (gr_method r) (gr_path r)) v
         \<and> r' = setIdentityHeaders v (stripIdentityHeaders r))"
  using assms vouches
  by (fastforce simp: AccessControl_def Let_def writeForbidden_def abortUnauthorized_def abortUnavailable_def
    split: if_splits option.splits prod.splits sum.splits)

end

definition vouched_by :: "jwt_lib \<Rightarrow> pglib \<Rightarrow> auth_config \<Rightarrow> string \<Rightarrow> validation \<Rightarrow> gateway_state \<Rightarrow> bool" where
  "vouched_by J pg cfg t v w \<longleftrightarrow>
     (\<exists>c. jl_parse J (ac_secret cfg) (a_clock (gs_auth w) (a_ticks (gs_auth w))) t = Some c
        \<and> v = \<lparr>tv_user = cl_sub c, tv_role = cl_role c, tv_assumed = cl_assumed c\<rparr>
        \<and> (\<forall>u row. pg_uuid pg (cl_sub c) = Some u \<and> find_first (\<lambda>x. u_id x = u) (a_users (gs_auth w)) = Some row
             \<longrightarrow> \<not> revoked_since (u_revoked row) c))"

lemma validated_token:
  assumes "ValidateToken J pg cfg t s = (Inr i, s')"
  shows "\<exists>c. jl_parse J (ac_secret cfg) (a_clock s (a_ticks s)) t = Some c
    \<and> i = \<lparr>id_user = cl_sub c, id_role = cl_role c, id_username = cl_username c, id_assumed = cl_assumed c\<rparr>
    \<and> (\<forall>u row. pg_uuid pg (cl_sub c) = Some u \<and> find_first (\<lambda>x. u_id x = u) (a_users s) = Some row \<longrightarrow> \<not> revoked_since (u_revoked row) c)"
proof -
  from assms obtain c revoked s1 s2 where parse: "parse_token J cfg t s = (Inr c, s1)"
    and revoked: "ra_GetTokensRevokedAt pg (cl_sub c) s1 = (Inr revoked, s2)" and ok: "\<not> revoked_since revoked c"
    and i: "i = \<lparr>id_user = cl_sub c, id_role = cl_role c, id_username = cl_username c, id_assumed = cl_assumed c\<rparr>"
    by (auto simp: ValidateToken_def ValidateAccessToken_def op_iffs split: if_splits)
  from parse have c: "jl_parse J (ac_secret cfg) (a_clock s (a_ticks s)) t = Some c" "s1 = s\<lparr>a_ticks := a_ticks s + 1\<rparr>"
    by (auto simp: parse_token_Inr)
  have "revoked = u_revoked row" if "pg_uuid pg (cl_sub c) = Some u" "find_first (\<lambda>x. u_id x = u) (a_users s) = Some row" for u row
    using revoked that
    by (auto simp: ra_GetTokensRevokedAt_def au_uuid_Inr c op_iffs au_nil_def qa_GetTokensRevokedAt_def au_one_def au_stmt_def
      Let_def retR_def pg_error_def split: prod.splits sum.splits if_splits outcome.splits option.splits)
  with ok c i show ?thesis by blast
qed

interpretation auth_validator: token_validator "GRPCTokenValidator (validate_rpc J pg cfg)" "vouched_by J pg cfg" for J pg cfg
proof
  fix t w v w'
  assume "GRPCTokenValidator (validate_rpc J pg cfg) t w = (Inr v, w')"
  then obtain i w1 where rpc: "validate_rpc J pg cfg t w = (Inr i, w1)"
    and v: "v = \<lparr>tv_user = id_user i, tv_role = id_role i, tv_assumed = id_assumed i\<rparr>"
    by (auto simp: GRPCTokenValidator_def op_iffs)
  from rpc obtain s' where "ValidateToken J pg cfg t (gs_auth w) = (Inr i, s')"
    by (auto simp: validate_rpc_def agrpc_ValidateToken_def op_iffs Let_def split: prod.splits outcome.splits)
  from validated_token [OF this] v show "vouched_by J pg cfg t v w" by (auto simp: vouched_by_def)
qed

text \<open>
  C3: a request reaches a service only over a registered route of that service. On a public route it
  carries no identity, whatever headers the client sent; on every other route its identity headers
  are exactly those of the claims of a well-signed, unexpired and unrevoked token in the access
  cookie, with the role of a user on personal routes and of an administrator on administrative ones.
\<close>

theorem gateway_admits_only_entitled:
  assumes "gateway (validate_rpc J pg cfg) r w = (Reaches service r', w')"
  shows "\<exists>rt. rt \<in> set route_registry \<and> rt_method rt = gr_method r \<and> matchPattern (rt_path rt) (gr_path r) \<and> rt_service rt = service
    \<and> gr_method r' = gr_method r \<and> gr_path r' = gr_path r
    \<and> (rt_access rt = Public \<and> identity_headers r' = ([], [], [])
       \<or> (\<exists>t v. gr_cookie r = Some t \<and> vouched_by J pg cfg t v w
            \<and> identity_headers r' = ([tv_user v], [tv_role v], if tv_assumed v = [] then [] else [tv_assumed v])
            \<and> (tv_role v = ''user'' \<and> rt_access rt = Personal \<or> tv_role v = ''admin'' \<and> rt_access rt = Admin
               \<or> rt_access rt = Authenticated)))"
proof -
  let ?lv = "GatewayResolve (gr_method r) (gr_path r)"
  from assms have run: "AccessControl (GRPCTokenValidator (validate_rpc J pg cfg)) GatewayResolve r w = (Passed r', w')"
    and to: "proxied_to Prefixes (gr_path r') = Some service"
    by (auto simp: gateway_def gw_dispatch_def split: prod.splits gw_outcome.splits if_splits option.splits)
  from auth_validator.passed [OF run] have passed: "?lv = Public \<and> r' = stripIdentityHeaders r
    \<or> (\<exists>t v. gr_cookie r = Some t \<and> vouched_by J pg cfg t v w \<and> role_check ?lv v \<and> r' = setIdentityHeaders v (stripIdentityHeaders r))" .
  then have same: "gr_method r' = gr_method r" "gr_path r' = gr_path r" by auto
  have "gr_path r \<notin> {''/health'', ''/metrics'', ''/readyz''}"
    using to unfolding same by (auto simp: proxied_to_def Prefixes_def proxyPrefixes_def find_first_def has_prefix_def)
  then have lv: "?lv = Resolve (gr_method r) (gr_path r)" by (simp add: GatewayResolve_def)
  have "?lv \<noteq> Deny" using passed by (auto simp: role_check_def)
  then obtain rt where rt: "rt \<in> set route_registry" "rt_method rt = gr_method r" "matchPattern (rt_path rt) (gr_path r)"
    using resolved [of "gr_method r" "gr_path r"] unfolding lv by metis
  have "?lv = rt_access rt" using resolved_own [OF rt(1,3)] by (simp add: lv rt(2))
  moreover have "rt_service rt = service"
    using matched_prefix [OF registry_prefixes_agree rt(1,3)] to same by simp
  moreover from passed have "rt_access rt = Public \<and> identity_headers r' = ([], [], [])
       \<or> (\<exists>t v. gr_cookie r = Some t \<and> vouched_by J pg cfg t v w
            \<and> identity_headers r' = ([tv_user v], [tv_role v], if tv_assumed v = [] then [] else [tv_assumed v])
            \<and> (tv_role v = ''user'' \<and> rt_access rt = Personal \<or> tv_role v = ''admin'' \<and> rt_access rt = Admin
               \<or> rt_access rt = Authenticated))"
    unfolding \<open>?lv = rt_access rt\<close> role_check_iff by (metis identity_set identity_stripped)
  ultimately show ?thesis using rt same by blast
qed

definition demo_gateway :: gateway_state where
  "demo_gateway = \<lparr>gs_auth = demo_auth, gs_net = (\<lambda>_. Acked), gs_sent = 0\<rparr>"

text \<open>The client claims to be somebody else and an administrator.\<close>

definition demo_request :: gw_request where
  "demo_request = \<lparr>gr_method = ''GET'', gr_path = ''/api/expenses/suggestions'',
     gr_headers = [(''Accept'', ''*''), (''X-User-Id'', ''u9''), (''X-User-Role'', ''admin'')], gr_cookie = Some ''old''\<rparr>"

definition gate_jwt :: jwt_lib where
  "gate_jwt = demo_jwt\<lparr>jl_parse := (\<lambda>k now t. if t = ''old'' \<and> unexpired now demo_claims
     then Some (demo_claims\<lparr>cl_role := ''user''\<rparr>) else None)\<rparr>"

lemma demo_reaches:
  "fst (gateway (validate_rpc gate_jwt demo_auth_pg demo_auth_cfg) demo_request demo_gateway)
     = Reaches ''expense'' (demo_request\<lparr>gr_headers := [(''Accept'', ''*''), (''X-User-Id'', ''u1''), (''X-User-Role'', ''user'')]\<rparr>)"
  by code_simp

lemma gateway_admits_only_entitled_witness:
  "\<exists>rt. rt \<in> set route_registry \<and> rt_method rt = ''GET'' \<and> matchPattern (rt_path rt) ''/api/expenses/suggestions''
     \<and> rt_service rt = ''expense''
     \<and> (\<exists>t v. gr_cookie demo_request = Some t \<and> vouched_by gate_jwt demo_auth_pg demo_auth_cfg t v demo_gateway
          \<and> tv_user v = ''u1'' \<and> tv_role v = ''user'' \<and> tv_assumed v = [])"
proof -
  let ?r' = "demo_request\<lparr>gr_headers := [(''Accept'', ''*''), (''X-User-Id'', ''u1''), (''X-User-Role'', ''user'')]\<rparr>"
  have ids: "identity_headers ?r' = ([''u1''], [''user''], [])" by code_simp
  obtain w' where "gateway (validate_rpc gate_jwt demo_auth_pg demo_auth_cfg) demo_request demo_gateway = (Reaches ''expense'' ?r', w')"
    using demo_reaches by (metis prod.collapse)
  note admitted = gateway_admits_only_entitled [OF this, unfolded ids]
  have "gr_method demo_request = ''GET''" "gr_path demo_request = ''/api/expenses/suggestions''" by (simp_all add: demo_request_def)
  with admitted show ?thesis by (auto split: if_splits)
qed


text \<open>
  A refresh token in the access cookie, which names no role, passes on every route that asks only for
  a valid token.
\<close>

lemma refresh_token_admitted:
  "fst (gateway (validate_rpc demo_jwt demo_auth_pg demo_auth_cfg) (demo_request\<lparr>gr_path := ''/api/auth/me''\<rparr>) demo_gateway)
     = Reaches ''auth'' (demo_request\<lparr>gr_path := ''/api/auth/me'',
         gr_headers := [(''Accept'', ''*''), (''X-User-Id'', ''u1''), (''X-User-Role'', [])]\<rparr>)"
  by code_simp

end
