(* ===== verification/Error_Kit.thy ===== *)
theory Error_Kit
  imports Http_Guards
begin

text \<open>
  The reporting of errors every service shares (\<^verbatim>\<open>services/errkit\<close>), the recovery from panics
  (\<^verbatim>\<open>serverkit/recover.go\<close>, \<^verbatim>\<open>finance/internal/service/fanout.go\<close>) and the probe of the container
  (\<^verbatim>\<open>services/healthcheck\<close>).  A report is a log record and an event of the error service; stacks are
  left out.
\<close>

section \<open>Descriptions of failures\<close>

datatype sentry_level = LevelDebug | LevelInfo | LevelWarning | LevelError | LevelFatal
datatype slog_level = SlogDebug | SlogInfo | SlogWarn | SlogError

text \<open>\<open>data_value\<close> is what the structured data of a report carries.\<close>

datatype data_value = Text string | Texts "string list"

record err_meta =
  mt_level :: "sentry_level option"
  mt_kind :: string
  mt_op :: string
  mt_domain :: string
  mt_msg :: string
  mt_group :: string
  mt_exact :: bool
  mt_tags :: "(string \<times> string) list"
  mt_data :: "string \<rightharpoonup> data_value"

text \<open>An empty kind is internal; the caller's tags are a map, listed in the order it is traversed.\<close>

definition KindInternal :: string where "KindInternal = ''internal''"

definition kind_resolve :: "string \<Rightarrow> string" where
  "kind_resolve k = (if k = [] then KindInternal else k)"

definition meta_level :: "err_meta \<Rightarrow> sentry_level" where
  "meta_level m = (case mt_level m of None \<Rightarrow> LevelError | Some l \<Rightarrow> l)"

definition meta_message :: "err_meta \<Rightarrow> string" where
  "meta_message m = (if mt_msg m = [] then ''operation failed'' else mt_msg m)"

definition groupKey :: "err_meta \<Rightarrow> string" where
  "groupKey m =
     (if mt_group m \<noteq> [] then mt_group m
      else let kind = kind_resolve (mt_kind m) in if mt_op m = [] then kind else mt_op m @ ''/'' @ kind)"

definition sentryDefaultGrouping :: string where "sentryDefaultGrouping = ''{{ default }}''"

definition fingerprint :: "err_meta \<Rightarrow> string list" where
  "fingerprint m = (if mt_exact m \<and> mt_group m \<noteq> [] then [mt_group m] else [sentryDefaultGrouping, groupKey m])"

fun slogLevel :: "sentry_level \<Rightarrow> slog_level" where
  "slogLevel LevelDebug = SlogDebug"
| "slogLevel LevelInfo = SlogInfo"
| "slogLevel LevelWarning = SlogWarn"
| "slogLevel _ = SlogError"

section \<open>Tags\<close>

definition maxTagValueRunes :: nat where "maxTagValueRunes = 200"

text \<open>\<^verbatim>\<open>string([]rune(s)[:n])\<close>: a byte that starts no well-formed sequence becomes U+FFFD.\<close>

fun first_runes :: "nat \<Rightarrow> string \<Rightarrow> string" where
  "first_runes 0 s = []"
| "first_runes (Suc n) [] = []"
| "first_runes (Suc n) (c # cs) =
     (if rune_size (c # cs) = 1 \<and> 128 \<le> byte c then CHR 0xEF # CHR 0xBF # CHR 0xBD # first_runes n cs
      else take (rune_size (c # cs)) (c # cs) @ first_runes n (drop (rune_size (c # cs)) (c # cs)))"

definition truncateTagValue :: "string \<Rightarrow> string" where
  "truncateTagValue v =
     (let v' = map (\<lambda>c. if c = CHR 0x0A then CHR '' '' else c) v
      in if rune_count v' \<le> maxTagValueRunes then v' else first_runes maxTagValueRunes v')"

definition putTag :: "string \<Rightarrow> string \<Rightarrow> (string \<rightharpoonup> string) \<Rightarrow> (string \<rightharpoonup> string)" where
  "putTag k v tags = (if k = [] \<or> v = [] then tags else tags(k \<mapsto> truncateTagValue v))"

definition initOwnedTags :: "string list" where
  "initOwnedTags = [''app'', ''service'', ''runtime'']"

definition meta_tags :: "err_meta \<Rightarrow> (string \<rightharpoonup> string)" where
  "meta_tags m =
     foldl (\<lambda>tags (k, v). if k \<in> set initOwnedTags then tags else putTag k v tags)
       (putTag ''domain'' (mt_domain m) (putTag ''operation'' (mt_op m) (putTag ''error_kind'' (kind_resolve (mt_kind m)) Map.empty)))
       (mt_tags m)"

section \<open>Reports\<close>

text \<open>The data an error carries itself, wherever it is in the chain.\<close>

fun carried_data :: "goerr \<Rightarrow> (string \<rightharpoonup> data_value) option" where
  "carried_data (SnapshotIntegrity i missing) = Some [''expense_id'' \<mapsto> Text i, ''missing_fields'' \<mapsto> Texts missing]"
| "carried_data (FxConversion e t r) = Some [''transaction_currency'' \<mapsto> Text t, ''reporting_currency'' \<mapsto> Text r]"
| "carried_data (Wrapped m e) = carried_data e"
| "carried_data _ = None"

definition mergeData :: "(string \<rightharpoonup> data_value) \<Rightarrow> goerr \<Rightarrow> (string \<rightharpoonup> data_value)" where
  "mergeData caller err = (case carried_data err of None \<Rightarrow> caller | Some carried \<Rightarrow> carried ++ caller)"

record log_record =
  lr_level :: slog_level
  lr_msg :: string
  lr_attrs :: "(string \<times> string) list"
  lr_data :: "string \<rightharpoonup> data_value"

record event =
  ev_level :: sentry_level
  ev_tags :: "string \<rightharpoonup> string"
  ev_fingerprint :: "string list"
  ev_data :: "string \<rightharpoonup> data_value"
  ev_error :: goerr

record kit =
  kt_log :: "log_record list"
  kt_events :: "event list"
  kt_panics :: "string list"

text \<open>\<open>text_of\<close> is the text of an error; the attributes come in order, the data in none.\<close>

definition derived_attrs :: "(goerr \<Rightarrow> string) \<Rightarrow> err_meta \<Rightarrow> goerr \<Rightarrow> (string \<times> string) list" where
  "derived_attrs text_of m err = [(''error'', text_of err), (''error_kind'', kind_resolve (mt_kind m))]
     @ (if mt_op m = [] then [] else [(''operation'', mt_op m)])
     @ (if mt_domain m = [] then [] else [(''domain'', mt_domain m)])"

definition logAttrs :: "(goerr \<Rightarrow> string) \<Rightarrow> err_meta \<Rightarrow> goerr \<Rightarrow> (string \<times> string) list \<times> (string \<rightharpoonup> data_value)" where
  "logAttrs text_of m err =
     (let derived = derived_attrs text_of m err in (derived, mt_data m |` (- fst ` set derived)))"

definition log_line :: "slog_level \<Rightarrow> string \<Rightarrow> (string \<times> string) list \<times> (string \<rightharpoonup> data_value) \<Rightarrow> kit \<Rightarrow> kit" where
  "log_line l msg attrs k =
     k\<lparr>kt_log := kt_log k @ [\<lparr>lr_level = l, lr_msg = msg, lr_attrs = fst attrs, lr_data = snd attrs\<rparr>]\<rparr>"

definition errkit_report :: "(goerr \<Rightarrow> string) \<Rightarrow> goerr option \<Rightarrow> err_meta \<Rightarrow> kit \<Rightarrow> goerr option \<times> kit" where
  "errkit_report text_of err m k =
     (case err of
        None \<Rightarrow> (None, k)
      | Some e \<Rightarrow>
          let m' = m\<lparr>mt_data := mergeData (mt_data m) e\<rparr>;
              k' = log_line (slogLevel (meta_level m)) (meta_message m) (logAttrs text_of m' e) k
          in (Some e, k'\<lparr>kt_events := kt_events k' @ [\<lparr>ev_level = meta_level m, ev_tags = meta_tags m,
               ev_fingerprint = fingerprint m, ev_data = mt_data m', ev_error = e\<rparr>]\<rparr>))"

definition errkit_Report :: "(goerr \<Rightarrow> string) \<Rightarrow> goerr option \<Rightarrow> err_meta \<Rightarrow> kit \<Rightarrow> goerr option \<times> kit" where
  "errkit_Report text_of err m k = errkit_report text_of err m k"

text \<open>\<open>expected e\<close> is \<^verbatim>\<open>isExpected\<close> for the sentinels of the call.\<close>

definition errkit_Ignore :: "(goerr \<Rightarrow> string) \<Rightarrow> (goerr \<Rightarrow> bool) \<Rightarrow> goerr option \<Rightarrow> err_meta \<Rightarrow> kit \<Rightarrow> goerr option \<times> kit" where
  "errkit_Ignore text_of expected err m k =
     (case err of
        Some e \<Rightarrow>
          if expected e then (Some e, log_line SlogInfo (meta_message m) (logAttrs text_of m e) k)
          else errkit_report text_of err m k
      | None \<Rightarrow> errkit_report text_of err m k)"

section \<open>Limiting reports\<close>

record limiter =
  lm_window :: int
  lm_reported :: "gtime option"

text \<open>A window that is not positive panics (\<open>None\<close>).\<close>

definition NewLimiter :: "int \<Rightarrow> limiter option" where
  "NewLimiter window = (if window \<le> 0 then None else Some \<lparr>lm_window = window, lm_reported = None\<rparr>)"

definition Allow :: "gtime \<Rightarrow> limiter \<Rightarrow> bool \<times> limiter" where
  "Allow now l =
     (if (case lm_reported l of None \<Rightarrow> False | Some r \<Rightarrow> t_sub now r < lm_window l) then (False, l)
      else (True, l\<lparr>lm_reported := Some now\<rparr>))"

section \<open>Panics\<close>

text \<open>
  What a handler does: it returns, or panics with an error, with the error of a connection that is
  gone, or with another value (its text).
\<close>

datatype panic = PanicErr goerr | BrokenConnection | PanicValue string
datatype 'a ran = Returned 'a | Panicked panic

definition panicToError :: "panic \<Rightarrow> goerr" where
  "panicToError p = (case p of PanicErr e \<Rightarrow> e | BrokenConnection \<Rightarrow> Opaque ''broken pipe'' | PanicValue s \<Rightarrow> Opaque (''panic: '' @ s))"

definition isConnectionAborted :: "panic \<Rightarrow> bool" where
  "isConnectionAborted p \<longleftrightarrow> p = BrokenConnection"

definition LogRecoveredPanic :: "(goerr \<Rightarrow> string) \<Rightarrow> string \<Rightarrow> string \<Rightarrow> panic \<Rightarrow> (string \<times> string) list \<Rightarrow> kit \<Rightarrow> kit" where
  "LogRecoveredPanic text_of site msg p attrs k =
     (let err = panicToError p; group = ''panic.'' @ site;
          k1 = k\<lparr>kt_panics := kt_panics k @ [site]\<rparr>;
          k2 = log_line SlogError msg ((''panic'', text_of err) # attrs, Map.empty) k1
      in snd (errkit_Report text_of (Some err)
           \<lparr>mt_level = None, mt_kind = KindInternal, mt_op = group, mt_domain = [], mt_msg = msg, mt_group = group,
            mt_exact = False, mt_tags = [], mt_data = map_option Text \<circ> map_of (rev attrs)\<rparr> k2))"

definition grpcPanicSite :: "string \<Rightarrow> string \<Rightarrow> string" where
  "grpcPanicSite transport verb = transport @ ''.'' @ (if has_prefix ''/'' verb then tl verb else verb)"

definition Recovery :: "(goerr \<Rightarrow> string) \<Rightarrow> string \<Rightarrow> string \<Rightarrow> 'r http_response ran \<Rightarrow> kit \<Rightarrow> 'r http_response \<times> kit" where
  "Recovery text_of verb path run k =
     (case run of
        Returned r \<Rightarrow> (r, k)
      | Panicked p \<Rightarrow>
          let attrs = [(''method'', verb), (''path'', path)]
          in if isConnectionAborted p
             then (NoAnswer, log_line SlogWarn ''aborted HTTP connection during panic recovery''
                     ((''panic'', text_of (panicToError p)) # attrs, Map.empty) k)
             else (problem (panicToError p), LogRecoveredPanic text_of ''http'' ''recovered panic in HTTP handler'' p attrs k))"

definition panicStatusMessage :: string where "panicStatusMessage = ''internal server error''"

definition RecoveryUnaryInterceptor :: "(goerr \<Rightarrow> string) \<Rightarrow> string \<Rightarrow> (goerr + 'a) ran \<Rightarrow> kit \<Rightarrow> (goerr + 'a) \<times> kit" where
  "RecoveryUnaryInterceptor text_of verb run k =
     (case run of
        Returned r \<Rightarrow> (r, k)
      | Panicked p \<Rightarrow> (Inl (GrpcStatus GInternal panicStatusMessage),
          LogRecoveredPanic text_of (grpcPanicSite ''grpc'' verb) ''recovered panic in gRPC handler'' p [(''method'', verb)] k))"

text \<open>What a stream has sent is out; it ends with the status.\<close>

definition RecoveryStreamInterceptor ::
    "(goerr \<Rightarrow> string) \<Rightarrow> string \<Rightarrow> 'm list \<times> goerr option ran \<Rightarrow> kit \<Rightarrow> ('m list \<times> goerr option) \<times> kit" where
  "RecoveryStreamInterceptor text_of verb run k =
     (case snd run of
        Returned r \<Rightarrow> ((fst run, r), k)
      | Panicked p \<Rightarrow> ((fst run, Some (GrpcStatus GInternal panicStatusMessage)),
          LogRecoveredPanic text_of (grpcPanicSite ''grpc_stream'' verb) ''recovered panic in gRPC stream handler'' p [(''method'', verb)] k))"

definition guardFanout ::
    "(goerr \<Rightarrow> string) \<Rightarrow> string \<Rightarrow> string \<Rightarrow> (string \<times> string) list \<Rightarrow> goerr option ran \<Rightarrow> kit \<Rightarrow> goerr option \<times> kit" where
  "guardFanout text_of task user extra run k =
     (case run of
        Returned r \<Rightarrow> (r, k)
      | Panicked p \<Rightarrow> (Some (Opaque (task @ '' failed unexpectedly'')),
          LogRecoveredPanic text_of ''goroutine.finance_fanout'' ''recovered panic in finance fan-out'' p
            ([(''task'', task), (''user_id'', user)] @ extra) k))"

section \<open>The probe of the container\<close>

definition healthcheck_Run :: "int option \<Rightarrow> int" where
  "healthcheck_Run response = (case response of None \<Rightarrow> 1 | Some code \<Rightarrow> if code = 200 then 0 else 1)"

definition ShouldRun :: "string list \<Rightarrow> bool" where
  "ShouldRun args \<longleftrightarrow> length args > 1 \<and> args ! 1 = ''--healthcheck''"

end
