(* ===== verification/Error_Kit_Facts.thy ===== *)
theory Error_Kit_Facts
  imports Error_Kit
begin

text \<open>
  The reports: bounded tags, a fingerprint that merges nothing by accident, at most one report a
  window, and panics that never leave a handler.
\<close>

section \<open>Tags\<close>

lemma rune_replacement: "rune_size (CHR 0xEF # CHR 0xBF # CHR 0xBD # s) = 3"
  by (simp add: rune_size_def utf8_shape_def byte_def is_cont_def)

text \<open>A rune is recognised by its own bytes: what follows does not matter.\<close>

lemma rune_size_le: "rune_size s \<le> length s"
  by (auto simp: rune_size_def split: list.split prod.split)

lemma rune_size_prefix:
  assumes "s \<noteq> []"
  shows "rune_size (take (rune_size s) s @ t) = rune_size s \<or> rune_size s = 1 \<and> 128 \<le> byte (hd s)"
proof (cases s)
  case (Cons c cs)
  obtain n lo hi where sh: "utf8_shape (byte c) = (n, lo, hi)" by (metis prod_cases3)
  show ?thesis
  proof (cases "rune_size s = 1")
    case True
    show ?thesis
    proof (cases "byte c < 128")
      case True
      then show ?thesis using Cons by (simp add: rune_size_ascii)
    qed (use True Cons in simp)
  next
    case False
    with Cons sh have n: "rune_size s = n" "\<not> (n \<le> 1 \<or> length cs + 1 < n)" "lo \<le> byte (hd cs)" "byte (hd cs) \<le> hi"
        "list_all is_cont (take (n - 2) (tl cs))"
      by (auto simp: rune_size_def split: if_splits)
    then obtain k where k: "n = Suc (Suc k)" by (metis not0_implies_Suc not_less_eq_eq One_nat_def le_zero_eq le_numeral_extra(4) not_less_eq_eq)
    from n k obtain d ds where cs: "cs = d # ds" "length ds \<ge> k" by (cases cs) auto
    with n k have "take n s @ t = c # d # take k ds @ t" "list_all is_cont (take k ds)" by (simp_all add: Cons)
    with cs n k sh show ?thesis by (simp add: rune_size_def)
  qed
qed (use assms in simp)

lemma rune_count_first_runes: "rune_count (first_runes n s) \<le> n"
proof (induction n s rule: first_runes.induct)
  case (3 n c cs)
  let ?s = "c # cs"
  show ?case
  proof (cases "rune_size ?s = 1 \<and> 128 \<le> byte c")
    case True
    with 3(1) show ?thesis
      by (subst rune_count.simps) (simp add: rune_replacement)
  next
    case False
    then have "rune_size (take (rune_size ?s) ?s @ first_runes n (drop (rune_size ?s) ?s)) = rune_size ?s"
      using rune_size_prefix [of ?s] by auto
    moreover have "length (take (rune_size ?s) ?s) = rune_size ?s" using rune_size_le [of ?s] by simp
    moreover have "first_runes (Suc n) ?s = take (rune_size ?s) ?s @ first_runes n (drop (rune_size ?s) ?s)"
      using False by simp
    ultimately have "rune_count (first_runes (Suc n) ?s) \<le> 1 + rune_count (first_runes n (drop (rune_size ?s) ?s))"
      by (subst rune_count.simps) simp
    with 3(2) [OF False] show ?thesis by simp
  qed
qed simp_all

lemma tag_values_bounded: "rune_count (truncateTagValue v) \<le> 200"
  using rune_count_first_runes [of 200] by (simp add: truncateTagValue_def Let_def maxTagValueRunes_def)

definition put_caller :: "(string \<rightharpoonup> string) \<Rightarrow> string \<times> string \<Rightarrow> (string \<rightharpoonup> string)" where
  "put_caller tags kv = (if fst kv \<in> set initOwnedTags then tags else putTag (fst kv) (snd kv) tags)"

lemma caller_tags:
  assumes "distinct (map fst kvs)"
  shows "foldl put_caller tags kvs k =
    (case map_of kvs k of
       Some v \<Rightarrow> if k = [] \<or> v = [] \<or> k \<in> set initOwnedTags then tags k else Some (truncateTagValue v)
     | None \<Rightarrow> tags k)"
  using assms
proof (induction kvs arbitrary: tags)
  case (Cons kv kvs)
  obtain a b where kv: "kv = (a, b)" by fastforce
  from Cons.prems have "map_of kvs a = None" "distinct (map fst kvs)" by (auto simp: kv map_of_eq_None_iff)
  with Cons.IH [of "put_caller tags kv"] show ?case
    by (cases "k = a") (auto simp: kv put_caller_def putTag_def split: option.split)
qed simp

text \<open>
  The tags of a report do not depend on the order in which the caller's map is traversed; none of
  them is one the process owns, and none is longer than the limit.
\<close>

lemma meta_tags_foldl:
  "meta_tags m = foldl put_caller
     (putTag ''domain'' (mt_domain m) (putTag ''operation'' (mt_op m) (putTag ''error_kind'' (kind_resolve (mt_kind m)) Map.empty)))
     (mt_tags m)"
proof -
  have "put_caller = (\<lambda>tags (k, v). if k \<in> set initOwnedTags then tags else putTag k v tags)"
    by (auto simp: put_caller_def fun_eq_iff)
  then show ?thesis by (simp add: meta_tags_def)
qed

lemma meta_tags_order:
  assumes "distinct (map fst (mt_tags m))" "distinct (map fst kvs)" "set kvs = set (mt_tags m)"
  shows "meta_tags (m\<lparr>mt_tags := kvs\<rparr>) = meta_tags m"
proof -
  have "map_of kvs = map_of (mt_tags m)" using assms by (metis map_of_inject_set)
  then show ?thesis using assms by (auto simp: meta_tags_foldl caller_tags fun_eq_iff)
qed

lemma meta_tags_owned:
  assumes "distinct (map fst (mt_tags m))" "k \<in> set initOwnedTags"
  shows "meta_tags m k = None"
  using assms by (auto simp: meta_tags_foldl caller_tags putTag_def initOwnedTags_def split: option.split)

text \<open>A fingerprint is never empty, and it replaces the grouping of the error service only on request.\<close>

lemma kind_resolve_nonempty: "kind_resolve k \<noteq> []" "[] \<noteq> kind_resolve k"
  by (simp_all add: kind_resolve_def KindInternal_def)

lemma fingerprint_refines:
  "fingerprint m \<noteq> [] \<and> [] \<notin> set (fingerprint m)
   \<and> (hd (fingerprint m) \<noteq> sentryDefaultGrouping \<longrightarrow> mt_exact m \<and> fingerprint m = [mt_group m])"
  using kind_resolve_nonempty by (auto simp: fingerprint_def groupKey_def sentryDefaultGrouping_def Let_def)

section \<open>At most one report a window\<close>

fun allowed :: "limiter \<Rightarrow> gtime list \<Rightarrow> gtime list" where
  "allowed l [] = []"
| "allowed l (t # ts) = (case Allow t l of (ok, l') \<Rightarrow> (if ok then [t] else []) @ allowed l' ts)"

fun spaced :: "int \<Rightarrow> gtime option \<Rightarrow> gtime list \<Rightarrow> bool" where
  "spaced w prev [] = True"
| "spaced w prev (t # ts) = ((case prev of None \<Rightarrow> True | Some r \<Rightarrow> w \<le> t_sub t r) \<and> spaced w (Some t) ts)"

lemma reports_spaced: "spaced (lm_window l) (lm_reported l) (allowed l ts)"
proof (induction ts arbitrary: l)
  case (Cons t ts)
  show ?case
  proof (cases "case lm_reported l of None \<Rightarrow> False | Some r \<Rightarrow> t_sub t r < lm_window l")
    case True
    with Cons.IH [of l] show ?thesis by (simp add: Allow_def)
  next
    case False
    with Cons.IH [of "l\<lparr>lm_reported := Some t\<rparr>"] show ?thesis by (auto simp: Allow_def split: option.splits)
  qed
qed simp

text \<open>A call that is suppressed comes less than a window after the last report: silence does not extend itself.\<close>

lemma suppressed_within_window:
  assumes "Allow now l = (False, l')"
  shows "l' = l \<and> (\<exists>r. lm_reported l = Some r \<and> t_sub now r < lm_window l)"
  using assms by (auto simp: Allow_def split: if_splits option.splits)

section \<open>Panics\<close>

lemma report_returns_error: "fst (errkit_Report text_of err m k) = err"
  by (auto simp: errkit_Report_def errkit_report_def Let_def split: option.split)

lemma panic_counted:
  "kt_panics (LogRecoveredPanic text_of site msg p attrs k) = kt_panics k @ [site]
   \<and> length (kt_events (LogRecoveredPanic text_of site msg p attrs k)) = length (kt_events k) + 1"
  by (simp add: LogRecoveredPanic_def errkit_Report_def errkit_report_def log_line_def Let_def)

text \<open>A handler that panics is answered by an error, unless its client is gone.\<close>

lemma recovered_answer:
  assumes "p \<noteq> BrokenConnection" "error_ok (panicToError p)"
  shows "response_ok (fst (Recovery text_of verb path (Panicked p) k))"
  using assms by (simp add: Recovery_def isConnectionAborted_def problem_ok)

lemma recovered_status:
  "fst (RecoveryUnaryInterceptor text_of verb (Panicked p) k) = Inl (GrpcStatus GInternal panicStatusMessage)
   \<and> fst (RecoveryStreamInterceptor text_of verb (sent, Panicked p) k) = (sent, Some (GrpcStatus GInternal panicStatusMessage))"
  by (simp add: RecoveryUnaryInterceptor_def RecoveryStreamInterceptor_def)

text \<open>
  A handler that panics with an API error is answered with the status of that error, not with 500:
  \<^verbatim>\<open>Recovery\<close> hands the panic's error to the renderer.
\<close>

lemma panic_with_api_error:
  "fst (Recovery text_of verb path (Panicked (PanicErr (Api (NotFound msg)))) k) = Problem 404 code_not_found msg []"
  by (simp add: Recovery_def isConnectionAborted_def panicToError_def problem_def Respond_def NotFound_def)

end
