(* ===== verification/Monitoring_Proxy.thy ===== *)
theory Monitoring_Proxy
  imports Gateway_Facts Error_Kit_Facts
begin

text \<open>
  The proxy in front of the monitoring dashboards (\<^verbatim>\<open>monitoring/auth-proxy/cmd/main.go\<close>): it reads
  the same access cookie as the gateway, but checks the token by itself.
\<close>

text \<open>An error page is its status, title and message; the page around them is left out.\<close>

datatype proxy_result = ErrorPage int string string | Proxied "(string \<times> string) list"

definition mon_validateToken :: "jwt_lib \<Rightarrow> string \<Rightarrow> gtime \<Rightarrow> string \<Rightarrow> claims option" where
  "mon_validateToken J secret now t = jl_parse J secret now t"

definition authHandler :: "jwt_lib \<Rightarrow> string \<Rightarrow> gtime \<Rightarrow> string option \<Rightarrow> (string \<times> string) list \<Rightarrow> proxy_result" where
  "authHandler J secret now sent hs =
     (case sent of
        None \<Rightarrow> ErrorPage 401 ''Authentication Required'' ''No access token found. Please log in to the gofin application first.''
      | Some t \<Rightarrow>
          (case mon_validateToken J secret now t of
             None \<Rightarrow> ErrorPage 401 ''Authentication Failed'' ''Your session has expired or is invalid. Please log in again.''
           | Some c \<Rightarrow>
               if cl_role c \<noteq> ''admin''
               then ErrorPage 403 ''Access Denied'' ''Grafana dashboards are restricted to administrators. Contact your admin for access.''
               else Proxied (header_set ''X-WEBAUTH-USER'' (cl_username c) hs)))"

text \<open>
  Only the bearer of an administrator's token passes, under the name the token carries, whatever
  name the client sent.
\<close>

lemma monitoring_user:
  assumes "authHandler J secret now sent hs = Proxied hs'"
  shows "\<exists>t c. sent = Some t \<and> jl_parse J secret now t = Some c \<and> cl_role c = ''admin''
    \<and> header_values ''X-WEBAUTH-USER'' hs' = [cl_username c]"
  using assms by (auto simp: authHandler_def mon_validateToken_def split: option.splits if_splits)

text \<open>
  The two ways to check a token differ: after the tokens of an administrator have been revoked the
  auth service rejects one that the monitoring proxy still accepts.
\<close>

definition mon_jwt :: jwt_lib where
  "mon_jwt = demo_jwt\<lparr>jl_parse := (\<lambda>k now t. if t = ''old'' \<and> unexpired now demo_claims
     then Some (demo_claims\<lparr>cl_role := ''admin'', cl_username := ''ann''\<rparr>) else None)\<rparr>"

lemma revoked_token_reaches_monitoring:
  "fst (ValidateToken mon_jwt demo_auth_pg demo_auth_cfg ''old'' demo_revoked)
      = Inl (Api (Unauthorized ''Token has been revoked. Please log in again.''))
   \<and> authHandler mon_jwt ''k'' demo_time (Some ''old'') [] = Proxied [(''X-Webauth-User'', ''ann'')]"
  by (rule conjI; code_simp)

end
