(* ===== verification/Expense_Session.thy ===== *)
theory Expense_Session
  imports Rights_Handlers Error_Kit_Facts
begin

text \<open>
  The client of the ledger database (\<^verbatim>\<open>expense/cmd/immudb_prod.go\<close>, \<^verbatim>\<open>expense/cmd/immudb.go\<close>): it opens a
  session, replaces one that is lost, and repeats the statement that noticed the loss.  The driver
  is a parameter: a session is a handle, and a statement is run on one.
\<close>

section \<open>Sessions\<close>

record 'w immu_lib =
  im_open :: "string \<Rightarrow> int \<Rightarrow> 'w \<Rightarrow> (goerr + nat) \<times> 'w"
  im_close :: "nat \<Rightarrow> 'w \<Rightarrow> 'w"
  im_text :: "goerr \<Rightarrow> string"

record 'w ledger_client =
  lc_client :: nat
  lc_generation :: int
  lc_limiter :: limiter
  lc_kit :: kit
  lc_clock :: "nat \<Rightarrow> gtime"
  lc_ticks :: nat
  lc_world :: 'w

type_synonym ('w, 'a) session_stmt = "nat \<Rightarrow> ('w, goerr, 'a) op"

text \<open>\<^verbatim>\<open>strings.SplitN(addr, ":", 2)\<close>: the host, and the rest if there is a colon.\<close>

definition split_addr :: "string \<Rightarrow> string \<times> string option" where
  "split_addr addr =
     (let host = takeWhile (\<lambda>c. c \<noteq> CHR '':'') addr
      in (host, if length host < length addr then Some (drop (length host + 1) addr) else None))"

definition openSession :: "'w immu_lib \<Rightarrow> string \<Rightarrow> 'w \<Rightarrow> (goerr + nat) \<times> 'w" where
  "openSession L addr w =
     (case split_addr addr of (host, rest) \<Rightarrow>
        (case (case rest of None \<Rightarrow> Some 3322 | Some p \<Rightarrow> Atoi p) of
           None \<Rightarrow> (Inl (Wrapped ''parsing immudb port'' (Opaque ''strconv.Atoi'')), w)
         | Some port \<Rightarrow>
             (case im_open L host port w of
                (Inl e, w') \<Rightarrow> (Inl (Wrapped ''opening immudb session'' e), w')
              | (Inr c, w') \<Rightarrow> (Inr c, w'))))"

definition isSessionError :: "golib \<Rightarrow> 'w immu_lib \<Rightarrow> goerr \<Rightarrow> bool" where
  "isSessionError lib L err =
     (let msg = to_lower lib (im_text L err)
      in contains msg ''session not found'' \<or> contains msg ''no session found'' \<or> contains msg ''session does not exist'')"

definition reconnect_meta :: "string \<Rightarrow> err_meta" where
  "reconnect_meta addr = \<lparr>mt_level = None, mt_kind = ''database'', mt_op = ''immudb.reconnect'', mt_domain = ''expenses'',
     mt_msg = ''immudb reconnection failed'', mt_group = ''immudb.unreachable'', mt_exact = True, mt_tags = [],
     mt_data = [''addr'' \<mapsto> Text addr]\<rparr>"

definition report_failure :: "'w immu_lib \<Rightarrow> string \<Rightarrow> goerr \<Rightarrow> 'w ledger_client \<Rightarrow> 'w ledger_client" where
  "report_failure L addr e st =
     (case Allow (lc_clock st (lc_ticks st)) (lc_limiter st) of (ok, l) \<Rightarrow>
        let st1 = st\<lparr>lc_ticks := lc_ticks st + 1, lc_limiter := l\<rparr>
        in if ok then st1\<lparr>lc_kit := snd (errkit_Report (im_text L) (Some e) (reconnect_meta addr) (lc_kit st1))\<rparr> else st1)"

text \<open>The generation is a \<^verbatim>\<open>uint64\<close>.\<close>

definition reconnectLocked :: "'w immu_lib \<Rightarrow> string \<Rightarrow> int \<Rightarrow> ('w ledger_client, goerr, unit) op" where
  "reconnectLocked L addr observed st =
     (if lc_generation st \<noteq> observed then (Inr (), st)
      else case openSession L addr (im_close L (lc_client st) (lc_world st)) of
             (Inl e, w) \<Rightarrow> (Inl (Wrapped ''reconnecting to immudb'' e), report_failure L addr e (st\<lparr>lc_world := w\<rparr>))
           | (Inr c, w) \<Rightarrow>
               (Inr (), st\<lparr>lc_client := c, lc_generation := (lc_generation st + 1) mod 18446744073709551616, lc_world := w\<rparr>))"

text \<open>The handler the driver calls when its heartbeat fails; it takes the lock and reads the generation then.\<close>

definition heartbeat :: "golib \<Rightarrow> 'w immu_lib \<Rightarrow> string \<Rightarrow> goerr \<Rightarrow> 'w ledger_client \<Rightarrow> 'w ledger_client" where
  "heartbeat lib L addr err st =
     (if isSessionError lib L err then snd (reconnectLocked L addr (lc_generation st) st) else st)"

definition on_session :: "('w, 'a) session_stmt \<Rightarrow> nat \<Rightarrow> ('w ledger_client, goerr, 'a) op" where
  "on_session stmt c st = (case stmt c (lc_world st) of (r, w) \<Rightarrow> (r, st\<lparr>lc_world := w\<rparr>))"

text \<open>A statement by itself: no other goroutine runs in between.\<close>

definition session_call :: "golib \<Rightarrow> 'w immu_lib \<Rightarrow> string \<Rightarrow> string \<Rightarrow> ('w, 'a) session_stmt \<Rightarrow> ('w ledger_client, goerr, 'a) op" where
  "session_call lib L addr what stmt st =
     (case on_session stmt (lc_client st) st of
        (Inr x, st1) \<Rightarrow> (Inr x, st1)
      | (Inl e, st1) \<Rightarrow>
          if \<not> isSessionError lib L e then (Inl e, st1)
          else (case reconnectLocked L addr (lc_generation st) st1 of
                  (Inl e2, st2) \<Rightarrow> (Inl (Wrapped (what @ '' session recovery failed'') e2), st2)
                | (Inr _, st2) \<Rightarrow> on_session stmt (lc_client st2) st2))"

definition SQLExec :: "golib \<Rightarrow> 'w immu_lib \<Rightarrow> string \<Rightarrow> ('w, 'a) session_stmt \<Rightarrow> ('w ledger_client, goerr, 'a) op" where
  "SQLExec lib L addr stmt = session_call lib L addr ''SQLExec'' stmt"

definition SQLQuery :: "golib \<Rightarrow> 'w immu_lib \<Rightarrow> string \<Rightarrow> ('w, 'a) session_stmt \<Rightarrow> ('w ledger_client, goerr, 'a) op" where
  "SQLQuery lib L addr stmt = session_call lib L addr ''SQLQuery'' stmt"

section \<open>Start-up\<close>

text \<open>The attempts that are left, and the error of the last one; the waits between them are left out.\<close>

fun connect_attempts :: "'w immu_lib \<Rightarrow> string \<Rightarrow> nat \<Rightarrow> goerr \<Rightarrow> 'w \<Rightarrow> (goerr + nat) \<times> 'w" where
  "connect_attempts L addr 0 err w = (Inl (Wrapped ''failed to connect to immudb after 10 attempts'' err), w)"
| "connect_attempts L addr (Suc left) err w =
     (case openSession L addr w of
        (Inr c, w') \<Rightarrow> (Inr c, w')
      | (Inl e, w') \<Rightarrow> connect_attempts L addr left e w')"

definition connectImmudb :: "'w immu_lib \<Rightarrow> string \<Rightarrow> 'w \<Rightarrow> (goerr + nat) \<times> 'w" where
  "connectImmudb L addr w = connect_attempts L addr 10 (Opaque []) w"

section \<open>Requests and the heartbeat, interleaved\<close>

text \<open>
  A request reads the session under the lock, runs its statement outside it, and takes the lock again
  to recover; the retry is outside the lock.  Every request runs one statement.
\<close>

datatype 'a phase = Waiting | Running nat int | LostSession int | Retrying nat | Answer "goerr + 'a"
datatype session_event = Reads nat | Runs nat | Recovers nat | Repeats nat | Heartbeat

fun session_step :: "golib \<Rightarrow> 'w immu_lib \<Rightarrow> string \<Rightarrow> goerr \<Rightarrow> (nat \<Rightarrow> ('w, 'a) session_stmt) \<Rightarrow> session_event
    \<Rightarrow> 'w ledger_client \<times> (nat \<Rightarrow> 'a phase) \<Rightarrow> 'w ledger_client \<times> (nat \<Rightarrow> 'a phase)" where
  "session_step lib L addr beat stmts (Reads i) (st, ph) =
     (case ph i of Waiting \<Rightarrow> (st, ph(i := Running (lc_client st) (lc_generation st))) | _ \<Rightarrow> (st, ph))"
| "session_step lib L addr beat stmts (Runs i) (st, ph) =
     (case ph i of
        Running c g \<Rightarrow>
          (case on_session (stmts i) c st of
             (Inr x, st') \<Rightarrow> (st', ph(i := Answer (Inr x)))
           | (Inl e, st') \<Rightarrow> (st', ph(i := (if isSessionError lib L e then LostSession g else Answer (Inl e)))))
      | _ \<Rightarrow> (st, ph))"
| "session_step lib L addr beat stmts (Recovers i) (st, ph) =
     (case ph i of
        LostSession g \<Rightarrow>
          (case reconnectLocked L addr g st of
             (Inl e, st') \<Rightarrow> (st', ph(i := Answer (Inl (Wrapped ''session recovery failed'' e))))
           | (Inr _, st') \<Rightarrow> (st', ph(i := Retrying (lc_client st'))))
      | _ \<Rightarrow> (st, ph))"
| "session_step lib L addr beat stmts (Repeats i) (st, ph) =
     (case ph i of
        Retrying c \<Rightarrow> (case on_session (stmts i) c st of (r, st') \<Rightarrow> (st', ph(i := Answer r)))
      | _ \<Rightarrow> (st, ph))"
| "session_step lib L addr beat stmts Heartbeat (st, ph) = (heartbeat lib L addr beat st, ph)"

definition session_steps :: "golib \<Rightarrow> 'w immu_lib \<Rightarrow> string \<Rightarrow> goerr \<Rightarrow> (nat \<Rightarrow> ('w, 'a) session_stmt) \<Rightarrow> session_event list
    \<Rightarrow> 'w ledger_client \<times> (nat \<Rightarrow> 'a phase) \<Rightarrow> 'w ledger_client \<times> (nat \<Rightarrow> 'a phase)" where
  "session_steps lib L addr beat stmts evs s = foldl (\<lambda>s ev. session_step lib L addr beat stmts ev s) s evs"

section \<open>A statement takes effect at most once\<close>

text \<open>
  What the retry relies on: opening and closing sessions does not touch the stored data, and neither
  does a statement that fails for want of a session.
\<close>

definition sessions_pure :: "'w immu_lib \<Rightarrow> ('w \<Rightarrow> 'd) \<Rightarrow> bool" where
  "sessions_pure L stored \<longleftrightarrow> (\<forall>c w. stored (im_close L c w) = stored w) \<and> (\<forall>h p w r w'. im_open L h p w = (r, w') \<longrightarrow> stored w' = stored w)"

definition loss_harmless :: "golib \<Rightarrow> 'w immu_lib \<Rightarrow> ('w \<Rightarrow> 'd) \<Rightarrow> ('w, 'a) session_stmt \<Rightarrow> bool" where
  "loss_harmless lib L stored stmt \<longleftrightarrow> (\<forall>c w e w'. stmt c w = (Inl e, w') \<and> isSessionError lib L e \<longrightarrow> stored w' = stored w)"

lemma open_pure: "sessions_pure L stored \<Longrightarrow> openSession L addr w = (r, w') \<Longrightarrow> stored w' = stored w"
  by (auto simp: openSession_def sessions_pure_def split: prod.splits option.splits sum.splits)

lemma report_failure_world [simp]: "lc_world (report_failure L addr e st) = lc_world st"
  by (simp add: report_failure_def Let_def split: prod.split)

lemma reconnect_pure:
  assumes "sessions_pure L stored" "reconnectLocked L addr g st = (r, st')"
  shows "stored (lc_world st') = stored (lc_world st)"
proof (cases "lc_generation st = g")
  case True
  obtain o1 w where o1: "openSession L addr (im_close L (lc_client st) (lc_world st)) = (o1, w)" by fastforce
  from open_pure [OF assms(1) this] assms(1) have "stored w = stored (lc_world st)" by (simp add: sessions_pure_def)
  with assms(2) True o1 show ?thesis by (auto simp: reconnectLocked_def split: sum.splits)
qed (use assms(2) in \<open>simp add: reconnectLocked_def\<close>)

text \<open>
  A call either runs its statement on data as it was, once with effect, and returns what the statement
  returned, or fails and leaves the data alone: the outcomes acknowledged, refused and lost that the
  model of the ledger gives a statement.
\<close>

lemma statement_takes_effect_once:
  assumes "sessions_pure L stored" "loss_harmless lib L stored stmt" "session_call lib L addr what stmt st = (r, st')"
  shows "(\<exists>c w w'. stored w = stored (lc_world st) \<and> stmt c w = (r, w') \<and> stored (lc_world st') = stored w')
    \<or> (\<exists>e. r = Inl e) \<and> stored (lc_world st') = stored (lc_world st)"
proof -
  obtain r1 w1 where run: "stmt (lc_client st) (lc_world st) = (r1, w1)" by fastforce
  show ?thesis
  proof (cases "\<exists>e. r1 = Inl e \<and> isSessionError lib L e")
    case False
    with run assms(3) have "r = r1" "lc_world st' = w1"
      by (auto simp: session_call_def on_session_def split: sum.splits)
    with run show ?thesis by blast
  next
    case True
    then obtain e where e: "r1 = Inl e" "isSessionError lib L e" by blast
    with run assms(2) have same: "stored w1 = stored (lc_world st)" by (auto simp: loss_harmless_def)
    obtain r2 st2 where rec: "reconnectLocked L addr (lc_generation st) (st\<lparr>lc_world := w1\<rparr>) = (r2, st2)" by fastforce
    from reconnect_pure [OF assms(1) rec] same have data: "stored (lc_world st2) = stored (lc_world st)" by simp
    show ?thesis
    proof (cases r2)
      case (Inl e2)
      with run e rec assms(3) have "\<exists>e. r = Inl e" "st' = st2" by (auto simp: session_call_def on_session_def)
      with data show ?thesis by simp
    next
      case (Inr u)
      obtain r3 w3 where again: "stmt (lc_client st2) (lc_world st2) = (r3, w3)" by fastforce
      with Inr run e rec assms(3) have "r = r3" "lc_world st' = w3" by (auto simp: session_call_def on_session_def)
      with again data show ?thesis by blast
    qed
  qed
qed

section \<open>Who reconnects\<close>

text \<open>
  Requests that lost the same session replace it once: once the generation has moved on, a recovery
  changes nothing.
\<close>

lemma recovery_skipped:
  "lc_generation st \<noteq> g \<Longrightarrow> reconnectLocked L addr g st = (Inr (), st)"
  by (simp add: reconnectLocked_def)

lemma next_generation: "(g + 1) mod 18446744073709551616 \<noteq> (g :: int)"
proof
  assume eq: "(g + 1) mod 18446744073709551616 = g"
  then have "0 \<le> g" "g < 18446744073709551616" using pos_mod_bound [of 18446744073709551616 "g + 1"] pos_mod_sign [of 18446744073709551616 "g + 1"] by simp_all
  with eq show False by (cases "g = 18446744073709551615") simp_all
qed

lemma second_recovery_skipped:
  assumes "reconnectLocked L addr g st = (Inr (), st1)" "lc_generation st = g"
  shows "reconnectLocked L addr g st1 = (Inr (), st1)"
proof -
  have "(g + 1) mod 18446744073709551616 \<noteq> g" by (rule next_generation)
  with assms have "lc_generation st1 \<noteq> g" by (auto simp: reconnectLocked_def split: prod.splits sum.splits if_splits)
  then show ?thesis by (rule recovery_skipped)
qed

text \<open>
  The heartbeat is not one of them: it reads the generation when it gets the lock, so a heartbeat that
  noticed the loss while a request was reconnecting replaces the fresh session, and the retry of the
  request runs on a session that has just been closed.
\<close>

definition demo_immu_lib :: golib where
  "demo_immu_lib = \<lparr>upper_slow = id, lower_slow = id, quote_slow = id, rat_slow = (\<lambda>_. None), rfc3339_slow = (\<lambda>_. None),
     uuid_parses = (\<lambda>_. True)\<rparr>"

definition demo_immu :: "(nat list \<times> nat) immu_lib" where
  "demo_immu = \<lparr>im_open = (\<lambda>h p w. (Inr (snd w), (snd w # fst w, snd w + 1))), im_close = (\<lambda>c w. (removeAll c (fst w), snd w)),
     im_text = (\<lambda>e. case e of Opaque s \<Rightarrow> s | _ \<Rightarrow> [])\<rparr>"

definition demo_stmt :: "nat \<Rightarrow> (nat list \<times> nat, unit) session_stmt" where
  "demo_stmt i c w = (if c \<in> set (fst w) then (Inr (), w) else (Inl (Opaque ''session not found''), w))"

definition demo_ledger_client :: "(nat list \<times> nat) ledger_client" where
  "demo_ledger_client = \<lparr>lc_client = 0, lc_generation = 0, lc_limiter = \<lparr>lm_window = 3600000000000, lm_reported = None\<rparr>,
     lc_kit = \<lparr>kt_log = [], kt_events = [], kt_panics = []\<rparr>, lc_clock = (\<lambda>_. \<lparr>t_unix = 0, t_nsec = 0, t_off = 0\<rparr>), lc_ticks = 0,
     lc_world = ([], 1)\<rparr>"

definition demo_session_run :: "session_event list \<Rightarrow> unit phase \<times> int" where
  "demo_session_run evs =
     (case session_steps demo_immu_lib demo_immu ''immudb:3322'' (Opaque ''session not found'') demo_stmt evs
        (demo_ledger_client, \<lambda>_. Waiting) of (st, ph) \<Rightarrow> (ph 0, lc_generation st))"

lemma late_heartbeat_breaks_retry:
  "demo_session_run [Reads 0, Runs 0, Recovers 0, Repeats 0] = (Answer (Inr ()), 1)
   \<and> demo_session_run [Reads 0, Runs 0, Recovers 0, Heartbeat, Repeats 0] = (Answer (Inl (Opaque ''session not found'')), 2)"
  by (rule conjI; code_simp)

end
