(* ===== verification/Service_Config.thy ===== *)
theory Service_Config
  imports Rights_Handlers
begin

text \<open>
  The configuration of the services (\<^verbatim>\<open>internal/config\<close> of each): what a service makes of its
  environment at start.  An environment is the function \<^verbatim>\<open>os.Getenv\<close>, empty for what is not set.
  The durations, counts and names read here are the parameters of the models of the services.
\<close>

type_synonym env = "string \<Rightarrow> string"

definition config_error :: "string \<Rightarrow> goerr + 'a" where
  "config_error msg = Inl (Opaque msg)"

section \<open>Durations\<close>

text \<open>
  \<^verbatim>\<open>time.ParseDuration\<close>, in nanoseconds: a sign, then numbers with an optional fraction, each with a
  unit.  Fractions are computed in floating point, as the library does.
\<close>

abbreviation two63 :: int where "two63 \<equiv> 9223372036854775808"

definition unit_ns :: "string \<Rightarrow> int option" where
  "unit_ns u =
     (if u = ''ns'' then Some 1
      else if u = ''us'' \<or> u = [CHR 0xC2, CHR 0xB5, CHR ''s''] \<or> u = [CHR 0xCE, CHR 0xBC, CHR ''s''] then Some 1000
      else if u = ''ms'' then Some 1000000
      else if u = ''s'' then Some 1000000000
      else if u = ''m'' then Some 60000000000
      else if u = ''h'' then Some 3600000000000
      else None)"

text \<open>\<^verbatim>\<open>leadingFraction\<close>: the digits after the point as a number, and ten to their count, up to the digit
  that would overflow.\<close>

fun leading_fraction :: "string \<Rightarrow> bool \<Rightarrow> int \<Rightarrow> rat \<Rightarrow> int \<times> rat" where
  "leading_fraction [] full x scale = (x, scale)"
| "leading_fraction (c # cs) full x scale =
     (if full then leading_fraction cs True x scale
      else if x > (two63 - 1) div 10 then leading_fraction cs True x scale
      else let y = x * 10 + digit_val c
           in if y > two63 then leading_fraction cs True x scale
              else leading_fraction cs False y (fmul scale 10))"

definition not_number_char :: "char \<Rightarrow> bool" where
  "not_number_char c \<longleftrightarrow> c \<noteq> CHR ''.'' \<and> \<not> is_digit c"

text \<open>The digits of a fraction and the text after them; without a point, there are none.\<close>

definition fraction_digits :: "string \<Rightarrow> string" where
  "fraction_digits s = (case s of c # cs \<Rightarrow> if c = CHR ''.'' then takeWhile is_digit cs else [] | [] \<Rightarrow> [])"

definition after_fraction :: "string \<Rightarrow> string" where
  "after_fraction s = (case s of c # cs \<Rightarrow> if c = CHR ''.'' then dropWhile is_digit cs else s | [] \<Rightarrow> [])"

text \<open>One number with its unit: its nanoseconds and the rest of the text.\<close>

definition duration_part :: "string \<Rightarrow> (int \<times> string) option" where
  "duration_part s =
     (let ds = takeWhile is_digit s; s1 = dropWhile is_digit s; v = digits_val ds; fs = fraction_digits s1; s2 = after_fraction s1;
          u = takeWhile not_number_char s2; rest = dropWhile not_number_char s2
      in if v > two63 \<or> (ds = [] \<and> fs = []) \<or> u = [] then None
         else case unit_ns u of
                None \<Rightarrow> None
              | Some n \<Rightarrow>
                  if v > two63 div n then None
                  else (case leading_fraction fs False 0 1 of (f, scale) \<Rightarrow>
                    let w = v * n + (if f > 0 then \<lfloor>fmul (f64 f) (fdiv (of_int n) scale)\<rfloor> else 0)
                    in if w > two63 then None else Some (w, rest)))"

lemma after_fraction_le: "length (after_fraction s) \<le> length s"
  by (auto simp: after_fraction_def split: list.split intro: le_SucI length_dropWhile_le)

lemma duration_part_shorter: "duration_part s = Some (w, rest) \<Longrightarrow> length rest < length s"
proof -
  assume part: "duration_part s = Some (w, rest)"
  define s2 where "s2 = after_fraction (dropWhile is_digit s)"
  have "rest = dropWhile not_number_char s2" "takeWhile not_number_char s2 \<noteq> []"
    using part by (auto simp: duration_part_def Let_def s2_def split: if_splits option.splits prod.splits)
  then have "length rest < length s2"
    by (cases s2) (auto split: if_splits intro: le_imp_less_Suc length_dropWhile_le)
  also have "length s2 \<le> length s"
    unfolding s2_def using after_fraction_le length_dropWhile_le by (rule le_trans)
  finally show ?thesis .
qed

function duration_sum :: "string \<Rightarrow> int \<Rightarrow> int option" where
  "duration_sum s d =
     (if s = [] then Some d
      else case duration_part s of
             None \<Rightarrow> None
           | Some (w, rest) \<Rightarrow> if d + w > two63 then None else duration_sum rest (d + w))"
  by auto
termination by (relation "measure (length \<circ> fst)") (auto simp: duration_part_shorter)

declare duration_sum.simps [simp del]

definition ParseDuration :: "string \<Rightarrow> int option" where
  "ParseDuration s =
     (let (neg, t) = (case s of c # cs \<Rightarrow> if c = CHR ''-'' then (True, cs) else if c = CHR ''+'' then (False, cs) else (False, s)
                              | [] \<Rightarrow> (False, s))
      in if t = ''0'' then Some 0
         else if t = [] then None
         else case duration_sum t 0 of
                None \<Rightarrow> None
              | Some d \<Rightarrow> if neg then Some (- d) else if d > two63 - 1 then None else Some d)"

section \<open>Reading variables\<close>

definition stringFromEnv :: "env \<Rightarrow> string \<Rightarrow> string \<Rightarrow> string" where
  "stringFromEnv ev name fallback = (if ev name \<noteq> [] then ev name else fallback)"

definition ResolveRESTPort :: "string \<Rightarrow> env \<Rightarrow> string" where
  "ResolveRESTPort dflt ev = stringFromEnv ev ''REST_PORT'' dflt"

definition required :: "env \<Rightarrow> string \<Rightarrow> (string \<Rightarrow> goerr + 'a) \<Rightarrow> goerr + 'a" where
  "required ev name k = (if ev name = [] then config_error (name @ '' is required'') else k (ev name))"

definition or_fail :: "goerr + 'a \<Rightarrow> ('a \<Rightarrow> goerr + 'b) \<Rightarrow> goerr + 'b" where
  "or_fail r k = (case r of Inl e \<Rightarrow> Inl e | Inr x \<Rightarrow> k x)"

definition IsProduction :: "string \<Rightarrow> bool" where
  "IsProduction environment \<longleftrightarrow> environment \<noteq> ''development''"

text \<open>The FX service's readers: a value that is set has to parse and to be in range.\<close>

definition durationFromEnv :: "golib \<Rightarrow> env \<Rightarrow> string \<Rightarrow> int \<Rightarrow> goerr + int" where
  "durationFromEnv lib ev name fallback =
     (if ev name = [] then Inr fallback
      else case ParseDuration (ev name) of
             None \<Rightarrow> Inl (Wrapped (''parsing '' @ name @ '' '' @ go_quote lib (ev name)) (Opaque ''time: invalid duration''))
           | Some d \<Rightarrow> if d \<le> 0 then config_error (name @ '' must be positive, got '' @ go_quote lib (ev name)) else Inr d)"

definition intFromEnv :: "golib \<Rightarrow> env \<Rightarrow> string \<Rightarrow> int \<Rightarrow> goerr + int" where
  "intFromEnv lib ev name fallback =
     (if ev name = [] then Inr fallback
      else case Atoi (ev name) of
             None \<Rightarrow> Inl (Wrapped (''parsing '' @ name @ '' '' @ go_quote lib (ev name)) (Opaque ''strconv.Atoi''))
           | Some n \<Rightarrow> if n < 0 then config_error (name @ '' must be zero or greater, got '' @ go_quote lib (ev name)) else Inr n)"

text \<open>The auth service's reader asks for a duration, of any sign.\<close>

definition durationEnv :: "env \<Rightarrow> string \<Rightarrow> int \<Rightarrow> goerr + int" where
  "durationEnv ev key dflt =
     (if ev key = [] then Inr dflt
      else case ParseDuration (ev key) of
             None \<Rightarrow> Inl (Wrapped (key @ '' must be a valid duration'') (Opaque ''time: invalid duration''))
           | Some d \<Rightarrow> Inr d)"

section \<open>The services\<close>

record fx_config =
  fc_app_id :: string
  fc_base_url :: string
  fc_timeout :: int
  fc_retries :: int
  fc_max_age :: int
  fc_log_level :: string
  fc_environment :: string
  fc_rest_port :: string
  fc_grpc_port :: string

definition fx_Load :: "golib \<Rightarrow> env \<Rightarrow> goerr + fx_config" where
  "fx_Load lib ev =
     or_fail (durationFromEnv lib ev ''FX_PROVIDER_TIMEOUT'' 2000000000) (\<lambda>timeout.
     or_fail (intFromEnv lib ev ''FX_PROVIDER_RETRY_COUNT'' 2) (\<lambda>retries.
     or_fail (durationFromEnv lib ev ''FX_CACHE_MAX_AGE'' 3600000000000) (\<lambda>age.
     Inr \<lparr>fc_app_id = ev ''OPEN_EXCHANGE_RATES_APP_ID'',
          fc_base_url = stringFromEnv ev ''OPEN_EXCHANGE_RATES_BASE_URL'' ''https://openexchangerates.org/api/latest.json'',
          fc_timeout = timeout, fc_retries = retries, fc_max_age = age, fc_log_level = stringFromEnv ev ''LOG_LEVEL'' ''info'',
          fc_environment = stringFromEnv ev ''ENVIRONMENT'' ''development'', fc_rest_port = ResolveRESTPort ''8085'' ev,
          fc_grpc_port = stringFromEnv ev ''GRPC_PORT'' ''9085''\<rparr>)))"

record expense_config =
  xc_addr :: string
  xc_username :: string
  xc_password :: string
  xc_finance :: string
  xc_fx :: string
  xc_log_level :: string
  xc_environment :: string
  xc_rest_port :: string
  xc_grpc_port :: string

definition expense_Load :: "env \<Rightarrow> goerr + expense_config" where
  "expense_Load ev =
     required ev ''IMMUDB_ADDR'' (\<lambda>addr.
     required ev ''FINANCE_SERVICE_ADDR'' (\<lambda>finance.
     required ev ''FX_SERVICE_ADDR'' (\<lambda>fx.
     Inr \<lparr>xc_addr = addr, xc_username = stringFromEnv ev ''IMMUDB_USERNAME'' ''immudb'',
          xc_password = stringFromEnv ev ''IMMUDB_PASSWORD'' ''immudb'', xc_finance = finance, xc_fx = fx,
          xc_log_level = stringFromEnv ev ''LOG_LEVEL'' ''info'', xc_environment = stringFromEnv ev ''ENVIRONMENT'' ''development'',
          xc_rest_port = ResolveRESTPort ''8082'' ev, xc_grpc_port = stringFromEnv ev ''GRPC_PORT'' ''9082''\<rparr>)))"

record finance_config =
  fi_db :: string
  fi_expense :: string
  fi_fx :: string
  fi_log_level :: string
  fi_environment :: string
  fi_rest_port :: string
  fi_grpc_port :: string

definition finance_Load :: "env \<Rightarrow> goerr + finance_config" where
  "finance_Load ev =
     required ev ''FINANCE_DB_URL'' (\<lambda>db.
     required ev ''EXPENSE_SERVICE_ADDR'' (\<lambda>expense.
     required ev ''FX_SERVICE_ADDR'' (\<lambda>fx.
     Inr \<lparr>fi_db = db, fi_expense = expense, fi_fx = fx, fi_log_level = stringFromEnv ev ''LOG_LEVEL'' ''info'',
          fi_environment = stringFromEnv ev ''ENVIRONMENT'' ''development'', fi_rest_port = ResolveRESTPort ''8083'' ev,
          fi_grpc_port = stringFromEnv ev ''GRPC_PORT'' ''9083''\<rparr>)))"

record auth_service_config =
  as_db :: string
  as_secret :: string
  as_cost :: int
  as_log_level :: string
  as_environment :: string
  as_rest_port :: string
  as_grpc_port :: string
  as_domain :: string
  as_access_ttl :: int
  as_refresh_ttl :: int
  as_cleanup_interval :: int
  as_cleanup_timeout :: int

definition bcrypt_cost :: "env \<Rightarrow> goerr + int" where
  "bcrypt_cost ev =
     (if ev ''BCRYPT_COST'' = [] then Inr 12
      else case Atoi (ev ''BCRYPT_COST'') of
             None \<Rightarrow> Inl (Wrapped ''BCRYPT_COST must be an integer'' (Opaque ''strconv.Atoi''))
           | Some n \<Rightarrow> if n < 4 \<or> n > 31 then config_error ''BCRYPT_COST must be between 4 and 31'' else Inr n)"

definition auth_Load :: "env \<Rightarrow> goerr + auth_service_config" where
  "auth_Load ev =
     required ev ''AUTH_DB_URL'' (\<lambda>db.
     required ev ''JWT_SECRET'' (\<lambda>secret.
     or_fail (bcrypt_cost ev) (\<lambda>cost.
     or_fail (durationEnv ev ''JWT_ACCESS_TTL'' 900000000000) (\<lambda>acc.
     or_fail (durationEnv ev ''JWT_REFRESH_TTL'' 604800000000000) (\<lambda>ref.
     or_fail (durationEnv ev ''CLEANUP_INTERVAL'' 300000000000) (\<lambda>interval.
     or_fail (durationEnv ev ''CLEANUP_TIMEOUT'' 30000000000) (\<lambda>timeout.
     Inr \<lparr>as_db = db, as_secret = secret, as_cost = cost, as_log_level = stringFromEnv ev ''LOG_LEVEL'' ''info'',
          as_environment = stringFromEnv ev ''ENVIRONMENT'' ''development'', as_rest_port = ResolveRESTPort ''8081'' ev,
          as_grpc_port = stringFromEnv ev ''GRPC_PORT'' ''9081'', as_domain = ev ''COOKIE_DOMAIN'', as_access_ttl = acc,
          as_refresh_ttl = ref, as_cleanup_interval = interval, as_cleanup_timeout = timeout\<rparr>)))))))"

record gateway_config =
  gc_auth :: string
  gc_auth_rest :: string
  gc_expense_rest :: string
  gc_finance_rest :: string
  gc_datarights_rest :: string
  gc_log_level :: string
  gc_environment :: string
  gc_port :: string
  gc_timeout :: int

definition validate_timeout :: "golib \<Rightarrow> env \<Rightarrow> goerr + int" where
  "validate_timeout lib ev =
     (let raw = ev ''GATEWAY_VALIDATE_TIMEOUT''
      in if raw = [] then Inr 3000000000
         else case ParseDuration raw of
                None \<Rightarrow> Inl (Wrapped (''parsing GATEWAY_VALIDATE_TIMEOUT '' @ go_quote lib raw) (Opaque ''time: invalid duration''))
              | Some d \<Rightarrow>
                  if d \<le> 0 then config_error (''GATEWAY_VALIDATE_TIMEOUT must be positive, got '' @ go_quote lib raw) else Inr d)"

definition gateway_Load :: "golib \<Rightarrow> env \<Rightarrow> goerr + gateway_config" where
  "gateway_Load lib ev =
     required ev ''AUTH_SERVICE_ADDR'' (\<lambda>addr.
     required ev ''AUTH_SERVICE_REST'' (\<lambda>arest.
     required ev ''EXPENSE_SERVICE_REST'' (\<lambda>erest.
     required ev ''FINANCE_SERVICE_REST'' (\<lambda>frest.
     required ev ''DATARIGHTS_SERVICE_REST'' (\<lambda>drest.
     or_fail (validate_timeout lib ev) (\<lambda>timeout.
     Inr \<lparr>gc_auth = addr, gc_auth_rest = arest, gc_expense_rest = erest, gc_finance_rest = frest, gc_datarights_rest = drest,
          gc_log_level = stringFromEnv ev ''LOG_LEVEL'' ''info'', gc_environment = stringFromEnv ev ''ENVIRONMENT'' ''development'',
          gc_port = stringFromEnv ev ''PORT'' ''8080'', gc_timeout = timeout\<rparr>))))))"

record rights_config =
  rc_db :: string
  rc_log_level :: string
  rc_environment :: string
  rc_rest_port :: string
  rc_auth :: string
  rc_expense :: string
  rc_finance :: string
  rc_concurrent :: int
  rc_export_timeout :: int
  rc_deletion_timeout :: int
  rc_api_key :: string
  rc_from :: string
  rc_mail :: bool
  rc_tokens :: string
  rc_protected :: "string list"

definition DefaultProtectedUsernames :: "string list" where
  "DefaultProtectedUsernames = [''admin'', ''thompson'']"

fun split_comma :: "string \<Rightarrow> string list" where
  "split_comma [] = [[]]"
| "split_comma (c # cs) = (if c = CHR '','' then [] # split_comma cs
     else case split_comma cs of [] \<Rightarrow> [[c]] | w # ws \<Rightarrow> (c # w) # ws)"

definition parseProtectedUsernames :: "string \<Rightarrow> string list" where
  "parseProtectedUsernames raw =
     (let names = filter (\<lambda>n. n \<noteq> []) (map trim_space (split_comma raw))
      in if names = [] then DefaultProtectedUsernames else names)"

text \<open>A count that does not parse, or is not positive, is ignored.\<close>

definition positive_env :: "env \<Rightarrow> string \<Rightarrow> int \<Rightarrow> int" where
  "positive_env ev name dflt = (case Atoi (ev name) of None \<Rightarrow> dflt | Some n \<Rightarrow> if n > 0 then n else dflt)"

definition seconds_env :: "env \<Rightarrow> string \<Rightarrow> int" where
  "seconds_env ev name =
     (case Atoi (ev name) of None \<Rightarrow> 300000000000 | Some n \<Rightarrow> if n > 0 then i64 (n * 1000000000) else 300000000000)"

definition rights_Load :: "env \<Rightarrow> goerr + rights_config" where
  "rights_Load ev =
     required ev ''DATARIGHTS_DB_URL'' (\<lambda>db.
     Inr \<lparr>rc_db = db, rc_log_level = stringFromEnv ev ''LOG_LEVEL'' ''info'',
          rc_environment = stringFromEnv ev ''ENVIRONMENT'' ''development'', rc_rest_port = ResolveRESTPort ''8084'' ev,
          rc_auth = stringFromEnv ev ''AUTH_SERVICE_ADDR'' ''auth-service:9081'',
          rc_expense = stringFromEnv ev ''EXPENSE_SERVICE_ADDR'' ''expense-service:9082'',
          rc_finance = stringFromEnv ev ''FINANCE_SERVICE_ADDR'' ''finance-service:9083'',
          rc_concurrent = positive_env ev ''EXPORT_MAX_CONCURRENT'' 5, rc_export_timeout = seconds_env ev ''EXPORT_TIMEOUT_SECONDS'',
          rc_deletion_timeout = seconds_env ev ''DELETION_TIMEOUT_SECONDS'', rc_api_key = ev ''RESEND_API_KEY'',
          rc_from = stringFromEnv ev ''EMAIL_FROM'' ''gofin <noreply@usegofin.com>'', rc_mail = (ev ''EMAIL_ENABLED'' \<noteq> ''false''),
          rc_tokens = stringFromEnv ev ''BRAND_TOKENS_PATH'' ''/app/tokens/brand.json'',
          rc_protected = parseProtectedUsernames (ev ''PROTECTED_USERNAMES'')\<rparr>)"

section \<open>What a loaded configuration guarantees\<close>

lemma or_fail_Inr: "or_fail r k = Inr y \<longleftrightarrow> (\<exists>x. r = Inr x \<and> k x = Inr y)"
  by (cases r) (simp_all add: or_fail_def)

lemma required_Inr: "required ev name k = Inr y \<longleftrightarrow> ev name \<noteq> [] \<and> k (ev name) = Inr y"
  by (simp add: required_def config_error_def)

lemma durationFromEnv_pos: "durationFromEnv lib ev name d = Inr x \<Longrightarrow> 0 < d \<Longrightarrow> 0 < x"
  by (auto simp: durationFromEnv_def config_error_def split: if_splits option.splits)

lemma intFromEnv_nonneg: "intFromEnv lib ev name d = Inr x \<Longrightarrow> 0 \<le> d \<Longrightarrow> 0 \<le> x"
  by (auto simp: intFromEnv_def config_error_def split: if_splits option.splits)

text \<open>The FX service never runs with a negative number of retries or rates that are stale at once.\<close>

lemma fx_config_sane:
  assumes "fx_Load lib ev = Inr c"
  shows "0 < fc_timeout c \<and> 0 \<le> fc_retries c \<and> 0 < fc_max_age c"
  using assms by (auto simp: fx_Load_def or_fail_Inr dest: durationFromEnv_pos intFromEnv_nonneg)

lemma gateway_config_sane: "gateway_Load lib ev = Inr c \<Longrightarrow> 0 < gc_timeout c"
  by (auto simp: gateway_Load_def required_Inr or_fail_Inr validate_timeout_def Let_def config_error_def
    split: if_splits option.splits)

lemma auth_config_sane: "auth_Load ev = Inr c \<Longrightarrow> as_secret c \<noteq> [] \<and> 4 \<le> as_cost c \<and> as_cost c \<le> 31"
  by (auto simp: auth_Load_def required_Inr or_fail_Inr bcrypt_cost_def config_error_def split: if_splits option.splits)

text \<open>There is always somebody the deletion of whom is refused, and no name is empty.\<close>

lemma somebody_protected: "parseProtectedUsernames raw \<noteq> [] \<and> [] \<notin> set (parseProtectedUsernames raw)"
  by (auto simp: parseProtectedUsernames_def DefaultProtectedUsernames_def Let_def filter_empty_conv)

text \<open>
  Unlike the other services, auth accepts a lifetime that is not positive: its tokens have expired
  when they are issued.  A timeout in seconds that overflows the nanoseconds of a duration wraps.
\<close>

lemma negative_lifetime_accepted:
  "durationEnv ((\<lambda>_. [])(''JWT_ACCESS_TTL'' := ''-15m'')) ''JWT_ACCESS_TTL'' 1 = Inr (- 900000000000)"
  by code_simp

lemma export_timeout_wraps:
  "seconds_env ((\<lambda>_. [])(''EXPORT_TIMEOUT_SECONDS'' := ''9223372037'')) ''EXPORT_TIMEOUT_SECONDS'' < 0"
  by code_simp

lemma duration_examples:
  "ParseDuration ''1h30m'' = Some 5400000000000" "ParseDuration ''1.5s'' = Some 1500000000" "ParseDuration ''.5'' = None"
  "ParseDuration ''0'' = Some 0" "ParseDuration ''-2ms'' = Some (- 2000000)"
  by code_simp+

end
