(* ===== verification/Spec2Isabelle.thy ===== *)
theory Spec2Isabelle
  imports Expense_Examples Expense_History Expense_Stream Finance_Health_Examples Services_Facts Auth_Tables Rights_Examples Monitoring_Proxy Expense_Session Service_Config
begin

text \<open>
  \<^bold>\<open>A model of gofin, a personal-finance backend\<close>

  The program is a set of Go services under \<^verbatim>\<open>src/services\<close>.  A gateway admits requests by route and
  token and forwards them.  \<^verbatim>\<open>auth\<close> keeps users and refresh tokens.  \<^verbatim>\<open>finance\<close> keeps settings, tags,
  budget periods, pro-rata schedules and health scores in PostgreSQL.  \<^verbatim>\<open>expense\<close> keeps expenses in an
  append-only immudb ledger.  \<^verbatim>\<open>fx\<close> converts amounts.  \<^verbatim>\<open>datarights\<close> exports a user's data and erases
  users across the other services.  The development follows the services from their data to their
  REST and gRPC surfaces, and connects them as their \<^verbatim>\<open>cmd/main.go\<close> do.

  \<^bold>\<open>How the code is represented\<close>

  A method that may fail and changes stored state is a function of type \<open>op\<close> (\<open>Gofin_Prelude\<close>):
  state to result and new state, the result \<open>Inl\<close> an error or \<open>Inr\<close> a value.  Structs are records,
  tables are lists of rows, and the constraints of the migrations are branches of the statements.
  Fixed-width integers are ints wrapped by \<open>i32\<close> and \<open>i64\<close> where the code can leave the range
  (\<open>Go_Integers\<close>), strings are lists of bytes (\<open>Go_Strings\<close>), doubles are rationals rounded after
  every operation (\<open>Go_Floats\<close>).  Every statement, remote call and reading of a clock is numbered,
  and a script decides for each number whether it is acknowledged, refused, or carried out with its
  reply lost; the theorems hold for every script.  Readings of clocks, generated identifiers, the
  answers of the rate service and orders the databases leave open are functions of the state too.

  \<^bold>\<open>Theories\<close>

    \<^item> Shared: \<open>Gofin_Prelude\<close>, \<open>Go_Integers\<close>, \<open>Go_Strings\<close>, \<open>Go_Time\<close>, \<open>Go_Floats\<close> (the parts of Go the
      code uses), \<open>Shared_Errors\<close> (\<^verbatim>\<open>apierr\<close>, \<^verbatim>\<open>shared\<close>), \<open>Sql_Tables\<close>, \<open>Http_Guards\<close> (\<^verbatim>\<open>httpx\<close>),
      \<open>Error_Kit\<close> (\<^verbatim>\<open>errkit\<close>, \<^verbatim>\<open>serverkit/recover.go\<close>, \<^verbatim>\<open>healthcheck\<close>).
    \<^item> \<^verbatim>\<open>services/fx\<close>: \<open>Fx_Decimal\<close> (\<^verbatim>\<open>decimal.go\<close>), \<open>Fx_Provider\<close> (\<^verbatim>\<open>model\<close>, \<^verbatim>\<open>cache\<close>, \<^verbatim>\<open>provider\<close>),
      \<open>Fx_Converter\<close> (\<^verbatim>\<open>converter.go\<close>, \<^verbatim>\<open>handler\<close>).
    \<^item> \<^verbatim>\<open>services/expense\<close>: \<open>Expense_Ledger\<close> (\<^verbatim>\<open>repository\<close>), \<open>Expense_Clients\<close>, \<open>Expense_Service\<close>
      (\<^verbatim>\<open>expense.go\<close>, \<^verbatim>\<open>prorata.go\<close>), \<open>Expense_History\<close> (\<^verbatim>\<open>correction.go\<close>), \<open>Expense_Stream\<close> (the export of
      all expenses), \<open>Expense_Suggestions\<close>, \<open>Expense_Handlers\<close>, \<open>Expense_Session\<close> (the client of the
      ledger database in \<^verbatim>\<open>cmd\<close>).
    \<^item> \<^verbatim>\<open>services/finance\<close>: \<open>Finance_Model\<close>, \<open>Finance_Store\<close> (\<^verbatim>\<open>db\<close>), \<open>Finance_Repo\<close> (\<^verbatim>\<open>repository\<close>),
      \<open>Finance_Service\<close> (\<^verbatim>\<open>finance.go\<close>), \<open>Finance_ProRata\<close>, \<open>Finance_Dashboard\<close>, \<open>Finance_Health\<close>,
      \<open>Finance_Handlers\<close>, \<open>Finance_Responses\<close>.
    \<^item> \<^verbatim>\<open>services/auth\<close>: \<open>Auth_Store\<close> (\<^verbatim>\<open>db\<close>, \<^verbatim>\<open>repository\<close>), \<open>Auth_Service\<close> (\<^verbatim>\<open>service\<close>), \<open>Auth_Handlers\<close>.
    \<^item> \<^verbatim>\<open>services/datarights\<close>: \<open>Rights_Store\<close> (\<^verbatim>\<open>repository\<close>), \<open>Rights_Jobs\<close> (\<^verbatim>\<open>jobrunner\<close>, \<^verbatim>\<open>deletion\<close>),
      \<open>Rights_Export\<close> (\<^verbatim>\<open>engine\<close>, \<^verbatim>\<open>service/export.go\<close>), \<open>Rights_Handlers\<close> (\<^verbatim>\<open>handler\<close>, \<^verbatim>\<open>cmd/main.go\<close>).
    \<^item> \<^verbatim>\<open>services/access\<close> and \<^verbatim>\<open>services/gateway\<close>: \<open>Gateway_Access\<close>; \<^verbatim>\<open>monitoring/auth-proxy\<close>:
      \<open>Monitoring_Proxy\<close>.
    \<^item> \<open>Service_Config\<close>: the \<^verbatim>\<open>internal/config\<close> of every service.
    \<^item> The connections: \<open>Services_Wired\<close> (finance, expense and FX over a network), \<open>Rights_Handlers\<close>
      (datarights over finance, expense and auth), \<open>Gateway_Access\<close> (the gateway over auth).

  \<^bold>\<open>What is shown\<close>

    \<^item> Ledger (\<open>Expense_Invariants\<close>, \<open>Expense_Examples\<close>): an inductive step relation with a step per
      writing operation; every reachable ledger has unique identifiers, linear correction chains and one
      row per idempotency key, and no row changes except for its status.  Creation is idempotent and
      succeeds when its dependencies answer; every outcome of a correction is described.
    \<^item> \<open>Expense_History\<close>, \<open>Expense_Stream\<close>: the walks along a chain end and find all of it; in every
      interleaving of producer and sender the export sends the history in order and ends.
    \<^item> Money (\<open>Fx_Converter\<close>, \<open>Finance_Calendar\<close>, \<open>Finance_Dashboard_Facts\<close>, \<open>Finance_Health_Facts\<close>):
      conversions are exactly rounded, rates are fresh, installments and allocations add up, the
      floating-point tests decide the exact comparison, scores stay within their maxima.
    \<^item> Tables (\<open>Finance_Frame\<close> to \<open>Finance_Book\<close>, \<open>Finance_Health_Store\<close>): a locale lifts a relation
      kept by the statements to every operation; its interpretations give the invariant of the reachable
      tables, how rows evolve, that no installment is requested twice, that erasure is atomic and
      complete, and that the tables refine an abstract book of months.
    \<^item> Sessions (\<open>Auth_Facts\<close> to \<open>Auth_Tables\<close>): the same construction for auth: refresh tokens are
      exchanged once, a password change ends the access of older access tokens, the tables stay sound.
    \<^item> Admission (\<open>Gateway_Facts\<close>): the resolver keeps every route's level where patterns overlap, and
      the identity a service sees is the one auth vouches for.
    \<^item> Database sessions (\<open>Expense_Session\<close>): a statement whose session was lost takes effect at most
      once, which is what the ledger's statements assume.
    \<^item> Reports and configuration (\<open>Error_Kit_Facts\<close>, \<open>Service_Config\<close>): reports are bounded in number and
      size, and the values the other models take as parameters are in range.
    \<^item> Jobs (\<open>Rights_Facts\<close>, \<open>Rights_Erasure\<close>): finished jobs are final, and a completed deletion has
      erased the user in every service.
    \<^item> \<open>Services_Facts\<close>: what finance sees of the expenses of a month, and the form of every response.

  Interfaces are locales: the clients of the expense service (\<open>expense_clients\<close>), the provider of
  rates (\<open>rate_provider\<close>), the validator of tokens (\<open>token_validator\<close>), relations between states
  (\<open>step_relation\<close> and its extensions, \<open>auth_relation\<close>) and clients with typed errors
  (\<open>typed_clients\<close>, \<open>typed_finance_clients\<close>); each is interpreted on the code's own providers.

  \<^bold>\<open>Bounds and termination\<close>

  The walks of \<open>Expense_History\<close> have a fuel of one step per row, which suffices because no row is
  visited twice (\<open>walk_back_total\<close>, \<open>walk_forward_total\<close>).  Retries are structural in the number of
  attempts left.  The export is a step relation, and its runs are bounded by a measure on the rows
  that are left.  Every other loop is structural or has a measure.

  \<^bold>\<open>Parameters\<close>

  Not part of the repository, hence parameters with their documented behaviour as hypotheses where a
  theorem needs it: Unicode tables and UUID parsing (\<open>golib\<close>, \<open>pglib\<close>, \<open>uuid_codec\<close>), signing of
  tokens (\<open>jwt_lib\<close>), hashing of passwords (\<open>pw_lib\<close>), the remote rate service, mail, and the packing of
  archives.

  \<^bold>\<open>Not modelled\<close>

  Start-up and shutdown (\<^verbatim>\<open>cmd\<close>, \<^verbatim>\<open>serverkit\<close> but for the recovery), logs and metrics, stacks of error
  reports, the in-memory stand-in for the ledger used in development, the reverse proxy's transport, mail templates, running the migrations, generated
  protocol code, test helpers, the web application and the infrastructure: input and output, or glue
  without decisions of its own.  JSON decoding, routing inside a service and gRPC framing belong to the
  frameworks.  Requests to one service are atomic relative to each other, except for the two goroutines
  of the export of expenses; runs of jobs do not interleave.  The concurrent reads of the finance
  dashboard have no effects and run in order.
\<close>

end
